(* ===== verification/Prelude.thy ===== *)
theory Prelude
  imports Main "HOL-Library.Word" "HOL-Library.Char_ord" "HOL-Library.List_Lexorder"
    "HOL-Library.Product_Lexorder"
begin

text \<open>
  The vocabulary every component shares.

  \<^item> Go values: byte strings, 64-bit unsigned integers, \<open>error\<close> values and panics.
  \<^item> Go control flow: a function that reads and writes the chain state and may return an
    error or panic is a \<open>prog\<close>, a state transformer with three outcomes.  The state is
    returned on every outcome, because a Go error does not undo the writes made before it.
  \<^item> \<open>strings.Split\<close>, \<open>strings.Join\<close> and \<open>strings.Contains\<close> of the standard library.
  \<^item> Sorted key sets, the iteration order of a key-value store.
  \<^item> \<open>keeps R\<close>: a program moves the state only along the relation \<open>R\<close>; the locale
    \<open>state_rel\<close> proves the composition rules once for every preorder \<open>R\<close>.
\<close>

named_theorems prog_simps \<open>equations of the program combinators\<close>
named_theorems result_iff \<open>when a composed program returns normally\<close>
named_theorems keeps_rules \<open>composition rules for keeps\<close>

section \<open>Go values\<close>

type_synonym byte = "8 word"
type_synonym bytes = "byte list"
type_synonym u64 = "64 word"

text \<open>
  An error value is a registered sentinel (code space, code, description), a sentinel of a
  dependency (by its Go identifier), a plain text, or an error wrapped with a text.
\<close>

datatype error =
    Registered string nat string
  | Sentinel string
  | Text string
  | Wrap error string

datatype panic = ErrorOutOfGas string | PanicError error | PanicText string

text \<open>The conversions \<open>[]byte(s)\<close> and \<open>string(bz)\<close>.\<close>

definition to_bytes :: "string \<Rightarrow> bytes" where
  "to_bytes s = map (\<lambda>c. word_of_nat (of_char c)) s"

definition of_bytes :: "bytes \<Rightarrow> string" where
  "of_bytes bz = map (\<lambda>b. char_of (unat b)) bz"

lemma unat_of_char [simp]: "unat (word_of_nat (of_char c) :: byte) = of_char c"
  by (simp add: unat_of_nat take_bit_nat_eq_self_iff)

lemma of_bytes_to_bytes [simp]: "of_bytes (to_bytes s) = s"
  by (induction s) (simp_all add: to_bytes_def of_bytes_def)

lemma to_bytes_of_bytes [simp]: "to_bytes (of_bytes bz) = bz"
proof (induction bz)
  case (Cons b bz)
  have "unat b < 2 ^ LENGTH(8)" by (rule unsigned_less)
  then have "unat b mod 256 = unat b" by simp
  with Cons show ?case by (simp add: to_bytes_def of_bytes_def)
qed (simp add: to_bytes_def of_bytes_def)

lemma to_bytes_inject [simp]: "to_bytes s = to_bytes t \<longleftrightarrow> s = t"
  by (metis of_bytes_to_bytes)

lemma length_to_bytes [simp]: "length (to_bytes s) = length s"
  by (simp add: to_bytes_def)

lemma length_of_bytes [simp]: "length (of_bytes bz) = length bz"
  by (simp add: of_bytes_def)

lemma unat_word_diff [simp]:
  "unat (word_of_nat (unat (a :: u64) - unat b) :: u64) = unat a - unat (b :: u64)"
proof -
  have "unat a < 2 ^ LENGTH(64)" by (rule unsigned_less)
  then show ?thesis by (simp add: unat_of_nat)
qed

section \<open>Programs over a state\<close>

datatype 'a outcome = Ok 'a | Err error | Panic panic

type_synonym ('s, 'a) prog = "'s \<Rightarrow> 'a outcome \<times> 's"

definition ret :: "'a \<Rightarrow> ('s, 'a) prog" where
  "ret x s = (Ok x, s)"

definition fail :: "error \<Rightarrow> ('s, 'a) prog" where
  "fail e s = (Err e, s)"

definition raise :: "panic \<Rightarrow> ('s, 'a) prog" where
  "raise p s = (Panic p, s)"

definition andThen :: "('s, 'a) prog \<Rightarrow> ('a \<Rightarrow> ('s, 'b) prog) \<Rightarrow> ('s, 'b) prog" where
  "andThen m f s = (case m s of
     (Ok x, t) \<Rightarrow> f x t
   | (Err e, t) \<Rightarrow> (Err e, t)
   | (Panic p, t) \<Rightarrow> (Panic p, t))"

definition of_result :: "error + 'a \<Rightarrow> ('s, 'a) prog" where
  "of_result r = (case r of Inl e \<Rightarrow> fail e | Inr x \<Rightarrow> ret x)"

definition of_err :: "error option \<Rightarrow> ('s, unit) prog" where
  "of_err r = (case r of Some e \<Rightarrow> fail e | None \<Rightarrow> ret ())"

definition of_outcome :: "'a outcome \<Rightarrow> ('s, 'a) prog" where
  "of_outcome r s = (r, s)"

text \<open>A call whose error the caller handles itself.\<close>

definition attempt :: "('s, 'a) prog \<Rightarrow> ('s, error + 'a) prog" where
  "attempt m s = (case m s of
     (Ok x, t) \<Rightarrow> (Ok (Inr x), t)
   | (Err e, t) \<Rightarrow> (Ok (Inl e), t)
   | (Panic p, t) \<Rightarrow> (Panic p, t))"

text \<open>\<open>errors.Is\<close> for a sentinel: the error itself or one it wraps.\<close>

fun errors_Is :: "error \<Rightarrow> error \<Rightarrow> bool" where
  "errors_Is (Wrap e what) target = (Wrap e what = target \<or> errors_Is e target)"
| "errors_Is e target = (e = target)"

definition reads :: "('s \<Rightarrow> 'a) \<Rightarrow> ('s, 'a) prog" where
  "reads f s = (Ok (f s), s)"

definition modify :: "('s \<Rightarrow> 's) \<Rightarrow> ('s, unit) prog" where
  "modify f s = (Ok (), f s)"

primrec for_each :: "'a list \<Rightarrow> ('a \<Rightarrow> ('s, unit) prog) \<Rightarrow> ('s, unit) prog" where
  "for_each [] f = ret ()"
| "for_each (x # xs) f = andThen (f x) (\<lambda>_. for_each xs f)"

lemmas [prog_simps] = ret_def fail_def raise_def of_outcome_def reads_def modify_def

lemma of_result_simps [prog_simps, simp]:
  "of_result (Inl e) = fail e" "of_result (Inr x) = ret x"
  by (simp_all add: of_result_def)

lemma of_err_simps [prog_simps, simp]:
  "of_err (Some e) = fail e" "of_err None = ret ()"
  by (simp_all add: of_err_def)

lemma andThen_simps [prog_simps]:
  "m s = (Ok x, t) \<Longrightarrow> andThen m f s = f x t"
  "m s = (Err e, t) \<Longrightarrow> andThen m f s = (Err e, t)"
  "m s = (Panic p, t) \<Longrightarrow> andThen m f s = (Panic p, t)"
  by (simp_all add: andThen_def)

lemma andThen_ret [simp]: "andThen (ret x) f = f x"
  by (rule ext) (simp add: prog_simps)

lemma andThen_fail [simp]: "andThen (fail e) f = fail e"
  by (rule ext) (simp add: prog_simps)

lemma andThen_raise [simp]: "andThen (raise p) f = raise p"
  by (rule ext) (simp add: prog_simps)

lemma andThen_modify [simp]: "andThen (modify g) f s = f () (g s)"
  by (simp add: andThen_def modify_def)

lemma andThen_reads [simp]: "andThen (reads g) f s = f (g s) s"
  by (simp add: andThen_def reads_def)

lemma attempt_simps [prog_simps]:
  "m s = (Ok x, t) \<Longrightarrow> attempt m s = (Ok (Inr x), t)"
  "m s = (Err e, t) \<Longrightarrow> attempt m s = (Ok (Inl e), t)"
  "m s = (Panic p, t) \<Longrightarrow> attempt m s = (Panic p, t)"
  by (simp_all add: attempt_def)

lemma attempt_not_Err: "attempt m s \<noteq> (Err e, t)"
  by (auto simp: attempt_def split: prod.splits outcome.splits)

lemma attempt_then:
  "andThen (attempt m) k s = (case m s of
     (Ok x, t) \<Rightarrow> k (Inr x) t | (Err e, t) \<Rightarrow> k (Inl e) t | (Panic p, t) \<Rightarrow> (Panic p, t))"
  by (simp add: andThen_def attempt_def split: prod.splits outcome.splits)

lemma attempt_then_OkE:
  assumes "andThen (attempt m) k s = (Ok y, t)"
  obtains (returned) x u where "m s = (Ok x, u)" "k (Inr x) u = (Ok y, t)"
  | (failed) e u where "m s = (Err e, u)" "k (Inl e) u = (Ok y, t)"
  using assms by (auto simp: attempt_then split: prod.splits outcome.splits)

lemma andThen_assoc: "andThen (andThen m f) g = andThen m (\<lambda>x. andThen (f x) g)"
  by (rule ext) (simp add: andThen_def split: prod.splits outcome.splits)

text \<open>A composed program returns normally exactly when every part does.\<close>

lemma andThen_eq_Ok [result_iff]:
  "andThen m f s = (Ok y, s') \<longleftrightarrow> (\<exists>x t. m s = (Ok x, t) \<and> f x t = (Ok y, s'))"
  by (auto simp: andThen_def split: prod.splits outcome.splits)

lemma ret_eq_Ok [result_iff]: "ret x s = (Ok y, s') \<longleftrightarrow> y = x \<and> s' = s"
  by (auto simp: ret_def)

lemma fail_eq_Ok [result_iff]: "fail e s = (Ok y, s') \<longleftrightarrow> False"
  by (simp add: fail_def)

lemma raise_eq_Ok [result_iff]: "raise p s = (Ok y, s') \<longleftrightarrow> False"
  by (simp add: raise_def)

lemma of_result_eq_Ok [result_iff]: "of_result r s = (Ok y, s') \<longleftrightarrow> r = Inr y \<and> s' = s"
  by (cases r) (auto simp: prog_simps)

lemma of_err_eq_Ok [result_iff]: "of_err r s = (Ok y, s') \<longleftrightarrow> r = None \<and> s' = s"
  by (cases r) (auto simp: prog_simps)

lemma of_outcome_eq_Ok [result_iff]: "of_outcome r s = (Ok y, s') \<longleftrightarrow> r = Ok y \<and> s' = s"
  by (auto simp: of_outcome_def)

lemma reads_eq_Ok [result_iff]: "reads f s = (Ok y, s') \<longleftrightarrow> y = f s \<and> s' = s"
  by (auto simp: reads_def)

lemma modify_eq_Ok [result_iff]: "modify f s = (Ok y, s') \<longleftrightarrow> s' = f s"
  by (auto simp: modify_def)

lemma if_eq_Ok [result_iff]:
  "(if b then m else n) s = (Ok y, s') \<longleftrightarrow>
     (b \<and> m s = (Ok y, s')) \<or> (\<not> b \<and> n s = (Ok y, s'))"
  by simp

section \<open>Programs that move the state along a relation\<close>

definition keeps :: "('s \<Rightarrow> 's \<Rightarrow> bool) \<Rightarrow> ('s, 'a) prog \<Rightarrow> bool" where
  "keeps R m \<longleftrightarrow> (\<forall>s. R s (snd (m s)))"

lemma keepsI: "(\<And>s. R s (snd (m s))) \<Longrightarrow> keeps R m"
  by (simp add: keeps_def)

lemma keepsD: "keeps R m \<Longrightarrow> m s = (r, s') \<Longrightarrow> R s s'"
  by (metis keeps_def snd_conv)

locale state_rel =
  fixes R :: "'s \<Rightarrow> 's \<Rightarrow> bool"
  assumes rel_refl: "R s s"
    and rel_trans: "R s t \<Longrightarrow> R t u \<Longrightarrow> R s u"
begin

lemma keeps_ret [keeps_rules]: "keeps R (ret x)"
  by (simp add: keeps_def ret_def rel_refl)

lemma keeps_fail [keeps_rules]: "keeps R (fail e)"
  by (simp add: keeps_def fail_def rel_refl)

lemma keeps_raise [keeps_rules]: "keeps R (raise p)"
  by (simp add: keeps_def raise_def rel_refl)

lemma keeps_of_result [keeps_rules]: "keeps R (of_result r)"
  by (cases r) (simp_all add: keeps_ret keeps_fail)

lemma keeps_of_err [keeps_rules]: "keeps R (of_err r)"
  by (cases r) (simp_all add: keeps_ret keeps_fail)

lemma keeps_of_outcome [keeps_rules]: "keeps R (of_outcome r)"
  by (simp add: keeps_def of_outcome_def rel_refl)

lemma keeps_reads [keeps_rules]: "keeps R (reads f)"
  by (simp add: keeps_def reads_def rel_refl)

lemma keeps_modify: "(\<And>s. R s (f s)) \<Longrightarrow> keeps R (modify f)"
  by (simp add: keeps_def modify_def)

lemma andThen_rel:
  assumes "R s (snd (m s))" and "\<And>x. keeps R (f x)"
  shows "R s (snd (andThen m f s))"
proof -
  obtain r t where m: "m s = (r, t)" by fastforce
  have "R t (snd (f x t))" for x using assms(2) by (simp add: keeps_def)
  with m assms(1) show ?thesis
    by (cases r) (auto simp: andThen_def intro: rel_trans)
qed

lemma keeps_andThen [keeps_rules]:
  "keeps R m \<Longrightarrow> (\<And>x. keeps R (f x)) \<Longrightarrow> keeps R (andThen m f)"
  by (rule keepsI) (rule andThen_rel, simp_all add: keeps_def)

text \<open>The continuation of a check may use that the check has passed.\<close>

lemma keeps_of_err_then: "(v = None \<Longrightarrow> keeps R (f ())) \<Longrightarrow> keeps R (andThen (of_err v) f)"
  by (cases v) (simp_all add: keeps_fail)

lemma keeps_of_result_then:
  "(\<And>x. v = Inr x \<Longrightarrow> keeps R (f x)) \<Longrightarrow> keeps R (andThen (of_result v) f)"
  by (cases v) (simp_all add: keeps_fail)

lemma keeps_if [keeps_rules]:
  "(b \<Longrightarrow> keeps R m) \<Longrightarrow> (\<not> b \<Longrightarrow> keeps R n) \<Longrightarrow> keeps R (if b then m else n)"
  by simp

lemma keeps_for_each [keeps_rules]: "(\<And>x. keeps R (f x)) \<Longrightarrow> keeps R (for_each xs f)"
  by (induction xs) (auto intro: keeps_ret keeps_andThen)

end

text \<open>Every component of the state that a program leaves alone gives such a relation.\<close>

definition same :: "('s \<Rightarrow> 'c) \<Rightarrow> 's \<Rightarrow> 's \<Rightarrow> bool" where
  "same c s t \<longleftrightarrow> c t = c s"

interpretation same: state_rel "same c" for c :: "'s \<Rightarrow> 'c"
  by unfold_locales (simp_all add: same_def)

end
