(* ===== verification/KeySets.thy ===== *)
theory KeySets
  imports Prelude
begin

text \<open>
  The key set of the \<open>collections\<close> package (\<open>collections.KeySet\<close>): a set of keys that is
  walked in the order of its keys.  The locale \<open>key_set\<close> states what a client relies on;
  the model is a strictly sorted list.
\<close>

section \<open>The interface\<close>

locale key_set =
  fixes empty :: "'s"
    and put :: "'k::linorder \<Rightarrow> 's \<Rightarrow> 's"
    and walk :: "'s \<Rightarrow> 'k list"
    and invar :: "'s \<Rightarrow> bool"
  assumes invar_empty: "invar empty"
    and invar_put: "invar s \<Longrightarrow> invar (put k s)"
    and walk_empty: "walk empty = []"
    and walk_order: "invar s \<Longrightarrow> sorted_wrt (<) (walk s)"
    and keys_put: "invar s \<Longrightarrow> set (walk (put k s)) = insert k (set (walk s))"
begin

lemma walk_ext: "invar s \<Longrightarrow> invar t \<Longrightarrow> set (walk s) = set (walk t) \<Longrightarrow> walk s = walk t"
  by (rule strict_sorted_equal [OF walk_order walk_order])

lemma put_present: "invar s \<Longrightarrow> k \<in> set (walk s) \<Longrightarrow> walk (put k s) = walk s"
  by (rule walk_ext) (simp_all add: invar_put keys_put insert_absorb)

lemma put_commute: "invar s \<Longrightarrow> walk (put k (put l s)) = walk (put l (put k s))"
  by (intro walk_ext) (auto simp: invar_put keys_put)

lemma invar_fold: "invar s \<Longrightarrow> invar (fold put ks s)"
  by (induction ks arbitrary: s) (simp_all add: invar_put)

lemma keys_fold: "invar s \<Longrightarrow> set (walk (fold put ks s)) = set ks \<union> set (walk s)"
  by (induction ks arbitrary: s) (auto simp: invar_put keys_put)

text \<open>Putting the keys a walk returned into an empty set rebuilds the same walk.\<close>

lemma rebuild: "invar s \<Longrightarrow> walk (fold put (walk s) empty) = walk s"
  by (rule walk_ext) (simp_all add: invar_fold invar_empty keys_fold walk_empty)

end

section \<open>The sorted-list model\<close>

type_synonym 'k keyset = "'k list"

definition ks_put :: "'k::linorder \<Rightarrow> 'k keyset \<Rightarrow> 'k keyset" where
  "ks_put k ks = insort_insert k ks"

definition ks_walk :: "'k keyset \<Rightarrow> 'k list" where
  "ks_walk ks = ks"

definition ks_ok :: "'k::linorder keyset \<Rightarrow> bool" where
  "ks_ok ks \<longleftrightarrow> sorted_wrt (<) ks"

interpretation ks: key_set "[]" ks_put ks_walk ks_ok
proof unfold_locales
  fix k :: "'a::linorder" and s :: "'a keyset"
  assume "ks_ok s"
  then have "sorted s" and "distinct s"
    by (simp_all add: ks_ok_def strict_sorted_iff)
  then show "ks_ok (ks_put k s)"
    by (simp add: ks_ok_def ks_put_def strict_sorted_iff sorted_insort_insert
        distinct_insort_insert)
qed (simp_all add: ks_ok_def ks_walk_def ks_put_def set_insort_insert)

lemma set_ks_put [simp]: "set (ks_put k ks) = insert k (set ks)"
  by (simp add: ks_put_def set_insort_insert)

end
