(* ===== verification/Context.thy ===== *)
theory Context
  imports Strings KeySets
begin

text \<open>
  The chain state the modules work on and the environment they call.

  \<^item> \<open>tf_store\<close> is the key-value store of \<open>x/tokenfactory\<close> (the \<open>collections\<close> fields of
    its \<open>Keeper\<close>); \<open>sys\<close> is everything else a \<open>sdk.Context\<close> gives access to: the gas
    meter, the emitted events and the stores of the other modules, of arbitrary type \<open>'x\<close>.
  \<^item> \<open>sdk\<close> and \<open>env\<close> hold the functions of code outside this repository: the address
    codec, the validation functions of the SDK, the gas meter, the SDK's base bank keeper, the
    account keeper and the wasm keeper.  The definitions of the development take them as an
    argument.  A module of the SDK has no access to the token factory store, so its functions
    are typed over \<open>sys\<close>; a contract may send messages to any module, so \<open>Sudo\<close> is typed
    over the whole state.
  \<^item> The last section names what the properties assume of that code.
\<close>

section \<open>Data\<close>

text \<open>\<open>sdk.Coin\<close>; the amount is \<open>None\<close> for the nil \<open>math.Int\<close> of an unset field.\<close>

record Coin =
  coin_Denom :: string
  coin_Amount :: "int option"

record DenomUnit =
  unit_Denom :: string
  Exponent :: nat
  Aliases :: "string list"

record Metadata =
  Description :: string
  DenomUnits :: "DenomUnit list"
  Base :: string
  Display :: string
  Name :: string
  Symbol :: string
  URI :: string
  URIHash :: string

text \<open>
  \<open>types.Params\<close>: the fee is a slice, and the code tells a nil slice (\<open>None\<close>) from an empty
  one (\<open>Some []\<close>).
\<close>

record Params =
  DenomCreationFee :: "Coin list option"
  DenomCreationGasConsume :: u64

record DenomAuthorityMetadata =
  Admin :: string

lemma authority_metadata_eq [simp]:
  "(md :: DenomAuthorityMetadata) = \<lparr>Admin = a\<rparr> \<longleftrightarrow> Admin md = a"
  by (cases md) simp

record gas_meter =
  gm_limit :: u64
  gm_consumed :: u64

record event =
  event_type :: string
  attributes :: "(string \<times> string) list"

datatype account = BaseAccount | ModuleAccount

section \<open>State\<close>

record tf_store =
  CreatorDenoms :: "(string \<times> string) keyset"
  DenomAuthority :: "string \<rightharpoonup> DenomAuthorityMetadata"
  DenomHookAddr :: "string \<rightharpoonup> string"
  ParamsItem :: "Params option"

record 'x sys =
  gasMeter :: gas_meter
  events :: "event list"
  ext :: 'x

record 'x ctx =
  tf :: tf_store
  sys :: "'x sys"

text \<open>A function of another module, run inside the whole context.\<close>

definition in_sys :: "('x sys, 'a) prog \<Rightarrow> ('x ctx, 'a) prog" where
  "in_sys m s = (case m (sys s) of (r, y) \<Rightarrow> (r, s\<lparr>sys := y\<rparr>))"

definition in_tf :: "(tf_store, 'a) prog \<Rightarrow> ('x ctx, 'a) prog" where
  "in_tf m s = (case m (tf s) of (r, t) \<Rightarrow> (r, s\<lparr>tf := t\<rparr>))"

text \<open>\<open>sdkCtx.EventManager().EmitEvents\<close>.\<close>

definition emit :: "event list \<Rightarrow> ('x ctx, unit) prog" where
  "emit es = modify (\<lambda>s. s\<lparr>sys := (sys s)\<lparr>events := events (sys s) @ es\<rparr>\<rparr>)"

definition NewEvent :: "string \<Rightarrow> (string \<times> string) list \<Rightarrow> event" where
  "NewEvent t as = \<lparr>event_type = t, attributes = as\<rparr>"

section \<open>Code outside the repository\<close>

text \<open>
  \<open>PairKeyError\<close> is the error of the \<open>collections\<close> key codec for a string as the first
  component of a pair key.
\<close>

record sdk =
  StringToBytes :: "string \<Rightarrow> error + bytes"
  BytesToString :: "bytes \<Rightarrow> error + string"
  AccAddressFromBech32 :: "string \<Rightarrow> error + bytes"
  AccAddressString :: "bytes \<Rightarrow> string"
  ValidateDenom :: "string \<Rightarrow> error option"
  CoinIsValid :: "Coin \<Rightarrow> bool"
  CoinString :: "Coin \<Rightarrow> string"
  IntString :: "int option \<Rightarrow> string"
  NewCoins :: "Coin list \<Rightarrow> Coin list outcome"
  CoinsValidate :: "Coin list \<Rightarrow> error option"
  CoinsString :: "Coin list \<Rightarrow> string"
  MetadataValidate :: "Metadata \<Rightarrow> error option"
  MetadataString :: "Metadata \<Rightarrow> string"
  ErrorString :: "error \<Rightarrow> string"
  PairKeyError :: "string \<Rightarrow> error option"

record 'x env = sdk +
  \<comment> \<open>gas meter\<close>
  NewGasMeter :: "u64 \<Rightarrow> gas_meter"
  GasRemaining :: "gas_meter \<Rightarrow> u64"
  GasConsumedToLimit :: "gas_meter \<Rightarrow> u64"
  MeterConsume :: "u64 \<Rightarrow> string \<Rightarrow> gas_meter \<Rightarrow> panic option \<times> gas_meter"
  \<comment> \<open>account keeper\<close>
  GetModuleAddress :: "string \<Rightarrow> bytes option"
  GetModuleAccount :: "string \<Rightarrow> ('x sys, bytes option) prog"
  GetAccount :: "bytes \<Rightarrow> 'x \<Rightarrow> account option"
  \<comment> \<open>base bank keeper\<close>
  GetDenomMetaData :: "'x \<Rightarrow> string \<Rightarrow> Metadata option"
  SetDenomMetaData :: "Metadata \<Rightarrow> ('x sys, unit) prog"
  HasSupply :: "'x \<Rightarrow> string \<Rightarrow> bool"
  BlockedAddr :: "bytes \<Rightarrow> bool"
  MintCoins :: "string \<Rightarrow> Coin list \<Rightarrow> ('x sys, unit) prog"
  BurnCoins :: "string \<Rightarrow> Coin list \<Rightarrow> ('x sys, unit) prog"
  BaseSendCoins :: "bytes \<Rightarrow> bytes \<Rightarrow> Coin list \<Rightarrow> ('x sys, unit) prog"
  \<comment> \<open>wasm keeper\<close>
  Sudo :: "bytes \<Rightarrow> bytes \<Rightarrow> ('x ctx, bytes) prog"

text \<open>\<open>sdkCtx.GasMeter().ConsumeGas(amount, descriptor)\<close>.\<close>

definition ConsumeGas :: "'x env \<Rightarrow> u64 \<Rightarrow> string \<Rightarrow> ('x ctx, unit) prog" where
  "ConsumeGas E amount descriptor = in_sys (\<lambda>y.
     (case MeterConsume E amount descriptor (gasMeter y) of
        (None, g) \<Rightarrow> (Ok (), y\<lparr>gasMeter := g\<rparr>)
      | (Some p, g) \<Rightarrow> (Panic p, y\<lparr>gasMeter := g\<rparr>)))"

section \<open>Laws of the state combinators\<close>

lemma in_sys_eq_Ok [result_iff]:
  "in_sys m s = (Ok y, s') \<longleftrightarrow> (\<exists>t. m (sys s) = (Ok y, t) \<and> s' = s\<lparr>sys := t\<rparr>)"
  by (auto simp: in_sys_def split: prod.splits)

lemma in_tf_eq_Ok [result_iff]:
  "in_tf m s = (Ok y, s') \<longleftrightarrow> (\<exists>t. m (tf s) = (Ok y, t) \<and> s' = s\<lparr>tf := t\<rparr>)"
  by (auto simp: in_tf_def split: prod.splits)

lemma keeps_tf_in_sys [keeps_rules]: "keeps (same tf) (in_sys m)"
  by (auto simp: keeps_def same_def in_sys_def split: prod.splits)

lemma keeps_sys_in_tf [keeps_rules]: "keeps (same sys) (in_tf m)"
  by (auto simp: keeps_def same_def in_tf_def split: prod.splits)

lemma keeps_tf_emit [keeps_rules]: "keeps (same tf) (emit es)"
  by (simp add: keeps_def same_def emit_def modify_def)

lemma keeps_tf_ConsumeGas [keeps_rules]: "keeps (same tf) (ConsumeGas E a d)"
  unfolding ConsumeGas_def by (rule keeps_tf_in_sys)

section \<open>What is assumed of that code\<close>

text \<open>
  The address codec (bech32): the empty string is not an address; decoding an address and
  encoding it again gives a string for the same bytes (bech32 is case-insensitive, so it need not
  be the same string); an encoded address holds no slash.  An address holds no null byte, which is
  all the key codec refuses.
\<close>

definition codec_ok :: "('z) sdk_scheme \<Rightarrow> bool" where
  "codec_ok E \<longleftrightarrow>
     (\<exists>e. StringToBytes E [] = Inl e) \<and>
     (\<forall>s b. StringToBytes E s = Inr b \<longrightarrow>
        (\<exists>t. BytesToString E b = Inr t \<and> StringToBytes E t = Inr b)) \<and>
     (\<forall>b s. BytesToString E b = Inr s \<longrightarrow> CHR ''/'' \<notin> set s) \<and>
     (\<forall>s b. StringToBytes E s = Inr b \<longrightarrow> CHR 0x00 \<notin> set s) \<and>
     (\<forall>s. CHR 0x00 \<notin> set s \<longrightarrow> PairKeyError E s = None)"

text \<open>A string the codec itself would produce.\<close>

definition canonical :: "('z) sdk_scheme \<Rightarrow> string \<Rightarrow> bool" where
  "canonical E a \<longleftrightarrow> (\<exists>b. StringToBytes E a = Inr b \<and> BytesToString E b = Inr a)"

text \<open>
  Bank metadata: \<open>SetDenomMetaData\<close> stores the entry under its base denom, keeps the other
  entries and does not fail; no other function the modules call removes an entry.
\<close>

definition meta_le :: "'x env \<Rightarrow> 'x sys \<Rightarrow> 'x sys \<Rightarrow> bool" where
  "meta_le E y z \<longleftrightarrow>
     (\<forall>d. GetDenomMetaData E (ext y) d \<noteq> None \<longrightarrow> GetDenomMetaData E (ext z) d \<noteq> None)"

definition metadata_ok :: "'x env \<Rightarrow> bool" where
  "metadata_ok E \<longleftrightarrow>
     (\<forall>m y. fst (SetDenomMetaData E m y) = Ok () \<and>
        (\<forall>d. GetDenomMetaData E (ext (snd (SetDenomMetaData E m y))) d =
           (if d = Base m then Some m else GetDenomMetaData E (ext y) d))) \<and>
     (\<forall>n cs. keeps (meta_le E) (MintCoins E n cs)) \<and>
     (\<forall>n cs. keeps (meta_le E) (BurnCoins E n cs)) \<and>
     (\<forall>f t cs. keeps (meta_le E) (BaseSendCoins E f t cs)) \<and>
     (\<forall>n. keeps (meta_le E) (GetModuleAccount E n))"

text \<open>
  The basic gas meter of a transaction: a new meter has the given limit and nothing consumed; the remaining gas is the
  difference of the two, or nothing; what a meter reports as consumed up to its limit is at most
  its limit; consuming gas adds it up and panics only when the sum passes the limit or the range
  of the counter.
\<close>

definition gas_ok :: "'x env \<Rightarrow> bool" where
  "gas_ok E \<longleftrightarrow>
     (\<forall>l. NewGasMeter E l = \<lparr>gm_limit = l, gm_consumed = 0\<rparr>) \<and>
     (\<forall>g. unat (GasRemaining E g) = unat (gm_limit g) - unat (gm_consumed g)) \<and>
     (\<forall>g. GasConsumedToLimit E g = min (gm_limit g) (gm_consumed g)) \<and>
     (\<forall>a d g. unat (gm_consumed g) + unat a \<le> unat (gm_limit g) \<longrightarrow>
        MeterConsume E a d g = (None, g\<lparr>gm_consumed := gm_consumed g + a\<rparr>))"

text \<open>
  The ledger of the base bank keeper, read through a function for balances and one for supplies:
  minting adds to the supply and to the module account, burning takes away from both, and sending
  moves coins.  \<open>sdk.NewCoins\<close> of one coin is that coin, or no coin when its amount is zero.
\<close>

definition amount_of :: "string \<Rightarrow> Coin list \<Rightarrow> int" where
  "amount_of d cs = sum_list (map (\<lambda>c. if coin_Denom c = d
     then (case coin_Amount c of Some n \<Rightarrow> n | None \<Rightarrow> 0) else 0) cs)"

record 'x ledger_view =
  bal :: "'x \<Rightarrow> bytes \<Rightarrow> string \<Rightarrow> int"
  sup :: "'x \<Rightarrow> string \<Rightarrow> int"

definition ledger_ok :: "'x env \<Rightarrow> 'x ledger_view \<Rightarrow> bool" where
  "ledger_ok E V \<longleftrightarrow>
     (\<forall>m a cs y z. GetModuleAddress E m = Some a \<and> MintCoins E m cs y = (Ok (), z) \<longrightarrow>
        (\<forall>x d. bal V (ext z) x d = bal V (ext y) x d + (if x = a then amount_of d cs else 0)) \<and>
        (\<forall>d. sup V (ext z) d = sup V (ext y) d + amount_of d cs)) \<and>
     (\<forall>m a cs y z. GetModuleAddress E m = Some a \<and> BurnCoins E m cs y = (Ok (), z) \<longrightarrow>
        (\<forall>x d. bal V (ext z) x d = bal V (ext y) x d - (if x = a then amount_of d cs else 0)) \<and>
        (\<forall>d. sup V (ext z) d = sup V (ext y) d - amount_of d cs)) \<and>
     (\<forall>f t cs y z. BaseSendCoins E f t cs y = (Ok (), z) \<longrightarrow>
        (\<forall>x d. bal V (ext z) x d = bal V (ext y) x d - (if x = f then amount_of d cs else 0)
           + (if x = t then amount_of d cs else 0)) \<and>
        sup V (ext z) = sup V (ext y)) \<and>
     (\<forall>m y r z. GetModuleAccount E m y = (Ok r, z) \<longrightarrow>
        r = GetModuleAddress E m \<and> bal V (ext z) = bal V (ext y) \<and> sup V (ext z) = sup V (ext y)) \<and>
     (\<forall>c cs. NewCoins E [c] = Ok cs \<longrightarrow>
        (\<forall>d. amount_of d cs = amount_of d [c]) \<and> (\<forall>c'\<in>set cs. coin_Denom c' = coin_Denom c))"

end
