(* ===== verification/Bank.thy ===== *)
theory Bank
  imports Context
begin

text \<open>
  \<open>x/bank\<close>: the bank keeper of this chain, which wraps the SDK's base keeper with hooks that
  run before a transfer (\<open>keeper/keeper.go\<close>), and its message server
  (\<open>keeper/msg_server.go\<close>).  The hooks are the interface \<open>BankHooks\<close>; the locale
  \<open>bank_hooks\<close> states what the keeper needs of them to stay inside a relation on states, and
  the token factory provides them.
\<close>

section \<open>Keeper\<close>

record 'x BankHooks =
  hook_TrackBeforeSend :: "bytes \<Rightarrow> bytes \<Rightarrow> Coin list \<Rightarrow> ('x ctx, unit) prog"
  hook_BlockBeforeSend :: "bytes \<Rightarrow> bytes \<Rightarrow> Coin list \<Rightarrow> ('x ctx, unit) prog"

text \<open>The keeper's own field; the embedded base keeper and the account keeper are in \<open>env\<close>.\<close>

record 'x BankKeeper =
  hooks :: "'x BankHooks option"

definition bank_NewKeeper :: "('z) sdk_scheme \<Rightarrow> string \<Rightarrow> 'x BankKeeper outcome" where
  "bank_NewKeeper E authority =
     (case StringToBytes E authority of
        Inl e \<Rightarrow> Panic (PanicError
          (Wrap e ''invalid bank authority address''))
      | Inr _ \<Rightarrow> Ok \<lparr>hooks = None\<rparr>)"

definition SetHooks :: "'x BankKeeper \<Rightarrow> 'x BankHooks \<Rightarrow> 'x BankKeeper outcome" where
  "SetHooks k bh =
     (if hooks k \<noteq> None then Panic (PanicText ''cannot set bank hooks twice'')
      else Ok (k\<lparr>hooks := Some bh\<rparr>))"

definition TrackBeforeSend ::
  "'x BankKeeper \<Rightarrow> bytes \<Rightarrow> bytes \<Rightarrow> Coin list \<Rightarrow> ('x ctx, unit) prog" where
  "TrackBeforeSend k from to amount =
     (case hooks k of Some h \<Rightarrow> hook_TrackBeforeSend h from to amount | None \<Rightarrow> ret ())"

definition BlockBeforeSend ::
  "'x BankKeeper \<Rightarrow> bytes \<Rightarrow> bytes \<Rightarrow> Coin list \<Rightarrow> ('x ctx, unit) prog" where
  "BlockBeforeSend k from to amount =
     (case hooks k of Some h \<Rightarrow> hook_BlockBeforeSend h from to amount | None \<Rightarrow> ret ())"

definition SendCoinsWithoutBlockHook ::
  "'x env \<Rightarrow> 'x BankKeeper \<Rightarrow> bytes \<Rightarrow> bytes \<Rightarrow> Coin list \<Rightarrow> ('x ctx, unit) prog" where
  "SendCoinsWithoutBlockHook E k fromAddr toAddr amt =
     andThen (TrackBeforeSend k fromAddr toAddr amt) (\<lambda>_.
     in_sys (BaseSendCoins E fromAddr toAddr amt))"

definition SendCoins ::
  "'x env \<Rightarrow> 'x BankKeeper \<Rightarrow> bytes \<Rightarrow> bytes \<Rightarrow> Coin list \<Rightarrow> ('x ctx, unit) prog" where
  "SendCoins E k fromAddr toAddr amt =
     andThen (BlockBeforeSend k fromAddr toAddr amt) (\<lambda>_.
     andThen (TrackBeforeSend k fromAddr toAddr amt) (\<lambda>_.
     in_sys (BaseSendCoins E fromAddr toAddr amt)))"

definition no_module :: "string \<Rightarrow> panic" where
  "no_module name = PanicError (Wrap (Sentinel ''sdkerrors.ErrUnknownAddress'')
     (''module account '' @ name @ '' does not exist''))"

definition SendCoinsFromModuleToModule ::
  "'x env \<Rightarrow> 'x BankKeeper \<Rightarrow> string \<Rightarrow> string \<Rightarrow> Coin list \<Rightarrow> ('x ctx, unit) prog" where
  "SendCoinsFromModuleToModule E k senderModule recipientModule amt =
     (case GetModuleAddress E senderModule of
        None \<Rightarrow> raise (no_module senderModule)
      | Some senderAddr \<Rightarrow>
          andThen (in_sys (GetModuleAccount E recipientModule)) (\<lambda>recipientAcc.
          case recipientAcc of
            None \<Rightarrow> raise (no_module recipientModule)
          | Some recipientAddr \<Rightarrow>
              SendCoinsWithoutBlockHook E k senderAddr recipientAddr amt))"

definition not_allowed :: "string \<Rightarrow> error" where
  "not_allowed who = Wrap (Sentinel ''sdkerrors.ErrUnauthorized'')
     (who @ '' is not allowed to receive funds'')"

definition SendCoinsFromModuleToAccount ::
  "'x env \<Rightarrow> 'x BankKeeper \<Rightarrow> string \<Rightarrow> bytes \<Rightarrow> Coin list \<Rightarrow> ('x ctx, unit) prog" where
  "SendCoinsFromModuleToAccount E k senderModule recipientAddr amt =
     (case GetModuleAddress E senderModule of
        None \<Rightarrow> raise (no_module senderModule)
      | Some senderAddr \<Rightarrow>
          if BlockedAddr E recipientAddr then fail (not_allowed (AccAddressString E recipientAddr))
          else SendCoins E k senderAddr recipientAddr amt)"

definition SendCoinsFromAccountToModule ::
  "'x env \<Rightarrow> 'x BankKeeper \<Rightarrow> bytes \<Rightarrow> string \<Rightarrow> Coin list \<Rightarrow> ('x ctx, unit) prog" where
  "SendCoinsFromAccountToModule E k senderAddr recipientModule amt =
     andThen (in_sys (GetModuleAccount E recipientModule)) (\<lambda>recipientAcc.
     case recipientAcc of
       None \<Rightarrow> raise (no_module recipientModule)
     | Some recipientAddr \<Rightarrow> SendCoins E k senderAddr recipientAddr amt)"

section \<open>Message server\<close>

record MsgSend =
  FromAddress :: string
  ToAddress :: string
  send_Amount :: "Coin list"

record InOut =
  io_Address :: string
  io_Coins :: "Coin list"

record MsgMultiSend =
  Inputs :: "InOut list"
  Outputs :: "InOut list"

record SendEnabled =
  se_Denom :: string
  se_Enabled :: bool

record MsgSetSendEnabled =
  sse_Authority :: string
  sse_SendEnabled :: "SendEnabled list"
  UseDefaultFor :: "string list"

record BankParams =
  bp_SendEnabled :: "SendEnabled list"
  DefaultSendEnabled :: bool

record BankMsgUpdateParams =
  bup_Authority :: string
  bup_Params :: BankParams

text \<open>What the message server calls beside the functions of \<open>env\<close>.\<close>

record 'x bank_base =
  CoinsIsValid :: "Coin list \<Rightarrow> bool"
  ValidateInputOutputs :: "InOut \<Rightarrow> InOut list \<Rightarrow> error option"
  SendEnabledValidate :: "SendEnabled \<Rightarrow> error option"
  BankParamsValidate :: "BankParams \<Rightarrow> error option"
  BankAuthority :: string
  IsSendEnabledCoins :: "Coin list \<Rightarrow> ('x sys, unit) prog"
  InputOutputCoins :: "InOut \<Rightarrow> InOut list \<Rightarrow> ('x sys, unit) prog"
  SetBankParams :: "BankParams \<Rightarrow> ('x sys, unit) prog"
  SetAllSendEnabled :: "SendEnabled list \<Rightarrow> ('x sys, unit) prog"
  DeleteSendEnabled :: "string list \<Rightarrow> ('x sys, unit) prog"

definition bad_signer :: "string \<Rightarrow> string \<Rightarrow> error" where
  "bad_signer expected got = Wrap (Sentinel ''govtypes.ErrInvalidSigner'')
     (''invalid authority; expected '' @ expected @ '', got '' @ got)"

definition address_or :: "('z) sdk_scheme \<Rightarrow> string \<Rightarrow> string \<Rightarrow> ('s, bytes) prog" where
  "address_or E what s = (case StringToBytes E s of
     Inl e \<Rightarrow> fail (Wrap (Sentinel ''sdkerrors.ErrInvalidAddress'') (what @ ErrorString E e))
   | Inr b \<Rightarrow> ret b)"

definition Send :: "'x env \<Rightarrow> 'x bank_base \<Rightarrow> 'x BankKeeper \<Rightarrow> MsgSend \<Rightarrow> ('x ctx, unit) prog" where
  "Send E B k msg =
     andThen (address_or E ''invalid from address: '' (FromAddress msg)) (\<lambda>from.
     andThen (address_or E ''invalid to address: '' (ToAddress msg)) (\<lambda>to.
     if \<not> CoinsIsValid B (send_Amount msg) \<or> send_Amount msg = []
     then fail (Wrap (Sentinel ''sdkerrors.ErrInvalidCoins'') (CoinsString E (send_Amount msg)))
     else
     andThen (in_sys (IsSendEnabledCoins B (send_Amount msg))) (\<lambda>_.
     if BlockedAddr E to then fail (not_allowed (ToAddress msg))
     else SendCoins E k from to (send_Amount msg))))"

text \<open>The body of the loop over the outputs of \<open>MultiSend\<close>.\<close>

definition multi_output ::
  "'x env \<Rightarrow> 'x BankKeeper \<Rightarrow> bytes \<Rightarrow> InOut \<Rightarrow> ('x ctx, unit) prog" where
  "multi_output E k inAddr out =
     andThen (of_result (StringToBytes E (io_Address out))) (\<lambda>outAddr.
     if BlockedAddr E outAddr then fail (not_allowed (io_Address out))
     else
     andThen (BlockBeforeSend k inAddr outAddr (io_Coins out)) (\<lambda>_.
     TrackBeforeSend k inAddr outAddr (io_Coins out)))"

definition MultiSend ::
  "'x env \<Rightarrow> 'x bank_base \<Rightarrow> 'x BankKeeper \<Rightarrow> MsgMultiSend \<Rightarrow> ('x ctx, unit) prog" where
  "MultiSend E B k msg =
     (if length (Inputs msg) = 0 then fail (Sentinel ''types.ErrNoInputs'')
      else if length (Inputs msg) \<noteq> 1 then fail (Sentinel ''types.ErrMultipleSenders'')
      else if length (Outputs msg) = 0 then fail (Sentinel ''types.ErrNoOutputs'')
      else (let input = Inputs msg ! 0 in
        andThen (of_err (ValidateInputOutputs B input (Outputs msg))) (\<lambda>_.
        andThen (for_each (Inputs msg) (\<lambda>inp. in_sys (IsSendEnabledCoins B (io_Coins inp)))) (\<lambda>_.
        andThen (of_result (StringToBytes E (io_Address input))) (\<lambda>inAddr.
        andThen (for_each (Outputs msg) (multi_output E k inAddr)) (\<lambda>_.
        in_sys (InputOutputCoins B input (Outputs msg))))))))"

definition bank_UpdateParams :: "'x bank_base \<Rightarrow> BankMsgUpdateParams \<Rightarrow> ('x ctx, unit) prog" where
  "bank_UpdateParams B req =
     (if BankAuthority B \<noteq> bup_Authority req
      then fail (bad_signer (BankAuthority B) (bup_Authority req))
      else
      andThen (of_err (BankParamsValidate B (bup_Params req))) (\<lambda>_.
      in_sys (SetBankParams B (bup_Params req))))"

text \<open>The two validation loops of \<open>SetSendEnabled\<close>; \<open>seen\<close> is the set of denoms met so far.\<close>

definition invalid_request :: "string \<Rightarrow> error" where
  "invalid_request what = Wrap (Sentinel ''sdkerrors.ErrInvalidRequest'') what"

fun check_send_enabled ::
  "'x env \<Rightarrow> 'x bank_base \<Rightarrow> string set \<Rightarrow> SendEnabled list \<Rightarrow> error option" where
  "check_send_enabled E B seen [] = None"
| "check_send_enabled E B seen (se # ses) =
     (if se_Denom se \<in> seen
      then Some (invalid_request (''duplicate denom entries found for '' @ quote (se_Denom se)))
      else (case SendEnabledValidate B se of
        Some e \<Rightarrow> Some (invalid_request
          (''invalid SendEnabled denom '' @ quote (se_Denom se) @ '': '' @ ErrorString E e))
      | None \<Rightarrow> check_send_enabled E B (insert (se_Denom se) seen) ses))"

fun check_defaults :: "'x env \<Rightarrow> string list \<Rightarrow> error option" where
  "check_defaults E [] = None"
| "check_defaults E (d # ds) =
     (case ValidateDenom E d of
        Some e \<Rightarrow> Some (invalid_request
          (''invalid UseDefaultFor denom '' @ quote d @ '': '' @ ErrorString E e))
      | None \<Rightarrow> check_defaults E ds)"

definition SetSendEnabled ::
  "'x env \<Rightarrow> 'x bank_base \<Rightarrow> MsgSetSendEnabled \<Rightarrow> ('x ctx, unit) prog" where
  "SetSendEnabled E B msg =
     (if BankAuthority B \<noteq> sse_Authority msg
      then fail (bad_signer (BankAuthority B) (sse_Authority msg))
      else
      andThen (of_err (check_send_enabled E B {} (sse_SendEnabled msg))) (\<lambda>_.
      andThen (of_err (check_defaults E (UseDefaultFor msg))) (\<lambda>_.
      andThen (if length (sse_SendEnabled msg) > 0
               then in_sys (SetAllSendEnabled B (sse_SendEnabled msg)) else ret ()) (\<lambda>_.
      if length (UseDefaultFor msg) > 0
      then in_sys (DeleteSendEnabled B (UseDefaultFor msg)) else ret ()))))"

section \<open>The hooks interface\<close>

text \<open>
  Hooks that move the state only along \<open>R\<close>.  A keeper that holds them then does the same,
  given that the base keeper does.
\<close>

locale bank_hooks = state_rel R for R :: "'x ctx \<Rightarrow> 'x ctx \<Rightarrow> bool" +
  fixes h :: "'x BankHooks"
  assumes track_rel: "keeps R (hook_TrackBeforeSend h f t a)"
    and block_rel: "keeps R (hook_BlockBeforeSend h f t a)"
begin

lemma keeps_Track: "hooks k = Some h \<Longrightarrow> keeps R (TrackBeforeSend k f t a)"
  by (simp add: TrackBeforeSend_def track_rel)

lemma keeps_Block: "hooks k = Some h \<Longrightarrow> keeps R (BlockBeforeSend k f t a)"
  by (simp add: BlockBeforeSend_def block_rel)

lemma keeps_SendCoins:
  assumes "hooks k = Some h" and "\<And>f t a. keeps R (in_sys (BaseSendCoins E f t a))"
  shows "keeps R (SendCoins E k f t a)"
  unfolding SendCoins_def
  by (intro keeps_andThen keeps_Block keeps_Track assms)

lemma keeps_SendCoinsFromModuleToAccount:
  assumes "hooks k = Some h" and "\<And>f t a. keeps R (in_sys (BaseSendCoins E f t a))"
  shows "keeps R (SendCoinsFromModuleToAccount E k m t a)"
  unfolding SendCoinsFromModuleToAccount_def
  by (cases "GetModuleAddress E m") (auto intro: keeps_raise keeps_fail keeps_SendCoins assms)

lemma keeps_SendCoinsFromAccountToModule:
  assumes "hooks k = Some h" and "\<And>f t a. keeps R (in_sys (BaseSendCoins E f t a))"
    and "keeps R (in_sys (GetModuleAccount E m))"
  shows "keeps R (SendCoinsFromAccountToModule E k f m a)"
  unfolding SendCoinsFromAccountToModule_def
  by (rule keeps_andThen [OF assms(3)])
    (auto intro: keeps_raise keeps_SendCoins assms split: option.splits)

end

end
