(* ===== verification/Sample.thy ===== *)
theory Sample
  imports Context
begin

text \<open>
  A small concrete environment, on which the hypotheses about code outside the repository hold.
  Addresses are their own bytes, the bank is a ledger of balances with a metadata table, and two
  contracts exist: \<open>gate\<close> refuses every transfer it is asked about and \<open>log\<close> accepts it,
  each for a thousand units of gas.
\<close>

record ledger =
  l_balance :: "bytes \<Rightarrow> string \<Rightarrow> int"
  l_minted :: "string \<Rightarrow> int"
  l_metadata :: "string \<rightharpoonup> Metadata"

definition plain_address :: "string \<Rightarrow> bool" where
  "plain_address s \<longleftrightarrow> s \<noteq> [] \<and> CHR ''/'' \<notin> set s \<and> CHR 0x00 \<notin> set s"

definition sample_decode :: "string \<Rightarrow> error + bytes" where
  "sample_decode s = (if plain_address s then Inr (to_bytes s) else Inl (Text ''bad address''))"

definition sample_encode :: "bytes \<Rightarrow> error + string" where
  "sample_encode b =
     (if plain_address (of_bytes b) then Inr (of_bytes b) else Inl (Text ''bad address''))"

definition sample_denom :: "string \<Rightarrow> error option" where
  "sample_denom d =
     (if 3 \<le> length d \<and> length d \<le> 128 then None else Some (Text ''invalid denom''))"

definition positive_coin :: "Coin \<Rightarrow> bool" where
  "positive_coin c \<longleftrightarrow> sample_denom (coin_Denom c) = None \<and>
     (case coin_Amount c of Some n \<Rightarrow> n \<ge> 0 | None \<Rightarrow> False)"

definition add_to :: "bytes \<Rightarrow> int \<Rightarrow> Coin list \<Rightarrow> ledger \<Rightarrow> ledger" where
  "add_to a k cs l = l\<lparr>l_balance := (l_balance l)(a := \<lambda>d. l_balance l a d + k * amount_of d cs)\<rparr>"

definition covers :: "ledger \<Rightarrow> bytes \<Rightarrow> Coin list \<Rightarrow> bool" where
  "covers l a cs \<longleftrightarrow> list_all (\<lambda>c. amount_of (coin_Denom c) cs \<le> l_balance l a (coin_Denom c)) cs"

definition on_ledger :: "(ledger \<Rightarrow> error option \<times> ledger) \<Rightarrow> (ledger sys, unit) prog" where
  "on_ledger f y = (case f (ext y) of
     (None, l) \<Rightarrow> (Ok (), y\<lparr>ext := l\<rparr>)
   | (Some e, l) \<Rightarrow> (Err e, y\<lparr>ext := l\<rparr>))"

definition sample_mint :: "string \<Rightarrow> Coin list \<Rightarrow> (ledger sys, unit) prog" where
  "sample_mint m cs = on_ledger (\<lambda>l.
     (None, (add_to (to_bytes m) 1 cs l)\<lparr>l_minted := \<lambda>d. l_minted l d + amount_of d cs\<rparr>))"

definition sample_burn :: "string \<Rightarrow> Coin list \<Rightarrow> (ledger sys, unit) prog" where
  "sample_burn m cs = on_ledger (\<lambda>l.
     if covers l (to_bytes m) cs
     then (None, (add_to (to_bytes m) (- 1) cs l)\<lparr>l_minted := \<lambda>d. l_minted l d - amount_of d cs\<rparr>)
     else (Some (Text ''insufficient funds''), l))"

definition sample_send :: "bytes \<Rightarrow> bytes \<Rightarrow> Coin list \<Rightarrow> (ledger sys, unit) prog" where
  "sample_send f t cs = on_ledger (\<lambda>l.
     if covers l f cs then (None, add_to t 1 cs (add_to f (- 1) cs l))
     else (Some (Text ''insufficient funds''), l))"

definition sample_consume :: "u64 \<Rightarrow> string \<Rightarrow> gas_meter \<Rightarrow> panic option \<times> gas_meter" where
  "sample_consume a d g =
     (if unat (gm_consumed g) + unat a \<le> unat (gm_limit g)
      then (None, g\<lparr>gm_consumed := gm_consumed g + a\<rparr>)
      else (Some (ErrorOutOfGas d), g\<lparr>gm_consumed := gm_consumed g + a\<rparr>))"

text \<open>A message that opens with the block member is a request to allow a transfer.\<close>

definition sample_sudo :: "bytes \<Rightarrow> bytes \<Rightarrow> (ledger ctx, bytes) prog" where
  "sample_sudo a m s =
     (let charged = s\<lparr>sys := (sys s)\<lparr>gasMeter :=
            (gasMeter (sys s))\<lparr>gm_consumed := gm_consumed (gasMeter (sys s)) + 1000\<rparr>\<rparr>\<rparr>
      in if a = to_bytes ''log'' then (Ok [], charged)
         else if a = to_bytes ''gate'' then
           (if take 19 (of_bytes m) = ''{''  @ [CHR 0x22] @ ''block_before_send'' then
              (Err (Text ''transfer refused''), charged) else (Ok [], charged))
         else (Err (Text ''no such contract''), s))"

definition first_error :: "error \<Rightarrow> string" where
  "first_error e = (case e of Text s \<Rightarrow> s | Wrap _ s \<Rightarrow> s | Sentinel s \<Rightarrow> s | Registered _ _ s \<Rightarrow> s)"

definition sample_env :: "ledger env" where
  "sample_env = \<lparr>
     StringToBytes = sample_decode,
     BytesToString = sample_encode,
     AccAddressFromBech32 = sample_decode,
     AccAddressString = of_bytes,
     ValidateDenom = sample_denom,
     CoinIsValid = positive_coin,
     CoinString = coin_Denom,
     IntString = (\<lambda>n. if n = Some 0 then ''0'' else ''n''),
     NewCoins = (\<lambda>cs. if list_all positive_coin cs
        then Ok (filter (\<lambda>c. coin_Amount c \<noteq> Some 0) cs)
        else Panic (PanicText ''invalid coins'')),
     CoinsValidate = (\<lambda>cs. if list_all positive_coin cs then None else Some (Text ''invalid coins'')),
     CoinsString = (\<lambda>cs. concat (map coin_Denom cs)),
     MetadataValidate = (\<lambda>m. if Base m = [] then Some (Text ''no base'') else None),
     MetadataString = Base,
     ErrorString = first_error,
     PairKeyError = (\<lambda>s. if CHR 0x00 \<in> set s then Some (Text ''null byte in key'') else None),
     NewGasMeter = (\<lambda>l. \<lparr>gm_limit = l, gm_consumed = 0\<rparr>),
     GasRemaining = (\<lambda>g. word_of_nat (unat (gm_limit g) - unat (gm_consumed g))),
     GasConsumedToLimit = (\<lambda>g. min (gm_limit g) (gm_consumed g)),
     MeterConsume = sample_consume,
     GetModuleAddress = (\<lambda>m. Some (to_bytes m)),
     GetModuleAccount = (\<lambda>m y. (Ok (Some (to_bytes m)), y)),
     GetAccount = (\<lambda>a l. if a = to_bytes ''tokenfactory'' then Some ModuleAccount else Some BaseAccount),
     GetDenomMetaData = l_metadata,
     SetDenomMetaData = (\<lambda>m. on_ledger (\<lambda>l. (None, l\<lparr>l_metadata := (l_metadata l)(Base m \<mapsto> m)\<rparr>))),
     HasSupply = (\<lambda>l d. l_minted l d \<noteq> 0),
     BlockedAddr = (\<lambda>a. a = to_bytes ''tokenfactory''),
     MintCoins = sample_mint,
     BurnCoins = sample_burn,
     BaseSendCoins = sample_send,
     Sudo = sample_sudo\<rparr>"

text \<open>Its fields, so that proofs need not unfold the record.\<close>

lemma sample_env_sel [simp]:
  "StringToBytes sample_env = sample_decode"
  "BytesToString sample_env = sample_encode"
  "AccAddressFromBech32 sample_env = sample_decode"
  "AccAddressString sample_env = of_bytes"
  "ValidateDenom sample_env = sample_denom"
  "CoinIsValid sample_env = positive_coin"
  "CoinString sample_env = coin_Denom"
  "IntString sample_env = (\<lambda>n. if n = Some 0 then ''0'' else ''n'')"
  "NewCoins sample_env = (\<lambda>cs. if list_all positive_coin cs then Ok (filter (\<lambda>c. coin_Amount c \<noteq> Some 0) cs) else Panic (PanicText ''invalid coins''))"
  "CoinsValidate sample_env = (\<lambda>cs. if list_all positive_coin cs then None else Some (Text ''invalid coins''))"
  "CoinsString sample_env = (\<lambda>cs. concat (map coin_Denom cs))"
  "MetadataValidate sample_env = (\<lambda>m. if Base m = [] then Some (Text ''no base'') else None)"
  "MetadataString sample_env = Base"
  "ErrorString sample_env = first_error"
  "PairKeyError sample_env = (\<lambda>s. if CHR 0x00 \<in> set s then Some (Text ''null byte in key'') else None)"
  "NewGasMeter sample_env = (\<lambda>l. \<lparr>gm_limit = l, gm_consumed = 0\<rparr>)"
  "GasRemaining sample_env = (\<lambda>g. word_of_nat (unat (gm_limit g) - unat (gm_consumed g)))"
  "GasConsumedToLimit sample_env = (\<lambda>g. min (gm_limit g) (gm_consumed g))"
  "MeterConsume sample_env = sample_consume"
  "GetModuleAddress sample_env = (\<lambda>m. Some (to_bytes m))"
  "GetModuleAccount sample_env = (\<lambda>m y. (Ok (Some (to_bytes m)), y))"
  "GetAccount sample_env = (\<lambda>a l. if a = to_bytes ''tokenfactory'' then Some ModuleAccount else Some BaseAccount)"
  "GetDenomMetaData sample_env = l_metadata"
  "SetDenomMetaData sample_env = (\<lambda>m. on_ledger (\<lambda>l. (None, l\<lparr>l_metadata := (l_metadata l)(Base m \<mapsto> m)\<rparr>)))"
  "HasSupply sample_env = (\<lambda>l d. l_minted l d \<noteq> 0)"
  "BlockedAddr sample_env = (\<lambda>a. a = to_bytes ''tokenfactory'')"
  "MintCoins sample_env = sample_mint"
  "BurnCoins sample_env = sample_burn"
  "BaseSendCoins sample_env = sample_send"
  "Sudo sample_env = sample_sudo"
  by (simp_all add: sample_env_def)

section \<open>It satisfies what is assumed\<close>

lemma sample_address [simp]:
  "sample_decode s = Inr b \<longleftrightarrow> plain_address s \<and> b = to_bytes s"
  "sample_encode c = Inr t \<longleftrightarrow> plain_address (of_bytes c) \<and> t = of_bytes c"
  by (auto simp: sample_decode_def sample_encode_def)

lemma sample_codec_ok: "codec_ok sample_env"
  by (auto simp: codec_ok_def)
    (auto simp: sample_decode_def plain_address_def)

lemma sample_canonical: "plain_address a \<Longrightarrow> canonical sample_env a"
  by (simp add: canonical_def)

lemma sample_metadata_ok: "metadata_ok sample_env"
  by (simp add: metadata_ok_def on_ledger_def keeps_def meta_le_def sample_mint_def
      sample_burn_def sample_send_def add_to_def)

lemma sample_gas_ok: "gas_ok sample_env"
  by (auto simp: gas_ok_def sample_consume_def)

lemma sample_ledger_ok: "ledger_ok sample_env \<lparr>bal = l_balance, sup = l_minted\<rparr>"
proof -
  show ?thesis
    by (auto simp: ledger_ok_def on_ledger_def sample_mint_def sample_burn_def sample_send_def
        add_to_def fun_eq_iff amount_of_def split: if_splits)
qed

end
