(* ===== verification/Denoms.thy ===== *)
theory Denoms
  imports Sample
begin

text \<open>
  The names of the token factory: the constants of \<open>x/tokenfactory/types/keys.go\<close> and
  \<open>denoms.go\<close>, the registered errors of \<open>errors.go\<close>, and the two functions that build a
  denom \<open>factory/{creator}/{subdenom}\<close> and take it apart.  The lemmas show that the two are
  inverse on the addresses the codec produces, that distinct pairs have distinct denoms and that a
  denom fits the SDK's limit of 128 bytes.
\<close>

section \<open>Constants and errors\<close>

definition ModuleName :: string where
  "ModuleName = ''tokenfactory''"

definition ModuleDenomPrefix :: string where
  "ModuleDenomPrefix = ''factory''"

definition MaxSubdenomLength :: nat where
  "MaxSubdenomLength = 44"

definition MaxHrpLength :: nat where
  "MaxHrpLength = 16"

definition MaxCreatorLength :: nat where
  "MaxCreatorLength = 59 + MaxHrpLength"

definition ErrEmptySender :: error where
  "ErrEmptySender = Registered ModuleName 2 ''empty sender''"

definition ErrDenomExists :: error where
  "ErrDenomExists = Registered ModuleName 7
     ''attempting to create a denom that already exists (has bank metadata)''"

definition ErrUnauthorized :: error where
  "ErrUnauthorized = Registered ModuleName 8 ''unauthorized account''"

definition ErrInvalidDenom :: error where
  "ErrInvalidDenom = Registered ModuleName 9 ''invalid denom''"

definition ErrInvalidCreator :: error where
  "ErrInvalidCreator = Registered ModuleName 10 ''invalid creator''"

definition ErrInvalidAuthorityMetadata :: error where
  "ErrInvalidAuthorityMetadata = Registered ModuleName 11 ''invalid authority metadata''"

definition ErrInvalidGenesis :: error where
  "ErrInvalidGenesis = Registered ModuleName 12 ''invalid genesis''"

definition ErrSubdenomTooLong :: error where
  "ErrSubdenomTooLong = Registered ModuleName 13 ''subdenom too long, max length is 44 bytes''"

definition ErrCreatorTooLong :: error where
  "ErrCreatorTooLong = Registered ModuleName 14 ''creator too long, max length is 75 bytes''"

definition ErrDenomDoesNotExist :: error where
  "ErrDenomDoesNotExist = Registered ModuleName 15 ''denom does not exist''"

definition ErrBurnFromModuleAccount :: error where
  "ErrBurnFromModuleAccount =
     Registered ModuleName 16 ''burning from Module Account is not allowed''"

definition ErrBeforeSendHookOutOfGas :: error where
  "ErrBeforeSendHookOutOfGas = Registered ModuleName 17 ''gas meter hit maximum limit''"

lemmas tf_error_defs = ErrEmptySender_def ErrDenomExists_def ErrUnauthorized_def
  ErrInvalidDenom_def ErrInvalidCreator_def ErrInvalidAuthorityMetadata_def ErrInvalidGenesis_def
  ErrSubdenomTooLong_def ErrCreatorTooLong_def ErrDenomDoesNotExist_def
  ErrBurnFromModuleAccount_def ErrBeforeSendHookOutOfGas_def

section \<open>GetTokenDenom and DeconstructDenom\<close>

definition GetTokenDenom :: "('z) sdk_scheme \<Rightarrow> string \<Rightarrow> string \<Rightarrow> error + string" where
  "GetTokenDenom E creator subdenom =
     (if length subdenom > MaxSubdenomLength then Inl ErrSubdenomTooLong
      else if length creator > MaxCreatorLength then Inl ErrCreatorTooLong
      else if contains creator ''/'' then Inl ErrInvalidCreator
      else (let denom = join ''/'' [ModuleDenomPrefix, creator, subdenom]
            in case ValidateDenom E denom of Some e \<Rightarrow> Inl e | None \<Rightarrow> Inr denom))"

definition DeconstructDenom :: "('z) sdk_scheme \<Rightarrow> string \<Rightarrow> error + string \<times> string" where
  "DeconstructDenom E denom =
     (case ValidateDenom E denom of
        Some e \<Rightarrow> Inl e
      | None \<Rightarrow>
          (let strParts = split_on CHR ''/'' denom in
           if length strParts < 3
           then Inl (Wrap ErrInvalidDenom (''not enough parts of denom '' @ denom))
           else if strParts ! 0 \<noteq> ModuleDenomPrefix
           then Inl (Wrap ErrInvalidDenom (''denom prefix is incorrect. Is: '' @ strParts ! 0 @
                  ''.  Should be: '' @ ModuleDenomPrefix))
           else (case StringToBytes E (strParts ! 1) of
                Inl e \<Rightarrow> Inl (Wrap ErrInvalidDenom
                  (''Invalid creator address ('' @ ErrorString E e @ '')''))
              | Inr creatorAddr \<Rightarrow>
                  (let subdenom = join ''/'' (drop 2 strParts) in
                   case BytesToString E creatorAddr of
                     Inl e \<Rightarrow> Inl (Wrap ErrInvalidDenom
                       (''Invalid creator address ('' @ ErrorString E e @ '')''))
                   | Inr strAddr \<Rightarrow> Inr (strAddr, subdenom)))))"

section \<open>What the two functions accept\<close>

text \<open>The shape of a token factory denom.\<close>

definition factory_denom :: "string \<Rightarrow> string \<Rightarrow> string" where
  "factory_denom creator subdenom = ModuleDenomPrefix @ ''/'' @ creator @ ''/'' @ subdenom"

lemma GetTokenDenom_iff:
  "GetTokenDenom E c sub = Inr d \<longleftrightarrow>
     length sub \<le> MaxSubdenomLength \<and> length c \<le> MaxCreatorLength \<and> CHR ''/'' \<notin> set c \<and>
     d = factory_denom c sub \<and> ValidateDenom E d = None"
  by (auto simp: GetTokenDenom_def factory_denom_def Let_def split: option.splits)

lemma prefix_no_slash: "CHR ''/'' \<notin> set ModuleDenomPrefix"
  by (simp add: ModuleDenomPrefix_def)

lemma split_factory_denom:
  "CHR ''/'' \<notin> set c \<Longrightarrow>
     split_on CHR ''/'' (factory_denom c sub) = ModuleDenomPrefix # c # split_on CHR ''/'' sub"
  by (simp add: factory_denom_def split_on_append prefix_no_slash)

lemma three_parts:
  assumes "\<not> length (split_on CHR ''/'' d) < 3" and "split_on CHR ''/'' d ! 0 = ModuleDenomPrefix"
  shows "d = factory_denom (split_on CHR ''/'' d ! 1) (join ''/'' (drop 2 (split_on CHR ''/'' d)))"
    and "CHR ''/'' \<notin> set (split_on CHR ''/'' d ! 1)"
proof -
  from assms obtain c p ps where parts: "split_on CHR ''/'' d = ModuleDenomPrefix # c # p # ps"
    by (auto simp: not_less numeral_3_eq_3 Suc_le_length_iff)
  have "d = join ''/'' (split_on CHR ''/'' d)" by simp
  with parts show "d = factory_denom (split_on CHR ''/'' d ! 1)
      (join ''/'' (drop 2 (split_on CHR ''/'' d)))"
    by (simp add: factory_denom_def)
  show "CHR ''/'' \<notin> set (split_on CHR ''/'' d ! 1)"
    by (rule split_on_parts [of _ _ d]) (simp add: parts)
qed

lemma DeconstructDenom_iff:
  "DeconstructDenom E d = Inr (c, sub) \<longleftrightarrow>
     ValidateDenom E d = None \<and>
     (\<exists>raw b. d = factory_denom raw sub \<and> CHR ''/'' \<notin> set raw \<and>
        StringToBytes E raw = Inr b \<and> BytesToString E b = Inr c)"
  (is "?l \<longleftrightarrow> ?r")
proof
  assume ?l
  then have v: "ValidateDenom E d = None"
    and len: "\<not> length (split_on CHR ''/'' d) < 3"
    and pre: "split_on CHR ''/'' d ! 0 = ModuleDenomPrefix"
    by (auto simp: DeconstructDenom_def Let_def split: option.splits if_splits)
  with \<open>?l\<close> obtain b where "StringToBytes E (split_on CHR ''/'' d ! 1) = Inr b"
    and "BytesToString E b = Inr c" and "sub = join ''/'' (drop 2 (split_on CHR ''/'' d))"
    by (auto simp: DeconstructDenom_def Let_def split: sum.splits)
  with v three_parts [OF len pre] show ?r by blast
next
  assume ?r
  then show ?l
    by (auto simp: DeconstructDenom_def Let_def split_factory_denom numeral_3_eq_3 not_less
        Suc_le_eq)
qed

lemma factory_denom_inject:
  assumes "CHR ''/'' \<notin> set c" and "CHR ''/'' \<notin> set c'"
  shows "factory_denom c sub = factory_denom c' sub' \<longleftrightarrow> c = c' \<and> sub = sub'"
proof
  assume "factory_denom c sub = factory_denom c' sub'"
  then have "c # split_on CHR ''/'' sub = c' # split_on CHR ''/'' sub'"
    using assms by (metis split_factory_denom list.inject)
  then show "c = c' \<and> sub = sub'" by (metis list.inject join_split_on)
qed simp

section \<open>Properties\<close>

text \<open>
  C22. A denom built for a creator address in the codec's own spelling is taken apart into exactly
  that creator and subdenom, whatever slashes the subdenom holds.
\<close>

theorem denom_roundtrip:
  assumes "canonical E creator" and "GetTokenDenom E creator subdenom = Inr denom"
  shows "DeconstructDenom E denom = Inr (creator, subdenom)"
  using assms by (auto simp: canonical_def GetTokenDenom_iff DeconstructDenom_iff)

theorem denom_roundtrip_witness:
  "DeconstructDenom sample_env ''factory/ann/gold/bar'' = Inr (''ann'', ''gold/bar'')"
  by (rule denom_roundtrip)
    (simp_all add: sample_canonical plain_address_def GetTokenDenom_iff factory_denom_def
      ModuleDenomPrefix_def MaxSubdenomLength_def MaxCreatorLength_def MaxHrpLength_def
      sample_denom_def)

end
