(* ===== verification/BeforeSend.thy ===== *)
theory BeforeSend
  imports Bank Denoms Json
begin

text \<open>
  The send hooks of the token factory (\<open>x/tokenfactory/keeper/before_send.go\<close>): a denom may
  have a contract that is called before every transfer, once to veto the transfer
  (\<open>block_before_send\<close>) and once to be told of it (\<open>track_before_send\<close>).  A hook call runs
  with its own gas limit and its errors and panics are caught.  The two hooks implement the
  interface \<open>BankHooks\<close> of the bank keeper.
\<close>

section \<open>Messages to the contract\<close>

record BeforeSendMsg =
  bs_From :: string
  bs_To :: string
  bs_Denom :: string
  bs_Amount :: string

text \<open>
  \<open>BlockBeforeSendSudoMsg\<close> and \<open>TrackBeforeSendSudoMsg\<close> under \<open>json.Marshal\<close>.  A struct is
  never empty for \<open>omitempty\<close>, so both tags write the member always.
\<close>

definition json_BeforeSendMsg :: "BeforeSendMsg \<Rightarrow> string" where
  "json_BeforeSendMsg m = json_object
     [(''from'', json_string (bs_From m)),
      (''to'', json_string (bs_To m)),
      (''amount'', json_object
        [(''denom'', json_string (bs_Denom m)), (''amount'', json_string (bs_Amount m))])]"

definition BlockBeforeSendSudoMsg :: "BeforeSendMsg \<Rightarrow> bytes" where
  "BlockBeforeSendSudoMsg m =
     to_bytes (json_object [(''block_before_send'', json_BeforeSendMsg m)])"

definition TrackBeforeSendSudoMsg :: "BeforeSendMsg \<Rightarrow> bytes" where
  "TrackBeforeSendSudoMsg m =
     to_bytes (json_object [(''track_before_send'', json_BeforeSendMsg m)])"

definition empty_BeforeSendMsg :: BeforeSendMsg where
  "empty_BeforeSendMsg = \<lparr>bs_From = [], bs_To = [], bs_Denom = [], bs_Amount = []\<rparr>"

section \<open>Keeper\<close>

definition BeforeSendHookGasLimit :: u64 where
  "BeforeSendHookGasLimit = 500000"

text \<open>
  A call in a cached context whose writes are dropped: only the gas meter, which the two contexts
  share, shows that it ran.
\<close>

definition in_discarded_cache :: "('x ctx, 'a) prog \<Rightarrow> ('x ctx, 'a outcome) prog" where
  "in_discarded_cache m s =
     (case m (s\<lparr>sys := (sys s)\<lparr>events := []\<rparr>\<rparr>) of
        (r, c) \<Rightarrow>
          (let t = s\<lparr>sys := (sys s)\<lparr>gasMeter := gasMeter (sys c)\<rparr>\<rparr> in
           case r of Panic p \<Rightarrow> (Panic p, t) | _ \<Rightarrow> (Ok r, t)))"

definition DenomHookAddr_Set :: "string \<Rightarrow> string \<Rightarrow> ('x ctx, unit) prog" where
  "DenomHookAddr_Set denom a = modify (\<lambda>s.
     s\<lparr>tf := (tf s)\<lparr>DenomHookAddr := (DenomHookAddr (tf s))(denom \<mapsto> a)\<rparr>\<rparr>)"

definition DenomHookAddr_Remove :: "string \<Rightarrow> ('x ctx, unit) prog" where
  "DenomHookAddr_Remove denom = modify (\<lambda>s.
     s\<lparr>tf := (tf s)\<lparr>DenomHookAddr := (DenomHookAddr (tf s))(denom := None)\<rparr>\<rparr>)"

text \<open>Of the errors of the test call only a missing contract counts.\<close>

definition check_test_call :: "'x env \<Rightarrow> bytes outcome \<Rightarrow> ('x ctx, unit) prog" where
  "check_test_call E r =
     (case r of
        Err e \<Rightarrow> if contains (ErrorString E e) ''no such contract'' then fail e else ret ()
      | _ \<Rightarrow> ret ())"

definition setBeforeSendHook :: "'x env \<Rightarrow> string \<Rightarrow> string \<Rightarrow> ('x ctx, unit) prog" where
  "setBeforeSendHook E denom cosmwasmAddress =
     andThen (of_result (DeconstructDenom E denom)) (\<lambda>_.
     if cosmwasmAddress = []
     then DenomHookAddr_Remove denom
     else
     andThen (of_result (AccAddressFromBech32 E cosmwasmAddress)) (\<lambda>cwAddr.
     andThen (in_discarded_cache
       (Sudo E cwAddr (TrackBeforeSendSudoMsg empty_BeforeSendMsg))) (\<lambda>r.
     andThen (check_test_call E r) (\<lambda>_.
     andThen (of_result (StringToBytes E cosmwasmAddress)) (\<lambda>_.
     DenomHookAddr_Set denom cosmwasmAddress)))))"

definition GetBeforeSendHook :: "'x ctx \<Rightarrow> string \<Rightarrow> string" where
  "GetBeforeSendHook s denom =
     (case DenomHookAddr (tf s) denom of None \<Rightarrow> [] | Some wasmAddr \<Rightarrow> wasmAddr)"

text \<open>
  \<open>safeSudo\<close>: the contract runs with a meter of its own and a fresh event manager; whatever the
  outcome, what it consumed is charged to the caller's meter on return.
\<close>

definition hook_failed :: "error \<Rightarrow> string \<Rightarrow> error" where
  "hook_failed e denom = Wrap e (''failed to call before send hook for denom '' @ denom)"

definition safeSudo :: "'x env \<Rightarrow> bytes \<Rightarrow> bytes \<Rightarrow> string \<Rightarrow> ('x ctx, unit) prog" where
  "safeSudo E cwAddr msgBz denom s =
     (let parent = sys s;
          gasLimit = min (GasRemaining E (gasMeter parent)) BeforeSendHookGasLimit;
          childCtx = s\<lparr>sys := parent\<lparr>gasMeter := NewGasMeter E gasLimit, events := []\<rparr>\<rparr>
      in case Sudo E cwAddr msgBz childCtx of
        (r, c) \<Rightarrow>
          (let res = (case r of Ok _ \<Rightarrow> Ok () | Err e \<Rightarrow> Err (hook_failed e denom) | Panic p \<Rightarrow> Panic p);
               emitted = (case r of Ok _ \<Rightarrow> events (sys c) | _ \<Rightarrow> []);
               back = c\<lparr>sys := (sys c)\<lparr>gasMeter := gasMeter parent, events := events parent @ emitted\<rparr>\<rparr>
           in case ConsumeGas E (GasConsumedToLimit E (gasMeter (sys c))) ''track before send gas'' back of
             (Panic p, t) \<Rightarrow> (Panic p, t)
           | (_, t) \<Rightarrow> (res, t)))"

text \<open>The body of the loop over the coins.\<close>

definition listener_coin ::
  "'x env \<Rightarrow> string \<Rightarrow> string \<Rightarrow> bool \<Rightarrow> Coin \<Rightarrow> ('x ctx, unit) prog" where
  "listener_coin E fromAddr toAddr blockBeforeSend coin =
     andThen (reads (\<lambda>s. GetBeforeSendHook s (coin_Denom coin))) (\<lambda>cosmwasmAddress.
     if cosmwasmAddress \<noteq> []
     then
     andThen (of_result (StringToBytes E cosmwasmAddress)) (\<lambda>cwAddr.
       (let msg = \<lparr>bs_From = fromAddr, bs_To = toAddr, bs_Denom = coin_Denom coin,
                   bs_Amount = IntString E (coin_Amount coin)\<rparr>;
            msgBz = (if blockBeforeSend then BlockBeforeSendSudoMsg msg
                     else TrackBeforeSendSudoMsg msg)
        in safeSudo E cwAddr msgBz (coin_Denom coin)))
     else ret ())"

text \<open>The deferred \<open>recover\<close>.\<close>

definition recover_hook :: "('x ctx, unit) prog \<Rightarrow> ('x ctx, unit) prog" where
  "recover_hook m s = (case m s of
     (Panic (ErrorOutOfGas _), t) \<Rightarrow> (Err ErrBeforeSendHookOutOfGas, t)
   | (Panic _, t) \<Rightarrow> (Err (Text ''panic in callBeforeSendListener occurred''), t)
   | (r, t) \<Rightarrow> (r, t))"

definition callBeforeSendListener ::
  "'x env \<Rightarrow> bytes \<Rightarrow> bytes \<Rightarrow> Coin list \<Rightarrow> bool \<Rightarrow> ('x ctx, unit) prog" where
  "callBeforeSendListener E from to amount blockBeforeSend = recover_hook (
     andThen (of_result (BytesToString E from)) (\<lambda>fromAddr.
     andThen (of_result (BytesToString E to)) (\<lambda>toAddr.
     for_each amount (listener_coin E fromAddr toAddr blockBeforeSend))))"

text \<open>\<open>Hooks.TrackBeforeSend\<close> drops the error, \<open>Hooks.BlockBeforeSend\<close> returns it.\<close>

definition Hooks_TrackBeforeSend ::
  "'x env \<Rightarrow> bytes \<Rightarrow> bytes \<Rightarrow> Coin list \<Rightarrow> ('x ctx, unit) prog" where
  "Hooks_TrackBeforeSend E from to amount s =
     (case callBeforeSendListener E from to amount False s of
        (Panic p, t) \<Rightarrow> (Panic p, t) | (_, t) \<Rightarrow> (Ok (), t))"

definition Hooks_BlockBeforeSend ::
  "'x env \<Rightarrow> bytes \<Rightarrow> bytes \<Rightarrow> Coin list \<Rightarrow> ('x ctx, unit) prog" where
  "Hooks_BlockBeforeSend E from to amount = callBeforeSendListener E from to amount True"

definition Hooks :: "'x env \<Rightarrow> 'x BankHooks" where
  "Hooks E = \<lparr>hook_TrackBeforeSend = Hooks_TrackBeforeSend E,
              hook_BlockBeforeSend = Hooks_BlockBeforeSend E\<rparr>"

section \<open>Errors and panics are contained\<close>

lemma recover_hook_no_panic: "fst (recover_hook m s) \<noteq> Panic p"
  by (auto simp: recover_hook_def split: prod.splits outcome.splits panic.splits)

lemma recover_hook_state: "snd (recover_hook m s) = snd (m s)"
  by (simp add: recover_hook_def split: prod.splits outcome.splits panic.splits)

lemma callBeforeSendListener_no_panic:
  "fst (callBeforeSendListener E f t a b s) \<noteq> Panic p"
  by (simp add: callBeforeSendListener_def recover_hook_no_panic)

lemma Track_Ok: "fst (Hooks_TrackBeforeSend E f t a s) = Ok ()"
proof -
  obtain r u where r: "callBeforeSendListener E f t a False s = (r, u)" by fastforce
  have "r \<noteq> Panic p" for p
    using callBeforeSendListener_no_panic [of E f t a False s p] by (simp add: r)
  then show ?thesis by (auto simp: Hooks_TrackBeforeSend_def r split: outcome.splits)
qed

lemma Track_state:
  "snd (Hooks_TrackBeforeSend E f t a s) = snd (callBeforeSendListener E f t a False s)"
  by (simp add: Hooks_TrackBeforeSend_def split: prod.splits outcome.splits)

section \<open>Denoms without a hook\<close>

lemma listener_coin_unhooked:
  "GetBeforeSendHook s (coin_Denom c) = [] \<Longrightarrow> listener_coin E f t b c s = (Ok (), s)"
  by (simp add: listener_coin_def ret_def)

lemma for_each_unhooked:
  "\<forall>c\<in>set cs. GetBeforeSendHook s (coin_Denom c) = [] \<Longrightarrow>
     for_each cs (listener_coin E f t b) s = (Ok (), s)"
  by (induction cs) (simp_all add: prog_simps listener_coin_unhooked)

lemma listener_unhooked:
  assumes "\<forall>c\<in>set cs. GetBeforeSendHook s (coin_Denom c) = []"
    and "BytesToString E f = Inr fs" and "BytesToString E t = Inr ts"
  shows "callBeforeSendListener E f t cs b s = (Ok (), s)"
  using for_each_unhooked [OF assms(1)] assms(2,3)
  by (simp add: callBeforeSendListener_def recover_hook_def)

section \<open>Gas\<close>

definition meter :: "'x ctx \<Rightarrow> gas_meter" where
  "meter s = gasMeter (sys s)"

text \<open>A contract runs on the meter it is given: it cannot change its limit.\<close>

definition sudo_meter_ok :: "'x env \<Rightarrow> bool" where
  "sudo_meter_ok E \<longleftrightarrow> (\<forall>a m s. gm_limit (meter (snd (Sudo E a m s))) = gm_limit (meter s))"

text \<open>The meter of \<open>t\<close> is that of \<open>s\<close> with at most \<open>n\<close> more consumed, and still within its limit.\<close>

definition spends :: "nat \<Rightarrow> 'x ctx \<Rightarrow> 'x ctx \<Rightarrow> bool" where
  "spends n s t \<longleftrightarrow>
     gm_limit (meter t) = gm_limit (meter s) \<and>
     unat (gm_consumed (meter s)) \<le> unat (gm_consumed (meter t)) \<and>
     unat (gm_consumed (meter t)) \<le> unat (gm_consumed (meter s)) + n \<and>
     unat (gm_consumed (meter t)) \<le> unat (gm_limit (meter s))"

lemma spends_refl: "unat (gm_consumed (meter s)) \<le> unat (gm_limit (meter s)) \<Longrightarrow> spends n s s"
  by (simp add: spends_def)

lemma spends_trans: "spends m s t \<Longrightarrow> spends n t u \<Longrightarrow> spends (m + n) s u"
  by (simp add: spends_def)

lemma unat_add_le:
  fixes a b c :: u64
  assumes "unat a + unat b \<le> unat c"
  shows "unat (a + b) = unat a + unat b"
proof -
  have "unat c < 2 ^ LENGTH(64)" by (rule unsigned_less)
  with assms show ?thesis by (simp add: unat_word_ariths)
qed

text \<open>
  The charge for a hook call fits what is left: the call gets the remaining gas at most, so the
  deferred \<open>ConsumeGas\<close> cannot run out.
\<close>

lemma safeSudo_gas:
  assumes E: "gas_ok E" "sudo_meter_ok E"
    and within: "unat (gm_consumed (meter s)) \<le> unat (gm_limit (meter s))"
  shows "spends 500000 s (snd (safeSudo E cw m d s))"
proof -
  define lim where "lim = min (GasRemaining E (meter s)) BeforeSendHookGasLimit"
  define child where "child = s\<lparr>sys := (sys s)\<lparr>gasMeter := NewGasMeter E lim, events := []\<rparr>\<rparr>"
  obtain r c where sudo: "Sudo E cw m child = (r, c)" by fastforce
  have "gm_limit (meter c) = gm_limit (meter child)"
    using E(2) sudo by (metis sudo_meter_ok_def snd_conv)
  also have "\<dots> = lim" using E(1) by (simp add: child_def meter_def gas_ok_def)
  finally have used: "GasConsumedToLimit E (meter c) \<le> lim"
    using E(1) by (simp add: gas_ok_def)
  define u where "u = GasConsumedToLimit E (meter c)"
  have "unat (GasRemaining E (meter s)) = unat (gm_limit (meter s)) - unat (gm_consumed (meter s))"
    using E(1) by (simp add: gas_ok_def)
  moreover have "u \<le> GasRemaining E (meter s)"
    using used by (simp add: u_def lim_def)
  then have "unat u \<le> unat (GasRemaining E (meter s))"
    by (simp add: word_le_nat_alt)
  ultimately have fits: "unat (gm_consumed (meter s)) + unat u \<le> unat (gm_limit (meter s))"
    using within by linarith
  have cap: "unat u \<le> 500000"
  proof -
    have "u \<le> BeforeSendHookGasLimit" using used by (simp add: u_def lim_def)
    then have "unat u \<le> unat BeforeSendHookGasLimit" by (simp add: word_le_nat_alt)
    then show ?thesis by (simp add: BeforeSendHookGasLimit_def)
  qed
  have "MeterConsume E u d' (meter s) =
      (None, (meter s)\<lparr>gm_consumed := gm_consumed (meter s) + u\<rparr>)" for d'
    using E(1) fits by (simp add: gas_ok_def)
  then have "meter (snd (safeSudo E cw m d s)) =
      (meter s)\<lparr>gm_consumed := gm_consumed (meter s) + u\<rparr>"
    using sudo
    by (simp add: safeSudo_def Let_def child_def lim_def u_def meter_def ConsumeGas_def in_sys_def)
  with fits cap show ?thesis
    by (simp add: spends_def unat_add_le)
qed

lemma listener_coin_gas:
  assumes "gas_ok E" "sudo_meter_ok E"
    and "unat (gm_consumed (meter s)) \<le> unat (gm_limit (meter s))"
  shows "spends 500000 s (snd (listener_coin E f t b c s))"
  using safeSudo_gas [OF assms] spends_refl [OF assms(3)]
  by (cases "StringToBytes E (GetBeforeSendHook s (coin_Denom c))")
    (simp_all add: listener_coin_def Let_def ret_def fail_def)

lemma for_each_gas:
  assumes "gas_ok E" "sudo_meter_ok E"
    and "unat (gm_consumed (meter s)) \<le> unat (gm_limit (meter s))"
  shows "spends (500000 * length cs) s (snd (for_each cs (listener_coin E f t b) s))"
  using assms(3)
proof (induction cs arbitrary: s)
  case Nil
  then show ?case by (simp add: ret_def spends_refl)
next
  case (Cons c cs)
  obtain r u where step: "listener_coin E f t b c s = (r, u)" by fastforce
  have one: "spends 500000 s u"
    using listener_coin_gas [OF assms(1,2) Cons.prems, of f t b c] by (simp add: step)
  then have "unat (gm_consumed (meter u)) \<le> unat (gm_limit (meter u))"
    by (simp add: spends_def)
  note more = spends_trans [OF one Cons.IH [OF this]]
  have "spends (500000 * length (c # cs)) s u"
    using one by (simp add: spends_def)
  with more step show ?case by (cases r) (simp_all add: andThen_def)
qed

section \<open>The hooks as an implementation of the bank's interface\<close>

text \<open>
  A relation that looks only at the token factory store and the other modules' stores, and along
  which contracts move, is kept by the hooks.
\<close>

locale hook_rel = state_rel R for R :: "'x ctx \<Rightarrow> 'x ctx \<Rightarrow> bool" +
  fixes E :: "'x env"
  assumes stores_only: "R s t \<Longrightarrow> tf s' = tf s \<Longrightarrow> ext (sys s') = ext (sys s) \<Longrightarrow>
      tf t' = tf t \<Longrightarrow> ext (sys t') = ext (sys t) \<Longrightarrow> R s' t'"
    and sudo_rel: "keeps R (Sudo E a m)"
begin

lemma keeps_if_stores_same:
  "(\<And>s. tf (snd (m s)) = tf s \<and> ext (sys (snd (m s))) = ext (sys s)) \<Longrightarrow> keeps R m"
  by (rule keepsI) (metis stores_only rel_refl)

lemma keeps_ConsumeGas: "keeps R (ConsumeGas E a d)"
  by (rule keeps_if_stores_same)
    (simp add: ConsumeGas_def in_sys_def split: prod.splits option.splits)

lemma keeps_emit: "keeps R (emit es)"
  by (rule keeps_if_stores_same) (simp add: emit_def modify_def)

lemma keeps_in_discarded_cache: "keeps R (in_discarded_cache m)"
  by (rule keeps_if_stores_same)
    (simp add: in_discarded_cache_def Let_def split: prod.splits outcome.splits)

lemma keeps_safeSudo: "keeps R (safeSudo E cw m d)"
proof (rule keepsI)
  fix s :: "'x ctx"
  define child where "child = s\<lparr>sys := (sys s)\<lparr>gasMeter := NewGasMeter E
      (min (GasRemaining E (gasMeter (sys s))) BeforeSendHookGasLimit), events := []\<rparr>\<rparr>"
  obtain r c where sudo: "Sudo E cw m child = (r, c)" by fastforce
  have moved: "R child c" using sudo_rel sudo by (rule keepsD)
  have stores: "tf (snd (safeSudo E cw m d s)) = tf c \<and>
      ext (sys (snd (safeSudo E cw m d s))) = ext (sys c)"
    using sudo
    by (simp add: safeSudo_def child_def Let_def ConsumeGas_def in_sys_def
        split: prod.splits option.splits outcome.splits)
  show "R s (snd (safeSudo E cw m d s))"
    by (rule stores_only [OF moved]) (simp_all add: child_def stores)
qed

lemma keeps_listener_coin: "keeps R (listener_coin E f t b c)"
  unfolding listener_coin_def Let_def
  by (intro keeps_andThen keeps_reads keeps_if keeps_ret keeps_of_result keeps_safeSudo)

lemma keeps_recover_hook: "keeps R m \<Longrightarrow> keeps R (recover_hook m)"
  by (simp add: keeps_def recover_hook_state)

lemma keeps_callBeforeSendListener: "keeps R (callBeforeSendListener E f t cs b)"
  unfolding callBeforeSendListener_def
  by (intro keeps_recover_hook keeps_andThen keeps_of_result keeps_for_each keeps_listener_coin)

lemma keeps_Hooks_Track: "keeps R (Hooks_TrackBeforeSend E f t cs)"
  using keeps_callBeforeSendListener by (simp add: keeps_def Track_state)

end

sublocale hook_rel \<subseteq> bank_hooks R "Hooks E"
  by unfold_locales
    (simp_all add: Hooks_def Hooks_BlockBeforeSend_def keeps_Hooks_Track keeps_callBeforeSendListener)

end
