(* ===== verification/TFKeeper.thy ===== *)
theory TFKeeper
  imports BeforeSend
begin

text \<open>
  The keeper of \<open>x/tokenfactory\<close>: parameters, the index of creators, denom admins, creation of
  denoms, minting and burning (\<open>keeper/params.go\<close>, \<open>creators.go\<close>, \<open>admins.go\<close>,
  \<open>createdenom.go\<close>, \<open>bankactions.go\<close>), the community pool keeper of the application
  (\<open>app/keepers/community_pool.go\<close>) and the way \<open>app/keepers/keepers.go\<close> connects them with
  the bank keeper of \<open>Bank\<close> and the hooks of \<open>BeforeSend\<close>.
\<close>

section \<open>Keepers and their wiring\<close>

record 'x CommunityPoolKeeper =
  cp_bk :: "'x BankKeeper"
  feeCollectorName :: string

definition NewCommunityPoolKeeper :: "'x BankKeeper \<Rightarrow> string \<Rightarrow> 'x CommunityPoolKeeper" where
  "NewCommunityPoolKeeper bk feeCollector = \<lparr>cp_bk = bk, feeCollectorName = feeCollector\<rparr>"

definition FundCommunityPool ::
  "'x env \<Rightarrow> 'x CommunityPoolKeeper \<Rightarrow> Coin list \<Rightarrow> bytes \<Rightarrow> ('x ctx, unit) prog" where
  "FundCommunityPool E k amount sender =
     SendCoinsFromAccountToModule E (cp_bk k) sender (feeCollectorName k) amount"

text \<open>
  The fields of the token factory keeper that are not in \<open>env\<close> or in the store.
\<close>

record 'x Keeper =
  bankKeeper :: "'x BankKeeper"
  communityPoolKeeper :: "'x CommunityPoolKeeper"
  authority :: string

definition NewKeeper :: "'x BankKeeper \<Rightarrow> 'x CommunityPoolKeeper \<Rightarrow> string \<Rightarrow> 'x Keeper" where
  "NewKeeper bk cp auth = \<lparr>bankKeeper = bk, communityPoolKeeper = cp, authority = auth\<rparr>"

text \<open>
  The part of \<open>NewAppKeeper\<close> that builds these keepers.  All of them hold a pointer to the same
  bank keeper, so the hooks that are set last are seen by every holder.
\<close>

definition wire_keepers :: "'x env \<Rightarrow> string \<Rightarrow> string \<Rightarrow> 'x Keeper outcome" where
  "wire_keepers E FeeCollectorName authorityAddr =
     (case bank_NewKeeper E authorityAddr of
        Ok bk \<Rightarrow>
          (case SetHooks bk (Hooks E) of
             Ok bk' \<Rightarrow> Ok (NewKeeper bk' (NewCommunityPoolKeeper bk' FeeCollectorName) authorityAddr)
           | Err e \<Rightarrow> Err e
           | Panic p \<Rightarrow> Panic p)
      | Err e \<Rightarrow> Err e
      | Panic p \<Rightarrow> Panic p)"

definition CreateModuleAccount :: "'x env \<Rightarrow> ('x ctx, unit) prog" where
  "CreateModuleAccount E = andThen (in_sys (GetModuleAccount E ModuleName)) (\<lambda>_. ret ())"

section \<open>Parameters\<close>

text \<open>
  The stored value is the protobuf encoding, in which a nil and an empty fee are the same and a nil
  amount is zero: reading back gives the nil slice and the zero amount.
\<close>

definition stored_coin :: "Coin \<Rightarrow> Coin" where
  "stored_coin c = (if coin_Amount c = None then c\<lparr>coin_Amount := Some 0\<rparr> else c)"

definition stored_params :: "Params \<Rightarrow> Params" where
  "stored_params p = p\<lparr>DenomCreationFee :=
     (case DenomCreationFee p of
        None \<Rightarrow> None
      | Some [] \<Rightarrow> None
      | Some cs \<Rightarrow> Some (map stored_coin cs))\<rparr>"

definition empty_params :: Params where
  "empty_params = \<lparr>DenomCreationFee = None, DenomCreationGasConsume = 0\<rparr>"

definition GetParams :: "tf_store \<Rightarrow> Params" where
  "GetParams t = (case ParamsItem t of None \<Rightarrow> empty_params | Some p \<Rightarrow> p)"

definition SetParams :: "Params \<Rightarrow> (tf_store, unit) prog" where
  "SetParams params = modify (\<lambda>t. t\<lparr>ParamsItem := Some (stored_params params)\<rparr>)"

section \<open>Creators\<close>

definition addDenomFromCreator :: "('z) sdk_scheme \<Rightarrow> string \<Rightarrow> string \<Rightarrow> (tf_store, unit) prog" where
  "addDenomFromCreator E creator denom =
     andThen (of_err (PairKeyError E creator)) (\<lambda>_.
     modify (\<lambda>t. t\<lparr>CreatorDenoms := ks_put (creator, denom) (CreatorDenoms t)\<rparr>))"

definition getDenomsFromCreator ::
  "('z) sdk_scheme \<Rightarrow> string \<Rightarrow> (tf_store, string list) prog" where
  "getDenomsFromCreator E creator t =
     (case PairKeyError E creator of
        Some e \<Rightarrow> (Panic (PanicError e), t)
      | None \<Rightarrow>
          (Ok (map snd (filter (\<lambda>key. fst key = creator) (ks_walk (CreatorDenoms t)))), t))"

section \<open>Admins\<close>

definition ErrNotFound :: error where
  "ErrNotFound = Sentinel ''collections.ErrNotFound''"

definition GetAuthorityMetadata :: "string \<Rightarrow> (tf_store, DenomAuthorityMetadata) prog" where
  "GetAuthorityMetadata denom t =
     (case DenomAuthority t denom of
        None \<Rightarrow> (Err ErrNotFound, t)
      | Some m \<Rightarrow> (Ok m, t))"

definition DenomAuthorityMetadata_Validate ::
  "('z) sdk_scheme \<Rightarrow> DenomAuthorityMetadata \<Rightarrow> error option" where
  "DenomAuthorityMetadata_Validate E metadata =
     (if Admin metadata \<noteq> []
      then (case StringToBytes E (Admin metadata) of Inl e \<Rightarrow> Some e | Inr _ \<Rightarrow> None)
      else None)"

definition setAuthorityMetadata ::
  "('z) sdk_scheme \<Rightarrow> string \<Rightarrow> DenomAuthorityMetadata \<Rightarrow> (tf_store, unit) prog" where
  "setAuthorityMetadata E denom metadata =
     andThen (of_err (DenomAuthorityMetadata_Validate E metadata)) (\<lambda>_.
     modify (\<lambda>t. t\<lparr>DenomAuthority := (DenomAuthority t)(denom \<mapsto> metadata)\<rparr>))"

definition setAdmin :: "('z) sdk_scheme \<Rightarrow> string \<Rightarrow> string \<Rightarrow> (tf_store, unit) prog" where
  "setAdmin E denom admin =
     andThen (GetAuthorityMetadata denom) (\<lambda>metadata.
     setAuthorityMetadata E denom (metadata\<lparr>Admin := admin\<rparr>))"

section \<open>Creating a denom\<close>

definition validateCreateDenom ::
  "'x env \<Rightarrow> string \<Rightarrow> string \<Rightarrow> ('x ctx, string) prog" where
  "validateCreateDenom E creatorAddr subdenom s =
     (if HasSupply E (ext (sys s)) subdenom
      then (Err (Text (''temporary error until IBC bug is sorted out, '' @
                       ''can't create subdenoms that are the same as a native denom'')), s)
      else (case GetTokenDenom E creatorAddr subdenom of
          Inl e \<Rightarrow> (Err e, s)
        | Inr denom \<Rightarrow>
            if GetDenomMetaData E (ext (sys s)) denom \<noteq> None then (Err ErrDenomExists, s)
            else (Ok denom, s)))"

definition chargeForCreateDenom ::
  "'x env \<Rightarrow> 'x Keeper \<Rightarrow> string \<Rightarrow> ('x ctx, unit) prog" where
  "chargeForCreateDenom E k creatorAddr =
     andThen (reads (\<lambda>s. GetParams (tf s))) (\<lambda>params.
     andThen (case DenomCreationFee params of
         None \<Rightarrow> ret ()
       | Some fee \<Rightarrow>
           andThen (of_result (AccAddressFromBech32 E creatorAddr)) (\<lambda>accAddr.
           FundCommunityPool E (communityPoolKeeper k) fee accAddr)) (\<lambda>_.
     if DenomCreationGasConsume params \<noteq> 0
     then ConsumeGas E (DenomCreationGasConsume params) ''consume denom creation gas''
     else ret ()))"

definition default_metadata :: "string \<Rightarrow> Metadata" where
  "default_metadata denom =
     \<lparr>Description = [], DenomUnits = [\<lparr>unit_Denom = denom, Exponent = 0, Aliases = []\<rparr>],
      Base = denom, Display = denom, Name = denom, Symbol = denom, URI = [], URIHash = []\<rparr>"

definition createDenomAfterValidation ::
  "'x env \<Rightarrow> string \<Rightarrow> string \<Rightarrow> ('x ctx, unit) prog" where
  "createDenomAfterValidation E creatorAddr denom =
     andThen (reads (\<lambda>s. GetDenomMetaData E (ext (sys s)) denom)) (\<lambda>md.
     andThen (if md = None then in_sys (SetDenomMetaData E (default_metadata denom)) else ret ()) (\<lambda>_.
     andThen (in_tf (setAuthorityMetadata E denom \<lparr>Admin = creatorAddr\<rparr>)) (\<lambda>_.
     in_tf (addDenomFromCreator E creatorAddr denom))))"

definition CreateDenom :: "'x env \<Rightarrow> 'x Keeper \<Rightarrow> string \<Rightarrow> string \<Rightarrow> ('x ctx, string) prog" where
  "CreateDenom E k creatorAddr subdenom =
     andThen (validateCreateDenom E creatorAddr subdenom) (\<lambda>denom.
     andThen (chargeForCreateDenom E k creatorAddr) (\<lambda>_.
     andThen (createDenomAfterValidation E creatorAddr denom) (\<lambda>_.
     ret denom)))"

section \<open>Minting and burning\<close>

definition mintTo :: "'x env \<Rightarrow> 'x Keeper \<Rightarrow> Coin \<Rightarrow> string \<Rightarrow> ('x ctx, unit) prog" where
  "mintTo E k amount mintToAddr =
     andThen (of_result (DeconstructDenom E (coin_Denom amount))) (\<lambda>_.
     andThen (of_outcome (NewCoins E [amount])) (\<lambda>coins.
     andThen (in_sys (MintCoins E ModuleName coins)) (\<lambda>_.
     andThen (of_result (StringToBytes E mintToAddr)) (\<lambda>addr.
     if BlockedAddr E addr
     then fail (Text (''failed to mint to blocked address: '' @ of_bytes addr))
     else
     andThen (of_outcome (NewCoins E [amount])) (\<lambda>coins.
     SendCoinsFromModuleToAccount E (bankKeeper k) ModuleName addr coins)))))"

definition burnFrom :: "'x env \<Rightarrow> 'x Keeper \<Rightarrow> Coin \<Rightarrow> string \<Rightarrow> ('x ctx, unit) prog" where
  "burnFrom E k amount burnFromAddr =
     andThen (of_result (DeconstructDenom E (coin_Denom amount))) (\<lambda>_.
     andThen (of_result (StringToBytes E burnFromAddr)) (\<lambda>addr.
     if BlockedAddr E addr
     then fail (Text (''failed to burn from blocked address: '' @ of_bytes addr))
     else
     andThen (of_outcome (NewCoins E [amount])) (\<lambda>coins.
     andThen (SendCoinsFromAccountToModule E (bankKeeper k) addr ModuleName coins) (\<lambda>_.
     andThen (of_outcome (NewCoins E [amount])) (\<lambda>coins.
     in_sys (BurnCoins E ModuleName coins))))))"

section \<open>What the keepers keep\<close>

text \<open>The keepers share one bank keeper, and it holds the hooks of the token factory.\<close>

definition wired :: "'x env \<Rightarrow> 'x Keeper \<Rightarrow> bool" where
  "wired E k \<longleftrightarrow>
     hooks (bankKeeper k) = Some (Hooks E) \<and> cp_bk (communityPoolKeeper k) = bankKeeper k"

lemma wire_keepers_wired:
  "wire_keepers E fc auth = Ok k \<Longrightarrow> wired E k \<and> authority k = auth"
  by (auto simp: wire_keepers_def bank_NewKeeper_def SetHooks_def NewKeeper_def
      NewCommunityPoolKeeper_def wired_def split: sum.splits)

text \<open>
  A relation that the hooks keep is kept by the operations of the keeper that move coins, provided
  the base bank keeper and the account keeper keep it.
\<close>

locale keeper_rel = hook_rel R E for R :: "'x ctx \<Rightarrow> 'x ctx \<Rightarrow> bool" and E :: "'x env" +
  assumes send_rel: "keeps R (in_sys (BaseSendCoins E f t cs))"
    and mint_rel: "keeps R (in_sys (MintCoins E n cs))"
    and burn_rel: "keeps R (in_sys (BurnCoins E n cs))"
    and modacc_rel: "keeps R (in_sys (GetModuleAccount E n))"
begin

lemma keeps_FundCommunityPool:
  "wired E k \<Longrightarrow> keeps R (FundCommunityPool E (communityPoolKeeper k) cs a)"
  unfolding FundCommunityPool_def wired_def
  by (auto intro: keeps_SendCoinsFromAccountToModule send_rel modacc_rel)

lemma keeps_chargeForCreateDenom:
  assumes "wired E k" shows "keeps R (chargeForCreateDenom E k creator)"
  unfolding chargeForCreateDenom_def
  by (intro keeps_andThen keeps_reads keeps_if keeps_ret keeps_ConsumeGas)
    (auto intro: keeps_ret keeps_andThen keeps_of_result keeps_FundCommunityPool assms
      split: option.splits)

lemma keeps_mintTo:
  assumes "wired E k" shows "keeps R (mintTo E k c a)"
  unfolding mintTo_def using assms
  by (intro keeps_andThen keeps_of_result keeps_of_outcome keeps_if keeps_fail mint_rel
      keeps_SendCoinsFromModuleToAccount send_rel) (simp add: wired_def)

lemma keeps_burnFrom:
  assumes "wired E k" shows "keeps R (burnFrom E k c a)"
  unfolding burnFrom_def using assms
  by (intro keeps_andThen keeps_of_result keeps_of_outcome keeps_if keeps_fail burn_rel
      keeps_SendCoinsFromAccountToModule send_rel modacc_rel) (simp add: wired_def)

end

end
