(* ===== verification/TFMsgs.thy ===== *)
theory TFMsgs
  imports TFKeeper
begin

text \<open>
  The messages of \<open>x/tokenfactory\<close> and their stateless checks (\<open>types/msgs.go\<close>,
  \<open>types/params.go\<close>, \<open>types/authority_metadata.go\<close>) and the message server
  (\<open>keeper/msg_server.go\<close>).  Each handler is one program over the whole chain state; the events
  it emits are part of that state.
\<close>

section \<open>Messages\<close>

record MsgCreateDenom =
  cd_Sender :: string
  cd_Subdenom :: string

record MsgMint =
  mint_Sender :: string
  mint_Amount :: Coin
  MintToAddress :: string

record MsgBurn =
  burn_Sender :: string
  burn_Amount :: Coin

record MsgChangeAdmin =
  ca_Sender :: string
  ca_Denom :: string
  NewAdmin :: string

record MsgSetDenomMetadata =
  sdm_Sender :: string
  sdm_Metadata :: Metadata

record MsgSetBeforeSendHook =
  sbh_Sender :: string
  sbh_Denom :: string
  CosmwasmAddress :: string

record MsgUpdateParams =
  up_Authority :: string
  up_Params :: Params

definition NewMsgCreateDenom :: "string \<Rightarrow> string \<Rightarrow> MsgCreateDenom" where
  "NewMsgCreateDenom sender subdenom = \<lparr>cd_Sender = sender, cd_Subdenom = subdenom\<rparr>"

definition NewMsgMint :: "string \<Rightarrow> Coin \<Rightarrow> MsgMint" where
  "NewMsgMint sender amount = \<lparr>mint_Sender = sender, mint_Amount = amount, MintToAddress = []\<rparr>"

definition NewMsgMintTo :: "string \<Rightarrow> Coin \<Rightarrow> string \<Rightarrow> MsgMint" where
  "NewMsgMintTo sender amount mintToAddress =
     \<lparr>mint_Sender = sender, mint_Amount = amount, MintToAddress = mintToAddress\<rparr>"

definition NewMsgBurn :: "string \<Rightarrow> Coin \<Rightarrow> MsgBurn" where
  "NewMsgBurn sender amount = \<lparr>burn_Sender = sender, burn_Amount = amount\<rparr>"

definition NewMsgChangeAdmin :: "string \<Rightarrow> string \<Rightarrow> string \<Rightarrow> MsgChangeAdmin" where
  "NewMsgChangeAdmin sender denom newAdmin =
     \<lparr>ca_Sender = sender, ca_Denom = denom, NewAdmin = newAdmin\<rparr>"

definition NewMsgSetDenomMetadata :: "string \<Rightarrow> Metadata \<Rightarrow> MsgSetDenomMetadata" where
  "NewMsgSetDenomMetadata sender md = \<lparr>sdm_Sender = sender, sdm_Metadata = md\<rparr>"

definition NewMsgSetBeforeSendHook :: "string \<Rightarrow> string \<Rightarrow> string \<Rightarrow> MsgSetBeforeSendHook" where
  "NewMsgSetBeforeSendHook sender denom cosmwasmAddress =
     \<lparr>sbh_Sender = sender, sbh_Denom = denom, CosmwasmAddress = cosmwasmAddress\<rparr>"

section \<open>Stateless checks\<close>

text \<open>The check of the sender that opens most of them.\<close>

definition check_sender :: "('z) sdk_scheme \<Rightarrow> string \<Rightarrow> error option" where
  "check_sender E sender =
     (case StringToBytes E sender of
        Inl e \<Rightarrow> Some e
      | Inr addr \<Rightarrow> if length addr = 0 then Some ErrEmptySender else None)"

definition MsgCreateDenom_Validate :: "('z) sdk_scheme \<Rightarrow> MsgCreateDenom \<Rightarrow> error option" where
  "MsgCreateDenom_Validate E m =
     (case check_sender E (cd_Sender m) of
        Some e \<Rightarrow> Some e
      | None \<Rightarrow>
          (case GetTokenDenom E (cd_Sender m) (cd_Subdenom m) of
             Inl _ \<Rightarrow> Some ErrInvalidDenom
           | Inr _ \<Rightarrow> None))"

definition invalid_coins :: "('z) sdk_scheme \<Rightarrow> Coin \<Rightarrow> error" where
  "invalid_coins E c = Wrap (Sentinel ''sdkerrors.ErrInvalidCoins'') (CoinString E c)"

definition MsgMint_Validate :: "('z) sdk_scheme \<Rightarrow> MsgMint \<Rightarrow> error option" where
  "MsgMint_Validate E m =
     (case check_sender E (mint_Sender m) of
        Some e \<Rightarrow> Some e
      | None \<Rightarrow>
          if \<not> CoinIsValid E (mint_Amount m) \<or> coin_Amount (mint_Amount m) = Some 0
          then Some (invalid_coins E (mint_Amount m))
          else None)"

definition MsgBurn_Validate :: "('z) sdk_scheme \<Rightarrow> MsgBurn \<Rightarrow> error option" where
  "MsgBurn_Validate E m =
     (case check_sender E (burn_Sender m) of
        Some e \<Rightarrow> Some e
      | None \<Rightarrow>
          if \<not> CoinIsValid E (burn_Amount m) \<or> coin_Amount (burn_Amount m) = Some 0
          then Some (invalid_coins E (burn_Amount m))
          else None)"

definition MsgChangeAdmin_Validate :: "('z) sdk_scheme \<Rightarrow> MsgChangeAdmin \<Rightarrow> error option" where
  "MsgChangeAdmin_Validate E m =
     (case StringToBytes E (ca_Sender m) of
        Inl e \<Rightarrow> Some e
      | Inr _ \<Rightarrow>
          (case (if length (NewAdmin m) > 0 then StringToBytes E (NewAdmin m) else Inr []) of
             Inl e \<Rightarrow> Some e
           | Inr _ \<Rightarrow>
               (case DeconstructDenom E (ca_Denom m) of Inl e \<Rightarrow> Some e | Inr _ \<Rightarrow> None)))"

definition MsgSetDenomMetadata_Validate ::
  "('z) sdk_scheme \<Rightarrow> MsgSetDenomMetadata \<Rightarrow> error option" where
  "MsgSetDenomMetadata_Validate E m =
     (case check_sender E (sdm_Sender m) of
        Some e \<Rightarrow> Some e
      | None \<Rightarrow>
          (case MetadataValidate E (sdm_Metadata m) of
             Some e \<Rightarrow> Some e
           | None \<Rightarrow>
               (case DeconstructDenom E (Base (sdm_Metadata m)) of
                  Inl e \<Rightarrow> Some e
                | Inr _ \<Rightarrow> None)))"

definition MsgSetBeforeSendHook_Validate ::
  "('z) sdk_scheme \<Rightarrow> MsgSetBeforeSendHook \<Rightarrow> error option" where
  "MsgSetBeforeSendHook_Validate E m =
     (case check_sender E (sbh_Sender m) of
        Some e \<Rightarrow> Some e
      | None \<Rightarrow>
          (case DeconstructDenom E (sbh_Denom m) of
             Inl _ \<Rightarrow> Some ErrInvalidDenom
           | Inr _ \<Rightarrow> None))"

text \<open>A nil fee is a list of no coins to \<open>Coins.Validate\<close>.\<close>

definition fee_coins :: "Params \<Rightarrow> Coin list" where
  "fee_coins p = (case DenomCreationFee p of None \<Rightarrow> [] | Some cs \<Rightarrow> cs)"

definition Params_Validate :: "('z) sdk_scheme \<Rightarrow> Params \<Rightarrow> error option" where
  "Params_Validate E p =
     (if CoinsValidate E (fee_coins p) \<noteq> None
      then Some (Text (''invalid denom creation fee: '' @ CoinsString E (fee_coins p)))
      else None)"

definition NewParams :: "Coin list option \<Rightarrow> u64 \<Rightarrow> Params" where
  "NewParams fee gas = \<lparr>DenomCreationFee = fee, DenomCreationGasConsume = gas\<rparr>"

definition DefaultParams :: "('z) sdk_scheme \<Rightarrow> Params outcome" where
  "DefaultParams E = (case NewCoins E [] of
     Ok cs \<Rightarrow> Ok \<lparr>DenomCreationFee = Some cs, DenomCreationGasConsume = 1000000\<rparr>
   | Err e \<Rightarrow> Err e
   | Panic p \<Rightarrow> Panic p)"

section \<open>Handlers\<close>

text \<open>The test that the sender is the admin of the denom, common to five handlers.\<close>

definition check_admin :: "string \<Rightarrow> string \<Rightarrow> ('x ctx, unit) prog" where
  "check_admin denom sender =
     andThen (in_tf (GetAuthorityMetadata denom)) (\<lambda>authorityMetadata.
     if sender \<noteq> Admin authorityMetadata then fail ErrUnauthorized else ret ())"

definition server_CreateDenom ::
  "'x env \<Rightarrow> 'x Keeper \<Rightarrow> MsgCreateDenom \<Rightarrow> ('x ctx, string) prog" where
  "server_CreateDenom E k msg =
     andThen (of_err (MsgCreateDenom_Validate E msg)) (\<lambda>_.
     andThen (CreateDenom E k (cd_Sender msg) (cd_Subdenom msg)) (\<lambda>denom.
     andThen (emit [NewEvent ''create_denom''
       [(''creator'', cd_Sender msg), (''new_token_denom'', denom)]]) (\<lambda>_.
     ret denom)))"

definition server_Mint :: "'x env \<Rightarrow> 'x Keeper \<Rightarrow> MsgMint \<Rightarrow> ('x ctx, unit) prog" where
  "server_Mint E k msg =
     andThen (of_err (MsgMint_Validate E msg)) (\<lambda>_.
     andThen (reads (\<lambda>s. GetDenomMetaData E (ext (sys s)) (coin_Denom (mint_Amount msg)))) (\<lambda>md.
     if md = None
     then fail (Wrap ErrDenomDoesNotExist (''denom: '' @ coin_Denom (mint_Amount msg)))
     else
     andThen (check_admin (coin_Denom (mint_Amount msg)) (mint_Sender msg)) (\<lambda>_.
     let to = (if MintToAddress msg = [] then mint_Sender msg else MintToAddress msg) in
     andThen (mintTo E k (mint_Amount msg) to) (\<lambda>_.
     emit [NewEvent ''tf_mint''
       [(''mint_to_address'', to), (''amount'', CoinString E (mint_Amount msg))]]))))"

definition server_Burn :: "'x env \<Rightarrow> 'x Keeper \<Rightarrow> MsgBurn \<Rightarrow> ('x ctx, unit) prog" where
  "server_Burn E k msg =
     andThen (of_err (MsgBurn_Validate E msg)) (\<lambda>_.
     andThen (check_admin (coin_Denom (burn_Amount msg)) (burn_Sender msg)) (\<lambda>_.
     andThen (of_result (StringToBytes E (burn_Sender msg))) (\<lambda>acc.
     andThen (reads (\<lambda>s. GetAccount E acc (ext (sys s)))) (\<lambda>accountI.
     if accountI = Some ModuleAccount then fail ErrBurnFromModuleAccount
     else
     andThen (burnFrom E k (burn_Amount msg) (burn_Sender msg)) (\<lambda>_.
     emit [NewEvent ''tf_burn''
       [(''burn_from_address'', burn_Sender msg), (''amount'', CoinString E (burn_Amount msg))]])))))"

definition server_ChangeAdmin :: "'x env \<Rightarrow> MsgChangeAdmin \<Rightarrow> ('x ctx, unit) prog" where
  "server_ChangeAdmin E msg =
     andThen (of_err (MsgChangeAdmin_Validate E msg)) (\<lambda>_.
     andThen (check_admin (ca_Denom msg) (ca_Sender msg)) (\<lambda>_.
     andThen (in_tf (setAdmin E (ca_Denom msg) (NewAdmin msg))) (\<lambda>_.
     emit [NewEvent ''change_admin''
       [(''denom'', ca_Denom msg), (''new_admin'', NewAdmin msg)]])))"

definition server_SetDenomMetadata :: "'x env \<Rightarrow> MsgSetDenomMetadata \<Rightarrow> ('x ctx, unit) prog" where
  "server_SetDenomMetadata E msg =
     andThen (of_err (MsgSetDenomMetadata_Validate E msg)) (\<lambda>_.
     andThen (of_err (MetadataValidate E (sdm_Metadata msg))) (\<lambda>_.
     andThen (check_admin (Base (sdm_Metadata msg)) (sdm_Sender msg)) (\<lambda>_.
     andThen (in_sys (SetDenomMetaData E (sdm_Metadata msg))) (\<lambda>_.
     emit [NewEvent ''set_denom_metadata''
       [(''denom'', Base (sdm_Metadata msg)),
        (''denom_metadata'', MetadataString E (sdm_Metadata msg))]]))))"

definition server_SetBeforeSendHook ::
  "'x env \<Rightarrow> MsgSetBeforeSendHook \<Rightarrow> ('x ctx, unit) prog" where
  "server_SetBeforeSendHook E msg =
     andThen (of_err (MsgSetBeforeSendHook_Validate E msg)) (\<lambda>_.
     andThen (check_admin (sbh_Denom msg) (sbh_Sender msg)) (\<lambda>_.
     andThen (setBeforeSendHook E (sbh_Denom msg) (CosmwasmAddress msg)) (\<lambda>_.
     emit [NewEvent ''set_before_send_hook''
       [(''denom'', sbh_Denom msg), (''before_send_hook_address'', CosmwasmAddress msg)]])))"

definition server_UpdateParams ::
  "'x env \<Rightarrow> 'x Keeper \<Rightarrow> MsgUpdateParams \<Rightarrow> ('x ctx, unit) prog" where
  "server_UpdateParams E k req =
     (if authority k \<noteq> up_Authority req
      then fail (bad_signer (authority k) (up_Authority req))
      else
      andThen (of_err (Params_Validate E (up_Params req))) (\<lambda>_.
      in_tf (SetParams (up_Params req))))"

end
