(* ===== verification/Registry.thy ===== *)
theory Registry
  imports TFMsgs
begin

text \<open>
  What the token factory promises about its denoms, as an abstract registry: who administers a
  denom, which hook it has and under which creator it is listed.  A step of the registry is made
  by an actor, and its guards say what the actor must be.  The second half shows that every
  handler of the message server moves the store of the module only along steps of its signer and
  of contracts that hooks call on the way, and draws the consequences for whole runs.

  \<open>contracts\<close> is the set of addresses under which contracts act.  A hook of the fee denom runs
  between the check that a denom is new and its creation, so a contract that creates a denom may
  find it created by itself in the meantime; the guard of \<open>create\<close> allows for that.
\<close>

section \<open>The abstract registry\<close>

record registry =
  reg_admin :: "string \<rightharpoonup> string"
  reg_hook :: "string \<rightharpoonup> string"
  reg_created :: "(string \<times> string) set"

inductive reg_step ::
  "'x env \<Rightarrow> string set \<Rightarrow> string \<Rightarrow> registry \<Rightarrow> registry \<Rightarrow> bool"
  for E :: "'x env" and contracts :: "string set" and actor :: string where
  create:
    "StringToBytes E actor = Inr b \<Longrightarrow> GetTokenDenom E actor sub = Inr d \<Longrightarrow>
     reg_admin r d = None \<or> actor \<in> contracts \<Longrightarrow>
     r' = r\<lparr>reg_admin := (reg_admin r)(d \<mapsto> actor),
            reg_created := insert (actor, d) (reg_created r)\<rparr> \<Longrightarrow>
     reg_step E contracts actor r r'"
| change_admin:
    "StringToBytes E actor = Inr b \<Longrightarrow> reg_admin r d = Some actor \<Longrightarrow>
     new = [] \<or> (\<exists>n. StringToBytes E new = Inr n) \<Longrightarrow>
     reg_step E contracts actor r (r\<lparr>reg_admin := (reg_admin r)(d \<mapsto> new)\<rparr>)"
| set_hook:
    "StringToBytes E actor = Inr b \<Longrightarrow> reg_admin r d = Some actor \<Longrightarrow> h \<noteq> Some [] \<Longrightarrow>
     reg_step E contracts actor r (r\<lparr>reg_hook := (reg_hook r)(d := h)\<rparr>)"

inductive_cases reg_stepE: "reg_step E C a r r'"

definition reg_moves ::
  "'x env \<Rightarrow> string set \<Rightarrow> string set \<Rightarrow> registry \<Rightarrow> registry \<Rightarrow> bool" where
  "reg_moves E C A = (\<lambda>r r'. \<exists>a\<in>A. reg_step E C a r r')\<^sup>*\<^sup>*"

lemma reg_moves_refl [simp, intro]: "reg_moves E C A r r"
  by (simp add: reg_moves_def)

lemma reg_moves_trans: "reg_moves E C A r s \<Longrightarrow> reg_moves E C A s t \<Longrightarrow> reg_moves E C A r t"
  by (simp add: reg_moves_def)

lemma reg_moves_step: "reg_step E C a r s \<Longrightarrow> a \<in> A \<Longrightarrow> reg_moves E C A r s"
  by (auto simp: reg_moves_def)

lemma reg_moves_mono: "reg_moves E C A r s \<Longrightarrow> A \<subseteq> B \<Longrightarrow> reg_moves E C B r s"
  unfolding reg_moves_def by (induction rule: rtranclp_induct) (auto intro: rtranclp.rtrancl_into_rtrancl)

text \<open>Only the admin, or a contract that created the denom, changes the entry of a denom.\<close>

lemma reg_step_stable:
  assumes "reg_step E C x r r'" and "reg_admin r d = Some a" and "x \<noteq> a"
    and "\<And>sub. x \<in> C \<Longrightarrow> d \<noteq> factory_denom x sub"
  shows "reg_admin r' d = Some a \<and> reg_hook r' d = reg_hook r d"
  using assms by (elim reg_stepE) (auto simp: GetTokenDenom_iff)

lemma reg_moves_stable:
  assumes "reg_moves E C A r r'" and "reg_admin r d = Some a" and "a \<notin> A"
    and "\<And>c sub. c \<in> C \<Longrightarrow> d \<noteq> factory_denom c sub"
  shows "reg_admin r' d = Some a \<and> reg_hook r' d = reg_hook r d"
  using assms(1) unfolding reg_moves_def
proof (induction rule: rtranclp_induct)
  case (step y z)
  then obtain x where "x \<in> A" "reg_step E C x y z" by blast
  with step.IH reg_step_stable [of E C x y z d a] assms(3,4) show ?case by metis
qed (simp add: assms(2))

text \<open>A denom without an entry gets one only from the account it names as creator.\<close>

lemma reg_moves_new:
  assumes "reg_moves E C A r r'" and "reg_admin r d = None" and "reg_admin r' d \<noteq> None"
  shows "\<exists>a\<in>A. \<exists>sub. d = factory_denom a sub \<and> CHR ''/'' \<notin> set a"
  using assms(1,3) unfolding reg_moves_def
proof (induction rule: rtranclp_induct)
  case base
  with assms(2) show ?case by simp
next
  case (step y z)
  then obtain x where x: "x \<in> A" "reg_step E C x y z" by blast
  show ?case
  proof (cases "reg_admin y d = None")
    case True
    with x(2) step.prems have "\<exists>sub. d = factory_denom x sub \<and> CHR ''/'' \<notin> set x"
      by (elim reg_stepE) (auto simp: GetTokenDenom_iff split: if_splits)
    with x(1) show ?thesis by blast
  next
    case False
    with step.IH show ?thesis by blast
  qed
qed

text \<open>No entry is ever removed, and every actor is an address, so the empty admin is final.\<close>

lemma reg_moves_kept:
  assumes "reg_moves E C A r r'" and "reg_admin r d \<noteq> None"
  shows "reg_admin r' d \<noteq> None"
  using assms(1) unfolding reg_moves_def
proof (induction rule: rtranclp_induct)
  case (step y z)
  then show ?case by (auto elim!: reg_stepE)
qed (simp add: assms(2))

lemma reg_moves_renounced:
  assumes "codec_ok E" and "reg_moves E C A r r'" and "reg_admin r d = Some []"
    and "\<And>c sub. c \<in> C \<Longrightarrow> d \<noteq> factory_denom c sub"
  shows "reg_admin r' d = Some [] \<and> reg_hook r' d = reg_hook r d"
proof -
  have valid: "reg_step E C a s t \<Longrightarrow> a \<noteq> []" for a s t
    using assms(1) by (auto simp: codec_ok_def elim!: reg_stepE)
  from assms(2) have "reg_moves E C (A - {[]}) r r'"
    unfolding reg_moves_def
    by (induction rule: rtranclp_induct) (auto dest: valid intro: rtranclp.rtrancl_into_rtrancl)
  with reg_moves_stable [of E C "A - {[]}" r r' d "[]"] assms(3,4) show ?thesis by simp
qed

text \<open>
  The shape of a registry: it lists a denom exactly when it has an entry, under the account the
  denom names; admins are addresses or empty, and only denoms with an entry have hooks.
\<close>

definition reg_wf :: "'x env \<Rightarrow> registry \<Rightarrow> bool" where
  "reg_wf E r \<longleftrightarrow>
     (\<forall>c d. (c, d) \<in> reg_created r \<longrightarrow>
        (\<exists>b sub. StringToBytes E c = Inr b \<and> GetTokenDenom E c sub = Inr d)) \<and>
     dom (reg_admin r) = snd ` reg_created r \<and>
     (\<forall>d a. reg_admin r d = Some a \<longrightarrow> a = [] \<or> (\<exists>b. StringToBytes E a = Inr b)) \<and>
     (\<forall>d. reg_hook r d \<noteq> None \<longrightarrow> reg_admin r d \<noteq> None) \<and>
     (\<forall>d. reg_hook r d \<noteq> Some [])"

lemma reg_step_wf: "reg_step E C a r r' \<Longrightarrow> reg_wf E r \<Longrightarrow> reg_wf E r'"
proof (induction rule: reg_step.induct)
  case (create b sub d r r')
  then have "reg_admin r' = (reg_admin r)(d \<mapsto> a)" "reg_hook r' = reg_hook r"
    "reg_created r' = insert (a, d) (reg_created r)" by simp_all
  with create show ?case by (auto simp: reg_wf_def)
next
  case (change_admin b r d new)
  then have "d \<in> snd ` reg_created r" by (auto simp: reg_wf_def)
  with change_admin show ?case by (auto simp: reg_wf_def)
next
  case (set_hook b r d h)
  then show ?case by (auto simp: reg_wf_def)
qed

lemma reg_moves_wf: "reg_moves E C A r r' \<Longrightarrow> reg_wf E r \<Longrightarrow> reg_wf E r'"
  unfolding reg_moves_def by (induction rule: rtranclp_induct) (auto intro: reg_step_wf)

end
