(* ===== verification/Authority.thy ===== *)
theory Authority
  imports Registry
begin

text \<open>
  The refinement: \<open>reg_abs\<close> reads the abstract registry off the store of the module, and each
  handler of the message server moves it along steps of its signer and of contracts.  The
  invariant \<open>tf_inv\<close> says that a denom with an admin has bank metadata, which is what
  \<open>validateCreateDenom\<close> tests, and that the index of creators is a key set.
\<close>

section \<open>The relation the handlers keep\<close>

definition reg_abs :: "'x ctx \<Rightarrow> registry" where
  "reg_abs s =
     \<lparr>reg_admin = (\<lambda>d. map_option Admin (DenomAuthority (tf s) d)),
      reg_hook = DenomHookAddr (tf s),
      reg_created = set (ks_walk (CreatorDenoms (tf s)))\<rparr>"

definition tf_inv :: "'x env \<Rightarrow> 'x ctx \<Rightarrow> bool" where
  "tf_inv E s \<longleftrightarrow>
     (\<forall>d. DenomAuthority (tf s) d \<noteq> None \<longrightarrow> GetDenomMetaData E (ext (sys s)) d \<noteq> None) \<and>
     ks_ok (CreatorDenoms (tf s))"

definition tf_moves :: "'x env \<Rightarrow> string set \<Rightarrow> string set \<Rightarrow> 'x ctx \<Rightarrow> 'x ctx \<Rightarrow> bool" where
  "tf_moves E C A s t \<longleftrightarrow>
     (tf_inv E s \<longrightarrow> tf_inv E t \<and> reg_moves E C A (reg_abs s) (reg_abs t))"

text \<open>
  A contract acts on the token factory by messages it signs itself, with the addresses of \<open>C\<close>.
\<close>

definition contracts_ok :: "'x env \<Rightarrow> string set \<Rightarrow> bool" where
  "contracts_ok E C \<longleftrightarrow> (\<forall>a m. keeps (tf_moves E C C) (Sudo E a m))"

definition env_ok :: "'x env \<Rightarrow> string set \<Rightarrow> bool" where
  "env_ok E C \<longleftrightarrow> codec_ok E \<and> metadata_ok E \<and> contracts_ok E C"

definition moves_by :: "'x env \<Rightarrow> string set \<Rightarrow> string set \<Rightarrow> 'x ctx \<Rightarrow> 'x ctx \<Rightarrow> bool" where
  "moves_by E C A s t \<longleftrightarrow> (env_ok E C \<longrightarrow> tf_moves E C (A \<union> C) s t)"

lemma tf_moves_mono: "tf_moves E C A s t \<Longrightarrow> A \<subseteq> B \<Longrightarrow> tf_moves E C B s t"
  by (auto simp: tf_moves_def intro: reg_moves_mono)

lemma moves_by_mono: "keeps (moves_by E C A) m \<Longrightarrow> A \<subseteq> B \<Longrightarrow> keeps (moves_by E C B) m"
  by (force simp: keeps_def moves_by_def intro: tf_moves_mono)

lemma tf_moves_refl: "tf_moves E C A s s"
  by (simp add: tf_moves_def)

lemma tf_moves_trans: "tf_moves E C A s t \<Longrightarrow> tf_moves E C A t u \<Longrightarrow> tf_moves E C A s u"
  by (auto simp: tf_moves_def intro: reg_moves_trans)

lemma keeps_moves_in_sys:
  assumes "metadata_ok E \<Longrightarrow> keeps (meta_le E) m"
  shows "keeps (moves_by E C A) (in_sys m)"
proof (rule keepsI)
  fix s :: "'a ctx"
  obtain r y where m: "m (sys s) = (r, y)" by fastforce
  show "moves_by E C A s (snd (in_sys m s))"
  proof (unfold moves_by_def, intro impI)
    assume "env_ok E C"
    with assms have "meta_le E (sys s) y"
      using m by (auto simp: env_ok_def dest: keepsD)
    then show "tf_moves E C (A \<union> C) s (snd (in_sys m s))"
      by (auto simp: tf_moves_def tf_inv_def meta_le_def reg_abs_def in_sys_def m)
  qed
qed

interpretation reg: keeper_rel "moves_by E C A" E
  for E :: "'x env" and C A :: "string set"
proof unfold_locales
  show "moves_by E C A s s" for s :: "'x ctx"
    by (simp add: moves_by_def tf_moves_refl)
  show "moves_by E C A s u" if "moves_by E C A s t" "moves_by E C A t u" for s t u :: "'x ctx"
    using that by (auto simp: moves_by_def intro: tf_moves_trans)
  show "moves_by E C A s' t'"
    if "moves_by E C A s t" "tf s' = tf s" "ext (sys s') = ext (sys s)" "tf t' = tf t"
      "ext (sys t') = ext (sys t)" for s t s' t' :: "'x ctx"
    using that by (simp add: moves_by_def tf_moves_def tf_inv_def reg_abs_def)
  show "keeps (moves_by E C A) (Sudo E a m)" for a m
    by (auto simp: keeps_def moves_by_def env_ok_def contracts_ok_def intro: tf_moves_mono)
qed (auto intro!: keeps_moves_in_sys simp: metadata_ok_def)

section \<open>Handlers\<close>

lemma check_admin_eq:
  "check_admin d a s = (case DenomAuthority (tf s) d of
     None \<Rightarrow> (Err ErrNotFound, s)
   | Some m \<Rightarrow> if Admin m = a then (Ok (), s) else (Err ErrUnauthorized, s))"
  by (simp add: check_admin_def in_tf_def GetAuthorityMetadata_def andThen_def prog_simps
      split: option.splits)

lemma keeps_check_admin_only: "keeps (moves_by E C A) (check_admin d a)"
  by (auto simp: keeps_def check_admin_eq reg.rel_refl split: option.splits)

lemma keeps_check_admin:
  assumes "\<And>s. reg_admin (reg_abs s) d = Some a \<Longrightarrow> moves_by E C A s (snd (f () s))"
  shows "keeps (moves_by E C A) (andThen (check_admin d a) f)"
proof (rule keepsI)
  fix s :: "'a ctx"
  show "moves_by E C A s (snd (andThen (check_admin d a) f s))"
    using assms [of s]
    by (auto simp: andThen_def check_admin_eq reg_abs_def reg.rel_refl split: option.splits)
qed

text \<open>The three writes to the store, as steps of the registry.\<close>

lemma moves_change_admin:
  assumes "reg_admin (reg_abs s) d = Some a" and "StringToBytes E a = Inr b" and "a \<in> A"
    and "new = [] \<or> (\<exists>n. StringToBytes E new = Inr n)"
    and "Admin md = new"
  shows "moves_by E C A s
    (s\<lparr>tf := (tf s)\<lparr>DenomAuthority := (DenomAuthority (tf s))(d \<mapsto> md)\<rparr>\<rparr>)" (is "moves_by E C A s ?t")
proof -
  have "reg_abs ?t = (reg_abs s)\<lparr>reg_admin := (reg_admin (reg_abs s))(d \<mapsto> new)\<rparr>"
    using assms(5) by (auto simp: reg_abs_def fun_eq_iff)
  with reg_step.change_admin [of E a b "reg_abs s" d new C] assms
  have "reg_moves E C (A \<union> C) (reg_abs s) (reg_abs ?t)"
    by (auto intro: reg_moves_step)
  with assms(1) show ?thesis
    by (auto simp: moves_by_def tf_moves_def tf_inv_def reg_abs_def)
qed

lemma moves_set_hook:
  assumes "reg_admin (reg_abs s) d = Some a" and "StringToBytes E a = Inr b" and "a \<in> A"
    and "h \<noteq> Some []"
  shows "moves_by E C A s
    (s\<lparr>tf := (tf s)\<lparr>DenomHookAddr := (DenomHookAddr (tf s))(d := h)\<rparr>\<rparr>)" (is "moves_by E C A s ?t")
proof -
  have "reg_abs ?t = (reg_abs s)\<lparr>reg_hook := (reg_hook (reg_abs s))(d := h)\<rparr>"
    by (simp add: reg_abs_def)
  with reg_step.set_hook [of E a b "reg_abs s" d h C] assms
  have "reg_moves E C (A \<union> C) (reg_abs s) (reg_abs ?t)"
    by (auto intro: reg_moves_step)
  then show ?thesis
    by (auto simp: moves_by_def tf_moves_def tf_inv_def)
qed

lemma check_sender_valid: "check_sender E a = None \<Longrightarrow> \<exists>b. StringToBytes E a = Inr b"
  by (simp add: check_sender_def split: sum.splits)

lemma keeps_ChangeAdmin: "keeps (moves_by E C {ca_Sender msg}) (server_ChangeAdmin E msg)"
  unfolding server_ChangeAdmin_def
proof (intro reg.keeps_of_err_then keeps_check_admin)
  fix s :: "'a ctx"
  assume valid: "MsgChangeAdmin_Validate E msg = None"
    and admin: "reg_admin (reg_abs s) (ca_Denom msg) = Some (ca_Sender msg)"
  from valid obtain b where b: "StringToBytes E (ca_Sender msg) = Inr b"
    by (auto simp: MsgChangeAdmin_Validate_def split: sum.splits)
  from admin obtain md where md: "DenomAuthority (tf s) (ca_Denom msg) = Some md"
    by (auto simp: reg_abs_def)
  have "moves_by E C {ca_Sender msg} s (snd (in_tf (setAdmin E (ca_Denom msg) (NewAdmin msg)) s))"
  proof (cases "DenomAuthorityMetadata_Validate E (md\<lparr>Admin := NewAdmin msg\<rparr>)")
    case None
    then have "NewAdmin msg = [] \<or> (\<exists>n. StringToBytes E (NewAdmin msg) = Inr n)"
      by (auto simp: DenomAuthorityMetadata_Validate_def split: if_splits sum.splits)
    with None moves_change_admin [OF admin b, of "{ca_Sender msg}" "NewAdmin msg"
        "md\<lparr>Admin := NewAdmin msg\<rparr>" C]
    show ?thesis
      by (simp add: in_tf_def setAdmin_def setAuthorityMetadata_def GetAuthorityMetadata_def md
          andThen_def prog_simps)
  next
    case (Some e)
    then show ?thesis
      by (simp add: in_tf_def setAdmin_def setAuthorityMetadata_def GetAuthorityMetadata_def md
          andThen_def prog_simps reg.rel_refl)
  qed
  then show "moves_by E C {ca_Sender msg} s (snd (andThen (in_tf (setAdmin E (ca_Denom msg)
      (NewAdmin msg))) (\<lambda>_. emit es) s))" for es
    by (rule reg.andThen_rel) (rule reg.keeps_emit)
qed

lemma setBeforeSendHook_state:
  assumes "t = snd (setBeforeSendHook E d a s)"
  shows "ext (sys t) = ext (sys s) \<and>
    (tf t = tf s \<or> tf t = (tf s)\<lparr>DenomHookAddr :=
      (DenomHookAddr (tf s))(d := (if a = [] then None else Some a))\<rparr>)"
  unfolding assms
  by (auto simp: setBeforeSendHook_def andThen_def prog_simps DenomHookAddr_Set_def
      DenomHookAddr_Remove_def check_test_call_def in_discarded_cache_def of_result_def Let_def
      split: sum.splits prod.splits outcome.splits)

lemma keeps_SetBeforeSendHook:
  "keeps (moves_by E C {sbh_Sender msg}) (server_SetBeforeSendHook E msg)"
  unfolding server_SetBeforeSendHook_def
proof (intro reg.keeps_of_err_then keeps_check_admin reg.andThen_rel reg.keeps_emit)
  fix s :: "'a ctx"
  assume "MsgSetBeforeSendHook_Validate E msg = None"
    and admin: "reg_admin (reg_abs s) (sbh_Denom msg) = Some (sbh_Sender msg)"
  then obtain b where b: "StringToBytes E (sbh_Sender msg) = Inr b"
    using check_sender_valid [of E "sbh_Sender msg"]
    by (auto simp: MsgSetBeforeSendHook_Validate_def split: option.splits)
  define h where "h = (if CosmwasmAddress msg = [] then None else Some (CosmwasmAddress msg))"
  define t where "t = snd (setBeforeSendHook E (sbh_Denom msg) (CosmwasmAddress msg) s)"
  have "moves_by E C {sbh_Sender msg} s
      (s\<lparr>tf := (tf s)\<lparr>DenomHookAddr := (DenomHookAddr (tf s))(sbh_Denom msg := h)\<rparr>\<rparr>)"
    by (rule moves_set_hook [OF admin b]) (simp_all add: h_def)
  moreover have "ext (sys t) = ext (sys s) \<and> (tf t = tf s \<or>
      tf t = (tf s)\<lparr>DenomHookAddr := (DenomHookAddr (tf s))(sbh_Denom msg := h)\<rparr>)"
    unfolding h_def by (rule setBeforeSendHook_state) (simp add: t_def)
  ultimately have "moves_by E C {sbh_Sender msg} s t"
    using reg.stores_only [of E C "{sbh_Sender msg}" s _ s t] reg.rel_refl [of E C _ s] by fastforce
  then show "moves_by E C {sbh_Sender msg} s
      (snd (setBeforeSendHook E (sbh_Denom msg) (CosmwasmAddress msg) s))"
    by (simp add: t_def)
qed

lemma keeps_Mint:
  assumes "wired E k" shows "keeps (moves_by E C A) (server_Mint E k msg)"
  unfolding server_Mint_def Let_def
  by (intro reg.keeps_andThen reg.keeps_of_err reg.keeps_reads reg.keeps_if reg.keeps_fail
      reg.keeps_mintTo reg.keeps_emit assms keeps_check_admin_only)

lemma keeps_Burn:
  assumes "wired E k" shows "keeps (moves_by E C A) (server_Burn E k msg)"
  unfolding server_Burn_def
  by (intro reg.keeps_andThen reg.keeps_of_err keeps_check_admin_only reg.keeps_of_result
      reg.keeps_reads reg.keeps_if reg.keeps_fail reg.keeps_burnFrom reg.keeps_emit assms)

lemma keeps_SetMetadata: "keeps (moves_by E C A) (in_sys (SetDenomMetaData E md))"
proof (rule keeps_moves_in_sys)
  assume "metadata_ok E"
  then have "GetDenomMetaData E (ext (snd (SetDenomMetaData E md y))) d =
      (if d = Base md then Some md else GetDenomMetaData E (ext y) d)" for y d
    by (simp add: metadata_ok_def)
  then show "keeps (meta_le E) (SetDenomMetaData E md)"
    by (simp add: keeps_def meta_le_def)
qed

lemma keeps_SetDenomMetadata: "keeps (moves_by E C A) (server_SetDenomMetadata E msg)"
  unfolding server_SetDenomMetadata_def
  by (intro reg.keeps_andThen reg.keeps_of_err keeps_check_admin_only keeps_SetMetadata
      reg.keeps_emit)

lemma keeps_UpdateParams: "keeps (moves_by E C A) (server_UpdateParams E k msg)"
proof -
  have "keeps (moves_by E C A) (in_tf (SetParams p))" for p
    by (simp add: keeps_def in_tf_def SetParams_def modify_def moves_by_def tf_moves_def
        tf_inv_def reg_abs_def)
  then show ?thesis
    unfolding server_UpdateParams_def
    by (intro reg.keeps_andThen reg.keeps_of_err reg.keeps_if reg.keeps_fail)
qed

text \<open>The write that completes a creation, and the whole of \<open>CreateDenom\<close>.\<close>

lemma moves_create:
  assumes "reg_admin (reg_abs s) d = None \<or> a \<in> C" and "StringToBytes E a = Inr b"
    and "GetTokenDenom E a sub = Inr d"
    and "GetDenomMetaData E (ext (sys s)) d \<noteq> None"
  shows "moves_by E C {a} s
    (s\<lparr>tf := (tf s)\<lparr>DenomAuthority := (DenomAuthority (tf s))(d \<mapsto> \<lparr>Admin = a\<rparr>),
       CreatorDenoms := ks_put (a, d) (CreatorDenoms (tf s))\<rparr>\<rparr>)" (is "moves_by E C {a} s ?t")
proof -
  have "reg_abs ?t = (reg_abs s)\<lparr>reg_admin := (reg_admin (reg_abs s))(d \<mapsto> a),
      reg_created := insert (a, d) (reg_created (reg_abs s))\<rparr>"
    by (auto simp: reg_abs_def fun_eq_iff ks_walk_def)
  with reg_step.create [of E a b sub d "reg_abs s" C] assms
  have "reg_moves E C ({a} \<union> C) (reg_abs s) (reg_abs ?t)"
    by (auto intro: reg_moves_step)
  with assms(4) show ?thesis
    by (auto simp: moves_by_def tf_moves_def tf_inv_def ks.invar_put)
qed

lemma in_sys_state: "snd (in_sys m s) = s\<lparr>sys := snd (m (sys s))\<rparr>"
  by (simp add: in_sys_def split: prod.splits)

lemma in_sys_result: "fst (in_sys m s) = fst (m (sys s))"
  by (simp add: in_sys_def split: prod.splits)

lemma createDenomAfterValidation_metadata:
  assumes "metadata_ok E"
  obtains y where
    "GetDenomMetaData E (ext y) d \<noteq> None"
    "createDenomAfterValidation E a d s =
       andThen (in_tf (setAuthorityMetadata E d \<lparr>Admin = a\<rparr>)) (\<lambda>_.
         in_tf (addDenomFromCreator E a d)) (s\<lparr>sys := y\<rparr>)"
    "moves_by E C A s (s\<lparr>sys := y\<rparr>)"
proof (cases "GetDenomMetaData E (ext (sys s)) d")
  case None
  define y where "y = snd (SetDenomMetaData E (default_metadata d) (sys s))"
  have ok: "in_sys (SetDenomMetaData E (default_metadata d)) s = (Ok (), s\<lparr>sys := y\<rparr>)"
    using assms by (simp add: y_def in_sys_def metadata_ok_def split: prod.splits) (metis fst_conv)
  moreover have "GetDenomMetaData E (ext y) d \<noteq> None"
    using assms by (simp add: y_def metadata_ok_def default_metadata_def)
  moreover have "moves_by E C A s (s\<lparr>sys := y\<rparr>)"
    using keepsD [OF keeps_SetMetadata ok] .
  ultimately show ?thesis
    using None
    by (intro that [of y])
      (simp_all add: createDenomAfterValidation_def prog_simps reg.rel_refl)
next
  case (Some md)
  then show ?thesis
    by (intro that [of "sys s"])
      (simp_all add: createDenomAfterValidation_def prog_simps reg.rel_refl)
qed

lemma moves_createDenomAfterValidation:
  assumes "reg_admin (reg_abs s) d = None \<or> a \<in> C" and a: "StringToBytes E a = Inr b"
    and "GetTokenDenom E a sub = Inr d"
  shows "moves_by E C {a} s (snd (createDenomAfterValidation E a d s))"
proof (cases "env_ok E C")
  case False
  then show ?thesis by (simp add: moves_by_def)
next
  case True
  then have E: "codec_ok E" "metadata_ok E" by (simp_all add: env_ok_def)
  obtain y where y: "GetDenomMetaData E (ext y) d \<noteq> None"
    "createDenomAfterValidation E a d s =
       andThen (in_tf (setAuthorityMetadata E d \<lparr>Admin = a\<rparr>)) (\<lambda>_.
         in_tf (addDenomFromCreator E a d)) (s\<lparr>sys := y\<rparr>)"
    "moves_by E C {a} s (s\<lparr>sys := y\<rparr>)"
    by (rule createDenomAfterValidation_metadata [OF E(2)])
  note y(3)
  moreover have "PairKeyError E a = None" using E(1) a by (auto simp: codec_ok_def)
  moreover have "moves_by E C {a} (s\<lparr>sys := y\<rparr>)
    (s\<lparr>sys := y, tf := (tf s)\<lparr>DenomAuthority := (DenomAuthority (tf s))(d \<mapsto> \<lparr>Admin = a\<rparr>),
       CreatorDenoms := ks_put (a, d) (CreatorDenoms (tf s))\<rparr>\<rparr>)"
    using moves_create [of "s\<lparr>sys := y\<rparr>" d a C E b sub] assms y(1)
    by (simp add: reg_abs_def)
  ultimately show ?thesis
    using a by (auto simp: y(2) in_tf_def setAuthorityMetadata_def addDenomFromCreator_def
        DenomAuthorityMetadata_Validate_def andThen_def prog_simps intro: reg.rel_trans)
qed

lemma validateCreateDenom_state: "snd (validateCreateDenom E a sub s) = s"
  by (simp add: validateCreateDenom_def split: sum.splits)

lemma validateCreateDenom_Ok:
  "fst (validateCreateDenom E a sub s) = Ok d \<longleftrightarrow>
     \<not> HasSupply E (ext (sys s)) sub \<and> GetTokenDenom E a sub = Inr d \<and>
     GetDenomMetaData E (ext (sys s)) d = None"
  by (auto simp: validateCreateDenom_def split: sum.splits)

lemma keeps_CreateDenom:
  assumes "wired E k" and a: "StringToBytes E a = Inr b"
  shows "keeps (moves_by E C {a}) (CreateDenom E k a sub)"
proof (rule keepsI)
  fix s :: "'a ctx"
  show "moves_by E C {a} s (snd (CreateDenom E k a sub s))"
  proof (cases "fst (validateCreateDenom E a sub s)")
    case (Ok d)
    then have v: "validateCreateDenom E a sub s = (Ok d, s)"
      using validateCreateDenom_state [of E a sub s] by (simp add: prod_eq_iff)
    from Ok have new: "GetDenomMetaData E (ext (sys s)) d = None"
      and tok: "GetTokenDenom E a sub = Inr d"
      and d: "d = factory_denom a sub" "CHR ''/'' \<notin> set a"
      by (auto simp: validateCreateDenom_Ok GetTokenDenom_iff)
    obtain r t where ch: "chargeForCreateDenom E k a s = (r, t)" by fastforce
    have sub0: "moves_by E C {} s t"
      using keepsD [OF reg.keeps_chargeForCreateDenom [OF assms(1)] ch] .
    then have st: "moves_by E C {a} s t"
      by (auto simp: moves_by_def intro: tf_moves_mono)
    have "moves_by E C {a} s (snd (createDenomAfterValidation E a d t))"
    proof (cases "env_ok E C \<and> tf_inv E s")
      case True
      with new have "reg_admin (reg_abs s) d = None"
        by (auto simp: tf_inv_def reg_abs_def)
      moreover from True sub0 have "reg_moves E C C (reg_abs s) (reg_abs t)"
        by (simp add: moves_by_def tf_moves_def)
      ultimately have "reg_admin (reg_abs t) d = None \<or> a \<in> C"
        using reg_moves_new [of E C C "reg_abs s" "reg_abs t" d] d factory_denom_inject by blast
      then show ?thesis
        using moves_createDenomAfterValidation [OF _ a tok] st reg.rel_trans by blast
    qed (auto simp: moves_by_def tf_moves_def)
    with st v ch show ?thesis
      by (cases r)
        (auto simp: CreateDenom_def andThen_def prog_simps split: prod.splits outcome.splits)
  qed (use validateCreateDenom_state [of E a sub s] in
      \<open>auto simp: CreateDenom_def andThen_def reg.rel_refl split: prod.splits\<close>)
qed

lemma keeps_server_CreateDenom:
  assumes "wired E k"
  shows "keeps (moves_by E C {cd_Sender msg}) (server_CreateDenom E k msg)"
  unfolding server_CreateDenom_def
proof (intro reg.keeps_of_err_then)
  assume "MsgCreateDenom_Validate E msg = None"
  then obtain b where "StringToBytes E (cd_Sender msg) = Inr b"
    using check_sender_valid [of E "cd_Sender msg"]
    by (auto simp: MsgCreateDenom_Validate_def split: option.splits)
  with assms show "keeps (moves_by E C {cd_Sender msg}) (andThen
      (CreateDenom E k (cd_Sender msg) (cd_Subdenom msg)) (\<lambda>denom.
      andThen (emit [NewEvent ''create_denom''
        [(''creator'', cd_Sender msg), (''new_token_denom'', denom)]]) (\<lambda>_. ret denom)))"
    by (intro reg.keeps_andThen keeps_CreateDenom reg.keeps_emit reg.keeps_ret)
qed

section \<open>Messages and runs\<close>

text \<open>
  The messages of the two services (\<open>_Msg_serviceDesc\<close> of the token factory and the bank's
  message server), their signers and the handlers they are routed to.
\<close>

datatype chain_msg =
    TfCreateDenom MsgCreateDenom
  | TfMint MsgMint
  | TfBurn MsgBurn
  | TfChangeAdmin MsgChangeAdmin
  | TfSetDenomMetadata MsgSetDenomMetadata
  | TfSetBeforeSendHook MsgSetBeforeSendHook
  | TfUpdateParams MsgUpdateParams
  | BankSend MsgSend
  | BankMultiSend MsgMultiSend
  | BankUpdateParams BankMsgUpdateParams
  | BankSetSendEnabled MsgSetSendEnabled

text \<open>The signers, by the option \<open>cosmos.msg.v1.signer\<close> of each message.\<close>

fun signers :: "chain_msg \<Rightarrow> string list" where
  "signers (TfCreateDenom m) = [cd_Sender m]"
| "signers (TfMint m) = [mint_Sender m]"
| "signers (TfBurn m) = [burn_Sender m]"
| "signers (TfChangeAdmin m) = [ca_Sender m]"
| "signers (TfSetDenomMetadata m) = [sdm_Sender m]"
| "signers (TfSetBeforeSendHook m) = [sbh_Sender m]"
| "signers (TfUpdateParams m) = [up_Authority m]"
| "signers (BankSend m) = [FromAddress m]"
| "signers (BankMultiSend m) = map io_Address (Inputs m)"
| "signers (BankUpdateParams m) = [bup_Authority m]"
| "signers (BankSetSendEnabled m) = [sse_Authority m]"

fun deliver :: "'x env \<Rightarrow> 'x bank_base \<Rightarrow> 'x Keeper \<Rightarrow> chain_msg \<Rightarrow> ('x ctx, unit) prog" where
  "deliver E B k (TfCreateDenom m) = andThen (server_CreateDenom E k m) (\<lambda>_. ret ())"
| "deliver E B k (TfMint m) = server_Mint E k m"
| "deliver E B k (TfBurn m) = server_Burn E k m"
| "deliver E B k (TfChangeAdmin m) = server_ChangeAdmin E m"
| "deliver E B k (TfSetDenomMetadata m) = server_SetDenomMetadata E m"
| "deliver E B k (TfSetBeforeSendHook m) = server_SetBeforeSendHook E m"
| "deliver E B k (TfUpdateParams m) = server_UpdateParams E k m"
| "deliver E B k (BankSend m) = Send E B (bankKeeper k) m"
| "deliver E B k (BankMultiSend m) = MultiSend E B (bankKeeper k) m"
| "deliver E B k (BankUpdateParams m) = bank_UpdateParams B m"
| "deliver E B k (BankSetSendEnabled m) = SetSendEnabled E B m"

text \<open>
  A run of messages.  The writes of a message that fails may be dropped, as they are at the end of
  a transaction, or kept, as the handlers of the same transaction see them.
\<close>

inductive run ::
  "'x env \<Rightarrow> 'x bank_base \<Rightarrow> 'x Keeper \<Rightarrow> chain_msg list \<Rightarrow> 'x ctx \<Rightarrow> 'x ctx \<Rightarrow> bool"
  for E :: "'x env" and B :: "'x bank_base" and k :: "'x Keeper" where
  run_nil: "run E B k [] s s"
| run_kept: "deliver E B k m s = (r, t) \<Longrightarrow> run E B k ms t u \<Longrightarrow> run E B k (m # ms) s u"
| run_dropped: "deliver E B k m s = (r, t) \<Longrightarrow> r \<noteq> Ok () \<Longrightarrow> run E B k ms s u \<Longrightarrow>
    run E B k (m # ms) s u"

inductive_cases run_ConsE: "run E B k (m # ms) s u"

text \<open>The functions of the base bank keeper that only its message server calls keep metadata.\<close>

definition bank_base_ok :: "'x env \<Rightarrow> 'x bank_base \<Rightarrow> bool" where
  "bank_base_ok E B \<longleftrightarrow>
     (\<forall>cs. keeps (meta_le E) (IsSendEnabledCoins B cs)) \<and>
     (\<forall>i os. keeps (meta_le E) (InputOutputCoins B i os)) \<and>
     (\<forall>p. keeps (meta_le E) (SetBankParams B p)) \<and>
     (\<forall>ses. keeps (meta_le E) (SetAllSendEnabled B ses)) \<and>
     (\<forall>ds. keeps (meta_le E) (DeleteSendEnabled B ds))"

lemma keeps_bank_messages:
  assumes "wired E k" and B: "bank_base_ok E B"
  shows "keeps (moves_by E C A) (Send E B (bankKeeper k) m1)"
    and "keeps (moves_by E C A) (MultiSend E B (bankKeeper k) m2)"
    and "keeps (moves_by E C A) (bank_UpdateParams B m3)"
    and "keeps (moves_by E C A) (SetSendEnabled E B m4)"
proof -
  have h: "hooks (bankKeeper k) = Some (Hooks E)" using assms(1) by (simp add: wired_def)
  have addr: "keeps (moves_by E C A) (address_or E w a)" for w a
    by (cases "StringToBytes E a")
      (simp_all add: address_or_def reg.keeps_ret reg.keeps_fail)
  have base: "keeps (moves_by E C A) (in_sys (IsSendEnabledCoins B cs))"
    "keeps (moves_by E C A) (in_sys (InputOutputCoins B i os))"
    "keeps (moves_by E C A) (in_sys (SetBankParams B p))"
    "keeps (moves_by E C A) (in_sys (SetAllSendEnabled B ses))"
    "keeps (moves_by E C A) (in_sys (DeleteSendEnabled B ds))" for cs i os p ses ds
    using B by (simp_all add: bank_base_ok_def keeps_moves_in_sys)
  have out: "keeps (moves_by E C A) (multi_output E (bankKeeper k) ia o1)" for ia o1
    unfolding multi_output_def using h
    by (intro reg.keeps_andThen reg.keeps_of_result reg.keeps_if reg.keeps_fail reg.keeps_Block
        reg.keeps_Track)
  show "keeps (moves_by E C A) (Send E B (bankKeeper k) m1)"
    unfolding Send_def using h
    by (intro reg.keeps_andThen addr reg.keeps_if reg.keeps_fail base reg.keeps_SendCoins reg.send_rel)
  show "keeps (moves_by E C A) (MultiSend E B (bankKeeper k) m2)"
    unfolding MultiSend_def Let_def
    by (intro reg.keeps_andThen reg.keeps_if reg.keeps_fail reg.keeps_of_err reg.keeps_of_result
        reg.keeps_for_each base out)
  show "keeps (moves_by E C A) (bank_UpdateParams B m3)"
    unfolding bank_UpdateParams_def
    by (intro reg.keeps_andThen reg.keeps_if reg.keeps_fail reg.keeps_of_err base)
  show "keeps (moves_by E C A) (SetSendEnabled E B m4)"
    unfolding SetSendEnabled_def
    by (intro reg.keeps_andThen reg.keeps_if reg.keeps_fail reg.keeps_of_err reg.keeps_ret base)
qed

lemma keeps_deliver:
  assumes "wired E k" and "bank_base_ok E B"
  shows "keeps (moves_by E C (set (signers m))) (deliver E B k m)"
  using keeps_bank_messages [OF assms] assms(1)
  by (cases m)
    (simp_all add: reg.keeps_andThen reg.keeps_ret keeps_server_CreateDenom keeps_Mint keeps_Burn
      keeps_ChangeAdmin keeps_SetDenomMetadata keeps_SetBeforeSendHook keeps_UpdateParams)

lemma run_moves:
  assumes "wired E k" and "bank_base_ok E B" and "run E B k ms s t"
  shows "moves_by E C (\<Union>m\<in>set ms. set (signers m)) s t"
  using assms(3)
proof (induction rule: run.induct)
  case (run_kept m s r t ms u)
  have "moves_by E C (\<Union>m\<in>set (m # ms). set (signers m)) s t"
    using keepsD [OF moves_by_mono [OF keeps_deliver [OF assms(1,2)]] run_kept.hyps(1)] by auto
  moreover have "moves_by E C (\<Union>m\<in>set (m # ms). set (signers m)) t u"
    using run_kept.IH by (auto simp: moves_by_def intro: tf_moves_mono)
  ultimately show ?case by (rule reg.rel_trans)
next
  case (run_dropped m s r t ms u)
  then show ?case by (auto simp: moves_by_def intro: tf_moves_mono)
qed (rule reg.rel_refl)

section \<open>A sample chain\<close>

text \<open>
  On the sample environment of \<open>Sample\<close>: \<open>ann\<close> administers \<open>factory/ann/gold\<close>, which
  \<open>gate\<close> guards, and \<open>factory/ann/iron\<close>; \<open>factory/ann/old\<close> has no admin any more.
\<close>

definition sample_bank :: "ledger bank_base" where
  "sample_bank = \<lparr>
     CoinsIsValid = list_all positive_coin,
     ValidateInputOutputs = (\<lambda>_ _. None),
     SendEnabledValidate = (\<lambda>se. sample_denom (se_Denom se)),
     BankParamsValidate = (\<lambda>_. None),
     BankAuthority = ''gov'',
     IsSendEnabledCoins = (\<lambda>_. ret ()),
     InputOutputCoins = (\<lambda>_ _. ret ()),
     SetBankParams = (\<lambda>_. ret ()),
     SetAllSendEnabled = (\<lambda>_. ret ()),
     DeleteSendEnabled = (\<lambda>_. ret ())\<rparr>"

definition sample_keeper :: "ledger Keeper" where
  "sample_keeper = NewKeeper \<lparr>hooks = Some (Hooks sample_env)\<rparr>
     (NewCommunityPoolKeeper \<lparr>hooks = Some (Hooks sample_env)\<rparr> ''fee_collector'') ''gov''"

definition sample_state :: "ledger ctx" where
  "sample_state = \<lparr>
     tf = \<lparr>
       CreatorDenoms = [(''ann'', ''factory/ann/gold''), (''ann'', ''factory/ann/iron''),
                        (''ann'', ''factory/ann/old'')],
       DenomAuthority = [''factory/ann/gold'' \<mapsto> \<lparr>Admin = ''ann''\<rparr>,
                         ''factory/ann/iron'' \<mapsto> \<lparr>Admin = ''ann''\<rparr>,
                         ''factory/ann/old'' \<mapsto> \<lparr>Admin = []\<rparr>],
       DenomHookAddr = [''factory/ann/gold'' \<mapsto> ''gate''],
       ParamsItem = None\<rparr>,
     sys = \<lparr>
       gasMeter = \<lparr>gm_limit = 2000000, gm_consumed = 0\<rparr>,
       events = [],
       ext = \<lparr>l_balance = (\<lambda>a d. if a = to_bytes ''ann'' \<and> d = ''factory/ann/iron'' then 10 else 0),
         l_minted = (\<lambda>d. if d = ''factory/ann/iron'' then 10 else 0),
         l_metadata = (\<lambda>d. if d \<in> {''factory/ann/gold'', ''factory/ann/iron'', ''factory/ann/old''}
           then Some (default_metadata d) else None)\<rparr>\<rparr>\<rparr>"

lemma sample_state_sel [simp]:
  "DenomAuthority (tf sample_state) =
     [''factory/ann/gold'' \<mapsto> \<lparr>Admin = ''ann''\<rparr>, ''factory/ann/iron'' \<mapsto> \<lparr>Admin = ''ann''\<rparr>,
      ''factory/ann/old'' \<mapsto> \<lparr>Admin = []\<rparr>]"
  "DenomHookAddr (tf sample_state) = [''factory/ann/gold'' \<mapsto> ''gate'']"
  "ParamsItem (tf sample_state) = None"
  "gasMeter (sys sample_state) = \<lparr>gm_limit = 2000000, gm_consumed = 0\<rparr>"
  "l_balance (ext (sys sample_state)) a d =
     (if a = to_bytes ''ann'' \<and> d = ''factory/ann/iron'' then 10 else 0)"
  "l_minted (ext (sys sample_state)) d = (if d = ''factory/ann/iron'' then 10 else 0)"
  "l_metadata (ext (sys sample_state)) d =
     (if d \<in> {''factory/ann/gold'', ''factory/ann/iron'', ''factory/ann/old''}
      then Some (default_metadata d) else None)"
  by (simp_all add: sample_state_def)

lemma sample_sudo_stores:
  "tf (snd (sample_sudo a m s)) = tf s" "ext (sys (snd (sample_sudo a m s))) = ext (sys s)"
  by (simp_all add: sample_sudo_def Let_def)

lemma sample_env_ok: "env_ok sample_env C"
  by (simp add: env_ok_def sample_codec_ok sample_metadata_ok contracts_ok_def keeps_def
      tf_moves_def tf_inv_def reg_abs_def sample_sudo_stores)

lemma sample_bank_ok: "bank_base_ok sample_env sample_bank"
  by (simp add: bank_base_ok_def sample_bank_def keeps_def ret_def meta_le_def)

lemma sample_wired: "wired sample_env sample_keeper"
  by (simp add: wired_def sample_keeper_def NewKeeper_def NewCommunityPoolKeeper_def)

lemma sample_index_ok: "ks_ok (CreatorDenoms (tf sample_state))"
  by (simp add: ks_ok_def sample_state_def less_char_def)

lemma sample_tf_inv: "tf_inv sample_env sample_state"
  by (simp add: tf_inv_def sample_index_ok)

section \<open>Properties\<close>

text \<open>
  C1. Refinement.  A message moves the registry that the token factory keeps only along steps of
  the abstract registry made by a signer of the message or by a contract that a hook called, and
  it keeps the invariant that every administered denom has bank metadata.  This covers every
  message of the token factory and of the bank, with whatever outcome.
\<close>

theorem deliver_refines_registry:
  assumes "wired E k" and "env_ok E C" and "bank_base_ok E B" and "tf_inv E s"
    and "deliver E B k m s = (r, t)"
  shows "tf_inv E t \<and> reg_moves E C (set (signers m) \<union> C) (reg_abs s) (reg_abs t)"
  using keepsD [OF keeps_deliver [OF assms(1,3)] assms(5), of C] assms(2,4)
  by (simp add: moves_by_def tf_moves_def)

theorem deliver_refines_registry_witness:
  "let t = snd (deliver sample_env sample_bank sample_keeper
         (TfChangeAdmin (NewMsgChangeAdmin ''ann'' ''factory/ann/gold'' ''bob'')) sample_state)
   in tf_inv sample_env t \<and>
      reg_moves sample_env {} ({''ann''} \<union> {}) (reg_abs sample_state) (reg_abs t)"
  using deliver_refines_registry [OF sample_wired sample_env_ok [of "{}"] sample_bank_ok
      sample_tf_inv surjective_pairing,
      of "TfChangeAdmin (NewMsgChangeAdmin ''ann'' ''factory/ann/gold'' ''bob'')"]
  by (simp add: Let_def NewMsgChangeAdmin_def)





text \<open>
  C4. A denom that appears during a run was created by the account it names: that account signed a
  message of the run, or it is a contract.
\<close>

theorem created_only_by_creator:
  assumes "wired E k" and "env_ok E C" and "bank_base_ok E B" and "tf_inv E s"
    and "run E B k ms s t" and "DenomAuthority (tf s) d = None" and "DenomAuthority (tf t) d \<noteq> None"
  shows "\<exists>creator sub. d = factory_denom creator sub \<and>
    creator \<in> (\<Union>m\<in>set ms. set (signers m)) \<union> C"
proof -
  have "reg_moves E C ((\<Union>m\<in>set ms. set (signers m)) \<union> C) (reg_abs s) (reg_abs t)"
    using run_moves [OF assms(1,3,5), of C] assms(2,4) by (simp add: moves_by_def tf_moves_def)
  from reg_moves_new [OF this, of d] assms(6,7) show ?thesis
    by (auto simp: reg_abs_def)
qed

definition sample_after :: "chain_msg \<Rightarrow> ledger ctx" where
  "sample_after m = snd (deliver sample_env sample_bank sample_keeper m sample_state)"

lemma sample_run: "run sample_env sample_bank sample_keeper [m] sample_state (sample_after m)"
  by (rule run_kept [OF surjective_pairing]) (simp add: sample_after_def run_nil)

lemma sample_create_server:
  "\<exists>t. server_CreateDenom sample_env sample_keeper
         \<lparr>cd_Sender = ''bob'', cd_Subdenom = ''tin''\<rparr> sample_state = (Ok ''factory/bob/tin'', t) \<and>
       DenomAuthority (tf t) ''factory/bob/tin'' = Some \<lparr>Admin = ''bob''\<rparr>"
proof -
  have d: "GetTokenDenom sample_env ''bob'' ''tin'' = Inr ''factory/bob/tin''"
    by (simp add: GetTokenDenom_iff factory_denom_def sample_denom_def MaxSubdenomLength_def
        MaxCreatorLength_def MaxHrpLength_def ModuleDenomPrefix_def)
  have v: "MsgCreateDenom_Validate sample_env \<lparr>cd_Sender = ''bob'', cd_Subdenom = ''tin''\<rparr> = None"
    by (simp add: MsgCreateDenom_Validate_def check_sender_def d sample_decode_def
        plain_address_def to_bytes_def)
  show ?thesis
    by (simp add: server_CreateDenom_def v CreateDenom_def
        validateCreateDenom_def d andThen_def prog_simps chargeForCreateDenom_def GetParams_def
        empty_params_def sample_state_def createDenomAfterValidation_def in_sys_def in_tf_def
        on_ledger_def setAuthorityMetadata_def DenomAuthorityMetadata_Validate_def
        addDenomFromCreator_def sample_decode_def plain_address_def emit_def)
qed

lemma sample_create:
  "DenomAuthority (tf (sample_after (TfCreateDenom \<lparr>cd_Sender = ''bob'', cd_Subdenom = ''tin''\<rparr>)))
     ''factory/bob/tin'' = Some \<lparr>Admin = ''bob''\<rparr>"
  using sample_create_server by (auto simp: sample_after_def andThen_def ret_def)

theorem created_only_by_creator_witness:
  "\<exists>creator sub. ''factory/bob/tin'' = factory_denom creator sub \<and> creator \<in> {''bob''}"
  using created_only_by_creator [OF sample_wired sample_env_ok [of "{}"] sample_bank_ok
      sample_tf_inv sample_run _ , of "''factory/bob/tin''"
      "TfCreateDenom \<lparr>cd_Sender = ''bob'', cd_Subdenom = ''tin''\<rparr>"] sample_create
  by (simp add: sample_state_def)

text \<open>The denom an administrative message is about, and who signs it.\<close>

fun administers :: "chain_msg \<Rightarrow> (string \<times> string) option" where
  "administers (TfMint m) = Some (coin_Denom (mint_Amount m), mint_Sender m)"
| "administers (TfBurn m) = Some (coin_Denom (burn_Amount m), burn_Sender m)"
| "administers (TfChangeAdmin m) = Some (ca_Denom m, ca_Sender m)"
| "administers (TfSetDenomMetadata m) = Some (Base (sdm_Metadata m), sdm_Sender m)"
| "administers (TfSetBeforeSendHook m) = Some (sbh_Denom m, sbh_Sender m)"
| "administers _ = None"

text \<open>
  C5. Whoever is not the admin of a denom (or if the denom does not exist) cannot mint it, burn it,
  change its admin, its metadata or its hook: the handler returns an error and writes nothing.
\<close>

theorem not_admin_no_effect:
  assumes "administers m = Some (d, a)" and "DenomAuthority (tf s) d \<noteq> Some \<lparr>Admin = a\<rparr>"
  shows "\<exists>e. deliver E B k m s = (Err e, s)"
proof -
  obtain e where e: "check_admin d a s = (Err e, s)"
    using assms(2) by (cases "DenomAuthority (tf s) d") (auto simp: check_admin_eq)
  note defs = andThen_def prog_simps of_err_def
  show ?thesis
  proof (cases m)
    case (TfMint m1)
    with assms(1) e show ?thesis by (auto simp: server_Mint_def defs split: option.splits)
  next
    case (TfBurn m2)
    with assms(1) e show ?thesis by (auto simp: server_Burn_def defs split: option.splits)
  next
    case (TfChangeAdmin m3)
    with assms(1) e show ?thesis by (auto simp: server_ChangeAdmin_def defs split: option.splits)
  next
    case (TfSetDenomMetadata m4)
    with assms(1) e show ?thesis
      by (auto simp: server_SetDenomMetadata_def defs split: option.splits)
  next
    case (TfSetBeforeSendHook m5)
    with assms(1) e show ?thesis
      by (auto simp: server_SetBeforeSendHook_def defs split: option.splits)
  qed (use assms(1) in simp_all)
qed

theorem not_admin_no_effect_witness:
  "\<exists>e. deliver sample_env sample_bank sample_keeper
     (TfMint (NewMsgMint ''bob'' \<lparr>coin_Denom = ''factory/ann/gold'', coin_Amount = Some 5\<rparr>))
     sample_state = (Err e, sample_state)"
  by (rule not_admin_no_effect [of _ "''factory/ann/gold''" "''bob''"])
    (simp_all add: NewMsgMint_def sample_state_def)

text \<open>
  C6. A denom exists only once: creating it again, by whoever may do so, returns an error and
  writes nothing, so its admin, its metadata and its place in the index stay.
\<close>

theorem existing_denom_not_recreated:
  assumes "tf_inv E s" and "DenomAuthority (tf s) d \<noteq> None"
    and "GetTokenDenom E creator sub = Inr d"
  shows "\<exists>e. CreateDenom E k creator sub s = (Err e, s)"
  using assms
  by (auto simp: CreateDenom_def validateCreateDenom_def tf_inv_def andThen_def)

theorem existing_denom_not_recreated_witness:
  "\<exists>e. CreateDenom sample_env sample_keeper ''ann'' ''old'' sample_state = (Err e, sample_state)"
  by (rule existing_denom_not_recreated [OF sample_tf_inv, of "''factory/ann/old''"])
    (simp_all add: sample_state_def GetTokenDenom_iff factory_denom_def sample_denom_def
      MaxSubdenomLength_def MaxCreatorLength_def MaxHrpLength_def ModuleDenomPrefix_def)

lemma CreateDenom_effect:
  assumes "metadata_ok E" and "server_CreateDenom E k msg s = (Ok d, t)"
  shows "d = factory_denom (cd_Sender msg) (cd_Subdenom msg) \<and>
    GetDenomMetaData E (ext (sys s)) d = None \<and>
    DenomAuthority (tf t) d = Some \<lparr>Admin = cd_Sender msg\<rparr> \<and>
    (cd_Sender msg, d) \<in> set (ks_walk (CreatorDenoms (tf t))) \<and>
    GetDenomMetaData E (ext (sys t)) d \<noteq> None"
proof -
  from assms(2) obtain u v where
    val: "validateCreateDenom E (cd_Sender msg) (cd_Subdenom msg) s = (Ok d, s)" and
    cr: "createDenomAfterValidation E (cd_Sender msg) d u = (Ok (), v)" and
    t: "t = v\<lparr>sys := (sys v)\<lparr>events := events (sys v) @ [NewEvent ''create_denom''
      [(''creator'', cd_Sender msg), (''new_token_denom'', d)]]\<rparr>\<rparr>"
    using validateCreateDenom_state [of E "cd_Sender msg" "cd_Subdenom msg" s]
    by (auto simp: server_CreateDenom_def CreateDenom_def emit_def result_iff)
  obtain y where y: "GetDenomMetaData E (ext y) d \<noteq> None"
    "createDenomAfterValidation E (cd_Sender msg) d u =
       andThen (in_tf (setAuthorityMetadata E d \<lparr>Admin = cd_Sender msg\<rparr>)) (\<lambda>_.
         in_tf (addDenomFromCreator E (cd_Sender msg) d)) (u\<lparr>sys := y\<rparr>)"
    by (rule createDenomAfterValidation_metadata [OF assms(1)])
  from val have "fst (validateCreateDenom E (cd_Sender msg) (cd_Subdenom msg) s) = Ok d" by simp
  then have "d = factory_denom (cd_Sender msg) (cd_Subdenom msg)"
    and "GetDenomMetaData E (ext (sys s)) d = None"
    by (auto simp: validateCreateDenom_Ok GetTokenDenom_iff)
  moreover have "DenomAuthority (tf v) d = Some \<lparr>Admin = cd_Sender msg\<rparr>"
    and "(cd_Sender msg, d) \<in> set (CreatorDenoms (tf v))" and "sys v = y"
    using cr unfolding y(2)
    by (auto simp: setAuthorityMetadata_def addDenomFromCreator_def result_iff)
  ultimately show ?thesis
    using y(1) by (simp add: t ks_walk_def)
qed

text \<open>
  C7. A successful creation returns the denom of the sender and the subdenom; afterwards the sender
  is its admin, it is listed under the sender and it has bank metadata.
\<close>

theorem create_denom_effect:
  assumes "metadata_ok E" and "server_CreateDenom E k msg s = (Ok d, t)"
  shows "d = factory_denom (cd_Sender msg) (cd_Subdenom msg) \<and>
    GetDenomMetaData E (ext (sys s)) d = None \<and>
    DenomAuthority (tf t) d = Some \<lparr>Admin = cd_Sender msg\<rparr> \<and>
    (cd_Sender msg, d) \<in> set (ks_walk (CreatorDenoms (tf t))) \<and>
    GetDenomMetaData E (ext (sys t)) d \<noteq> None"
  using assms by (rule CreateDenom_effect)

theorem create_denom_effect_witness:
  "\<exists>t. server_CreateDenom sample_env sample_keeper
         \<lparr>cd_Sender = ''bob'', cd_Subdenom = ''tin''\<rparr> sample_state = (Ok ''factory/bob/tin'', t) \<and>
       GetDenomMetaData sample_env (ext (sys t)) ''factory/bob/tin'' \<noteq> None"
  using sample_create_server create_denom_effect [OF sample_metadata_ok] by blast

lemma run_wf:
  assumes "wired E k" and "env_ok E C" and "bank_base_ok E B" and "tf_inv E s"
    and "run E B k ms s t" and "reg_wf E (reg_abs s)"
  shows "reg_wf E (reg_abs t) \<and> tf_inv E t"
proof -
  have "tf_inv E t \<and> reg_moves E C ((\<Union>m\<in>set ms. set (signers m)) \<union> C) (reg_abs s) (reg_abs t)"
    using run_moves [OF assms(1,3,5), of C] assms(2,4) by (simp add: moves_by_def tf_moves_def)
  with reg_moves_wf assms(6) show ?thesis by blast
qed

text \<open>
  C9. The registry of denoms stays well formed through any run of messages: a denom has an admin
  entry exactly when it is listed under a creator, it is listed under the account it names, every
  admin is an address or empty, and only registered denoms have hooks.
\<close>

theorem registry_stays_well_formed:
  assumes "wired E k" and "env_ok E C" and "bank_base_ok E B" and "tf_inv E s"
    and "run E B k ms s t" and "reg_wf E (reg_abs s)"
  shows "reg_wf E (reg_abs t) \<and> tf_inv E t"
  by (rule run_wf [OF assms])

lemma sample_reg_wf: "reg_wf sample_env (reg_abs sample_state)"
proof -
  have ann: "plain_address ''ann''" by (simp add: plain_address_def)
  have tok: "GetTokenDenom sample_env ''ann'' ''gold'' = Inr ''factory/ann/gold''"
    "GetTokenDenom sample_env ''ann'' ''iron'' = Inr ''factory/ann/iron''"
    "GetTokenDenom sample_env ''ann'' ''old'' = Inr ''factory/ann/old''"
    by (simp_all add: GetTokenDenom_iff factory_denom_def sample_denom_def MaxSubdenomLength_def
        MaxCreatorLength_def MaxHrpLength_def ModuleDenomPrefix_def)
  show ?thesis
    using ann tok
    by (auto simp: reg_wf_def reg_abs_def sample_state_def ks_walk_def split: if_splits)
qed

theorem registry_stays_well_formed_witness:
  "let t = sample_after (TfCreateDenom \<lparr>cd_Sender = ''bob'', cd_Subdenom = ''tin''\<rparr>)
   in reg_wf sample_env (reg_abs t) \<and> tf_inv sample_env t"
  unfolding Let_def
  by (rule registry_stays_well_formed [OF sample_wired sample_env_ok [of "{}"] sample_bank_ok
        sample_tf_inv sample_run sample_reg_wf])

lemma listed_deconstructs:
  assumes "codec_ok E" and "StringToBytes E c = Inr b" and "GetTokenDenom E c sub = Inr d"
  shows "\<exists>r. DeconstructDenom E d = Inr r"
proof -
  obtain c' where "BytesToString E b = Inr c'" using assms(1,2) unfolding codec_ok_def by blast
  then have "DeconstructDenom E d = Inr (c', sub)"
    using assms(2,3) by (auto simp: GetTokenDenom_iff DeconstructDenom_iff)
  then show ?thesis by blast
qed

lemma hand_over:
  assumes "codec_ok E" and "reg_wf E (reg_abs s)" and "reg_admin (reg_abs s) d = Some a" and "a \<noteq> []"
    and "n = [] \<or> (\<exists>b. StringToBytes E n = Inr b)"
  shows "\<exists>t. server_ChangeAdmin E (NewMsgChangeAdmin a d n) s = (Ok (), t) \<and>
    reg_abs t = (reg_abs s)\<lparr>reg_admin := (reg_admin (reg_abs s))(d \<mapsto> n)\<rparr>"
proof -
  obtain c where "(c, d) \<in> reg_created (reg_abs s)"
    using assms(2,3) by (auto simp: reg_wf_def) (metis domI imageE prod.collapse)
  then obtain r where r: "DeconstructDenom E d = Inr r"
    using assms(1,2) listed_deconstructs by (metis reg_wf_def)
  obtain b where b: "StringToBytes E a = Inr b" using assms(2,3,4) unfolding reg_wf_def by blast
  obtain md where md: "DenomAuthority (tf s) d = Some md" "Admin md = a"
    using assms(3) by (auto simp: reg_abs_def)
  have "MsgChangeAdmin_Validate E (NewMsgChangeAdmin a d n) = None"
    using r b assms(5) by (auto simp: MsgChangeAdmin_Validate_def NewMsgChangeAdmin_def)
  moreover have "DenomAuthorityMetadata_Validate E (md\<lparr>Admin := n\<rparr>) = None"
    using assms(5) by (auto simp: DenomAuthorityMetadata_Validate_def)
  ultimately show ?thesis
    using md
    by (auto simp: server_ChangeAdmin_def NewMsgChangeAdmin_def check_admin_def in_tf_def setAdmin_def
        setAuthorityMetadata_def GetAuthorityMetadata_def emit_def andThen_def prog_simps reg_abs_def)
qed

text \<open>
  C8. However the chain has run, the admin of a denom can hand it over to any account, or give it
  up: the message succeeds and changes that admin entry alone.
\<close>

theorem admin_never_locked_out:
  assumes "wired E k" and "env_ok E C" and "bank_base_ok E B" and "tf_inv E s"
    and "run E B k ms s t" and "reg_wf E (reg_abs s)"
    and "reg_admin (reg_abs t) d = Some a" and "a \<noteq> []" and "n = [] \<or> (\<exists>b. StringToBytes E n = Inr b)"
  shows "\<exists>u. deliver E B k (TfChangeAdmin (NewMsgChangeAdmin a d n)) t = (Ok (), u) \<and>
    reg_abs u = (reg_abs t)\<lparr>reg_admin := (reg_admin (reg_abs t))(d \<mapsto> n)\<rparr>"
proof -
  have "codec_ok E" using assms(2) by (simp add: env_ok_def)
  then show ?thesis
    using hand_over [OF _ conjunct1 [OF run_wf [OF assms(1-6)]] assms(7-9)] by simp
qed

theorem admin_never_locked_out_witness:
  "let t = sample_after (TfCreateDenom \<lparr>cd_Sender = ''bob'', cd_Subdenom = ''tin''\<rparr>)
   in \<exists>u. deliver sample_env sample_bank sample_keeper
        (TfChangeAdmin (NewMsgChangeAdmin ''bob'' ''factory/bob/tin'' [])) t = (Ok (), u) \<and>
      reg_abs u = (reg_abs t)\<lparr>reg_admin := (reg_admin (reg_abs t))(''factory/bob/tin'' \<mapsto> [])\<rparr>"
  unfolding Let_def
  by (rule admin_never_locked_out [OF sample_wired sample_env_ok [of "{}"] sample_bank_ok
        sample_tf_inv sample_run sample_reg_wf]) (use sample_create in \<open>simp_all add: reg_abs_def\<close>)

end
