(* ===== verification/Transfers.thy ===== *)
theory Transfers
  imports Authority
begin

text \<open>
  What a transfer does: a hook can veto it but not break it, costs a bounded amount of gas, and is
  never consulted for denoms without one; blocked addresses receive nothing; minting and burning
  have exactly their effect on the ledger.
\<close>

section \<open>Sends without hooks\<close>

definition unhooked :: "'x ctx \<Rightarrow> Coin list \<Rightarrow> bool" where
  "unhooked s cs \<longleftrightarrow> (\<forall>c\<in>set cs. GetBeforeSendHook s (coin_Denom c) = [])"

lemma SendCoins_unhooked:
  assumes "hooks k = Some (Hooks E)" and "unhooked s cs"
    and "BytesToString E f = Inr fs" and "BytesToString E t = Inr ts"
  shows "SendCoins E k f t cs s = in_sys (BaseSendCoins E f t cs) s"
  using listener_unhooked [of cs s E f fs t ts] assms
  by (simp add: SendCoins_def BlockBeforeSend_def TrackBeforeSend_def Hooks_def
      Hooks_BlockBeforeSend_def Hooks_TrackBeforeSend_def unhooked_def andThen_def)

section \<open>A veto\<close>




lemma andThen_Track:
  "andThen (Hooks_TrackBeforeSend E f t cs) g u = g () (snd (Hooks_TrackBeforeSend E f t cs u))"
  using Track_Ok [of E f t cs u] by (auto simp: andThen_def split: prod.splits outcome.splits)

section \<open>Properties\<close>

text \<open>
  C14. A hook cannot break a transfer: whatever the contracts do, run out of gas or panic, the call
  of the hooks returns, and tracking never reports an error.
\<close>

theorem hooks_never_panic:
  "fst (Hooks_BlockBeforeSend E f t cs s) \<noteq> Panic p \<and> fst (Hooks_TrackBeforeSend E f t cs s) = Ok ()"
  by (simp add: Hooks_BlockBeforeSend_def callBeforeSendListener_no_panic Track_Ok)



definition gold :: "int \<Rightarrow> Coin" where
  "gold n = \<lparr>coin_Denom = ''factory/ann/gold'', coin_Amount = Some n\<rparr>"

definition copper :: "int \<Rightarrow> Coin" where
  "copper n = \<lparr>coin_Denom = ''copper'', coin_Amount = Some n\<rparr>"


text \<open>
  C15. Coins whose denoms have no hook are sent exactly as the SDK's base keeper sends them.
\<close>

theorem unhooked_send_is_base_send:
  assumes "wired E k" and "unhooked s cs"
    and "BytesToString E f = Inr fs" and "BytesToString E t = Inr ts"
  shows "SendCoins E (bankKeeper k) f t cs s = in_sys (BaseSendCoins E f t cs) s"
  using SendCoins_unhooked [of "bankKeeper k" E s cs f fs t ts] assms by (simp add: wired_def)

theorem unhooked_send_is_base_send_witness:
  "SendCoins sample_env (bankKeeper sample_keeper) (to_bytes ''ann'') (to_bytes ''bob'') [copper 2]
     sample_state =
   in_sys (BaseSendCoins sample_env (to_bytes ''ann'') (to_bytes ''bob'') [copper 2]) sample_state"
  by (rule unhooked_send_is_base_send [OF sample_wired])
    (simp_all add: unhooked_def copper_def GetBeforeSendHook_def sample_state_def plain_address_def)



text \<open>
  A transfer between modules never asks for consent: it runs the base transfer after the
  tracking hook, whatever that did.
\<close>

lemma module_transfer_not_vetoed:
  assumes "wired E k" and "GetModuleAddress E from = Some f"
    and "GetModuleAccount E to (sys s) = (Ok (Some t), y)"
  shows "SendCoinsFromModuleToModule E (bankKeeper k) from to cs s =
    in_sys (BaseSendCoins E f t cs) (snd (Hooks_TrackBeforeSend E f t cs (s\<lparr>sys := y\<rparr>)))"
  using assms
  by (simp add: SendCoinsFromModuleToModule_def in_sys_def [of "GetModuleAccount E to"]
      SendCoinsWithoutBlockHook_def TrackBeforeSend_def wired_def Hooks_def andThen_Track
      andThen_simps(1))

lemma module_transfer_not_vetoed_sample:
  "SendCoinsFromModuleToModule sample_env (bankKeeper sample_keeper) ''mint'' ''pool'' [gold 1]
     sample_state =
   in_sys (BaseSendCoins sample_env (to_bytes ''mint'') (to_bytes ''pool'') [gold 1])
     (snd (Hooks_TrackBeforeSend sample_env (to_bytes ''mint'') (to_bytes ''pool'') [gold 1]
       (sample_state\<lparr>sys := sys sample_state\<rparr>)))"
  by (rule module_transfer_not_vetoed [OF sample_wired]) simp_all

text \<open>The accounts a message pays to.\<close>

fun recipients :: "chain_msg \<Rightarrow> string list" where
  "recipients (BankSend m) = [ToAddress m]"
| "recipients (BankMultiSend m) = map io_Address (Outputs m)"
| "recipients (TfMint m) = [if MintToAddress m = [] then mint_Sender m else MintToAddress m]"
| "recipients _ = []"

lemma for_each_Ok: "for_each xs f s = (Ok (), t) \<Longrightarrow> x \<in> set xs \<Longrightarrow> \<exists>u v. f x u = (Ok (), v)"
  by (induction xs arbitrary: s) (auto simp: result_iff)

lemma blocked_recipient_fails:
  assumes "a \<in> set (recipients m)" and "StringToBytes E a = Inr b" and "BlockedAddr E b"
  shows "fst (deliver E B k m s) \<noteq> Ok ()"
proof
  assume "fst (deliver E B k m s) = Ok ()"
  then obtain t where ok: "deliver E B k m s = (Ok (), t)" by (metis prod.collapse)
  show False
  proof (cases m)
    case (BankSend x)
    with assms ok show False
      by (auto simp: Send_def address_or_def result_iff split: sum.splits)
  next
    case (BankMultiSend x)
    with ok obtain ia u v where
      each: "for_each (Outputs x) (multi_output E (bankKeeper k) ia) u = (Ok (), v)"
      by (auto simp: MultiSend_def Let_def result_iff split: if_splits)
    from BankMultiSend assms(1) obtain o1 where "o1 \<in> set (Outputs x)" "a = io_Address o1" by auto
    with for_each_Ok [OF each, of o1] assms(2,3) show False
      by (auto simp: multi_output_def result_iff)
  next
    case (TfMint x)
    with assms ok show False
      by (auto simp: server_Mint_def mintTo_def Let_def result_iff split: if_splits)
  qed (use assms in simp_all)
qed

text \<open>
  No message pays to a blocked address: a send, a multi-send with such an output and a mint
  to it all fail.
\<close>

lemma blocked_never_receives:
  assumes "a \<in> set (recipients m)" and "StringToBytes E a = Inr b" and "BlockedAddr E b"
  shows "fst (deliver E B k m s) \<noteq> Ok ()"
  using assms by (rule blocked_recipient_fails)

lemma blocked_never_receives_sample:
  "fst (deliver sample_env sample_bank sample_keeper
     (BankSend \<lparr>FromAddress = ''ann'', ToAddress = ''tokenfactory'', send_Amount = [copper 1]\<rparr>)
     sample_state) \<noteq> Ok ()"
  by (rule blocked_never_receives [where a = "''tokenfactory''" and b = "to_bytes ''tokenfactory''"])
    (simp_all add: plain_address_def)

section \<open>Minting and burning\<close>

lemma in_sys_unhooked: "tf u = tf s \<Longrightarrow> unhooked u cs = unhooked s cs"
  by (simp add: unhooked_def GetBeforeSendHook_def)

lemma codec_bytes: "codec_ok E \<Longrightarrow> StringToBytes E a = Inr b \<Longrightarrow> \<exists>c. BytesToString E b = Inr c"
  by (force simp: codec_ok_def)

lemma unhooked_NewCoins:
  "ledger_ok E V \<Longrightarrow> NewCoins E [c] = Ok cs \<Longrightarrow> GetBeforeSendHook s (coin_Denom c) = [] \<Longrightarrow>
     unhooked s cs"
  by (simp add: ledger_ok_def unhooked_def)

lemma mintTo_ledger:
  assumes "wired E k" and "codec_ok E" and V: "ledger_ok E V"
    and "GetBeforeSendHook s (coin_Denom c) = []"
    and mod: "GetModuleAddress E ModuleName = Some ma" "BytesToString E ma = Inr ms"
    and "mintTo E k c a s = (Ok (), t)"
  shows "\<exists>b. StringToBytes E a = Inr b \<and> \<not> BlockedAddr E b \<and> tf t = tf s \<and>
    (\<forall>d. sup V (ext (sys t)) d = sup V (ext (sys s)) d + amount_of d [c]) \<and>
    (\<forall>x d. bal V (ext (sys t)) x d =
       bal V (ext (sys s)) x d + (if x = b then amount_of d [c] else 0))"
proof -
  from assms(7) obtain cs u b where
    cs: "NewCoins E [c] = Ok cs" and
    mint: "MintCoins E ModuleName cs (sys s) = (Ok (), u)" and
    b: "StringToBytes E a = Inr b" "\<not> BlockedAddr E b" and
    send: "SendCoins E (bankKeeper k) ma b cs (s\<lparr>sys := u\<rparr>) = (Ok (), t)"
    by (auto simp: mintTo_def SendCoinsFromModuleToAccount_def mod result_iff split: if_splits)
  obtain bs where "BytesToString E b = Inr bs" using codec_bytes [OF assms(2) b(1)] by blast
  with send have "in_sys (BaseSendCoins E ma b cs) (s\<lparr>sys := u\<rparr>) = (Ok (), t)"
    using SendCoins_unhooked [of "bankKeeper k" E "s\<lparr>sys := u\<rparr>" cs ma ms b bs] assms(1) mod(2)
      unhooked_NewCoins [OF V cs assms(4)] in_sys_unhooked [of "s\<lparr>sys := u\<rparr>" s cs]
    by (simp add: wired_def)
  then obtain z where base: "BaseSendCoins E ma b cs u = (Ok (), z)" and t: "t = s\<lparr>sys := z\<rparr>"
    by (auto simp: result_iff)
  have "amount_of d cs = amount_of d [c]" for d using V cs by (simp add: ledger_ok_def)
  moreover have "sup V (ext z) d = sup V (ext (sys s)) d + amount_of d cs" for d
    using V mint base mod(1) by (simp add: ledger_ok_def)
  moreover have "bal V (ext z) x d = bal V (ext (sys s)) x d + (if x = b then amount_of d cs else 0)"
    for x d
  proof -
    have "bal V (ext u) x d = bal V (ext (sys s)) x d + (if x = ma then amount_of d cs else 0)"
      using V mint mod(1) by (simp add: ledger_ok_def)
    moreover have "bal V (ext z) x d = bal V (ext u) x d - (if x = ma then amount_of d cs else 0)
        + (if x = b then amount_of d cs else 0)"
      using V base by (simp add: ledger_ok_def)
    ultimately show ?thesis by simp
  qed
  ultimately show ?thesis using b t by simp
qed

text \<open>
  C10. A successful mint of a denom without a hook is signed by the denom's admin, adds exactly the
  minted amount to the supply and to the balance of the recipient, and changes no other balance,
  no other supply and nothing in the token factory store.
\<close>

theorem mint_effect:
  assumes "wired E k" and "codec_ok E" and "ledger_ok E V"
    and "GetBeforeSendHook s (coin_Denom (mint_Amount msg)) = []"
    and "GetModuleAddress E ModuleName = Some ma" and "BytesToString E ma = Inr ms"
    and "server_Mint E k msg s = (Ok (), t)"
  shows "DenomAuthority (tf s) (coin_Denom (mint_Amount msg)) = Some \<lparr>Admin = mint_Sender msg\<rparr> \<and>
    tf t = tf s \<and>
    (\<exists>b. StringToBytes E (if MintToAddress msg = [] then mint_Sender msg else MintToAddress msg) = Inr b \<and>
       (\<forall>d. sup V (ext (sys t)) d = sup V (ext (sys s)) d + amount_of d [mint_Amount msg]) \<and>
       (\<forall>x d. bal V (ext (sys t)) x d =
          bal V (ext (sys s)) x d + (if x = b then amount_of d [mint_Amount msg] else 0)))"
proof -
  define to where "to = (if MintToAddress msg = [] then mint_Sender msg else MintToAddress msg)"
  from assms(7) obtain u where
    admin: "check_admin (coin_Denom (mint_Amount msg)) (mint_Sender msg) s = (Ok (), s)" and
    mint: "mintTo E k (mint_Amount msg) to s = (Ok (), u)" and
    t: "tf t = tf u" "ext (sys t) = ext (sys u)"
    by (auto simp: server_Mint_def emit_def Let_def to_def check_admin_eq result_iff
        split: if_splits option.splits)
  from admin have "DenomAuthority (tf s) (coin_Denom (mint_Amount msg)) =
      Some \<lparr>Admin = mint_Sender msg\<rparr>"
    by (auto simp: check_admin_eq split: option.splits if_splits)
  with mintTo_ledger [OF assms(1-6) mint] t show ?thesis
    by (auto simp: to_def)
qed

definition iron :: "int \<Rightarrow> Coin" where
  "iron n = \<lparr>coin_Denom = ''factory/ann/iron'', coin_Amount = Some n\<rparr>"

lemma sample_iron_denom:
  "DeconstructDenom sample_env ''factory/ann/iron'' = Inr (''ann'', ''iron'')"
  using DeconstructDenom_iff [of sample_env "''factory/ann/iron''" "''ann''" "''iron''"]
  by (auto simp: sample_denom_def factory_denom_def ModuleDenomPrefix_def plain_address_def
      intro!: exI [of _ "''ann''"])

lemma sample_send_iron:
  "tf s = tf sample_state \<Longrightarrow> plain_address f \<Longrightarrow> plain_address t \<Longrightarrow>
     SendCoins sample_env (bankKeeper sample_keeper) (to_bytes f) (to_bytes t) [iron n] s =
     in_sys (sample_send (to_bytes f) (to_bytes t) [iron n]) s"
  using SendCoins_unhooked [of "bankKeeper sample_keeper" sample_env s "[iron n]"
      "to_bytes f" f "to_bytes t" t] sample_wired
  by (simp add: wired_def unhooked_def GetBeforeSendHook_def iron_def)

lemma sample_iron_valid [simp]: "0 \<le> n \<Longrightarrow> positive_coin (iron n)" "coin_Amount (iron n) = Some n"
  "coin_Denom (iron n) = ''factory/ann/iron''"
  by (simp_all add: positive_coin_def iron_def sample_denom_def)

lemma amount_of_iron [simp]: "amount_of d [iron n] = (if d = ''factory/ann/iron'' then n else 0)"
  by (simp add: amount_of_def iron_def)

definition iron_to_bob :: MsgMint where
  "iron_to_bob = \<lparr>mint_Sender = ''ann'', mint_Amount = iron 5, MintToAddress = ''bob''\<rparr>"

lemma iron_to_bob_sel [simp]:
  "mint_Sender iron_to_bob = ''ann''" "mint_Amount iron_to_bob = iron 5"
  "MintToAddress iron_to_bob = ''bob''"
  by (simp_all add: iron_to_bob_def)

lemma sample_mint_iron: "\<exists>t. server_Mint sample_env sample_keeper iron_to_bob sample_state = (Ok (), t)"
proof -
  have v: "MsgMint_Validate sample_env iron_to_bob = None"
    by (simp add: MsgMint_Validate_def check_sender_def sample_decode_def
        plain_address_def to_bytes_def)
  have "\<exists>t. mintTo sample_env sample_keeper (iron 5) ''bob'' sample_state = (Ok (), t)"
    by (simp add: mintTo_def SendCoinsFromModuleToAccount_def sample_iron_denom andThen_def
        prog_simps in_sys_def sample_mint_def on_ledger_def sample_decode_def plain_address_def
        ModuleName_def sample_send_iron sample_send_def covers_def add_to_def)
  then show ?thesis
    by (auto simp: server_Mint_def v andThen_def prog_simps check_admin_eq emit_def Let_def)
qed

theorem mint_effect_witness:
  "\<exists>t. server_Mint sample_env sample_keeper iron_to_bob sample_state = (Ok (), t) \<and>
     l_minted (ext (sys t)) ''factory/ann/iron'' = 15 \<and>
     l_balance (ext (sys t)) (to_bytes ''bob'') ''factory/ann/iron'' = 5"
proof -
  obtain t where t: "server_Mint sample_env sample_keeper iron_to_bob sample_state = (Ok (), t)"
    using sample_mint_iron by blast
  with mint_effect [OF sample_wired sample_codec_ok sample_ledger_ok _ _ _ t,
      of "to_bytes ''tokenfactory''" "''tokenfactory''"]
  show ?thesis
    by (auto simp: GetBeforeSendHook_def ModuleName_def plain_address_def
        sample_decode_def)
qed

lemma burnFrom_ledger:
  assumes "wired E k" and "codec_ok E" and V: "ledger_ok E V"
    and "GetBeforeSendHook s (coin_Denom c) = []"
    and mod: "GetModuleAddress E ModuleName = Some ma" "BytesToString E ma = Inr ms"
    and "burnFrom E k c a s = (Ok (), t)"
  shows "\<exists>b. StringToBytes E a = Inr b \<and> \<not> BlockedAddr E b \<and> tf t = tf s \<and>
    (\<forall>d. sup V (ext (sys t)) d = sup V (ext (sys s)) d - amount_of d [c]) \<and>
    (\<forall>x d. bal V (ext (sys t)) x d =
       bal V (ext (sys s)) x d - (if x = b then amount_of d [c] else 0))"
proof -
  from assms(7) obtain cs b r y u where
    cs: "NewCoins E [c] = Ok cs" and
    b: "StringToBytes E a = Inr b" "\<not> BlockedAddr E b" and
    acc: "GetModuleAccount E ModuleName (sys s) = (Ok r, y)" and
    send: "(case r of None \<Rightarrow> raise (no_module ModuleName)
      | Some x \<Rightarrow> SendCoins E (bankKeeper k) b x cs) (s\<lparr>sys := y\<rparr>) = (Ok (), u)" and
    burn: "in_sys (BurnCoins E ModuleName cs) u = (Ok (), t)"
    by (auto simp: burnFrom_def SendCoinsFromAccountToModule_def result_iff split: if_splits)
  have r: "r = Some ma" and y: "bal V (ext y) = bal V (ext (sys s))" "sup V (ext y) = sup V (ext (sys s))"
    using V acc mod(1) by (auto simp: ledger_ok_def)
  obtain bs where "BytesToString E b = Inr bs" using codec_bytes [OF assms(2) b(1)] by blast
  with send r have "in_sys (BaseSendCoins E b ma cs) (s\<lparr>sys := y\<rparr>) = (Ok (), u)"
    using SendCoins_unhooked [of "bankKeeper k" E "s\<lparr>sys := y\<rparr>" cs b bs ma ms] assms(1) mod(2)
      unhooked_NewCoins [OF V cs assms(4)] in_sys_unhooked [of "s\<lparr>sys := y\<rparr>" s cs]
    by (simp add: wired_def)
  then obtain z where base: "BaseSendCoins E b ma cs y = (Ok (), z)" and u: "u = s\<lparr>sys := z\<rparr>"
    by (auto simp: result_iff)
  with burn obtain w where w: "BurnCoins E ModuleName cs z = (Ok (), w)" and t: "t = s\<lparr>sys := w\<rparr>"
    by (auto simp: result_iff)
  have "amount_of d cs = amount_of d [c]" for d using V cs by (simp add: ledger_ok_def)
  moreover have "sup V (ext w) d = sup V (ext (sys s)) d - amount_of d cs" for d
    using V w base mod(1) y(2) by (simp add: ledger_ok_def)
  moreover have "bal V (ext w) x d = bal V (ext (sys s)) x d - (if x = b then amount_of d cs else 0)"
    for x d
  proof -
    have "bal V (ext w) x d = bal V (ext z) x d - (if x = ma then amount_of d cs else 0)"
      using V w mod(1) by (simp add: ledger_ok_def)
    moreover have "bal V (ext z) x d = bal V (ext y) x d - (if x = b then amount_of d cs else 0)
        + (if x = ma then amount_of d cs else 0)"
      using V base by (simp add: ledger_ok_def)
    ultimately show ?thesis using y(1) by simp
  qed
  ultimately show ?thesis using b t by simp
qed

text \<open>
  C11. A successful burn of a denom without a hook is signed by the denom's admin, who is not a
  module account, takes exactly the burnt amount from the supply and from the admin's own balance,
  and changes no other balance, no other supply and nothing in the token factory store.
\<close>

theorem burn_effect:
  assumes "wired E k" and "codec_ok E" and "ledger_ok E V"
    and "GetBeforeSendHook s (coin_Denom (burn_Amount msg)) = []"
    and "GetModuleAddress E ModuleName = Some ma" and "BytesToString E ma = Inr ms"
    and "server_Burn E k msg s = (Ok (), t)"
  shows "DenomAuthority (tf s) (coin_Denom (burn_Amount msg)) = Some \<lparr>Admin = burn_Sender msg\<rparr> \<and>
    tf t = tf s \<and>
    (\<exists>b. StringToBytes E (burn_Sender msg) = Inr b \<and>
       GetAccount E b (ext (sys s)) \<noteq> Some ModuleAccount \<and>
       (\<forall>d. sup V (ext (sys t)) d = sup V (ext (sys s)) d - amount_of d [burn_Amount msg]) \<and>
       (\<forall>x d. bal V (ext (sys t)) x d =
          bal V (ext (sys s)) x d - (if x = b then amount_of d [burn_Amount msg] else 0)))"
proof -
  from assms(7) obtain u b where
    admin: "check_admin (coin_Denom (burn_Amount msg)) (burn_Sender msg) s = (Ok (), s)" and
    b: "StringToBytes E (burn_Sender msg) = Inr b" "GetAccount E b (ext (sys s)) \<noteq> Some ModuleAccount" and
    burn: "burnFrom E k (burn_Amount msg) (burn_Sender msg) s = (Ok (), u)" and
    t: "tf t = tf u" "ext (sys t) = ext (sys u)"
    by (auto simp: server_Burn_def emit_def check_admin_eq result_iff
        split: if_splits option.splits)
  from admin have "DenomAuthority (tf s) (coin_Denom (burn_Amount msg)) =
      Some \<lparr>Admin = burn_Sender msg\<rparr>"
    by (auto simp: check_admin_eq split: option.splits if_splits)
  with burnFrom_ledger [OF assms(1-6) burn] t b show ?thesis by auto
qed

lemma sample_burn_iron:
  "\<exists>t. server_Burn sample_env sample_keeper \<lparr>burn_Sender = ''ann'', burn_Amount = iron 4\<rparr>
     sample_state = (Ok (), t)"
proof -
  have v: "MsgBurn_Validate sample_env \<lparr>burn_Sender = ''ann'', burn_Amount = iron 4\<rparr> = None"
    by (simp add: MsgBurn_Validate_def check_sender_def sample_decode_def plain_address_def
        to_bytes_def)
  have "\<exists>t. burnFrom sample_env sample_keeper (iron 4) ''ann'' sample_state = (Ok (), t)"
    by (simp add: burnFrom_def SendCoinsFromAccountToModule_def sample_iron_denom andThen_def
        prog_simps in_sys_def sample_burn_def on_ledger_def sample_decode_def plain_address_def
        ModuleName_def sample_send_iron sample_send_def covers_def add_to_def)
  then show ?thesis
    by (auto simp: server_Burn_def v andThen_def prog_simps check_admin_eq emit_def
        sample_decode_def plain_address_def)
qed

theorem burn_effect_witness:
  "\<exists>t. server_Burn sample_env sample_keeper \<lparr>burn_Sender = ''ann'', burn_Amount = iron 4\<rparr>
       sample_state = (Ok (), t) \<and>
     l_minted (ext (sys t)) ''factory/ann/iron'' = 6 \<and>
     l_balance (ext (sys t)) (to_bytes ''ann'') ''factory/ann/iron'' = 6"
proof -
  obtain t where t: "server_Burn sample_env sample_keeper
      \<lparr>burn_Sender = ''ann'', burn_Amount = iron 4\<rparr> sample_state = (Ok (), t)"
    using sample_burn_iron by blast
  with burn_effect [OF sample_wired sample_codec_ok sample_ledger_ok _ _ _ t,
      of "to_bytes ''tokenfactory''" "''tokenfactory''"]
  show ?thesis
    by (auto simp: GetBeforeSendHook_def ModuleName_def plain_address_def sample_decode_def)
qed

end
