(* ===== verification/Governance.thy ===== *)
theory Governance
  imports Transfers
begin

text \<open>
  The parameters of the token factory and the settings of the bank: only the authority of the
  chain changes them, and only to validated values.
\<close>

section \<open>Parameters stay unless the authority changes them\<close>

text \<open>
  Contracts do not sign for the authority, so they do not change the parameters.
\<close>

definition contracts_keep_params :: "'x env \<Rightarrow> bool" where
  "contracts_keep_params E \<longleftrightarrow> (\<forall>a m. keeps (same (\<lambda>s. ParamsItem (tf s))) (Sudo E a m))"

definition params_kept :: "'x env \<Rightarrow> 'x ctx \<Rightarrow> 'x ctx \<Rightarrow> bool" where
  "params_kept E s t \<longleftrightarrow> (contracts_keep_params E \<longrightarrow> ParamsItem (tf t) = ParamsItem (tf s))"

interpretation par: keeper_rel "params_kept E" E for E :: "'x env"
  by unfold_locales
    (auto simp: params_kept_def keeps_def contracts_keep_params_def same_def in_sys_def
      split: prod.splits)

lemma keeps_params_in_sys: "keeps (params_kept E) (in_sys m)"
  by (simp add: keeps_def params_kept_def in_sys_def split: prod.splits)

lemma keeps_params_in_tf:
  "(\<And>t. ParamsItem (snd (m t)) = ParamsItem t) \<Longrightarrow> keeps (params_kept E) (in_tf m)"
  by (auto simp: keeps_def params_kept_def in_tf_def split: prod.splits) (metis snd_conv)

lemma tf_ops_keep_params:
  "ParamsItem (snd (setAuthorityMetadata E d md t)) = ParamsItem t"
  "ParamsItem (snd (setAdmin E d a t)) = ParamsItem t"
  "ParamsItem (snd (addDenomFromCreator E a d t)) = ParamsItem t"
  "ParamsItem (snd (GetAuthorityMetadata d t)) = ParamsItem t"
  by (simp_all add: setAuthorityMetadata_def setAdmin_def addDenomFromCreator_def
      GetAuthorityMetadata_def andThen_def of_err_def prog_simps split: option.splits)

lemma keeps_params_check_admin: "keeps (params_kept E) (check_admin d a)"
  unfolding check_admin_def
  by (intro par.keeps_andThen par.keeps_if par.keeps_fail par.keeps_ret keeps_params_in_tf
      tf_ops_keep_params)

lemma keeps_params_CreateDenom:
  assumes "wired E k" shows "keeps (params_kept E) (CreateDenom E k a sub)"
proof -
  have "keeps (params_kept E) (validateCreateDenom E a sub)"
    by (simp add: keeps_def validateCreateDenom_state par.rel_refl)
  moreover have "keeps (params_kept E) (createDenomAfterValidation E a d)" for d
    unfolding createDenomAfterValidation_def
    by (intro par.keeps_andThen par.keeps_reads par.keeps_if par.keeps_ret keeps_params_in_sys
        keeps_params_in_tf tf_ops_keep_params)
  ultimately show ?thesis
    unfolding CreateDenom_def
    by (intro par.keeps_andThen par.keeps_chargeForCreateDenom par.keeps_ret assms)
qed

lemma keeps_params_setBeforeSendHook: "keeps (params_kept E) (setBeforeSendHook E d a)"
proof (rule keepsI)
  fix s :: "'a ctx"
  show "params_kept E s (snd (setBeforeSendHook E d a s))"
    using setBeforeSendHook_state [OF refl, of E d a s] by (auto simp: params_kept_def)
qed

lemma keeps_params_bank:
  assumes "wired E k"
  shows "keeps (params_kept E) (Send E B (bankKeeper k) m1)"
    and "keeps (params_kept E) (MultiSend E B (bankKeeper k) m2)"
    and "keeps (params_kept E) (bank_UpdateParams B m3)"
    and "keeps (params_kept E) (SetSendEnabled E B m4)"
proof -
  have h: "hooks (bankKeeper k) = Some (Hooks E)" using assms by (simp add: wired_def)
  have addr: "keeps (params_kept E) (address_or E w a)" for w a
    by (cases "StringToBytes E a") (simp_all add: address_or_def par.keeps_ret par.keeps_fail)
  have out: "keeps (params_kept E) (multi_output E (bankKeeper k) ia o1)" for ia o1
    unfolding multi_output_def using h
    by (intro par.keeps_andThen par.keeps_of_result par.keeps_if par.keeps_fail par.keeps_Block
        par.keeps_Track)
  show "keeps (params_kept E) (Send E B (bankKeeper k) m1)"
    unfolding Send_def using h
    by (intro par.keeps_andThen addr par.keeps_if par.keeps_fail keeps_params_in_sys
        par.keeps_SendCoins)
  show "keeps (params_kept E) (MultiSend E B (bankKeeper k) m2)"
    unfolding MultiSend_def Let_def
    by (intro par.keeps_andThen par.keeps_if par.keeps_fail par.keeps_of_err par.keeps_of_result
        par.keeps_for_each keeps_params_in_sys out)
  show "keeps (params_kept E) (bank_UpdateParams B m3)"
    unfolding bank_UpdateParams_def
    by (intro par.keeps_andThen par.keeps_if par.keeps_fail par.keeps_of_err keeps_params_in_sys)
  show "keeps (params_kept E) (SetSendEnabled E B m4)"
    unfolding SetSendEnabled_def
    by (intro par.keeps_andThen par.keeps_if par.keeps_fail par.keeps_of_err par.keeps_ret
        keeps_params_in_sys)
qed

lemma keeps_params_handlers:
  assumes "wired E k"
  shows "keeps (params_kept E) (server_CreateDenom E k m1)"
    and "keeps (params_kept E) (server_Mint E k m2)"
    and "keeps (params_kept E) (server_Burn E k m3)"
    and "keeps (params_kept E) (server_ChangeAdmin E m4)"
    and "keeps (params_kept E) (server_SetDenomMetadata E m5)"
    and "keeps (params_kept E) (server_SetBeforeSendHook E m6)"
  unfolding server_CreateDenom_def server_Mint_def server_Burn_def server_ChangeAdmin_def
    server_SetDenomMetadata_def server_SetBeforeSendHook_def Let_def
  by (intro par.keeps_andThen par.keeps_of_err par.keeps_reads par.keeps_if par.keeps_fail
      par.keeps_ret par.keeps_of_result par.keeps_emit keeps_params_check_admin
      keeps_params_CreateDenom par.keeps_mintTo par.keeps_burnFrom keeps_params_in_tf
      tf_ops_keep_params keeps_params_in_sys keeps_params_setBeforeSendHook assms)+

lemma keeps_params_UpdateParams:
  "up_Authority m \<noteq> authority k \<Longrightarrow> keeps (params_kept E) (server_UpdateParams E k m)"
  by (simp add: server_UpdateParams_def par.keeps_fail)

section \<open>Properties\<close>

text \<open>
  C16. Through any run of messages none of which the chain's authority signs, the parameters of the
  token factory stay as they are.
\<close>

theorem params_only_by_authority:
  assumes "wired E k" and "contracts_keep_params E" and "run E B k ms s t"
    and "\<forall>m\<in>set ms. authority k \<notin> set (signers m)"
  shows "ParamsItem (tf t) = ParamsItem (tf s)"
proof -
  have "keeps (params_kept E) (deliver E B k m)" if "authority k \<notin> set (signers m)" for m
    using that keeps_params_bank [OF assms(1)] keeps_params_handlers [OF assms(1)]
    by (cases m) (simp_all add: par.keeps_andThen par.keeps_ret keeps_params_UpdateParams)
  with assms(3,4) have "params_kept E s t"
  proof (induction rule: run.induct)
    case (run_kept m s r t ms u)
    then show ?case using par.rel_trans keepsD by (metis list.set_intros)
  qed (auto intro: par.rel_refl)
  with assms(2) show ?thesis by (simp add: params_kept_def)
qed

theorem params_only_by_authority_witness:
  "ParamsItem (tf (sample_after (TfUpdateParams \<lparr>up_Authority = ''ann'', up_Params = \<lparr>DenomCreationFee = Some [], DenomCreationGasConsume = 1000000\<rparr>\<rparr>))) =
   ParamsItem (tf sample_state)"
proof (rule params_only_by_authority [OF sample_wired _ sample_run])
  show "contracts_keep_params sample_env"
    by (simp add: contracts_keep_params_def keeps_def same_def sample_sudo_stores)
qed (simp add: sample_keeper_def NewKeeper_def)

text \<open>
  C17. What the parameters are set to was validated and is read back: after a successful update
  the fee and the gas are those of the message, except that an empty fee reads back as no fee.
\<close>

theorem update_params_effect:
  assumes "server_UpdateParams E k msg s = (Ok (), t)"
  shows "up_Authority msg = authority k \<and> Params_Validate E (up_Params msg) = None \<and>
    GetParams (tf t) = stored_params (up_Params msg) \<and>
    DenomCreationFee (GetParams (tf t)) \<noteq> Some [] \<and> sys t = sys s"
  using assms
  by (auto simp: server_UpdateParams_def SetParams_def GetParams_def stored_params_def result_iff
      split: if_splits option.splits list.splits)

theorem update_params_effect_witness:
  "GetParams (tf (snd (server_UpdateParams sample_env sample_keeper
     \<lparr>up_Authority = ''gov'', up_Params = \<lparr>DenomCreationFee = Some [], DenomCreationGasConsume = 1000000\<rparr>\<rparr> sample_state))) =
   \<lparr>DenomCreationFee = None, DenomCreationGasConsume = 1000000\<rparr>"
  using update_params_effect [of sample_env sample_keeper
      "\<lparr>up_Authority = ''gov'', up_Params = \<lparr>DenomCreationFee = Some [], DenomCreationGasConsume = 1000000\<rparr>\<rparr>" sample_state]
  by (simp add: server_UpdateParams_def sample_keeper_def NewKeeper_def Params_Validate_def
      fee_coins_def in_tf_def SetParams_def modify_def stored_params_def)

lemma check_send_enabled_None:
  "check_send_enabled E B seen ses = None \<longleftrightarrow>
     distinct (map se_Denom ses) \<and> set (map se_Denom ses) \<inter> seen = {} \<and>
     (\<forall>se\<in>set ses. SendEnabledValidate B se = None)"
  by (induction ses arbitrary: seen) (auto split: option.splits)

lemma check_defaults_None:
  "check_defaults E ds = None \<longleftrightarrow> (\<forall>d\<in>set ds. ValidateDenom E d = None)"
  by (induction ds) (auto split: option.splits)

text \<open>
  C18. A message that sets the send settings of the bank is refused, and nothing is written, when it
  is not signed by the authority, when it lists a denom twice, or when an entry or a denom of it is
  not valid.
\<close>

theorem set_send_enabled_refused:
  assumes "sse_Authority msg \<noteq> BankAuthority B \<or> \<not> distinct (map se_Denom (sse_SendEnabled msg)) \<or>
    (\<exists>se\<in>set (sse_SendEnabled msg). SendEnabledValidate B se \<noteq> None) \<or>
    (\<exists>d\<in>set (UseDefaultFor msg). ValidateDenom E d \<noteq> None)"
  shows "\<exists>e. SetSendEnabled E B msg s = (Err e, s)"
proof (cases "sse_Authority msg = BankAuthority B \<and> check_send_enabled E B {} (sse_SendEnabled msg) = None")
  case True
  with assms have "check_defaults E (UseDefaultFor msg) \<noteq> None"
    by (auto simp: check_send_enabled_None check_defaults_None)
  with True show ?thesis by (auto simp: SetSendEnabled_def prog_simps)
qed (auto simp: SetSendEnabled_def prog_simps)

theorem set_send_enabled_refused_witness:
  "\<exists>e. SetSendEnabled sample_env sample_bank \<lparr>sse_Authority = ''gov'',
     sse_SendEnabled = [\<lparr>se_Denom = ''copper'', se_Enabled = True\<rparr>,
       \<lparr>se_Denom = ''copper'', se_Enabled = False\<rparr>], UseDefaultFor = []\<rparr> sample_state =
     (Err e, sample_state)"
  by (rule set_send_enabled_refused) simp

end
