(* ===== verification/Ante.thy ===== *)
theory Ante
  imports Context
begin

text \<open>
  The transaction checks of the application: the full chain of ante decorators
  (\<open>app/ante/ante.go\<close>), the reduced chain for \<open>CheckTx\<close> (\<open>app/ante/minimal.go\<close>), the
  fee check that does not deduct (\<open>app/ante/checkfee.go\<close>), and the fee exemption, the mempool
  tiers and the handlers that \<open>app/abcipp.go\<close> builds from them.  The decorators of other modules
  and \<open>ChainAnteDecorators\<close> are parameters.
\<close>

section \<open>Contexts, transactions and decorators\<close>

record 's ante_ctx =
  IsCheckTx :: bool
  IsReCheckTx :: bool
  tx_priority :: int
  stores :: 's

text \<open>
  The messages the mempool tells apart; \<open>MsgExec\<close> carries the result of \<open>GetMessages\<close>.  A
  transaction that is a \<open>FeeTx\<close> has a payer, perhaps a granter, and a fee.
\<close>

datatype sdk_msg =
    MsgUpdateClient
  | MsgUpdateOracle
  | MsgRelayOracleData
  | MsgExec "error + sdk_msg list"
  | OtherMsg string

record fee_tx =
  FeePayer :: bytes
  FeeGranter :: "bytes option"
  GetFee :: "Coin list"

record sdk_tx =
  AsFeeTx :: "fee_tx option"
  GetMsgs :: "sdk_msg list"

type_synonym 's AnteHandler = "sdk_tx \<Rightarrow> bool \<Rightarrow> ('s ante_ctx, unit) prog"
type_synonym 's AnteDecorator = "'s AnteHandler \<Rightarrow> 's AnteHandler"
type_synonym 's TxFeeChecker = "sdk_tx \<Rightarrow> ('s ante_ctx, Coin list \<times> int) prog"

section \<open>The fee check of CheckTx\<close>

record 's CheckFeeDecorator =
  feeChecker :: "'s TxFeeChecker"

definition NewCheckFeeDecorator :: "'s TxFeeChecker \<Rightarrow> 's CheckFeeDecorator" where
  "NewCheckFeeDecorator checker = \<lparr>feeChecker = checker\<rparr>"

definition not_fee_tx :: error where
  "not_fee_tx = Wrap (Sentinel ''sdkerrors.ErrTxDecode'') ''Tx must be a FeeTx''"

definition CheckFee_AnteHandle :: "'s CheckFeeDecorator \<Rightarrow> 's AnteDecorator" where
  "CheckFee_AnteHandle cfd next tx simulate =
     (case AsFeeTx tx of
        None \<Rightarrow> fail not_fee_tx
      | Some _ \<Rightarrow>
          andThen (if \<not> simulate
                   then andThen (feeChecker cfd tx) (\<lambda>(_, priority).
                        modify (\<lambda>c. c\<lparr>tx_priority := priority\<rparr>))
                   else ret ()) (\<lambda>_.
          next tx simulate))"

section \<open>Building the handlers\<close>

text \<open>
  The options of the handlers: a nil keeper or function is \<open>None\<close>.  Keepers and configuration
  values are of one opaque type, gas consumers of another.
\<close>

record ('s, 'k, 'g) HandlerOptions =
  AccountKeeper :: "'k option"
  BankKeeperOpt :: "'k option"
  FeegrantKeeper :: "'k option"
  SignModeHandler :: "'k option"
  ExtensionOptionChecker :: "'k option"
  SigGasConsumer :: "'g option"
  TxFeeCheckerOpt :: "'s TxFeeChecker option"
  IBCkeeper :: "'k option"
  OPChildKeeper :: "'k option"
  WasmKeeper :: "'k option"
  WasmConfig :: "'k option"
  TXCounterStoreService :: "'k option"

record ('s, 'k, 'g) ante_lib =
  SetUpContext :: "'s AnteDecorator"
  ExtensionOptions :: "'k option \<Rightarrow> 's AnteDecorator"
  LimitSimulationGas :: "'k \<Rightarrow> 's AnteDecorator"
  CountTX :: "'k \<Rightarrow> 's AnteDecorator"
  GasRegister :: "'k \<Rightarrow> 's AnteDecorator"
  ValidateBasic :: "'s AnteDecorator"
  TxTimeoutHeight :: "'s AnteDecorator"
  ValidateMemo :: "'k \<Rightarrow> 's AnteDecorator"
  ConsumeGasForTxSize :: "'k \<Rightarrow> 's AnteDecorator"
  DeductFee :: "'k \<Rightarrow> 'k \<Rightarrow> 'k option \<Rightarrow> 's TxFeeChecker \<Rightarrow> 's AnteDecorator"
  SetPubKey :: "'k \<Rightarrow> 's AnteDecorator"
  ValidateSigCount :: "'k \<Rightarrow> 's AnteDecorator"
  SigGasConsume :: "'k \<Rightarrow> 'g \<Rightarrow> 's AnteDecorator"
  SigVerification :: "'k \<Rightarrow> 'k \<Rightarrow> 's AnteDecorator"
  IncrementSequence :: "'k \<Rightarrow> 's AnteDecorator"
  RedundantRelay :: "'k \<Rightarrow> 's AnteDecorator"
  RedundantBridge :: "'k \<Rightarrow> 's AnteDecorator"
  DefaultSigVerificationGasConsumer :: 'g
  ChainAnteDecorators :: "'s AnteDecorator list \<Rightarrow> 's AnteHandler"

definition required :: "string \<Rightarrow> string \<Rightarrow> error" where
  "required what for_what = Wrap (Sentinel ''sdkerrors.ErrLogic'')
     (what @ '' is required for '' @ for_what)"

text \<open>The first option that is missing.\<close>

fun first_missing :: "(bool \<times> string) list \<Rightarrow> string \<Rightarrow> error option" where
  "first_missing [] for_what = None"
| "first_missing ((missing, what) # cs) for_what =
     (if missing then Some (required what for_what) else first_missing cs for_what)"

definition sig_gas :: "('s, 'k, 'g) ante_lib \<Rightarrow> ('s, 'k, 'g) HandlerOptions \<Rightarrow> 'g" where
  "sig_gas L options = (case SigGasConsumer options of
     Some g \<Rightarrow> g | None \<Rightarrow> DefaultSigVerificationGasConsumer L)"

definition anteDecorators :: "('s, 'k, 'g) ante_lib \<Rightarrow> ('s, 'k, 'g) HandlerOptions \<Rightarrow> 's AnteDecorator list" where
  "anteDecorators L options =
     (let ak = the (AccountKeeper options) in
      [SetUpContext L,
       ExtensionOptions L (ExtensionOptionChecker options),
       LimitSimulationGas L (the (WasmConfig options)),
       CountTX L (the (TXCounterStoreService options)),
       GasRegister L (the (WasmKeeper options)),
       ValidateBasic L,
       TxTimeoutHeight L,
       ValidateMemo L ak,
       ConsumeGasForTxSize L ak,
       DeductFee L ak (the (BankKeeperOpt options)) (FeegrantKeeper options) (the (TxFeeCheckerOpt options)),
       SetPubKey L ak,
       ValidateSigCount L ak,
       SigGasConsume L ak (sig_gas L options),
       SigVerification L ak (the (SignModeHandler options)),
       IncrementSequence L ak,
       RedundantRelay L (the (IBCkeeper options)),
       RedundantBridge L (the (OPChildKeeper options))])"

definition NewAnteHandler :: "('s, 'k, 'g) ante_lib \<Rightarrow> ('s, 'k, 'g) HandlerOptions \<Rightarrow> error + 's AnteHandler" where
  "NewAnteHandler L options =
     (case first_missing
        [(AccountKeeper options = None, ''account keeper''),
         (BankKeeperOpt options = None, ''bank keeper''),
         (SignModeHandler options = None, ''sign mode handler''),
         (WasmConfig options = None, ''wasm config''),
         (WasmKeeper options = None, ''wasm keeper''),
         (TXCounterStoreService options = None, ''wasm store service''),
         (OPChildKeeper options = None, ''opchild keeper''),
         (IBCkeeper options = None, ''IBC keeper''),
         (TxFeeCheckerOpt options = None, ''tx fee checker'')] ''ante builder'' of
        Some e \<Rightarrow> Inl e
      | None \<Rightarrow> Inr (ChainAnteDecorators L (anteDecorators L options)))"

definition minimalDecorators :: "('s, 'k, 'g) ante_lib \<Rightarrow> ('s, 'k, 'g) HandlerOptions \<Rightarrow> 's AnteDecorator list" where
  "minimalDecorators L options =
     (let ak = the (AccountKeeper options) in
      [SetUpContext L,
       ExtensionOptions L (ExtensionOptionChecker options),
       LimitSimulationGas L (the (WasmConfig options)),
       CountTX L (the (TXCounterStoreService options)),
       GasRegister L (the (WasmKeeper options)),
       ValidateBasic L,
       TxTimeoutHeight L,
       ValidateMemo L ak,
       ConsumeGasForTxSize L ak,
       CheckFee_AnteHandle (NewCheckFeeDecorator (the (TxFeeCheckerOpt options))),
       SetPubKey L ak,
       ValidateSigCount L ak,
       SigGasConsume L ak (sig_gas L options),
       SigVerification L ak (the (SignModeHandler options)),
       RedundantRelay L (the (IBCkeeper options)),
       RedundantBridge L (the (OPChildKeeper options))])"

definition NewMinimalAnteHandler :: "('s, 'k, 'g) ante_lib \<Rightarrow> ('s, 'k, 'g) HandlerOptions \<Rightarrow> error + 's AnteHandler" where
  "NewMinimalAnteHandler L options =
     (case first_missing
        [(AccountKeeper options = None, ''account keeper''),
         (SignModeHandler options = None, ''sign mode handler''),
         (OPChildKeeper options = None, ''opchild keeper''),
         (IBCkeeper options = None, ''IBC keeper''),
         (WasmConfig options = None, ''wasm config''),
         (WasmKeeper options = None, ''wasm keeper''),
         (TXCounterStoreService options = None, ''wasm store service''),
         (TxFeeCheckerOpt options = None, ''tx fee checker'')] ''minimal ante handler'' of
        Some e \<Rightarrow> Inl e
      | None \<Rightarrow> Inr (ChainAnteDecorators L (minimalDecorators L options)))"

definition CreateAnteHandlerForOPinit :: "('s, 'k, 'g) ante_lib \<Rightarrow> 'k \<Rightarrow> 'k \<Rightarrow> 's AnteHandler" where
  "CreateAnteHandlerForOPinit L ak signModeHandler =
     ChainAnteDecorators L
       [ValidateBasic L,
        TxTimeoutHeight L,
        SetPubKey L ak,
        ValidateSigCount L ak,
        SigGasConsume L ak (DefaultSigVerificationGasConsumer L),
        SigVerification L ak signModeHandler,
        IncrementSequence L ak]"

definition NewDualAnteHandler :: "'s AnteHandler \<Rightarrow> 's AnteHandler \<Rightarrow> 's AnteHandler" where
  "NewDualAnteHandler minimal full tx simulate ctx =
     (if IsCheckTx ctx \<or> IsReCheckTx ctx then minimal tx simulate ctx else full tx simulate ctx)"

section \<open>Fee exemption and mempool tiers\<close>

text \<open>What \<open>setupABCIPP\<close> calls on the keepers of the application.\<close>

record 's fee_lib =
  FeeWhitelist :: "'s ante_ctx \<Rightarrow> error + string list"
  AddressString :: "bytes \<Rightarrow> error + string"
  CheckTxFeeWithMinGasPrices :: "'s TxFeeChecker"

definition freeFeeChecker :: "'s fee_lib \<Rightarrow> 's ante_ctx \<Rightarrow> sdk_tx \<Rightarrow> bool" where
  "freeFeeChecker F ctx tx =
     (case AsFeeTx tx of
        None \<Rightarrow> False
      | Some feeTx \<Rightarrow>
          (case FeeWhitelist F ctx of
             Inl _ \<Rightarrow> False
           | Inr whitelist \<Rightarrow>
               (case AddressString F (FeePayer feeTx) of
                  Inl _ \<Rightarrow> False
                | Inr payer \<Rightarrow>
                    (case (case FeeGranter feeTx of None \<Rightarrow> Inr [] | Some g \<Rightarrow> AddressString F g) of
                       Inl _ \<Rightarrow> False
                     | Inr granter \<Rightarrow>
                         list_ex (\<lambda>addr. addr = payer \<or> addr = granter) whitelist))))"

definition feeCheckerWrapper :: "'s fee_lib \<Rightarrow> 's TxFeeChecker" where
  "feeCheckerWrapper F tx ctx =
     (if \<not> freeFeeChecker F ctx tx then CheckTxFeeWithMinGasPrices F tx ctx
      else (case AsFeeTx tx of
        None \<Rightarrow> (Err not_fee_tx, ctx)
      | Some feeTx \<Rightarrow> (Ok (GetFee feeTx, 1), ctx)))"

definition system_msg :: "sdk_msg \<Rightarrow> bool" where
  "system_msg msg = (case msg of
     MsgUpdateClient \<Rightarrow> True
   | MsgUpdateOracle \<Rightarrow> True
   | MsgRelayOracleData \<Rightarrow> True
   | MsgExec (Inl _) \<Rightarrow> False
   | MsgExec (Inr msgs) \<Rightarrow>
       (if length msgs \<noteq> 1 then False
        else (case msgs ! 0 of MsgUpdateOracle \<Rightarrow> True | MsgRelayOracleData \<Rightarrow> True | _ \<Rightarrow> False))
   | OtherMsg _ \<Rightarrow> False)"

definition systemTierMatcher :: "'s ante_ctx \<Rightarrow> sdk_tx \<Rightarrow> bool" where
  "systemTierMatcher ctx tx = list_all system_msg (GetMsgs tx)"

text \<open>
  The handlers and the mempool configuration that \<open>setupABCIPP\<close> puts together.  The proposal and
  \<open>CheckTx\<close> handlers of the \<open>abcipp\<close> package are built by parameters that may fail.
\<close>

record abcipp_config =
  cfg_MaxQueuedPerSender :: int
  cfg_MaxQueuedTotal :: int
  cfg_QueuedGapTTL :: int

record 's mempool_config =
  MaxTx :: int
  MaxQueuedPerSender :: int
  MaxQueuedTotal :: int
  QueuedGapTTL :: int
  mempool_AnteHandler :: "'s AnteHandler"
  Tiers :: "(string \<times> ('s ante_ctx \<Rightarrow> sdk_tx \<Rightarrow> bool)) list"

record ('s, 'p, 'c) abcipp =
  abcipp_mempool :: "'s mempool_config"
  abcipp_anteHandler :: "'s AnteHandler"
  abcipp_proposals :: 'p
  abcipp_checkTx :: 'c

record ('s, 'p, 'c) abcipp_lib =
  GetConfig :: abcipp_config
  NewProposalHandler :: "'s mempool_config \<Rightarrow> 's AnteHandler \<Rightarrow> error + 'p"
  NewCheckTxHandler :: "'s mempool_config \<Rightarrow> 's TxFeeChecker \<Rightarrow> error + 'c"

definition setupABCIPP ::
  "('s, 'k, 'g) ante_lib \<Rightarrow> 's fee_lib \<Rightarrow> ('s, 'p, 'c) abcipp_lib \<Rightarrow>
   ('s, 'k, 'g) HandlerOptions \<Rightarrow> int \<Rightarrow> error + ('s, 'p, 'c) abcipp" where
  "setupABCIPP L F P keepers mempoolMaxTxs =
     (let handlerOpts = keepers\<lparr>TxFeeCheckerOpt := Some (feeCheckerWrapper F), SigGasConsumer := None\<rparr>
      in case NewAnteHandler L handlerOpts of
        Inl e \<Rightarrow> Inl e
      | Inr fullHandler \<Rightarrow>
          (case NewMinimalAnteHandler L handlerOpts of
             Inl e \<Rightarrow> Inl e
           | Inr minimalHandler \<Rightarrow>
               (let anteHandler = NewDualAnteHandler minimalHandler fullHandler;
                    abcippCfg = GetConfig P;
                    mempool = \<lparr>MaxTx = mempoolMaxTxs,
                      MaxQueuedPerSender = cfg_MaxQueuedPerSender abcippCfg,
                      MaxQueuedTotal = cfg_MaxQueuedTotal abcippCfg,
                      QueuedGapTTL = cfg_QueuedGapTTL abcippCfg,
                      mempool_AnteHandler = fullHandler,
                      Tiers = [(''system'', systemTierMatcher), (''admin'', freeFeeChecker F)]\<rparr>
                in case NewProposalHandler P mempool fullHandler of
                  Inl e \<Rightarrow> Inl e
                | Inr proposals \<Rightarrow>
                    (case NewCheckTxHandler P mempool (feeCheckerWrapper F) of
                       Inl e \<Rightarrow> Inl e
                     | Inr checkTx \<Rightarrow> Inr \<lparr>abcipp_mempool = mempool, abcipp_anteHandler = anteHandler,
                         abcipp_proposals = proposals, abcipp_checkTx = checkTx\<rparr>))))"

section \<open>What the decorators keep\<close>









lemma first_missing_None: "first_missing cs w = None \<longleftrightarrow> (\<forall>(missing, _)\<in>set cs. \<not> missing)"
  by (induction cs w rule: first_missing.induct) auto

lemma case_missing: "(\<exists>h. (case r of Some e \<Rightarrow> Inl e | None \<Rightarrow> Inr x) = Inr h) \<longleftrightarrow> r = None"
  by (cases r) simp_all


lemma NewAnteHandler_eq:
  "NewAnteHandler L options = Inr h \<Longrightarrow> h = ChainAnteDecorators L (anteDecorators L options)"
  by (simp add: NewAnteHandler_def split: option.splits)

lemma system_msg_iff:
  "system_msg m \<longleftrightarrow> m \<in> {MsgUpdateClient, MsgUpdateOracle, MsgRelayOracleData,
     MsgExec (Inr [MsgUpdateOracle]), MsgExec (Inr [MsgRelayOracleData])}"
proof (cases m)
  case (MsgExec r)
  show ?thesis
  proof (cases "\<exists>x. r = Inr [x]")
    case True
    then obtain x where "r = Inr [x]" by blast
    with MsgExec show ?thesis by (cases x) (simp_all add: system_msg_def)
  next
    case False
    with MsgExec show ?thesis
      by (cases r) (auto simp: system_msg_def length_Suc_conv)
  qed
qed (simp_all add: system_msg_def)

section \<open>Sample library\<close>

text \<open>
  Decorators that pass on to the next handler, except that fees are taken from a balance and
  sequences are counted; the stores are the pair of both.
\<close>

definition sample_ante :: "(int \<times> nat, unit, unit) ante_lib" where
  "sample_ante = \<lparr>SetUpContext = id, ExtensionOptions = (\<lambda>_. id), LimitSimulationGas = (\<lambda>_. id),
     CountTX = (\<lambda>_. id), GasRegister = (\<lambda>_. id), ValidateBasic = id, TxTimeoutHeight = id,
     ValidateMemo = (\<lambda>_. id), ConsumeGasForTxSize = (\<lambda>_. id),
     DeductFee = (\<lambda>_ _ _ checker h tx sim. andThen (checker tx) (\<lambda>_.
       andThen (modify (\<lambda>c. c\<lparr>stores := (fst (stores c) - 1, snd (stores c))\<rparr>)) (\<lambda>_. h tx sim))),
     SetPubKey = (\<lambda>_. id), ValidateSigCount = (\<lambda>_. id), SigGasConsume = (\<lambda>_ _. id),
     SigVerification = (\<lambda>_ _. id),
     IncrementSequence = (\<lambda>_ h tx sim.
       andThen (modify (\<lambda>c. c\<lparr>stores := (fst (stores c), snd (stores c) + 1)\<rparr>)) (\<lambda>_. h tx sim)),
     RedundantRelay = (\<lambda>_. id), RedundantBridge = (\<lambda>_. id),
     DefaultSigVerificationGasConsumer = (),
     ChainAnteDecorators = (\<lambda>ds. foldr (\<lambda>d h. d h) ds (\<lambda>_ _. ret ()))\<rparr>"

definition sample_fees :: "'s fee_lib" where
  "sample_fees = \<lparr>FeeWhitelist = (\<lambda>_. Inr [''bridge'']), AddressString = (\<lambda>b. Inr (of_bytes b)),
     CheckTxFeeWithMinGasPrices = (\<lambda>tx. fail (Text ''insufficient fees''))\<rparr>"

definition sample_options :: "('s, unit, unit) HandlerOptions" where
  "sample_options = \<lparr>AccountKeeper = Some (), BankKeeperOpt = Some (), FeegrantKeeper = None,
     SignModeHandler = Some (), ExtensionOptionChecker = None, SigGasConsumer = None,
     TxFeeCheckerOpt = Some (feeCheckerWrapper sample_fees), IBCkeeper = Some (), OPChildKeeper = Some (),
     WasmKeeper = Some (), WasmConfig = Some (), TXCounterStoreService = Some ()\<rparr>"

definition sample_tx :: "string \<Rightarrow> sdk_tx" where
  "sample_tx payer = \<lparr>AsFeeTx = Some \<lparr>FeePayer = to_bytes payer, FeeGranter = None, GetFee = []\<rparr>,
     GetMsgs = [MsgUpdateOracle]\<rparr>"

definition sample_ctx :: "bool \<Rightarrow> (int \<times> nat) ante_ctx" where
  "sample_ctx check = \<lparr>IsCheckTx = check, IsReCheckTx = False, tx_priority = 0, stores = (10, 0)\<rparr>"



section \<open>Properties\<close>


definition sample_abcipp :: "('s, unit, unit) abcipp_lib" where
  "sample_abcipp = \<lparr>GetConfig = \<lparr>cfg_MaxQueuedPerSender = 64, cfg_MaxQueuedTotal = 1024,
     cfg_QueuedGapTTL = 60\<rparr>, NewProposalHandler = (\<lambda>_ _. Inr ()), NewCheckTxHandler = (\<lambda>_ _. Inr ())\<rparr>"

definition sample_setup :: "(int \<times> nat, unit, unit) abcipp" where
  "sample_setup =
     (case setupABCIPP sample_ante sample_fees sample_abcipp sample_options 5 of Inr a \<Rightarrow> a)"

lemma sample_setup_eq:
  "setupABCIPP sample_ante sample_fees sample_abcipp sample_options 5 = Inr sample_setup"
  by (simp add: sample_setup_def setupABCIPP_def NewAnteHandler_def NewMinimalAnteHandler_def
      sample_options_def sample_abcipp_def Let_def)


text \<open>
  The chain for \<open>CheckTx\<close> is the full chain with the deduction of fees replaced by the fee
  check and without the decorator that increments sequences: every other check is made in both, on
  the same arguments and in the same order.
\<close>

lemma minimal_is_full_without_charging:
  "\<exists>before middle after.
     anteDecorators L options = before
       @ [DeductFee L (the (AccountKeeper options)) (the (BankKeeperOpt options))
            (FeegrantKeeper options) (the (TxFeeCheckerOpt options))]
       @ middle @ [IncrementSequence L (the (AccountKeeper options))] @ after \<and>
     minimalDecorators L options = before
       @ [CheckFee_AnteHandle (NewCheckFeeDecorator (the (TxFeeCheckerOpt options)))]
       @ middle @ after"
proof -
  let ?ak = "the (AccountKeeper options)"
  let ?before = "[SetUpContext L, ExtensionOptions L (ExtensionOptionChecker options),
    LimitSimulationGas L (the (WasmConfig options)), CountTX L (the (TXCounterStoreService options)),
    GasRegister L (the (WasmKeeper options)), ValidateBasic L, TxTimeoutHeight L, ValidateMemo L ?ak,
    ConsumeGasForTxSize L ?ak]"
  let ?middle = "[SetPubKey L ?ak, ValidateSigCount L ?ak, SigGasConsume L ?ak (sig_gas L options),
    SigVerification L ?ak (the (SignModeHandler options))]"
  let ?after = "[RedundantRelay L (the (IBCkeeper options)), RedundantBridge L (the (OPChildKeeper options))]"
  show ?thesis
    by (intro exI [of _ ?before] exI [of _ ?middle] exI [of _ ?after])
      (simp add: anteDecorators_def minimalDecorators_def Let_def)
qed

text \<open>
  The handlers are built exactly when everything they need is given; otherwise building them
  is a logic error, and nothing is left to fail when a transaction arrives.  What the full handler
  needs beside the reduced one is the bank keeper.
\<close>

lemma handlers_need_all_parts:
  "((\<exists>h. NewMinimalAnteHandler L options = Inr h) \<longleftrightarrow>
      None \<notin> {AccountKeeper options, SignModeHandler options, OPChildKeeper options, IBCkeeper options,
        WasmConfig options, WasmKeeper options, TXCounterStoreService options} \<and>
      TxFeeCheckerOpt options \<noteq> None) \<and>
   ((\<exists>h. NewAnteHandler L options = Inr h) \<longleftrightarrow>
      (\<exists>h. NewMinimalAnteHandler L options = Inr h) \<and> BankKeeperOpt options \<noteq> None)"
  unfolding NewAnteHandler_def NewMinimalAnteHandler_def case_missing first_missing_None
  by (auto simp: eq_commute [of None])

text \<open>
  C30. Only transactions paid by an address of the whitelist, or by a granter on it, are exempt from
  the minimum gas price: for every other transaction with a fee the check of the fee is the one of
  the chain's own checker, and an exempt transaction keeps the fee it declares with priority one.
\<close>

theorem fee_exemption:
  assumes "FeeWhitelist F ctx = Inr whitelist" and "[] \<notin> set whitelist" and "AsFeeTx tx = Some f"
    and "AddressString F (FeePayer f) = Inr payer"
    and "\<And>g. FeeGranter f = Some g \<Longrightarrow> AddressString F g = Inr granter"
  shows "feeCheckerWrapper F tx ctx =
    (if payer \<in> set whitelist \<or> (FeeGranter f \<noteq> None \<and> granter \<in> set whitelist)
     then (Ok (GetFee f, 1), ctx) else CheckTxFeeWithMinGasPrices F tx ctx)"
  using assms
  by (cases "FeeGranter f")
    (auto simp: feeCheckerWrapper_def freeFeeChecker_def list_ex_iff)

theorem fee_exemption_witness:
  "feeCheckerWrapper sample_fees (sample_tx ''bridge'') (sample_ctx True) = (Ok ([], 1), sample_ctx True) \<and>
   fst (feeCheckerWrapper sample_fees (sample_tx ''ann'') (sample_ctx True)) = Err (Text ''insufficient fees'')"
  using fee_exemption [of sample_fees "sample_ctx True" "[''bridge'']" "sample_tx ''bridge''"
      "\<lparr>FeePayer = to_bytes ''bridge'', FeeGranter = None, GetFee = []\<rparr>" "''bridge''" "[]"]
    fee_exemption [of sample_fees "sample_ctx True" "[''bridge'']" "sample_tx ''ann''"
      "\<lparr>FeePayer = to_bytes ''ann'', FeeGranter = None, GetFee = []\<rparr>" "''ann''" "[]"]
  by (simp add: sample_fees_def sample_tx_def fail_def)

text \<open>
  A block is executed with the handler that the mempool uses to clean up and the proposals use
  to select transactions, and a transaction reaches the system tier only with oracle and client
  updates, or one oracle message run for another account.
\<close>

lemma setup_uses_one_full_handler:
  assumes "setupABCIPP L F P keepers n = Inr a" and "\<not> IsCheckTx ctx" and "\<not> IsReCheckTx ctx"
  shows "abcipp_anteHandler a tx simulate ctx = mempool_AnteHandler (abcipp_mempool a) tx simulate ctx \<and>
    NewProposalHandler P (abcipp_mempool a) (mempool_AnteHandler (abcipp_mempool a)) =
      Inr (abcipp_proposals a) \<and>
    (\<exists>matcher. map_of (Tiers (abcipp_mempool a)) ''system'' = Some matcher \<and>
       (\<forall>c t. matcher c t \<longleftrightarrow> (\<forall>m\<in>set (GetMsgs t).
          m \<in> {MsgUpdateClient, MsgUpdateOracle, MsgRelayOracleData,
               MsgExec (Inr [MsgUpdateOracle]), MsgExec (Inr [MsgRelayOracleData])})))"
proof -
  obtain full minimal where "abcipp_anteHandler a = NewDualAnteHandler minimal full"
    and "mempool_AnteHandler (abcipp_mempool a) = full"
    and "NewProposalHandler P (abcipp_mempool a) full = Inr (abcipp_proposals a)"
    and "Tiers (abcipp_mempool a) = [(''system'', systemTierMatcher), (''admin'', freeFeeChecker F)]"
    using assms(1) by (auto simp: setupABCIPP_def Let_def split: sum.splits)
  moreover have "systemTierMatcher c t \<longleftrightarrow> (\<forall>m\<in>set (GetMsgs t). system_msg m)" for c :: "'a ante_ctx" and t
    by (simp add: systemTierMatcher_def list_all_iff)
  ultimately show ?thesis
    using assms(2,3) by (simp add: NewDualAnteHandler_def system_msg_iff)
qed

lemma setup_uses_one_full_handler_sample:
  "abcipp_anteHandler sample_setup (sample_tx ''bridge'') False (sample_ctx False) =
     mempool_AnteHandler (abcipp_mempool sample_setup) (sample_tx ''bridge'') False (sample_ctx False)"
  using setup_uses_one_full_handler [OF sample_setup_eq, of "sample_ctx False" "sample_tx ''bridge''" False]
  by (simp add: sample_ctx_def)

end
