(* ===== verification/IBCHooks.thy ===== *)
theory IBCHooks
  imports Sample Json
begin

text \<open>
  \<open>app/ibc-hooks\<close>: the middleware that runs a contract when an IBC transfer arrives, and tells a
  contract when a packet it sent is acknowledged or times out.  The packet's memo carries the
  request.  The transfer application, the IBC stack, the stores of the hooks module, the wasm
  keeper and the decoding of their packet types are parameters; JSON texts are parsed by parameters
  too, and what the code does with the parsed parts is modelled.
\<close>

section \<open>Packets and messages\<close>

record Packet =
  Sequence :: u64
  SourcePort :: string
  SourceChannel :: string
  DestPort :: string
  DestChannel :: string
  PacketData :: bytes
  TimeoutHeight :: "u64 \<times> u64"
  TimeoutTimestamp :: u64

record FungibleTokenPacketData =
  ft_Denom :: string
  ft_Amount :: string
  ft_Sender :: string
  ft_Receiver :: string
  ft_Memo :: string

text \<open>\<open>ibchookstypes.ICSData\<close>; the type of NFT packets stays opaque.\<close>

datatype 'n ICSData = ICS20Data FungibleTokenPacketData | ICS721Data 'n

record MsgExecuteContract =
  ex_Sender :: string
  ex_Contract :: string
  ex_Msg :: string
  ex_Funds :: "Coin list"

record HookData =
  Message :: "MsgExecuteContract option"
  AsyncCallback :: string

record Acknowledgement =
  Success :: bool
  Response :: string

text \<open>The arguments of \<open>SendPacket\<close> before the data.\<close>

record send_args =
  chanCap :: nat
  sourcePort :: string
  sourceChannel :: string
  timeoutHeight :: "u64 \<times> u64"
  timeoutTimestamp :: u64

record ('x, 'n) ibc_lib =
  \<comment> \<open>packet data\<close>
  decode_ics20 :: "bytes \<Rightarrow> FungibleTokenPacketData option"
  DecodePacketData :: "bytes \<Rightarrow> 'n option"
  GetMemo :: "'n ICSData \<Rightarrow> string"
  GetReceiver :: "'n ICSData \<Rightarrow> string"
  GetSender :: "'n ICSData \<Rightarrow> string"
  SetReceiver :: "string \<Rightarrow> 'n ICSData \<Rightarrow> 'n ICSData"
  SetMemo :: "string \<Rightarrow> 'n ICSData \<Rightarrow> 'n ICSData"
  GetBytes :: "'n ICSData \<Rightarrow> bytes"
  \<comment> \<open>JSON: the members of an object, each key once; a value read as \<open>any\<close> and written again; hook data\<close>
  json_RawMap :: "string \<Rightarrow> (string \<times> string) list option"
  json_any :: "string \<Rightarrow> string"
  json_HookData :: "string \<Rightarrow> error + HookData"
  json_MarshalHookData :: "HookData \<Rightarrow> error + string"
  UnmarshalAck :: "bytes \<Rightarrow> bool option"
  \<comment> \<open>the IBC stack around the middleware\<close>
  OnRecvPacket :: "Packet \<Rightarrow> bytes \<Rightarrow> ('x ctx, Acknowledgement) prog"
  OnAcknowledgementPacket :: "Packet \<Rightarrow> bytes \<Rightarrow> bytes \<Rightarrow> ('x ctx, unit) prog"
  OnTimeoutPacket :: "Packet \<Rightarrow> bytes \<Rightarrow> ('x ctx, unit) prog"
  SendPacket :: "send_args \<Rightarrow> bytes \<Rightarrow> ('x ctx, u64) prog"
  \<comment> \<open>hooks, bridge and wasm keepers\<close>
  GetAllowed :: "bytes \<Rightarrow> ('x ctx, bool) prog"
  GetAsyncCallback :: "string \<Rightarrow> string \<Rightarrow> u64 \<Rightarrow> ('x ctx, bytes) prog"
  SetAsyncCallback :: "string \<Rightarrow> string \<Rightarrow> u64 \<Rightarrow> bytes \<Rightarrow> ('x ctx, unit) prog"
  RemoveAsyncCallback :: "string \<Rightarrow> string \<Rightarrow> u64 \<Rightarrow> ('x ctx, unit) prog"
  HasIBCToL2DenomMap :: "string \<Rightarrow> ('x ctx, bool) prog"
  GetIBCToL2DenomMap :: "string \<Rightarrow> ('x ctx, string) prog"
  ExecuteValidateBasic :: "MsgExecuteContract \<Rightarrow> error option"
  ExecuteContract :: "MsgExecuteContract \<Rightarrow> ('x ctx, bytes) prog"
  \<comment> \<open>denominations and addresses\<close>
  ReceiverChainIsSource :: "string \<Rightarrow> string \<Rightarrow> string \<Rightarrow> bool"
  GetDenomPrefix :: "string \<Rightarrow> string \<Rightarrow> string"
  IsNativeDenom :: "string \<Rightarrow> bool"
  IBCDenom :: "string \<Rightarrow> string"
  NewIntFromString :: "string \<Rightarrow> int option"
  NewCoin :: "string \<Rightarrow> int \<Rightarrow> Coin outcome"
  AddressHash :: "string \<Rightarrow> bytes \<Rightarrow> bytes"
  \<comment> \<open>names of the event for a failed hook\<close>
  EventTypeHookFailed :: string
  AttributeKeyReason :: string
  AttributeKeyError :: string

section \<open>Helpers (util.go)\<close>

definition wasmHookMemoKey :: string where
  "wasmHookMemoKey = ''wasm''"

definition senderPrefix :: string where
  "senderPrefix = ''ibc-wasm-hook-intermediary''"

definition DeriveIntermediateSender :: "'x env \<Rightarrow> ('x, 'n) ibc_lib \<Rightarrow> string \<Rightarrow> string \<Rightarrow> string" where
  "DeriveIntermediateSender E I channel originalSender =
     AccAddressString E (AddressHash I senderPrefix (to_bytes (channel @ ''/'' @ originalSender)))"

definition isIcs20Packet :: "('x, 'n) ibc_lib \<Rightarrow> bytes \<Rightarrow> FungibleTokenPacketData option" where
  "isIcs20Packet I packetData = decode_ics20 I packetData"

definition isIcs721Packet :: "('x, 'n) ibc_lib \<Rightarrow> bytes \<Rightarrow> 'n option" where
  "isIcs721Packet I packetData = DecodePacketData I packetData"

definition ErrInvalidPacket :: error where
  "ErrInvalidPacket = Sentinel ''channeltypes.ErrInvalidPacket''"

text \<open>The result is the hook data, whether the memo asks for a hook, and an error.\<close>

definition parseHookData ::
  "'x env \<Rightarrow> ('x, 'n) ibc_lib \<Rightarrow> string \<Rightarrow> HookData option \<times> bool \<times> error option" where
  "parseHookData E I memo =
     (if length memo = 0 then (None, False, None)
      else (case json_RawMap I memo of
         None \<Rightarrow> (None, False, None)
       | Some memoMap \<Rightarrow>
           (case map_of memoMap wasmHookMemoKey of
              None \<Rightarrow> (None, False, None)
            | Some raw \<Rightarrow>
                (case json_HookData I raw of
                   Inl e \<Rightarrow> (None, True, Some (Wrap ErrInvalidPacket (ErrorString E e)))
                 | Inr hookData \<Rightarrow> (Some hookData, True, None)))))"

definition validateReceiver :: "MsgExecuteContract \<Rightarrow> string \<Rightarrow> error option" where
  "validateReceiver msg receiver =
     (if receiver \<noteq> ex_Contract msg then Some (Wrap ErrInvalidPacket ''receiver is not properly set'')
      else None)"

definition newEmitErrorAcknowledgement :: "'x env \<Rightarrow> error \<Rightarrow> Acknowledgement" where
  "newEmitErrorAcknowledgement E e =
     \<lparr>Success = False, Response = ''ibc wasm hook error: '' @ ErrorString E e\<rparr>"

definition isAckError :: "('x, 'n) ibc_lib \<Rightarrow> bytes \<Rightarrow> bool" where
  "isAckError I acknowledgement = (UnmarshalAck I acknowledgement = Some False)"

text \<open>Slicing past the end of a string panics.\<close>

definition LocalDenom :: "('x, 'n) ibc_lib \<Rightarrow> Packet \<Rightarrow> string \<Rightarrow> string outcome" where
  "LocalDenom I packet denom =
     (if ReceiverChainIsSource I (SourcePort packet) (SourceChannel packet) denom
      then (let voucherPrefix = GetDenomPrefix I (SourcePort packet) (SourceChannel packet)
            in if length voucherPrefix > length denom
               then Panic (PanicText ''runtime error: slice bounds out of range'')
               else (let unprefixedDenom = drop (length voucherPrefix) denom
                     in Ok (if \<not> IsNativeDenom I unprefixedDenom then IBCDenom I unprefixedDenom
                            else unprefixedDenom)))
      else Ok (IBCDenom I (GetDenomPrefix I (DestPort packet) (DestChannel packet) @ denom)))"

text \<open>\<open>h.checkACL\<close>.\<close>

definition checkACL :: "'x env \<Rightarrow> ('x, 'n) ibc_lib \<Rightarrow> string \<Rightarrow> ('x ctx, bool) prog" where
  "checkACL E I addrStr =
     andThen (of_result (StringToBytes E addrStr)) (\<lambda>addr. GetAllowed I addr)"

section \<open>Receiving (receive.go)\<close>

definition execMsg :: "('x, 'n) ibc_lib \<Rightarrow> MsgExecuteContract \<Rightarrow> ('x ctx, bytes) prog" where
  "execMsg I msg = andThen (of_err (ExecuteValidateBasic I msg)) (\<lambda>_. ExecuteContract I msg)"

text \<open>The transfer to the intermediary and, when it succeeds, the contract call.\<close>

definition receive_and_execute ::
  "'x env \<Rightarrow> ('x, 'n) ibc_lib \<Rightarrow> Packet \<Rightarrow> bytes \<Rightarrow> 'n ICSData \<Rightarrow> ('x ctx, Coin list) prog option \<Rightarrow>
   MsgExecuteContract \<Rightarrow> ('x ctx, Acknowledgement) prog" where
  "receive_and_execute E I packet relayer data computeFunds msg =
     (let intermediateSender = DeriveIntermediateSender E I (DestChannel packet) (GetSender I data);
          packet' = packet\<lparr>PacketData := GetBytes I (SetReceiver I intermediateSender data)\<rparr>
      in andThen (OnRecvPacket I packet' relayer) (\<lambda>ack.
         if \<not> Success ack then ret ack
         else
         andThen (of_outcome (NewCoins E [])) (\<lambda>none.
         andThen (case computeFunds of None \<Rightarrow> ret (Inr none) | Some f \<Rightarrow> attempt f) (\<lambda>funds.
         case funds of
           Inl e \<Rightarrow> ret (newEmitErrorAcknowledgement E e)
         | Inr cs \<Rightarrow>
             andThen (attempt (execMsg I (msg\<lparr>ex_Sender := intermediateSender, ex_Funds := cs\<rparr>))) (\<lambda>r.
             case r of
               Inl e \<Rightarrow> ret (newEmitErrorAcknowledgement E e)
             | Inr _ \<Rightarrow> ret ack)))))"

definition handleOnReceive ::
  "'x env \<Rightarrow> ('x, 'n) ibc_lib \<Rightarrow> Packet \<Rightarrow> bytes \<Rightarrow> 'n ICSData \<Rightarrow> ('x ctx, Coin list) prog option \<Rightarrow>
   ('x ctx, Acknowledgement) prog" where
  "handleOnReceive E I packet relayer data computeFunds =
     (case parseHookData E I (GetMemo I data) of (hookData, routed, err) \<Rightarrow>
      if \<not> routed then OnRecvPacket I packet relayer
      else (case err of
        Some e \<Rightarrow> ret (newEmitErrorAcknowledgement E e)
      | None \<Rightarrow>
          (case (case hookData of None \<Rightarrow> None | Some hk \<Rightarrow> Message hk) of
             None \<Rightarrow> OnRecvPacket I packet relayer
           | Some msg \<Rightarrow>
               andThen (attempt (checkACL E I (ex_Contract msg))) (\<lambda>acl.
               case acl of
                 Inl e \<Rightarrow> ret (newEmitErrorAcknowledgement E e)
               | Inr allowed \<Rightarrow>
                   if \<not> allowed
                   then ret (newEmitErrorAcknowledgement E (Text (''contract `'' @ ex_Contract msg @
                     ''` is not allowed to be used in ibchooks'')))
                   else (case validateReceiver msg (GetReceiver I data) of
                      Some e \<Rightarrow> ret (newEmitErrorAcknowledgement E e)
                    | None \<Rightarrow> receive_and_execute E I packet relayer data computeFunds msg)))))"

text \<open>The funds of a fungible transfer, in the denom the bridge has migrated it to, if any.\<close>

definition packet_funds ::
  "'x env \<Rightarrow> ('x, 'n) ibc_lib \<Rightarrow> Packet \<Rightarrow> FungibleTokenPacketData \<Rightarrow> ('x ctx, Coin list) prog" where
  "packet_funds E I packet data =
     andThen (of_outcome (LocalDenom I packet (ft_Denom data))) (\<lambda>localDenom.
     case NewIntFromString I (ft_Amount data) of
       None \<Rightarrow> fail (Text (''invalid amount: '' @ ft_Amount data))
     | Some amount \<Rightarrow>
         andThen (HasIBCToL2DenomMap I localDenom) (\<lambda>ok.
         andThen (if ok then GetIBCToL2DenomMap I localDenom else ret localDenom) (\<lambda>denom.
         andThen (of_outcome (NewCoin I denom amount)) (\<lambda>coin.
         of_outcome (NewCoins E [coin])))))"

definition onRecvIcs20Packet ::
  "'x env \<Rightarrow> ('x, 'n) ibc_lib \<Rightarrow> Packet \<Rightarrow> bytes \<Rightarrow> FungibleTokenPacketData \<Rightarrow> ('x ctx, Acknowledgement) prog" where
  "onRecvIcs20Packet E I packet relayer data =
     handleOnReceive E I packet relayer (ICS20Data data) (Some (packet_funds E I packet data))"

definition onRecvIcs721Packet ::
  "'x env \<Rightarrow> ('x, 'n) ibc_lib \<Rightarrow> Packet \<Rightarrow> bytes \<Rightarrow> 'n \<Rightarrow> ('x ctx, Acknowledgement) prog" where
  "onRecvIcs721Packet E I packet relayer data =
     handleOnReceive E I packet relayer (ICS721Data data) None"

section \<open>Sending (send.go)\<close>

text \<open>\<open>json.Marshal\<close> of a map writes its members in the order of the keys.\<close>

definition json_map :: "(string \<times> string) list \<Rightarrow> string" where
  "json_map m = json_object (sort_key fst m)"

text \<open>The memo that is sent on: without the callback, and without the hook when nothing else is in it.\<close>

definition forwarded_map ::
  "('x, 'n) ibc_lib \<Rightarrow> string \<Rightarrow> HookData \<Rightarrow> error + (string \<times> string) list" where
  "forwarded_map I memo hookData =
     (let memoMap = (case json_RawMap I memo of
            None \<Rightarrow> [] | Some m \<Rightarrow> map (\<lambda>(k, raw). (k, json_any I raw)) m);
          others = filter (\<lambda>(k, _). k \<noteq> wasmHookMemoKey) memoMap
      in case Message hookData of
        None \<Rightarrow> Inr others
      | Some _ \<Rightarrow>
          (case json_MarshalHookData I (hookData\<lparr>AsyncCallback := []\<rparr>) of
             Inl e \<Rightarrow> Inl e
           | Inr bz \<Rightarrow> Inr (others @ [(wasmHookMemoKey, bz)])))"

definition handleSendPacket ::
  "'x env \<Rightarrow> ('x, 'n) ibc_lib \<Rightarrow> send_args \<Rightarrow> 'n ICSData \<Rightarrow> ('x ctx, u64) prog" where
  "handleSendPacket E I a icsData =
     (case parseHookData E I (GetMemo I icsData) of (hookData, routed, err) \<Rightarrow>
      case err of
        Some e \<Rightarrow> fail e
      | None \<Rightarrow>
          (case hookData of
             None \<Rightarrow> SendPacket I a (GetBytes I icsData)
           | Some hk \<Rightarrow>
               if \<not> routed \<or> AsyncCallback hk = [] then SendPacket I a (GetBytes I icsData)
               else
               andThen (of_result (StringToBytes E (AsyncCallback hk))) (\<lambda>_.
               andThen (of_result (forwarded_map I (GetMemo I icsData) hk)) (\<lambda>memoMap.
               andThen (SendPacket I a (GetBytes I (SetMemo I (json_map memoMap) icsData))) (\<lambda>sequence.
               andThen (SetAsyncCallback I (sourcePort a) (sourceChannel a) sequence
                 (to_bytes (AsyncCallback hk))) (\<lambda>_.
               ret sequence))))))"

definition sendIcs20Packet ::
  "'x env \<Rightarrow> ('x, 'n) ibc_lib \<Rightarrow> send_args \<Rightarrow> FungibleTokenPacketData \<Rightarrow> ('x ctx, u64) prog" where
  "sendIcs20Packet E I a ics20Data = handleSendPacket E I a (ICS20Data ics20Data)"

definition sendIcs721Packet ::
  "'x env \<Rightarrow> ('x, 'n) ibc_lib \<Rightarrow> send_args \<Rightarrow> 'n \<Rightarrow> ('x ctx, u64) prog" where
  "sendIcs721Packet E I a ics721Data = handleSendPacket E I a (ICS721Data ics721Data)"

section \<open>Acknowledgements and timeouts (ack.go, timeout.go)\<close>

text \<open>
  \<open>json.Marshal\<close> of a byte slice that is not nil: the base64 encoding as a JSON string.
\<close>

definition base64_digit :: "nat \<Rightarrow> char" where
  "base64_digit n = ''ABCDEFGHIJKLMNOPQRSTUVWXYZabcdefghijklmnopqrstuvwxyz0123456789+/'' ! (n mod 64)"

fun base64 :: "bytes \<Rightarrow> string" where
  "base64 [] = []"
| "base64 [a] = (let n = unat a * 65536 in
     [base64_digit (n div 262144), base64_digit (n div 4096), CHR ''='', CHR ''=''])"
| "base64 [a, b] = (let n = unat a * 65536 + unat b * 256 in
     [base64_digit (n div 262144), base64_digit (n div 4096), base64_digit (n div 64), CHR ''=''])"
| "base64 (a # b # c # bs) = (let n = unat a * 65536 + unat b * 256 + unat c in
     [base64_digit (n div 262144), base64_digit (n div 4096), base64_digit (n div 64), base64_digit n]
     @ base64 bs)"

definition json_bytes :: "bytes \<Rightarrow> string" where
  "json_bytes bz = [CHR 0x22] @ base64 bz @ [CHR 0x22]"

definition str :: "string \<Rightarrow> string" where
  "str s = [CHR 0x22] @ s @ [CHR 0x22]"

definition ack_sudoMsg :: "('x, 'n) ibc_lib \<Rightarrow> Packet \<Rightarrow> bytes \<Rightarrow> bytes" where
  "ack_sudoMsg I packet acknowledgement =
     (let success = (if \<not> isAckError I acknowledgement then ''true'' else ''false'')
      in to_bytes (''{'' @ str ''ibc_lifecycle_complete'' @ '': {'' @ str ''ibc_ack'' @ '': {'' @
         str ''channel'' @ '': '' @ str (SourceChannel packet) @ '', '' @
         str ''sequence'' @ '': '' @ dec (uint (Sequence packet)) @ '', '' @
         str ''ack'' @ '': '' @ json_bytes acknowledgement @ '', '' @
         str ''success'' @ '': '' @ success @ ''}}}''))"

definition timeout_sudoMsg :: "Packet \<Rightarrow> bytes" where
  "timeout_sudoMsg packet =
     to_bytes (''{'' @ str ''ibc_lifecycle_complete'' @ '': {'' @ str ''ibc_timeout'' @ '': {'' @
       str ''channel'' @ '': '' @ str (SourceChannel packet) @ '', '' @
       str ''sequence'' @ '': '' @ dec (uint (Sequence packet)) @ ''}}}'')"

text \<open>
  A cached context has its own event manager and shares the gas meter with its parent.  Dropping it
  keeps only the gas; writing it keeps its stores and appends its events.
\<close>

definition cached :: "'x ctx \<Rightarrow> 'x ctx" where
  "cached s = s\<lparr>sys := (sys s)\<lparr>events := []\<rparr>\<rparr>"

definition dropped :: "'x ctx \<Rightarrow> 'x ctx \<Rightarrow> 'x ctx" where
  "dropped s c = s\<lparr>sys := (sys s)\<lparr>gasMeter := gasMeter (sys c)\<rparr>\<rparr>"

definition written :: "'x ctx \<Rightarrow> 'x ctx \<Rightarrow> 'x ctx" where
  "written s c = c\<lparr>sys := (sys c)\<lparr>events := events (sys s) @ events (sys c)\<rparr>\<rparr>"

definition emit_failed :: "('x, 'n) ibc_lib \<Rightarrow> string \<Rightarrow> string \<Rightarrow> ('x ctx, unit) prog" where
  "emit_failed I reason err = emit [NewEvent (EventTypeHookFailed I)
     [(AttributeKeyReason I, reason), (AttributeKeyError I, err)]]"

text \<open>The call of the contract in a cached context, which both handlers share.\<close>

definition run_callback ::
  "'x env \<Rightarrow> ('x, 'n) ibc_lib \<Rightarrow> string \<Rightarrow> bytes \<Rightarrow> ('x ctx, unit) prog" where
  "run_callback E I asyncCallback sudoMsg s =
     (case checkACL E I asyncCallback (cached s) of
        (Panic p, c) \<Rightarrow> (Panic p, dropped s c)
      | (Err e, c) \<Rightarrow> emit_failed I ''failed to check ACL'' (ErrorString E e) (dropped s c)
      | (Ok allowed, c) \<Rightarrow>
          if \<not> allowed then emit_failed I ''failed to check ACL'' ''not allowed'' (dropped s c)
          else (case StringToBytes E asyncCallback of
             Inl e \<Rightarrow> emit_failed I ''invalid contract address'' (ErrorString E e) (dropped s c)
           | Inr contractAddr \<Rightarrow>
               (case Sudo E contractAddr sudoMsg c of
                  (Panic p, d) \<Rightarrow> (Panic p, dropped s d)
                | (Err e, d) \<Rightarrow> emit_failed I ''failed to execute callback'' (ErrorString E e) (dropped s d)
                | (Ok _, d) \<Rightarrow> (Ok (), written s d))))"

text \<open>Looking up the callback of a packet, taking it out of the store and running it.\<close>

definition take_callback ::
  "'x env \<Rightarrow> ('x, 'n) ibc_lib \<Rightarrow> Packet \<Rightarrow> bytes \<Rightarrow> ('x ctx, unit) prog" where
  "take_callback E I packet sudoMsg =
     andThen (attempt (GetAsyncCallback I (SourcePort packet) (SourceChannel packet) (Sequence packet))) (\<lambda>r.
     case r of
       Inl e \<Rightarrow>
         if errors_Is e (Sentinel ''collections.ErrNotFound'') then ret ()
         else emit_failed I ''failed to get async callback'' (ErrorString E e)
     | Inr bz \<Rightarrow>
         andThen (attempt (RemoveAsyncCallback I (SourcePort packet) (SourceChannel packet) (Sequence packet))) (\<lambda>_.
         run_callback E I (of_bytes bz) sudoMsg))"

definition handleOnAck ::
  "'x env \<Rightarrow> ('x, 'n) ibc_lib \<Rightarrow> Packet \<Rightarrow> bytes \<Rightarrow> bytes \<Rightarrow> ('x ctx, unit) prog" where
  "handleOnAck E I packet acknowledgement relayer =
     andThen (OnAcknowledgementPacket I packet acknowledgement relayer) (\<lambda>_.
     take_callback E I packet (ack_sudoMsg I packet acknowledgement))"

definition onAckIcs20Packet ::
  "'x env \<Rightarrow> ('x, 'n) ibc_lib \<Rightarrow> Packet \<Rightarrow> bytes \<Rightarrow> bytes \<Rightarrow> FungibleTokenPacketData \<Rightarrow> ('x ctx, unit) prog" where
  "onAckIcs20Packet E I packet acknowledgement relayer data = handleOnAck E I packet acknowledgement relayer"

definition onAckIcs721Packet ::
  "'x env \<Rightarrow> ('x, 'n) ibc_lib \<Rightarrow> Packet \<Rightarrow> bytes \<Rightarrow> bytes \<Rightarrow> 'n \<Rightarrow> ('x ctx, unit) prog" where
  "onAckIcs721Packet E I packet acknowledgement relayer data = handleOnAck E I packet acknowledgement relayer"

definition handleOnTimeout ::
  "'x env \<Rightarrow> ('x, 'n) ibc_lib \<Rightarrow> Packet \<Rightarrow> bytes \<Rightarrow> ('x ctx, unit) prog" where
  "handleOnTimeout E I packet relayer =
     andThen (OnTimeoutPacket I packet relayer) (\<lambda>_.
     take_callback E I packet (timeout_sudoMsg packet))"

definition onTimeoutIcs20Packet ::
  "'x env \<Rightarrow> ('x, 'n) ibc_lib \<Rightarrow> Packet \<Rightarrow> bytes \<Rightarrow> FungibleTokenPacketData \<Rightarrow> ('x ctx, unit) prog" where
  "onTimeoutIcs20Packet E I packet relayer data = handleOnTimeout E I packet relayer"

definition onTimeoutIcs721Packet ::
  "'x env \<Rightarrow> ('x, 'n) ibc_lib \<Rightarrow> Packet \<Rightarrow> bytes \<Rightarrow> 'n \<Rightarrow> ('x ctx, unit) prog" where
  "onTimeoutIcs721Packet E I packet relayer data = handleOnTimeout E I packet relayer"

section \<open>The middleware (hooks.go)\<close>

definition OnRecvPacketOverride ::
  "'x env \<Rightarrow> ('x, 'n) ibc_lib \<Rightarrow> Packet \<Rightarrow> bytes \<Rightarrow> ('x ctx, Acknowledgement) prog" where
  "OnRecvPacketOverride E I packet relayer =
     (case isIcs20Packet I (PacketData packet) of
        Some ics20Data \<Rightarrow> onRecvIcs20Packet E I packet relayer ics20Data
      | None \<Rightarrow>
          (case isIcs721Packet I (PacketData packet) of
             Some ics721Data \<Rightarrow> onRecvIcs721Packet E I packet relayer ics721Data
           | None \<Rightarrow> OnRecvPacket I packet relayer))"

definition SendPacketOverride ::
  "'x env \<Rightarrow> ('x, 'n) ibc_lib \<Rightarrow> send_args \<Rightarrow> bytes \<Rightarrow> ('x ctx, u64) prog" where
  "SendPacketOverride E I a data =
     (case isIcs20Packet I data of
        Some ics20Data \<Rightarrow> sendIcs20Packet E I a ics20Data
      | None \<Rightarrow>
          (case isIcs721Packet I data of
             Some ics721Data \<Rightarrow> sendIcs721Packet E I a ics721Data
           | None \<Rightarrow> SendPacket I a data))"

definition OnAcknowledgementPacketOverride ::
  "'x env \<Rightarrow> ('x, 'n) ibc_lib \<Rightarrow> Packet \<Rightarrow> bytes \<Rightarrow> bytes \<Rightarrow> ('x ctx, unit) prog" where
  "OnAcknowledgementPacketOverride E I packet acknowledgement relayer =
     (case isIcs20Packet I (PacketData packet) of
        Some ics20Data \<Rightarrow> onAckIcs20Packet E I packet acknowledgement relayer ics20Data
      | None \<Rightarrow>
          (case isIcs721Packet I (PacketData packet) of
             Some ics721Data \<Rightarrow> onAckIcs721Packet E I packet acknowledgement relayer ics721Data
           | None \<Rightarrow> OnAcknowledgementPacket I packet acknowledgement relayer))"

definition OnTimeoutPacketOverride ::
  "'x env \<Rightarrow> ('x, 'n) ibc_lib \<Rightarrow> Packet \<Rightarrow> bytes \<Rightarrow> ('x ctx, unit) prog" where
  "OnTimeoutPacketOverride E I packet relayer =
     (case isIcs20Packet I (PacketData packet) of
        Some ics20Data \<Rightarrow> onTimeoutIcs20Packet E I packet relayer ics20Data
      | None \<Rightarrow>
          (case isIcs721Packet I (PacketData packet) of
             Some ics721Data \<Rightarrow> onTimeoutIcs721Packet E I packet relayer ics721Data
           | None \<Rightarrow> OnTimeoutPacket I packet relayer))"

end
