(* ===== verification/IBCProps.thy ===== *)
theory IBCProps
  imports IBCHooks
begin

text \<open>
  What the IBC hooks guarantee: when an arriving packet runs a contract and with what, that a
  callback's failure undoes its own effects and nothing else, and that a callback registered by a
  sender is called for its packet once.
\<close>

section \<open>Running a callback\<close>


lemma dropped_stores [simp]: "tf (dropped s c) = tf s" "ext (sys (dropped s c)) = ext (sys s)"
  by (simp_all add: dropped_def)


section \<open>The store of callbacks\<close>

text \<open>
  The hooks keeper stores callbacks under the source port, channel and sequence of a packet; reading
  a missing one gives \<open>collections.ErrNotFound\<close>.  Sequences are not used twice: handling a packet
  or calling a contract never brings back the callback of a packet that has none.
\<close>

type_synonym callback_key = "string \<times> string \<times> u64"

definition gone :: "('x ctx \<Rightarrow> callback_key \<rightharpoonup> bytes) \<Rightarrow> callback_key \<Rightarrow> 'x ctx \<Rightarrow> 'x ctx \<Rightarrow> bool" where
  "gone cb k s t \<longleftrightarrow> (cb s k = None \<longrightarrow> cb t k = None)"

definition async_ok ::
  "'x env \<Rightarrow> ('x, 'n) ibc_lib \<Rightarrow> ('x ctx \<Rightarrow> callback_key \<rightharpoonup> bytes) \<Rightarrow> bool" where
  "async_ok E I cb \<longleftrightarrow>
     (\<forall>p c q s. GetAsyncCallback I p c q s =
        (case cb s (p, c, q) of Some bz \<Rightarrow> (Ok bz, s)
         | None \<Rightarrow> (Err (Sentinel ''collections.ErrNotFound''), s))) \<and>
     (\<forall>p c q s. \<exists>t. RemoveAsyncCallback I p c q s = (Ok (), t) \<and> cb t = (cb s)((p, c, q) := None)) \<and>
     (\<forall>p c q bz s. \<exists>t. SetAsyncCallback I p c q bz s = (Ok (), t) \<and> cb t = (cb s)((p, c, q) \<mapsto> bz)) \<and>
     (\<forall>s t. tf s = tf t \<and> ext (sys s) = ext (sys t) \<longrightarrow> cb s = cb t) \<and>
     (\<forall>k p a r. keeps (gone cb k) (OnAcknowledgementPacket I p a r)) \<and>
     (\<forall>k p r. keeps (gone cb k) (OnTimeoutPacket I p r)) \<and>
     (\<forall>k a. keeps (gone cb k) (GetAllowed I a)) \<and>
     (\<forall>k a m. keeps (gone cb k) (Sudo E a m))"


lemma async_okD:
  assumes "async_ok E I cb"
  shows async_get: "\<And>p c q s. GetAsyncCallback I p c q s =
      (case cb s (p, c, q) of Some bz \<Rightarrow> (Ok bz, s)
       | None \<Rightarrow> (Err (Sentinel ''collections.ErrNotFound''), s))"
    and async_remove: "\<And>p c q s. \<exists>t. RemoveAsyncCallback I p c q s = (Ok (), t) \<and> cb t = (cb s)((p, c, q) := None)"
    and async_set: "\<And>p c q bz s. \<exists>t. SetAsyncCallback I p c q bz s = (Ok (), t) \<and> cb t = (cb s)((p, c, q) \<mapsto> bz)"
    and async_stores: "\<And>s t. tf s = tf t \<Longrightarrow> ext (sys s) = ext (sys t) \<Longrightarrow> cb s = cb t"
    and async_ack: "\<And>k p a r. keeps (gone cb k) (OnAcknowledgementPacket I p a r)"
    and async_timeout: "\<And>k p r. keeps (gone cb k) (OnTimeoutPacket I p r)"
    and async_allowed: "\<And>k a. keeps (gone cb k) (GetAllowed I a)"
    and async_sudo: "\<And>k a m. keeps (gone cb k) (Sudo E a m)"
  subgoal by (rule assms [unfolded async_ok_def, THEN conjunct1, rule_format])
  subgoal by (rule assms [unfolded async_ok_def, THEN conjunct2, THEN conjunct1, rule_format])
  subgoal by (rule assms [unfolded async_ok_def, THEN conjunct2, THEN conjunct2, THEN conjunct1, rule_format])
  subgoal by (rule assms [unfolded async_ok_def, THEN conjunct2, THEN conjunct2, THEN conjunct2, THEN conjunct1, rule_format]) simp
  subgoal by (rule assms [unfolded async_ok_def, THEN conjunct2, THEN conjunct2, THEN conjunct2, THEN conjunct2, THEN conjunct1, rule_format])
  subgoal by (rule assms [unfolded async_ok_def, THEN conjunct2, THEN conjunct2, THEN conjunct2, THEN conjunct2, THEN conjunct2, THEN conjunct1, rule_format])
  subgoal by (rule assms [unfolded async_ok_def, THEN conjunct2, THEN conjunct2, THEN conjunct2, THEN conjunct2, THEN conjunct2, THEN conjunct2, THEN conjunct1, rule_format])
  subgoal by (rule assms [unfolded async_ok_def, THEN conjunct2, THEN conjunct2, THEN conjunct2, THEN conjunct2, THEN conjunct2, THEN conjunct2, THEN conjunct2, rule_format])
  done










section \<open>Receiving\<close>



section \<open>A concrete chain\<close>

text \<open>
  A chain whose only outside state is the store of callbacks.  The contract \<open>log\<close> is on the
  access list; a memo \<open>cb\<close> asks for a callback to it, and a memo \<open>run\<close> for a call of it.
\<close>

definition hooks_env :: "(callback_key \<rightharpoonup> bytes) env" where
  "hooks_env = \<lparr>
     StringToBytes = sample_decode, BytesToString = sample_encode,
     AccAddressFromBech32 = sample_decode, AccAddressString = of_bytes,
     ValidateDenom = sample_denom, CoinIsValid = positive_coin, CoinString = coin_Denom,
     IntString = (\<lambda>_. ''n''), NewCoins = Ok, CoinsValidate = (\<lambda>_. None),
     CoinsString = (\<lambda>cs. concat (map coin_Denom cs)), MetadataValidate = (\<lambda>_. None),
     MetadataString = Base, ErrorString = first_error, PairKeyError = (\<lambda>_. None),
     NewGasMeter = (\<lambda>l. \<lparr>gm_limit = l, gm_consumed = 0\<rparr>), GasRemaining = gm_limit,
     GasConsumedToLimit = gm_consumed, MeterConsume = sample_consume,
     GetModuleAddress = (\<lambda>m. Some (to_bytes m)), GetModuleAccount = (\<lambda>m. ret (Some (to_bytes m))),
     GetAccount = (\<lambda>_ _. Some BaseAccount), GetDenomMetaData = (\<lambda>_ _. None),
     SetDenomMetaData = (\<lambda>_. ret ()), HasSupply = (\<lambda>_ _. False), BlockedAddr = (\<lambda>_. False),
     MintCoins = (\<lambda>_ _. ret ()), BurnCoins = (\<lambda>_ _. ret ()), BaseSendCoins = (\<lambda>_ _ _. ret ()),
     Sudo = (\<lambda>_ _. ret [])\<rparr>"

definition set_callbacks ::
  "((callback_key \<rightharpoonup> bytes) \<Rightarrow> callback_key \<rightharpoonup> bytes) \<Rightarrow> ((callback_key \<rightharpoonup> bytes) ctx, unit) prog" where
  "set_callbacks f = modify (\<lambda>s. s\<lparr>sys := (sys s)\<lparr>ext := f (ext (sys s))\<rparr>\<rparr>)"

definition log_call :: MsgExecuteContract where
  "log_call = \<lparr>ex_Sender = [], ex_Contract = ''log'', ex_Msg = ''{}'', ex_Funds = []\<rparr>"

definition hooks_lib :: "(callback_key \<rightharpoonup> bytes, unit) ibc_lib" where
  "hooks_lib = \<lparr>
     decode_ics20 = (\<lambda>_. None), DecodePacketData = (\<lambda>_. None),
     GetMemo = (\<lambda>d. case d of ICS20Data f \<Rightarrow> ft_Memo f | ICS721Data _ \<Rightarrow> []),
     GetReceiver = (\<lambda>d. case d of ICS20Data f \<Rightarrow> ft_Receiver f | ICS721Data _ \<Rightarrow> []),
     GetSender = (\<lambda>d. case d of ICS20Data f \<Rightarrow> ft_Sender f | ICS721Data _ \<Rightarrow> []),
     SetReceiver = (\<lambda>r d. case d of ICS20Data f \<Rightarrow> ICS20Data (f\<lparr>ft_Receiver := r\<rparr>) | _ \<Rightarrow> d),
     SetMemo = (\<lambda>m d. case d of ICS20Data f \<Rightarrow> ICS20Data (f\<lparr>ft_Memo := m\<rparr>) | _ \<Rightarrow> d),
     GetBytes = (\<lambda>d. case d of ICS20Data f \<Rightarrow> to_bytes (ft_Memo f) | ICS721Data _ \<Rightarrow> []),
     json_RawMap = (\<lambda>m. Some [(''wasm'', m), (''note'', ''1'')]), json_any = (\<lambda>v. v),
     json_HookData = (\<lambda>v. Inr (if v = ''cb'' then \<lparr>Message = None, AsyncCallback = ''log''\<rparr>
       else \<lparr>Message = Some log_call, AsyncCallback = []\<rparr>)),
     json_MarshalHookData = (\<lambda>_. Inr ''{}''), UnmarshalAck = (\<lambda>_. Some True),
     OnRecvPacket = (\<lambda>_ _. ret \<lparr>Success = True, Response = ''AQ==''\<rparr>),
     OnAcknowledgementPacket = (\<lambda>_ _ _. ret ()), OnTimeoutPacket = (\<lambda>_ _. ret ()),
     SendPacket = (\<lambda>_ _. ret 7),
     GetAllowed = (\<lambda>a. ret (a = to_bytes ''log'')),
     GetAsyncCallback = (\<lambda>p c q s. case ext (sys s) (p, c, q) of
       Some bz \<Rightarrow> (Ok bz, s) | None \<Rightarrow> (Err (Sentinel ''collections.ErrNotFound''), s)),
     SetAsyncCallback = (\<lambda>p c q bz. set_callbacks (\<lambda>m. m((p, c, q) \<mapsto> bz))),
     RemoveAsyncCallback = (\<lambda>p c q. set_callbacks (\<lambda>m. m((p, c, q) := None))),
     HasIBCToL2DenomMap = (\<lambda>_. ret False), GetIBCToL2DenomMap = ret,
     ExecuteValidateBasic = (\<lambda>_. None), ExecuteContract = (\<lambda>_. ret []),
     ReceiverChainIsSource = (\<lambda>_ _ _. False), GetDenomPrefix = (\<lambda>p c. p @ ''/'' @ c @ ''/''),
     IsNativeDenom = (\<lambda>_. True), IBCDenom = (\<lambda>d. ''ibc/'' @ d), NewIntFromString = (\<lambda>_. Some 1),
     NewCoin = (\<lambda>d n. Ok \<lparr>coin_Denom = d, coin_Amount = Some n\<rparr>), AddressHash = (\<lambda>_ k. k),
     EventTypeHookFailed = ''hook_failed'', AttributeKeyReason = ''reason'', AttributeKeyError = ''error''\<rparr>"

lemma hooks_env_sel [simp]:
  "StringToBytes hooks_env = sample_decode" "AccAddressString hooks_env = of_bytes"
  "NewCoins hooks_env = Ok" "ErrorString hooks_env = first_error" "Sudo hooks_env = (\<lambda>_ _. ret [])"
  by (simp_all add: hooks_env_def)

lemma hooks_lib_sel [simp]:
  "GetMemo hooks_lib (ICS20Data f) = ft_Memo f" "GetReceiver hooks_lib (ICS20Data f) = ft_Receiver f"
  "json_RawMap hooks_lib = (\<lambda>m. Some [(''wasm'', m), (''note'', ''1'')])" "json_any hooks_lib = (\<lambda>v. v)"
  "json_HookData hooks_lib = (\<lambda>v. Inr (if v = ''cb'' then \<lparr>Message = None, AsyncCallback = ''log''\<rparr>
     else \<lparr>Message = Some log_call, AsyncCallback = []\<rparr>))"
  "OnRecvPacket hooks_lib = (\<lambda>_ _. ret \<lparr>Success = True, Response = ''AQ==''\<rparr>)"
  "OnAcknowledgementPacket hooks_lib = (\<lambda>_ _ _. ret ())" "OnTimeoutPacket hooks_lib = (\<lambda>_ _. ret ())"
  "SendPacket hooks_lib = (\<lambda>_ _. ret 7)" "GetAllowed hooks_lib = (\<lambda>a. ret (a = to_bytes ''log''))"
  "GetAsyncCallback hooks_lib = (\<lambda>p c q s. case ext (sys s) (p, c, q) of
     Some bz \<Rightarrow> (Ok bz, s) | None \<Rightarrow> (Err (Sentinel ''collections.ErrNotFound''), s))"
  "SetAsyncCallback hooks_lib = (\<lambda>p c q bz. set_callbacks (\<lambda>m. m((p, c, q) \<mapsto> bz)))"
  "RemoveAsyncCallback hooks_lib = (\<lambda>p c q. set_callbacks (\<lambda>m. m((p, c, q) := None)))"
  "ExecuteValidateBasic hooks_lib = (\<lambda>_. None)" "ExecuteContract hooks_lib = (\<lambda>_. ret [])"
  by (simp_all add: hooks_lib_def)







section \<open>The hypotheses hold there\<close>











end
