(* ===== verification/AppGenesis.thy ===== *)
theory AppGenesis
  imports Context
begin

text \<open>
  \<open>app/genesis.go\<close>: the default genesis state of the application.  It is a map of JSON texts, one
  per module, on which each step decodes the text of a module, sets some of its fields and writes it
  back.  The genesis types of the other modules are records of the fields set here and an opaque
  rest; their JSON codecs, the default state, the list of markets and the names the modules have
  are parameters.
\<close>

section \<open>Genesis states\<close>

type_synonym GenesisState = "string \<rightharpoonup> string"

record 'r CurrencyPairGenesis =
  CurrencyPair :: 'r
  CurrencyPairPrice :: "'r option"
  Nonce :: u64
  Id :: u64

record 'r oracle_genesis =
  CurrencyPairs :: "'r CurrencyPairGenesis list"
  NextId :: u64
  oracle_rest :: 'r

record 'r market_genesis =
  MarketMap :: 'r
  MarketAuthorities :: "string list"
  market_Admin :: string
  market_rest :: 'r

record 'r opchild_genesis =
  MinGasPrices :: "'r list"
  HookMaxGas :: u64
  opchild_rest :: 'r

record 'r ica_genesis =
  ControllerEnabled :: bool
  HostEnabled :: bool
  AllowMessages :: "string list"
  ica_rest :: 'r

record 'r ibc_genesis =
  AllowedClients :: "string list"
  ibc_rest :: 'r

text \<open>\<open>FromJSON\<close> and \<open>ToJSON\<close> are \<open>cdc.UnmarshalJSON\<close> and \<open>cdc.MarshalJSON\<close>.\<close>

record 'g json_codec =
  FromJSON :: "string option \<Rightarrow> error + 'g"
  ToJSON :: "'g \<Rightarrow> error + string"

record 'r genesis_lib =
  DefaultGenesis :: GenesisState
  oracle_name :: string
  marketmap_name :: string
  opchild_name :: string
  ica_name :: string
  ibc_name :: string
  Localhost :: string
  oracle_codec :: "'r oracle_genesis json_codec"
  market_codec :: "'r market_genesis json_codec"
  opchild_codec :: "'r opchild_genesis json_codec"
  ica_codec :: "'r ica_genesis json_codec"
  ibc_codec :: "'r ibc_genesis json_codec"
  ReadMarkets :: "error + 'r list"
  ToMarketMap :: "'r list \<Rightarrow> 'r"
  Ticker_CurrencyPair :: "'r \<Rightarrow> 'r"
  ReservedCPTimestamp :: "error + 'r"
  AddressCodec :: "bytes \<Rightarrow> error + string"

definition or_panics :: "error + 'a \<Rightarrow> ('s, 'a) prog" where
  "or_panics r = (case r of Inl e \<Rightarrow> raise (PanicError e) | Inr x \<Rightarrow> ret x)"

text \<open>\<open>cdc.MustUnmarshalJSON(genState[name], ...)\<close> and \<open>genState[name] = cdc.MustMarshalJSON(...)\<close>.\<close>

definition MustUnmarshalJSON :: "'g json_codec \<Rightarrow> string \<Rightarrow> (GenesisState, 'g) prog" where
  "MustUnmarshalJSON c name = andThen (reads (\<lambda>g. FromJSON c (g name))) or_panics"

definition MustMarshalJSON :: "'g json_codec \<Rightarrow> string \<Rightarrow> 'g \<Rightarrow> (GenesisState, unit) prog" where
  "MustMarshalJSON c name x = andThen (or_panics (ToJSON c x)) (\<lambda>bz. modify (\<lambda>g. g(name \<mapsto> bz)))"

section \<open>The steps\<close>

text \<open>\<open>hex.DecodeString\<close>.\<close>

definition fromHexChar :: "char \<Rightarrow> byte option" where
  "fromHexChar c =
     (let n = (of_char c :: nat) in
      if 48 \<le> n \<and> n \<le> 57 then Some (word_of_nat (n - 48))
      else if 97 \<le> n \<and> n \<le> 102 then Some (word_of_nat (n - 87))
      else if 65 \<le> n \<and> n \<le> 70 then Some (word_of_nat (n - 55))
      else None)"

fun hex_DecodeString :: "string \<Rightarrow> error + bytes" where
  "hex_DecodeString [] = Inr []"
| "hex_DecodeString [c] = Inl (Text ''encoding/hex: odd length hex string'')"
| "hex_DecodeString (a # b # s) =
     (case (fromHexChar a, fromHexChar b) of
        (Some x, Some y) \<Rightarrow>
          (case hex_DecodeString s of Inl e \<Rightarrow> Inl e | Inr bz \<Rightarrow> Inr ((x * 16 + y) # bz))
      | _ \<Rightarrow> Inl (Text ''encoding/hex: invalid byte''))"

definition skip_admin :: string where
  "skip_admin = ''51B89E89D58FFB3F9DB66263FF10A216CF388A0E''"

definition pair_genesis :: "'r \<Rightarrow> u64 \<Rightarrow> 'r CurrencyPairGenesis" where
  "pair_genesis cp nid = \<lparr>CurrencyPair = cp, CurrencyPairPrice = None, Nonce = 0, Id = nid\<rparr>"

text \<open>The loop over the markets, from a current id; the result has the id after the last.\<close>

primrec number_pairs :: "'r list \<Rightarrow> u64 \<Rightarrow> 'r CurrencyPairGenesis list \<times> u64" where
  "number_pairs [] nid = ([], nid)"
| "number_pairs (cp # cps) nid =
     (case number_pairs cps (nid + 1) of (gs, next) \<Rightarrow> (pair_genesis cp nid # gs, next))"

definition AddMarketData :: "'r genesis_lib \<Rightarrow> (GenesisState, unit) prog" where
  "AddMarketData G =
     andThen (MustUnmarshalJSON (oracle_codec G) (oracle_name G)) (\<lambda>oracleGenState.
     andThen (MustUnmarshalJSON (market_codec G) (marketmap_name G)) (\<lambda>marketGenState.
     andThen (or_panics (ReadMarkets G)) (\<lambda>markets.
     andThen (or_panics (hex_DecodeString skip_admin)) (\<lambda>adminAddrBz.
     andThen (or_panics (AddressCodec G adminAddrBz)) (\<lambda>adminAddr.
     andThen (or_panics (ReservedCPTimestamp G)) (\<lambda>cp.
     let (pairs, nid) = number_pairs (cp # map (Ticker_CurrencyPair G) markets) 0
     in
     andThen (MustMarshalJSON (market_codec G) (marketmap_name G)
       (marketGenState\<lparr>MarketMap := ToMarketMap G markets, MarketAuthorities := [adminAddr],
          market_Admin := adminAddr\<rparr>)) (\<lambda>_.
     MustMarshalJSON (oracle_codec G) (oracle_name G)
       (oracleGenState\<lparr>CurrencyPairs := pairs, NextId := nid\<rparr>))))))))"

definition ConfigureMinGasPrices :: "'r genesis_lib \<Rightarrow> (GenesisState, unit) prog" where
  "ConfigureMinGasPrices G =
     andThen (MustUnmarshalJSON (opchild_codec G) (opchild_name G)) (\<lambda>opChildGenState.
     MustMarshalJSON (opchild_codec G) (opchild_name G)
       (opChildGenState\<lparr>MinGasPrices := [], HookMaxGas := 3000000\<rparr>))"

text \<open>The messages an interchain account may send (\<open>app/const.go\<close> has their names).\<close>

definition ica_allow_messages :: "string list" where
  "ica_allow_messages = [
     ''/cosmos.authz.v1beta1.MsgExec'', ''/cosmos.authz.v1beta1.MsgGrant'',
     ''/cosmos.authz.v1beta1.MsgRevoke'', ''/cosmos.bank.v1beta1.MsgSend'',
     ''/cosmos.bank.v1beta1.MsgMultiSend'', ''/cosmos.feegrant.v1beta1.MsgGrantAllowance'',
     ''/cosmos.feegrant.v1beta1.MsgRevokeAllowance'', ''/cosmos.group.v1.MsgCreateGroup'',
     ''/cosmos.group.v1.MsgCreateGroupPolicy'', ''/cosmos.group.v1.MsgExec'',
     ''/cosmos.group.v1.MsgLeaveGroup'', ''/cosmos.group.v1.MsgSubmitProposal'',
     ''/cosmos.group.v1.MsgUpdateGroupAdmin'', ''/cosmos.group.v1.MsgUpdateGroupMember'',
     ''/cosmos.group.v1.MsgUpdateGroupPolicyAdmin'',
     ''/cosmos.group.v1.MsgUpdateGroupPolicyDecisionPolicy'', ''/cosmos.group.v1.MsgVote'',
     ''/cosmos.group.v1.MsgWithdrawProposal'', ''/ibc.applications.transfer.v1.MsgTransfer'',
     ''/ibc.applications.nft_transfer.v1.MsgNftTransfer'',
     ''/ibc.applications.sft_transfer.v1.MsgSftTransfer'', ''/initia.move.v1.MsgPublish'',
     ''/initia.move.v1.MsgExecute'', ''/initia.move.v1.MsgScript'']"

definition ConfigureICA :: "'r genesis_lib \<Rightarrow> (GenesisState, unit) prog" where
  "ConfigureICA G =
     andThen (MustUnmarshalJSON (ica_codec G) (ica_name G)) (\<lambda>icaGenState.
     MustMarshalJSON (ica_codec G) (ica_name G)
       (icaGenState\<lparr>ControllerEnabled := True, HostEnabled := True,
          AllowMessages := ica_allow_messages\<rparr>))"

text \<open>The loop stops at the first match.\<close>

fun without_client :: "string \<Rightarrow> string list \<Rightarrow> string list" where
  "without_client c [] = []"
| "without_client c (d # ds) = (if d = c then ds else d # without_client c ds)"

definition ConfigureIBCAllowedClients :: "'r genesis_lib \<Rightarrow> (GenesisState, unit) prog" where
  "ConfigureIBCAllowedClients G =
     andThen (MustUnmarshalJSON (ibc_codec G) (ibc_name G)) (\<lambda>ibcGenesis.
     MustMarshalJSON (ibc_codec G) (ibc_name G)
       (ibcGenesis\<lparr>AllowedClients := without_client (Localhost G) (AllowedClients ibcGenesis)\<rparr>))"

text \<open>The denom is not used.\<close>

definition NewDefaultGenesisState :: "'r genesis_lib \<Rightarrow> string \<Rightarrow> unit outcome \<times> GenesisState" where
  "NewDefaultGenesisState G denom =
     andThen (ConfigureMinGasPrices G) (\<lambda>_.
     andThen (ConfigureICA G) (\<lambda>_.
     andThen (ConfigureIBCAllowedClients G) (\<lambda>_.
     AddMarketData G))) (DefaultGenesis G)"

section \<open>What each step does\<close>

text \<open>The codecs read back what they write.\<close>

definition reads_back :: "'g json_codec \<Rightarrow> bool" where
  "reads_back c \<longleftrightarrow> (\<forall>x bz. ToJSON c x = Inr bz \<longrightarrow> FromJSON c (Some bz) = Inr x)"

definition genesis_ok :: "'r genesis_lib \<Rightarrow> bool" where
  "genesis_ok G \<longleftrightarrow> reads_back (oracle_codec G) \<and> reads_back (market_codec G) \<and>
     reads_back (opchild_codec G) \<and> reads_back (ica_codec G) \<and> reads_back (ibc_codec G) \<and>
     distinct [oracle_name G, marketmap_name G, opchild_name G, ica_name G, ibc_name G]"

lemma or_panics_eq_Ok [result_iff]: "or_panics r s = (Ok x, t) \<longleftrightarrow> r = Inr x \<and> t = s"
  by (auto simp: or_panics_def prog_simps split: sum.splits)

lemma MustUnmarshalJSON_eq_Ok [result_iff]:
  "MustUnmarshalJSON c name g = (Ok x, h) \<longleftrightarrow> FromJSON c (g name) = Inr x \<and> h = g"
  by (auto simp: MustUnmarshalJSON_def result_iff)

text \<open>What is written is what the codec reads there afterwards, and nothing else changes.\<close>

definition writes_section :: "'g json_codec \<Rightarrow> string \<Rightarrow> 'g \<Rightarrow> GenesisState \<Rightarrow> GenesisState \<Rightarrow> bool" where
  "writes_section c name x g h \<longleftrightarrow> FromJSON c (h name) = Inr x \<and> (\<forall>k. k \<noteq> name \<longrightarrow> h k = g k)"

lemma MustMarshalJSON_Ok:
  "reads_back c \<Longrightarrow> MustMarshalJSON c name x g = (Ok u, h) \<Longrightarrow> writes_section c name x g h"
  by (auto simp: MustMarshalJSON_def reads_back_def writes_section_def result_iff)

lemma number_pairs_ids:
  "map Id (fst (number_pairs cps nid)) = map (\<lambda>i. nid + word_of_nat i) [0..<length cps]"
proof (induction cps arbitrary: nid)
  case (Cons cp cps)
  have "[0..<length (cp # cps)] = 0 # map Suc [0..<length cps]"
    by (simp add: upt_conv_Cons map_Suc_upt del: upt_Suc)
  with Cons show ?case
    by (simp add: case_prod_unfold pair_genesis_def o_def add.assoc del: upt_Suc)
qed simp

lemma number_pairs_parts:
  "map CurrencyPair (fst (number_pairs cps nid)) = cps"
  "snd (number_pairs cps nid) = nid + word_of_nat (length cps)"
  by (induction cps arbitrary: nid) (simp_all add: case_prod_unfold pair_genesis_def)

lemma without_client_remove1: "without_client c ds = remove1 c ds"
  by (induction ds) auto

text \<open>The constant is a hexadecimal address of twenty bytes, so decoding it never panics.\<close>

lemma skip_admin_decodes: "\<exists>bz. hex_DecodeString skip_admin = Inr bz \<and> length bz = 20"
  by (simp add: skip_admin_def fromHexChar_def)

section \<open>The default state\<close>

text \<open>
  C31. The default genesis state sets what it is meant to: the oracle's currency pairs are the reserved
  one and the markets', numbered from zero without gaps and with the next number after them; hooks of
  the bridge get three million gas and no minimum gas price; interchain accounts are on, with the
  list of messages; the first localhost entry is taken off the allowed clients; and the sections of
  the other modules are the defaults.
\<close>

theorem default_genesis_configured:
  assumes "genesis_ok G" and "NewDefaultGenesisState G denom = (Ok (), g)"
    and "ReadMarkets G = Inr markets" and "ReservedCPTimestamp G = Inr reserved"
  shows "\<exists>orc opchild ica ibc0 ibc1.
    FromJSON (oracle_codec G) (g (oracle_name G)) = Inr orc \<and>
    map CurrencyPair (CurrencyPairs orc) = reserved # map (Ticker_CurrencyPair G) markets \<and>
    map Id (CurrencyPairs orc) = map word_of_nat [0..<Suc (length markets)] \<and>
    NextId orc = word_of_nat (Suc (length markets)) \<and>
    FromJSON (opchild_codec G) (g (opchild_name G)) = Inr opchild \<and>
    HookMaxGas opchild = 3000000 \<and> MinGasPrices opchild = [] \<and>
    FromJSON (ica_codec G) (g (ica_name G)) = Inr ica \<and>
    ControllerEnabled ica \<and> HostEnabled ica \<and> AllowMessages ica = ica_allow_messages \<and>
    FromJSON (ibc_codec G) (DefaultGenesis G (ibc_name G)) = Inr ibc0 \<and>
    FromJSON (ibc_codec G) (g (ibc_name G)) = Inr ibc1 \<and>
    AllowedClients ibc1 = remove1 (Localhost G) (AllowedClients ibc0) \<and>
    (\<forall>k. k \<notin> {oracle_name G, marketmap_name G, opchild_name G, ica_name G, ibc_name G} \<longrightarrow>
       g k = DefaultGenesis G k)"
proof -
  note ok = assms(1) [unfolded genesis_ok_def]
  obtain g1 g2 g3 where steps: "ConfigureMinGasPrices G (DefaultGenesis G) = (Ok (), g1)"
    "ConfigureICA G g1 = (Ok (), g2)" "ConfigureIBCAllowedClients G g2 = (Ok (), g3)"
    "AddMarketData G g3 = (Ok (), g)"
    using assms(2) by (auto simp: NewDefaultGenesisState_def result_iff)
  obtain opchild where s1: "writes_section (opchild_codec G) (opchild_name G) opchild (DefaultGenesis G) g1"
    and opchild: "HookMaxGas opchild = 3000000" "MinGasPrices opchild = []"
    using steps(1) ok by (force simp: ConfigureMinGasPrices_def result_iff dest: MustMarshalJSON_Ok)
  obtain ica where s2: "writes_section (ica_codec G) (ica_name G) ica g1 g2"
    and ica: "ControllerEnabled ica" "HostEnabled ica" "AllowMessages ica = ica_allow_messages"
    using steps(2) ok by (force simp: ConfigureICA_def result_iff dest: MustMarshalJSON_Ok)
  obtain ibc0 ibc1 where s3: "writes_section (ibc_codec G) (ibc_name G) ibc1 g2 g3"
    and ibc: "FromJSON (ibc_codec G) (g2 (ibc_name G)) = Inr ibc0"
      "AllowedClients ibc1 = remove1 (Localhost G) (AllowedClients ibc0)"
    using steps(3) ok
    by (force simp: ConfigureIBCAllowedClients_def result_iff without_client_remove1 dest: MustMarshalJSON_Ok)
  obtain market orc g4 where s4: "writes_section (market_codec G) (marketmap_name G) market g3 g4"
    and s5: "writes_section (oracle_codec G) (oracle_name G) orc g4 g"
    and orc: "(CurrencyPairs orc, NextId orc) =
      number_pairs (reserved # map (Ticker_CurrencyPair G) markets) 0"
    using steps(4) ok assms(3,4)
    by (force simp: AddMarketData_def result_iff Let_def case_prod_unfold dest: MustMarshalJSON_Ok)
  have "map CurrencyPair (CurrencyPairs orc) = reserved # map (Ticker_CurrencyPair G) markets"
    "map Id (CurrencyPairs orc) = map word_of_nat [0..<Suc (length markets)]"
    "NextId orc = word_of_nat (Suc (length markets))"
    using number_pairs_parts [of "reserved # map (Ticker_CurrencyPair G) markets" 0, folded orc]
      number_pairs_ids [of "reserved # map (Ticker_CurrencyPair G) markets" 0, folded orc]
    by (simp_all del: upt_Suc)
  with s1 s2 s3 s4 s5 opchild ica ibc ok show ?thesis
    by (intro exI [of _ orc] exI [of _ opchild] exI [of _ ica] exI [of _ ibc0] exI [of _ ibc1])
      (auto simp: writes_section_def)
qed

text \<open>
  A library for which building the default state succeeds: two markets, and codecs that read the
  default sections and read and write the configured ones.
\<close>

definition two_texts :: "'g \<Rightarrow> 'g \<Rightarrow> 'g json_codec" where
  "two_texts old new = \<lparr>
     FromJSON = (\<lambda>j. if j = Some ''new'' then Inr new else if j = Some ''old'' then Inr old
       else Inl (Text ''invalid JSON'')),
     ToJSON = (\<lambda>x. if x = new then Inr ''new'' else Inl (Text ''unsupported value''))\<rparr>"

definition small_genesis :: "string genesis_lib" where
  "small_genesis = \<lparr>
     DefaultGenesis = [''oracle'' \<mapsto> ''old'', ''marketmap'' \<mapsto> ''old'', ''opchild'' \<mapsto> ''old'',
       ''interchainaccounts'' \<mapsto> ''old'', ''ibc'' \<mapsto> ''old'', ''bank'' \<mapsto> ''{}''],
     oracle_name = ''oracle'', marketmap_name = ''marketmap'', opchild_name = ''opchild'',
     ica_name = ''interchainaccounts'', ibc_name = ''ibc'', Localhost = ''09-localhost'',
     oracle_codec = two_texts \<lparr>CurrencyPairs = [], NextId = 0, oracle_rest = []\<rparr>
       \<lparr>CurrencyPairs = [pair_genesis ''TIMESTAMP/NANOSECOND'' 0, pair_genesis ''BTC/USD'' 1,
          pair_genesis ''ETH/USD'' 2], NextId = 3, oracle_rest = []\<rparr>,
     market_codec = two_texts
       \<lparr>MarketMap = [], MarketAuthorities = [], market_Admin = [], market_rest = []\<rparr>
       \<lparr>MarketMap = ''markets'', MarketAuthorities = [''init1admin''], market_Admin = ''init1admin'',
          market_rest = []\<rparr>,
     opchild_codec = two_texts \<lparr>MinGasPrices = [''0.1umin''], HookMaxGas = 0, opchild_rest = []\<rparr>
       \<lparr>MinGasPrices = [], HookMaxGas = 3000000, opchild_rest = []\<rparr>,
     ica_codec = two_texts
       \<lparr>ControllerEnabled = False, HostEnabled = False, AllowMessages = [], ica_rest = []\<rparr>
       \<lparr>ControllerEnabled = True, HostEnabled = True, AllowMessages = ica_allow_messages, ica_rest = []\<rparr>,
     ibc_codec = two_texts \<lparr>AllowedClients = [''07-tendermint'', ''09-localhost''], ibc_rest = []\<rparr>
       \<lparr>AllowedClients = [''07-tendermint''], ibc_rest = []\<rparr>,
     ReadMarkets = Inr [''BTC/USD'', ''ETH/USD''],
     ToMarketMap = (\<lambda>_. ''markets''),
     Ticker_CurrencyPair = (\<lambda>m. m),
     ReservedCPTimestamp = Inr ''TIMESTAMP/NANOSECOND'',
     AddressCodec = (\<lambda>_. Inr ''init1admin'')\<rparr>"

lemma two_texts_reads_back: "reads_back (two_texts old new)"
  by (simp add: reads_back_def two_texts_def)

lemma two_texts_sel [simp]:
  "FromJSON (two_texts old new) (Some ''new'') = Inr new"
  "FromJSON (two_texts old new) (Some ''old'') = Inr old"
  "ToJSON (two_texts old new) new = Inr ''new''"
  by (simp_all add: two_texts_def)

lemma small_genesis_sel:
  "oracle_name small_genesis = ''oracle''" "marketmap_name small_genesis = ''marketmap''"
  "opchild_name small_genesis = ''opchild''" "ica_name small_genesis = ''interchainaccounts''"
  "ibc_name small_genesis = ''ibc''" "Localhost small_genesis = ''09-localhost''"
  "ReadMarkets small_genesis = Inr [''BTC/USD'', ''ETH/USD'']"
  "ToMarketMap small_genesis = (\<lambda>_. ''markets'')" "Ticker_CurrencyPair small_genesis = (\<lambda>m. m)"
  "ReservedCPTimestamp small_genesis = Inr ''TIMESTAMP/NANOSECOND''"
  "AddressCodec small_genesis = (\<lambda>_. Inr ''init1admin'')"
  by (simp_all only: small_genesis_def genesis_lib.select_convs)

lemma small_genesis_codecs:
  "oracle_codec small_genesis = two_texts \<lparr>CurrencyPairs = [], NextId = 0, oracle_rest = []\<rparr>
     \<lparr>CurrencyPairs = [pair_genesis ''TIMESTAMP/NANOSECOND'' 0, pair_genesis ''BTC/USD'' 1,
        pair_genesis ''ETH/USD'' 2], NextId = 3, oracle_rest = []\<rparr>"
  "market_codec small_genesis = two_texts
     \<lparr>MarketMap = [], MarketAuthorities = [], market_Admin = [], market_rest = []\<rparr>
     \<lparr>MarketMap = ''markets'', MarketAuthorities = [''init1admin''], market_Admin = ''init1admin'',
        market_rest = []\<rparr>"
  "opchild_codec small_genesis = two_texts
     \<lparr>MinGasPrices = [''0.1umin''], HookMaxGas = 0, opchild_rest = []\<rparr>
     \<lparr>MinGasPrices = [], HookMaxGas = 3000000, opchild_rest = []\<rparr>"
  "ica_codec small_genesis = two_texts
     \<lparr>ControllerEnabled = False, HostEnabled = False, AllowMessages = [], ica_rest = []\<rparr>
     \<lparr>ControllerEnabled = True, HostEnabled = True, AllowMessages = ica_allow_messages, ica_rest = []\<rparr>"
  "ibc_codec small_genesis = two_texts
     \<lparr>AllowedClients = [''07-tendermint'', ''09-localhost''], ibc_rest = []\<rparr>
     \<lparr>AllowedClients = [''07-tendermint''], ibc_rest = []\<rparr>"
  by (simp_all only: small_genesis_def genesis_lib.select_convs)

lemma small_genesis_default:
  "DefaultGenesis small_genesis = [''oracle'' \<mapsto> ''old'', ''marketmap'' \<mapsto> ''old'', ''opchild'' \<mapsto> ''old'',
     ''interchainaccounts'' \<mapsto> ''old'', ''ibc'' \<mapsto> ''old'', ''bank'' \<mapsto> ''{}'']"
  by (simp only: small_genesis_def genesis_lib.select_convs)

lemma small_genesis_ok: "genesis_ok small_genesis"
  by (simp add: genesis_ok_def small_genesis_sel small_genesis_codecs two_texts_reads_back)

lemma two_texts_read:
  "g n = Some ''old'' \<Longrightarrow> andThen (MustUnmarshalJSON (two_texts old new) n) k g = k old g"
  by (simp add: MustUnmarshalJSON_def or_panics_def prog_simps)

lemma two_texts_write:
  "x = new \<Longrightarrow> MustMarshalJSON (two_texts old new) n x g = (Ok (), g(n \<mapsto> ''new''))"
  by (simp add: MustMarshalJSON_def or_panics_def prog_simps)

lemma small_genesis_builds:
  "NewDefaultGenesisState small_genesis ''umin'' =
     (Ok (), (DefaultGenesis small_genesis)(''opchild'' \<mapsto> ''new'', ''interchainaccounts'' \<mapsto> ''new'',
        ''ibc'' \<mapsto> ''new'', ''marketmap'' \<mapsto> ''new'', ''oracle'' \<mapsto> ''new''))"
proof -
  let ?g0 = "DefaultGenesis small_genesis"
  let ?g1 = "?g0(''opchild'' \<mapsto> ''new'')"
  let ?g2 = "?g1(''interchainaccounts'' \<mapsto> ''new'')"
  let ?g3 = "?g2(''ibc'' \<mapsto> ''new'')"
  have old: "?g0 ''opchild'' = Some ''old''" "?g1 ''interchainaccounts'' = Some ''old''"
    "?g2 ''ibc'' = Some ''old''" "?g3 ''oracle'' = Some ''old''" "?g3 ''marketmap'' = Some ''old''"
    by (simp_all add: small_genesis_default)
  have 1: "ConfigureMinGasPrices small_genesis ?g0 = (Ok (), ?g1)"
    unfolding ConfigureMinGasPrices_def small_genesis_sel small_genesis_codecs two_texts_read [of ?g0 "''opchild''", OF old(1)]
    by (rule two_texts_write) simp
  have 2: "ConfigureICA small_genesis ?g1 = (Ok (), ?g2)"
    unfolding ConfigureICA_def small_genesis_sel small_genesis_codecs two_texts_read [of ?g1 "''interchainaccounts''", OF old(2)]
    by (rule two_texts_write) simp
  have 3: "ConfigureIBCAllowedClients small_genesis ?g2 = (Ok (), ?g3)"
    unfolding ConfigureIBCAllowedClients_def small_genesis_sel small_genesis_codecs two_texts_read [of ?g2 "''ibc''", OF old(3)]
    by (rule two_texts_write) simp
  obtain bz where hex: "hex_DecodeString skip_admin = Inr bz" using skip_admin_decodes by blast
  have pairs: "number_pairs (''TIMESTAMP/NANOSECOND'' # map (\<lambda>m. m) [''BTC/USD'', ''ETH/USD'']) 0 =
      ([pair_genesis ''TIMESTAMP/NANOSECOND'' 0, pair_genesis ''BTC/USD'' 1, pair_genesis ''ETH/USD'' 2], 3)"
    by simp
  have 4: "AddMarketData small_genesis ?g3 = (Ok (), ?g3(''marketmap'' \<mapsto> ''new'', ''oracle'' \<mapsto> ''new''))"
    unfolding AddMarketData_def small_genesis_sel small_genesis_codecs two_texts_read [of ?g3 "''oracle''", OF old(4)]
      two_texts_read [of ?g3 "''marketmap''", OF old(5)] hex or_panics_def sum.case andThen_ret pairs Let_def prod.case
    by (subst andThen_simps(1) [OF two_texts_write]) (simp_all add: two_texts_write)
  show ?thesis
    unfolding NewDefaultGenesisState_def by (simp only: andThen_def 1 2 3 4 prod.case outcome.case)
qed

theorem default_genesis_configured_witness:
  "\<exists>g ibc. NewDefaultGenesisState small_genesis ''umin'' = (Ok (), g) \<and>
     FromJSON (ibc_codec small_genesis) (g (ibc_name small_genesis)) = Inr ibc \<and>
     AllowedClients ibc = [''07-tendermint'']"
proof -
  obtain g where g: "NewDefaultGenesisState small_genesis ''umin'' = (Ok (), g)"
    using small_genesis_builds by blast
  have "FromJSON (ibc_codec small_genesis) (DefaultGenesis small_genesis (ibc_name small_genesis)) =
      Inr \<lparr>AllowedClients = [''07-tendermint'', ''09-localhost''], ibc_rest = []\<rparr>"
    by (simp add: small_genesis_codecs small_genesis_sel small_genesis_default)
  with default_genesis_configured [OF small_genesis_ok g small_genesis_sel(7) small_genesis_sel(10)] g
  show ?thesis by (auto simp: small_genesis_sel(6))
qed

end
