(* ===== verification/App.thy ===== *)
theory App
  imports Transfers
begin

text \<open>
  The application itself: \<open>app/app.go\<close>, \<open>app/modules.go\<close>, \<open>app/export.go\<close> and the upgrade
  handlers.  The module names of other packages, the module manager, the base application and the
  stores are parameters.
\<close>

text \<open>An \<open>int64\<close>; \<open>sint\<close> reads its value.\<close>

type_synonym i64 = "64 word"

section \<open>Modules and their accounts (modules.go)\<close>

record names =
  FeeCollectorName :: string
  Minter :: string
  Burner :: string
  auth_name :: string
  authz_name :: string
  bank_name :: string
  capability_name :: string
  consensus_name :: string
  crisis_name :: string
  feegrant_name :: string
  forwarding_name :: string
  genutil_name :: string
  group_name :: string
  ibc_module_name :: string
  ibcfee_name :: string
  ibchooks_name :: string
  ibctransfer_name :: string
  ica_module_name :: string
  icaauth_name :: string
  marketmap_module_name :: string
  opchild_module_name :: string
  oracle_module_name :: string
  packetforward_name :: string
  upgrade_name :: string
  wasm_name :: string

definition maccPerms :: "names \<Rightarrow> (string \<times> string list) list" where
  "maccPerms N = [
     (FeeCollectorName N, []),
     (ica_module_name N, []),
     (ibcfee_name N, []),
     (ibctransfer_name N, [Minter N, Burner N]),
     (opchild_module_name N, [Minter N, Burner N]),
     (ModuleName, [Minter N, Burner N]),
     (oracle_module_name N, []),
     (Minter N, [Minter N])]"

definition orderBeginBlockers :: "names \<Rightarrow> string list" where
  "orderBeginBlockers N = [capability_name N, opchild_module_name N, authz_name N, ibc_module_name N,
     oracle_module_name N, marketmap_module_name N]"

definition orderEndBlockers :: "names \<Rightarrow> string list" where
  "orderEndBlockers N = [crisis_name N, opchild_module_name N, authz_name N, feegrant_name N,
     group_name N, oracle_module_name N, marketmap_module_name N, forwarding_name N]"

definition orderInitBlockers :: "names \<Rightarrow> string list" where
  "orderInitBlockers N = [
     capability_name N, auth_name N, bank_name N, opchild_module_name N,
     genutil_name N, authz_name N, group_name N, crisis_name N,
     upgrade_name N, feegrant_name N, consensus_name N,
     ibc_module_name N, ibctransfer_name N, ica_module_name N,
     icaauth_name N, ibcfee_name N,
     wasm_name N, oracle_module_name N, marketmap_module_name N,
     packetforward_name N, ModuleName,
     ibchooks_name N, forwarding_name N]"

section \<open>Module accounts (app.go)\<close>

text \<open>An address that does not encode is the empty string: the error is dropped.\<close>

definition module_address_string :: "'x env \<Rightarrow> (string \<Rightarrow> bytes) \<Rightarrow> string \<Rightarrow> string" where
  "module_address_string E NewModuleAddress acc =
     (case BytesToString E (NewModuleAddress acc) of Inl _ \<Rightarrow> [] | Inr s \<Rightarrow> s)"

definition ModuleAccountAddrs :: "'x env \<Rightarrow> (string \<Rightarrow> bytes) \<Rightarrow> names \<Rightarrow> string set" where
  "ModuleAccountAddrs E NewModuleAddress N =
     foldl (\<lambda>m (acc, _). insert (module_address_string E NewModuleAddress acc) m) {} (maccPerms N)"

text \<open>No module account is on the list of those allowed to receive funds.\<close>

definition BlockedModuleAccountAddrs :: "'x env \<Rightarrow> (string \<Rightarrow> bytes) \<Rightarrow> string set \<Rightarrow> string set" where
  "BlockedModuleAccountAddrs E NewModuleAddress modAccAddrs =
     (let modules = []
      in foldl (\<lambda>m module. m - {module_address_string E NewModuleAddress module}) modAccAddrs modules)"

section \<open>The life of the chain (app.go, export.go)\<close>

text \<open>\<open>tmos.Exit\<close> ends the process: a panic that nothing recovers from.\<close>

definition tmos_Exit :: "string \<Rightarrow> ('s, 'a) prog" where
  "tmos_Exit msg = raise (PanicText (''exit: '' @ msg))"

record ('s, 'g, 'r) chain_lib =
  UnmarshalGenesis :: "bytes \<Rightarrow> error + 'g"
  GetVersionMap :: "(string \<times> u64) list"
  SetModuleVersionMap :: "(string \<times> u64) list \<Rightarrow> ('s, unit) prog"
  ModulesInitGenesis :: "'g \<Rightarrow> ('s, 'r) prog"
  ErrorMsg :: "error \<Rightarrow> string"

definition InitChainer :: "('s, 'g, 'r) chain_lib \<Rightarrow> bytes \<Rightarrow> ('s, 'r) prog" where
  "InitChainer A appStateBytes =
     (case UnmarshalGenesis A appStateBytes of
        Inl e \<Rightarrow> tmos_Exit (ErrorMsg A e)
      | Inr genesisState \<Rightarrow>
          andThen (attempt (SetModuleVersionMap A (GetVersionMap A))) (\<lambda>r.
          case r of
            Inl e \<Rightarrow> tmos_Exit (ErrorMsg A e)
          | Inr _ \<Rightarrow> ModulesInitGenesis A genesisState))"

record ('v, 'c) ExportedApp =
  AppState :: bytes
  Validators :: 'v
  Height :: i64
  ConsensusParams :: 'c

record ('s, 'g, 'v, 'c) export_lib =
  LastBlockHeight :: i64
  ExportGenesisForModules :: "string list \<Rightarrow> ('s, 'g) prog"
  MarshalIndent :: "'g \<Rightarrow> error + bytes"
  WriteValidators :: "('s, 'v) prog"
  GetConsensusParams :: "('s, 'c) prog"

text \<open>The export runs in a check context, so the state it leaves is dropped.\<close>

definition ExportAppStateAndValidators ::
  "('s, 'g, 'v, 'c) export_lib \<Rightarrow> bool \<Rightarrow> string list \<Rightarrow> ('s, ('v, 'c) ExportedApp) prog" where
  "ExportAppStateAndValidators X forZeroHeight modulesToExport =
     (let height = LastBlockHeight X + 1;
          height = (if forZeroHeight then 0 else height)
      in
      andThen (ExportGenesisForModules X modulesToExport) (\<lambda>genState.
      andThen (of_result (MarshalIndent X genState)) (\<lambda>appState.
      andThen (WriteValidators X) (\<lambda>validators.
      andThen (GetConsensusParams X) (\<lambda>params.
      ret \<lparr>AppState = appState, Validators = validators, Height = height, ConsensusParams = params\<rparr>)))))"

definition FeeDeductionGasAmount :: u64 where
  "FeeDeductionGasAmount = 50000"

record GasInfo =
  GasWanted :: u64
  GasUsed :: u64

definition Simulate :: "(bytes \<Rightarrow> GasInfo \<times> 'r \<times> error option) \<Rightarrow> bytes \<Rightarrow> GasInfo \<times> 'r \<times> error option" where
  "Simulate BaseApp_Simulate txBytes =
     (case BaseApp_Simulate txBytes of (gasInfo, result, err) \<Rightarrow>
        (gasInfo\<lparr>GasUsed := GasUsed gasInfo + FeeDeductionGasAmount\<rparr>, result, err))"

text \<open>
  \<open>Close\<close>: a store is nil, or a value that may have a \<open>Close\<close> method.  The result lists the
  errors that \<open>errors.Join\<close> puts together.
\<close>

fun close_stores :: "('s, unit) prog option option list \<Rightarrow> error list \<Rightarrow> ('s, error list) prog" where
  "close_stores [] errs = ret errs"
| "close_stores (None # stores) errs = close_stores stores errs"
| "close_stores (Some None # stores) errs = close_stores stores errs"
| "close_stores (Some (Some close) # stores) errs =
     andThen (attempt close) (\<lambda>r.
     close_stores stores (case r of Inl e \<Rightarrow> errs @ [e] | Inr _ \<Rightarrow> errs))"

definition app_Close ::
  "('s, unit) prog option \<Rightarrow> ('s, unit) prog \<Rightarrow> ('s, unit) prog option option \<Rightarrow>
   ('s, unit) prog option option \<Rightarrow> ('s, error list) prog" where
  "app_Close Stop BaseApp_Close CommitMultiStore qms =
     andThen (case Stop of Some stop \<Rightarrow> stop | None \<Rightarrow> ret ()) (\<lambda>_.
     andThen (attempt BaseApp_Close) (\<lambda>r.
     close_stores [CommitMultiStore, qms] (case r of Inl e \<Rightarrow> [e] | Inr _ \<Rightarrow> [])))"

text \<open>The block time a message sees: in a simulation it is brought up to the local clock.\<close>

datatype exec_mode = ExecModeSimulate | OtherMode nat

definition message_block_time :: "(int \<Rightarrow> int) \<Rightarrow> exec_mode \<Rightarrow> int \<Rightarrow> int" where
  "message_block_time LocalTime mode blockTime =
     (if mode = ExecModeSimulate then LocalTime blockTime else blockTime)"

section \<open>Upgrades\<close>

record UpgradeInfo =
  info_Name :: string
  info_Height :: i64

record ('s, 'm) upgrade_lib =
  ReadUpgradeInfoFromDisk :: "error + UpgradeInfo"
  IsSkipHeight :: "i64 \<Rightarrow> bool"
  IsBound :: "string \<Rightarrow> ('s, bool) prog"
  BindPort :: "string \<Rightarrow> ('s, unit) prog"
  RunMigrations :: "'m \<Rightarrow> ('s, 'm) prog"
  PortID :: string
  ErrorText :: "error \<Rightarrow> string"

text \<open>
  What registering the handlers of version 1.3.0 sets: the height and the deleted stores of the store
  loader, when the upgrade is the scheduled one, and the handler under its name.
\<close>

definition upgradeName :: string where
  "upgradeName = ''v1.3.0''"

definition store_loader :: "('s, 'm) upgrade_lib \<Rightarrow> ('t, (i64 \<times> string list) option) prog" where
  "store_loader U =
     (case ReadUpgradeInfoFromDisk U of
        Inr info \<Rightarrow>
          ret (if info_Name info = upgradeName \<and> \<not> IsSkipHeight U (info_Height info)
               then Some (info_Height info, [''auction'']) else None)
      | Inl e \<Rightarrow> tmos_Exit (ErrorText U e))"

definition upgrade_handler :: "('s, 'm) upgrade_lib \<Rightarrow> 'm \<Rightarrow> ('s, 'm) prog" where
  "upgrade_handler U vm =
     andThen (IsBound U (PortID U)) (\<lambda>bound.
     andThen (if \<not> bound then BindPort U (PortID U) else ret ()) (\<lambda>_.
     RunMigrations U vm))"

definition RegisterUpgradeHandlers ::
  "('s, 'm) upgrade_lib \<Rightarrow> ('t, (i64 \<times> string list) option \<times> string \<times> ('m \<Rightarrow> ('s, 'm) prog)) prog" where
  "RegisterUpgradeHandlers U =
     andThen (store_loader U) (\<lambda>loader. ret (loader, upgradeName, upgrade_handler U))"

section \<open>Properties\<close>

text \<open>The requirements the comments of \<open>modules.go\<close> name for the order of initialisation.\<close>

lemma init_order:
  "hd (orderInitBlockers N) = capability_name N"
  "\<exists>before middle after. orderInitBlockers N =
     before @ [auth_name N] @ middle @ [genutil_name N] @ after"
  "\<exists>before middle after. orderInitBlockers N =
     before @ [bank_name N] @ middle @ [ModuleName] @ after"
proof -
  show "hd (orderInitBlockers N) = capability_name N" by (simp add: orderInitBlockers_def)
  show "\<exists>before middle after. orderInitBlockers N =
      before @ [auth_name N] @ middle @ [genutil_name N] @ after"
    by (rule exI [of _ "take 1 (orderInitBlockers N)"], rule exI [of _ "[bank_name N, opchild_module_name N]"],
        rule exI [of _ "drop 5 (orderInitBlockers N)"]) (simp add: orderInitBlockers_def)
  show "\<exists>before middle after. orderInitBlockers N =
      before @ [bank_name N] @ middle @ [ModuleName] @ after"
    by (rule exI [of _ "take 2 (orderInitBlockers N)"], rule exI [of _ "take 17 (drop 3 (orderInitBlockers N))"],
        rule exI [of _ "drop 21 (orderInitBlockers N)"]) (simp add: orderInitBlockers_def)
qed

lemma export_height:
  assumes "ExportAppStateAndValidators X zero ms s = (Ok a, t)"
  shows "Height a = (if zero then 0 else LastBlockHeight X + 1)"
  using assms by (auto simp: ExportAppStateAndValidators_def Let_def result_iff)

lemma simulated_gas:
  assumes "BaseApp_Simulate tx = (info, r, e)" and "unat (GasUsed info) + 50000 < 2 ^ 64"
  shows "unat (GasUsed (fst (Simulate BaseApp_Simulate tx))) = unat (GasUsed info) + 50000"
  using assms by (simp add: Simulate_def FeeDeductionGasAmount_def unat_word_ariths)

text \<open>Every store that can be closed is closed, whatever errors came before.\<close>

lemma close_stores_runs_all:
  assumes "\<And>s. \<exists>r t. c1 s = (r, t) \<and> (\<forall>p. r \<noteq> Panic p) \<and> f t = Suc (f s)"
    and "\<And>s. \<exists>r t. c2 s = (r, t) \<and> (\<forall>p. r \<noteq> Panic p) \<and> f t = Suc (f s)"
  shows "\<exists>errs' t. close_stores [Some (Some c1), Some (Some c2)] errs s = (Ok errs', t) \<and>
    f t = f s + (2 :: nat)"
proof -
  obtain r1 t1 where 1: "c1 s = (r1, t1)" "\<forall>p. r1 \<noteq> Panic p" "f t1 = Suc (f s)" using assms(1) by blast
  obtain r2 t2 where 2: "c2 t1 = (r2, t2)" "\<forall>p. r2 \<noteq> Panic p" "f t2 = Suc (f t1)" using assms(2) by blast
  show ?thesis using 1 2 by (cases r1; cases r2) (simp_all add: attempt_then ret_def)
qed

lemma upgrade_migrates_bound:
  assumes "upgrade_handler U vm s = (Ok vm', t)"
  obtains b s1 s2 where "IsBound U (PortID U) s = (Ok b, s1)"
    and "if b then s2 = s1 else BindPort U (PortID U) s1 = (Ok (), s2)"
    and "RunMigrations U vm s2 = (Ok vm', t)"
  using assms by (auto simp: upgrade_handler_def result_iff split: if_splits)

lemma ModuleAccountAddrs_eq:
  "ModuleAccountAddrs E M N = module_address_string E M ` fst ` set (maccPerms N)"
proof -
  have "foldl (\<lambda>m (acc, _). insert (f acc) m) A xs = A \<union> f ` fst ` set xs"
    for f :: "string \<Rightarrow> string" and A and xs :: "(string \<times> string list) list"
    by (induction xs arbitrary: A) auto
  then show ?thesis by (simp add: ModuleAccountAddrs_def)
qed

text \<open>
  C32. No message pays a module account: with the bank keeper refusing the addresses that the
  application hands it, a send, a multi-send or a mint to the account of any module with an entry in
  the account permissions fails.
\<close>

theorem module_accounts_never_receive:
  assumes "\<And>b s. BytesToString E b = Inr s \<Longrightarrow>
      BlockedAddr E b = (s \<in> BlockedModuleAccountAddrs E M (ModuleAccountAddrs E M N))"
    and "acc \<in> fst ` set (maccPerms N)" and "BytesToString E (M acc) = Inr a"
    and "StringToBytes E a = Inr (M acc)" and "a \<in> set (recipients m)"
  shows "fst (deliver E B k m s) \<noteq> Ok ()"
proof (rule blocked_recipient_fails)
  have "a = module_address_string E M acc" using assms(3) by (simp add: module_address_string_def)
  then have "a \<in> BlockedModuleAccountAddrs E M (ModuleAccountAddrs E M N)"
    using assms(2) by (simp add: BlockedModuleAccountAddrs_def ModuleAccountAddrs_eq)
  then show "BlockedAddr E (M acc)" using assms(1,3) by blast
qed (use assms in simp_all)

definition sample_names :: names where
  "sample_names = \<lparr>FeeCollectorName = ''fee_collector'', Minter = ''minter'', Burner = ''burner'',
     auth_name = ''auth'', authz_name = ''authz'', bank_name = ''bank'', capability_name = ''capability'',
     consensus_name = ''consensus'', crisis_name = ''crisis'', feegrant_name = ''feegrant'',
     forwarding_name = ''forwarding'', genutil_name = ''genutil'', group_name = ''group'',
     ibc_module_name = ''ibc'', ibcfee_name = ''feeibc'', ibchooks_name = ''ibchooks'',
     ibctransfer_name = ''transfer'', ica_module_name = ''interchainaccounts'', icaauth_name = ''intertx'',
     marketmap_module_name = ''marketmap'', opchild_module_name = ''opchild'', oracle_module_name = ''oracle'',
     packetforward_name = ''packetfowardmiddleware'', upgrade_name = ''upgrade'', wasm_name = ''wasm''\<rparr>"

definition blocking_env :: "ledger env" where
  "blocking_env = sample_env\<lparr>BlockedAddr := (\<lambda>b. of_bytes b \<in>
     BlockedModuleAccountAddrs sample_env to_bytes (ModuleAccountAddrs sample_env to_bytes sample_names))\<rparr>"

lemma blocking_env_addresses:
  "BlockedModuleAccountAddrs blocking_env M (ModuleAccountAddrs blocking_env M N) =
     BlockedModuleAccountAddrs sample_env M (ModuleAccountAddrs sample_env M N)"
  by (simp add: BlockedModuleAccountAddrs_def ModuleAccountAddrs_def module_address_string_def blocking_env_def)

theorem module_accounts_never_receive_witness:
  "fst (deliver blocking_env sample_bank sample_keeper
     (BankSend \<lparr>FromAddress = ''ann'', ToAddress = ''opchild'', send_Amount = [copper 1]\<rparr>)
     sample_state) \<noteq> Ok ()"
proof (rule module_accounts_never_receive)
  show "BlockedAddr blocking_env b =
      (s \<in> BlockedModuleAccountAddrs blocking_env to_bytes (ModuleAccountAddrs blocking_env to_bytes sample_names))"
    if "BytesToString blocking_env b = Inr s" for b s
    using that unfolding blocking_env_addresses by (simp add: blocking_env_def)
  show "''opchild'' \<in> fst ` set (maccPerms sample_names)"
    by (simp add: maccPerms_def sample_names_def)
qed (simp_all add: blocking_env_def plain_address_def)

end
