(* ===== verification/Keepers.thy ===== *)
theory Keepers
  imports Prelude
begin

text \<open>
  \<open>app/keepers\<close>: the order in which \<open>NewAppKeeper\<close> builds the keepers and the stacks of IBC modules.  The
  constructors belong to other packages; modelled is which pointers and store keys each call is
  given, and whether they are set when the call is made.  A pointer that is passed on may be nil, a
  pointer that is read through may not.  Codecs, loggers, configurations and the exits on errors of the
  base application and of \<open>SetIBCKeepers\<close> are left out.  Store keys and module names are written as the Go
  expressions for them.
\<close>

section \<open>Steps\<close>

text \<open>The fields of \<open>AppKeepers\<close>, the local pointers of \<open>NewAppKeeper\<close> and the IBC modules it builds.\<close>

datatype keeper =
    AccountKeeper | BankKeeper | CapabilityKeeper | CrisisKeeper | UpgradeKeeper | GroupKeeper
  | ConsensusParamsKeeper | IBCKeeper | TransferKeeper | AuthzKeeper | FeeGrantKeeper | ICAHostKeeper
  | ICAControllerKeeper | ICAAuthKeeper | IBCFeeKeeper | WasmKeeper | OPChildKeeper | PacketForwardKeeper
  | OracleKeeper | MarketMapKeeper | TokenFactoryKeeper | IBCHooksKeeper | ForwardingKeeper
  | RatelimitKeeper | ScopedKeeper string | Local string | IBCModule string

text \<open>
  What a call is given: a pointer, something read through a pointer, a store by its key, the address of
  the authority, or an explicit nil.
\<close>

datatype dep = Arg keeper | Deref keeper | Store string | TStore string | MemStore string | Authority | NilArg

text \<open>
  A new value behind a pointer, a pointer to an empty value, filling such a value, copying a pointer to
  a field, and calling a method.
\<close>

datatype step = New keeper "dep list" | Alloc keeper | Fill keeper "dep list" | Assign keeper keeper
  | Method keeper "dep list"

definition KVStoreKeys :: "string list" where
  "KVStoreKeys =
    [''authtypes.StoreKey'', ''banktypes.StoreKey'', ''group.StoreKey'', ''consensusparamtypes.StoreKey'',
     ''crisistypes.StoreKey'', ''ibcexported.StoreKey'', ''upgradetypes.StoreKey'', ''ibctransfertypes.StoreKey'',
     ''capabilitytypes.StoreKey'', ''authzkeeper.StoreKey'', ''feegrant.StoreKey'',
     ''icahosttypes.StoreKey'', ''icacontrollertypes.StoreKey'', ''icaauthtypes.StoreKey'',
     ''ibcfeetypes.StoreKey'', ''wasmtypes.StoreKey'', ''opchildtypes.StoreKey'',
     ''packetforwardtypes.StoreKey'', ''oracletypes.StoreKey'',
     ''tokenfactorytypes.StoreKey'', ''ibchookstypes.StoreKey'', ''forwardingtypes.StoreKey'',
     ''marketmaptypes.StoreKey'', ''ratelimittypes.StoreKey'']"

record store_keys =
  keys :: "string list"
  tkeys :: "string list"
  memKeys :: "string list"

definition GenerateKeys :: store_keys where
  "GenerateKeys =
    \<lparr>keys = KVStoreKeys,
     tkeys = [''forwardingtypes.TransientStoreKey'', ''ibchookstypes.TStoreKey''],
     memKeys = [''capabilitytypes.MemStoreKey'']\<rparr>"

section \<open>NewAppKeeper\<close>

definition capability_steps :: "step list" where
  "capability_steps =
    [New ConsensusParamsKeeper [Store ''consensusparamtypes.StoreKey'', Authority],
     Method ConsensusParamsKeeper [],
     New CapabilityKeeper [Store ''capabilitytypes.StoreKey'', MemStore ''capabilitytypes.MemStoreKey''],
     New (ScopedKeeper ''ibcexported.ModuleName'') [Deref CapabilityKeeper],
     New (ScopedKeeper ''ibctransfertypes.ModuleName'') [Deref CapabilityKeeper],
     New (ScopedKeeper ''icahosttypes.SubModuleName'') [Deref CapabilityKeeper],
     New (ScopedKeeper ''icacontrollertypes.SubModuleName'') [Deref CapabilityKeeper],
     New (ScopedKeeper ''icaauthtypes.ModuleName'') [Deref CapabilityKeeper],
     New (ScopedKeeper ''wasmtypes.ModuleName'') [Deref CapabilityKeeper],
     New (ScopedKeeper ''opchildtypes.ModuleName'') [Deref CapabilityKeeper],
     Method CapabilityKeeper [],
     Alloc WasmKeeper]"

definition account_steps :: "step list" where
  "account_steps =
    [New AccountKeeper [Store ''authtypes.StoreKey'', Authority],
     New BankKeeper [Store ''banktypes.StoreKey'', Arg AccountKeeper, Authority],
     New (Local ''communityPoolKeeper'') [Arg BankKeeper],
     New MarketMapKeeper [Store ''marketmaptypes.StoreKey'', Authority],
     New OracleKeeper [Store ''oracletypes.StoreKey'', Arg MarketMapKeeper, Authority],
     Method MarketMapKeeper [Deref OracleKeeper],
     New OPChildKeeper [Store ''opchildtypes.StoreKey'', Arg AccountKeeper, Arg BankKeeper, Arg OracleKeeper,
       Arg AccountKeeper, Authority],
     New CrisisKeeper [Store ''crisistypes.StoreKey'', Arg BankKeeper, Authority],
     New UpgradeKeeper [Store ''upgradetypes.StoreKey'', Authority],
     New FeeGrantKeeper [Store ''feegrant.StoreKey'', Arg AccountKeeper],
     New AuthzKeeper [Store ''authzkeeper.StoreKey'', Arg AccountKeeper, Arg BankKeeper],
     New GroupKeeper [Store ''group.StoreKey'', Arg AccountKeeper]]"

definition ibc_steps :: "step list" where
  "ibc_steps =
    [New IBCKeeper [Store ''ibcexported.StoreKey'', NilArg, Arg OPChildKeeper, Arg UpgradeKeeper,
       Arg (ScopedKeeper ''ibcexported.ModuleName''), Authority],
     Method OPChildKeeper [Deref IBCKeeper, Deref IBCKeeper, Arg (ScopedKeeper ''opchildtypes.ModuleName'')],
     Method IBCKeeper [Deref OPChildKeeper],
     New IBCFeeKeeper [Store ''ibcfeetypes.StoreKey'', Deref IBCKeeper, Deref IBCKeeper, Deref IBCKeeper,
       Arg AccountKeeper, Arg BankKeeper],
     New IBCHooksKeeper [Store ''ibchookstypes.StoreKey'', TStore ''ibchookstypes.TStoreKey'', Authority],
     New ForwardingKeeper [Store ''forwardingtypes.StoreKey'', TStore ''forwardingtypes.TransientStoreKey'',
       Authority, Arg AccountKeeper, Arg BankKeeper, Deref IBCKeeper, Arg TransferKeeper],
     Method BankKeeper [Deref ForwardingKeeper]]"

definition transfer_steps :: "step list" where
  "transfer_steps =
    [Alloc (Local ''packetForwardKeeper''),
     Alloc (Local ''rateLimitKeeper''),
     Alloc (Local ''ibcHooksICS4Wrapper''),
     New TransferKeeper [Store ''ibctransfertypes.StoreKey'', NilArg, Arg (Local ''packetForwardKeeper''),
       Deref IBCKeeper, Deref IBCKeeper, Arg AccountKeeper, Arg BankKeeper,
       Arg (ScopedKeeper ''ibctransfertypes.ModuleName''), Authority],
     New (IBCModule ''transfer'') [Deref TransferKeeper],
     New (IBCModule ''forwarding'') [Arg (IBCModule ''transfer''), Arg AccountKeeper, Arg ForwardingKeeper],
     Fill (Local ''packetForwardKeeper'') [Store ''packetforwardtypes.StoreKey'', Arg TransferKeeper,
       Deref IBCKeeper, Arg BankKeeper, Arg (Local ''rateLimitKeeper''), Authority],
     Assign PacketForwardKeeper (Local ''packetForwardKeeper''),
     New (IBCModule ''packetforward'') [Arg (IBCModule ''forwarding''), Arg PacketForwardKeeper],
     Fill (Local ''rateLimitKeeper'') [Store ''ratelimittypes.StoreKey'', Authority, Arg BankKeeper,
       Deref IBCKeeper, Arg (Local ''ibcHooksICS4Wrapper'')],
     Assign RatelimitKeeper (Local ''rateLimitKeeper''),
     New (IBCModule ''ratelimit'') [Deref RatelimitKeeper, Arg (IBCModule ''packetforward'')],
     New (IBCModule ''opchildmigration'') [Arg (IBCModule ''ratelimit''), NilArg, Arg BankKeeper, Arg OPChildKeeper],
     Fill (Local ''ibcHooksICS4Wrapper'') [Arg IBCFeeKeeper, Arg IBCHooksKeeper, Arg WasmKeeper, Arg OPChildKeeper],
     New (IBCModule ''ibchooks'') [Arg (IBCModule ''opchildmigration''), Arg (Local ''ibcHooksICS4Wrapper''),
       Arg IBCHooksKeeper],
     New (IBCModule ''transferStack'') [Arg (IBCModule ''ibchooks''), Deref IBCFeeKeeper]]"

definition ica_steps :: "step list" where
  "ica_steps =
    [New (IBCModule ''opchild'') [Deref OPChildKeeper],
     New (IBCModule ''opchildStack'') [Arg (IBCModule ''opchild''), Deref IBCFeeKeeper],
     New ICAHostKeeper [Store ''icahosttypes.StoreKey'', NilArg, Arg IBCFeeKeeper, Deref IBCKeeper, Deref IBCKeeper,
       Arg AccountKeeper, Arg (ScopedKeeper ''icahosttypes.SubModuleName''), Authority],
     New ICAControllerKeeper [Store ''icacontrollertypes.StoreKey'', NilArg, Arg IBCFeeKeeper, Deref IBCKeeper,
       Deref IBCKeeper, Arg (ScopedKeeper ''icacontrollertypes.SubModuleName''), Authority],
     New ICAAuthKeeper [Deref ICAControllerKeeper, Arg (ScopedKeeper ''icaauthtypes.ModuleName'')],
     New (IBCModule ''icaauth'') [Deref ICAAuthKeeper],
     New (IBCModule ''icahost'') [Deref ICAHostKeeper],
     New (IBCModule ''icaHostStack'') [Arg (IBCModule ''icahost''), Deref IBCFeeKeeper],
     New (IBCModule ''icacontroller'') [Arg (IBCModule ''icaauth''), Deref ICAControllerKeeper],
     New (IBCModule ''icaControllerStack'') [Arg (IBCModule ''icacontroller''), Deref IBCFeeKeeper]]"

definition wasm_ibc_steps :: "step list" where
  "wasm_ibc_steps =
    [Alloc (Local ''wasm ibcHooksICS4Wrapper''),
     New (IBCModule ''wasm'') [Arg WasmKeeper, Deref IBCKeeper, Arg (Local ''wasm ibcHooksICS4Wrapper'')],
     Fill (Local ''wasm ibcHooksICS4Wrapper'') [Arg IBCFeeKeeper, Arg IBCHooksKeeper, Arg WasmKeeper, Arg OPChildKeeper],
     New (IBCModule ''hookMiddleware'') [Arg (IBCModule ''wasm''), Arg (Local ''wasm ibcHooksICS4Wrapper''),
       Arg IBCHooksKeeper],
     New (IBCModule ''wasmIBCStack'') [Arg (IBCModule ''hookMiddleware''), Deref IBCFeeKeeper]]"

definition routes :: "(string \<times> string) list" where
  "routes =
    [(''ibctransfertypes.ModuleName'', ''transferStack''),
     (''icahosttypes.SubModuleName'', ''icaHostStack''),
     (''icacontrollertypes.SubModuleName'', ''icaControllerStack''),
     (''icaauthtypes.ModuleName'', ''icaControllerStack''),
     (''wasmtypes.ModuleName'', ''wasmIBCStack''),
     (''opchildtypes.ModuleName'', ''opchildStack'')]"

definition router_steps :: "step list" where
  "router_steps =
    [Method IBCKeeper (map (\<lambda>(_, stack). Arg (IBCModule stack)) routes),
     Method OPChildKeeper [Arg TransferKeeper],
     Method OPChildKeeper [Deref IBCKeeper]]"

definition wasm_steps :: "step list" where
  "wasm_steps =
    [Fill WasmKeeper [Store ''wasmtypes.StoreKey'', Arg AccountKeeper, Arg BankKeeper, NilArg, NilArg,
       Arg IBCFeeKeeper, Deref IBCKeeper, Deref IBCKeeper, Arg (ScopedKeeper ''wasmtypes.ModuleName''),
       Arg TransferKeeper, Authority],
     New (Local ''contractKeeper'') [Arg WasmKeeper],
     New TokenFactoryKeeper [Store ''tokenfactorytypes.StoreKey'', Arg AccountKeeper, Arg BankKeeper,
       Arg (Local ''communityPoolKeeper''), Authority],
     Method TokenFactoryKeeper [Arg (Local ''contractKeeper'')],
     Method BankKeeper [Deref TokenFactoryKeeper]]"

definition NewAppKeeper :: "step list" where
  "NewAppKeeper = capability_steps @ account_steps @ ibc_steps @ transfer_steps @ ica_steps @ wasm_ibc_steps @
     router_steps @ wasm_steps"

section \<open>Running the steps\<close>

text \<open>The pointers that are set, the nil pointers that calls were given and the stores without a key.\<close>

record build =
  Ptrs :: "keeper list"
  NilArgs :: "(keeper \<times> keeper) list"
  NoKey :: "(keeper \<times> string) list"

definition need_key :: "string list \<Rightarrow> keeper \<Rightarrow> string \<Rightarrow> build \<Rightarrow> build" where
  "need_key ks k s b = (if List.member ks s then b else b\<lparr>NoKey := NoKey b @ [(k, s)]\<rparr>)"

fun pass :: "store_keys \<Rightarrow> keeper \<Rightarrow> dep \<Rightarrow> build \<Rightarrow> build outcome" where
  "pass K k (Arg d) b = Ok (if List.member (Ptrs b) d then b else b\<lparr>NilArgs := NilArgs b @ [(k, d)]\<rparr>)"
| "pass K k (Deref d) b = (if List.member (Ptrs b) d then Ok b else Panic (PanicText ''nil pointer dereference''))"
| "pass K k (Store s) b = Ok (need_key (keys K) k s b)"
| "pass K k (TStore s) b = Ok (need_key (tkeys K) k s b)"
| "pass K k (MemStore s) b = Ok (need_key (memKeys K) k s b)"
| "pass K k Authority b = Ok b"
| "pass K k NilArg b = Ok b"

fun pass_all :: "store_keys \<Rightarrow> keeper \<Rightarrow> dep list \<Rightarrow> build \<Rightarrow> build outcome" where
  "pass_all K k [] b = Ok b"
| "pass_all K k (d # ds) b = (case pass K k d b of Ok b' \<Rightarrow> pass_all K k ds b' | r \<Rightarrow> r)"

definition set_ptr :: "keeper \<Rightarrow> build \<Rightarrow> build" where
  "set_ptr k b = b\<lparr>Ptrs := k # Ptrs b\<rparr>"

fun exec_step :: "store_keys \<Rightarrow> step \<Rightarrow> build \<Rightarrow> build outcome" where
  "exec_step K (New k ds) b = map_outcome (set_ptr k) (pass_all K k ds b)"
| "exec_step K (Alloc k) b = Ok (set_ptr k b)"
| "exec_step K (Fill k ds) b = pass_all K k (ds @ [Deref k]) b"
| "exec_step K (Assign k p) b = (if List.member (Ptrs b) p then Ok (set_ptr k b) else Ok b)"
| "exec_step K (Method k ds) b = pass_all K k (Deref k # ds) b"

fun exec :: "store_keys \<Rightarrow> step list \<Rightarrow> build \<Rightarrow> build outcome" where
  "exec K [] b = Ok b"
| "exec K (s # ss) b = (case exec_step K s b of Ok b' \<Rightarrow> exec K ss b' | r \<Rightarrow> r)"

definition built :: "build outcome" where
  "built = exec GenerateKeys NewAppKeeper \<lparr>Ptrs = [], NilArgs = [], NoKey = []\<rparr>"

section \<open>What is built\<close>

definition fields :: "keeper list" where
  "fields = [AccountKeeper, BankKeeper, CapabilityKeeper, CrisisKeeper, UpgradeKeeper, GroupKeeper,
     ConsensusParamsKeeper, IBCKeeper, TransferKeeper, AuthzKeeper, FeeGrantKeeper, ICAHostKeeper,
     ICAControllerKeeper, ICAAuthKeeper, IBCFeeKeeper, WasmKeeper, OPChildKeeper, PacketForwardKeeper,
     OracleKeeper, MarketMapKeeper, TokenFactoryKeeper, IBCHooksKeeper, ForwardingKeeper, RatelimitKeeper]"

definition wired_up :: "build outcome \<Rightarrow> (keeper \<times> keeper) list \<Rightarrow> bool" where
  "wired_up r nils = (case r of
     Ok b \<Rightarrow> NilArgs b = nils \<and> NoKey b = [] \<and> list_all (List.member (Ptrs b)) fields
   | _ \<Rightarrow> False)"

text \<open>
  No step reads through a nil pointer, every store that is opened has a key and every field is set.
  The only nil pointer that a keeper is given is the transfer keeper of the forwarding keeper, which is
  built before the transfer keeper.
\<close>

lemma forwarding_gets_nil: "wired_up built [(ForwardingKeeper, TransferKeeper)]"
  by code_simp

text \<open>The module inside a middleware, and the wrapper a keeper sends packets through.\<close>

fun deps_of :: "step list \<Rightarrow> keeper \<Rightarrow> dep list" where
  "deps_of [] k = []"
| "deps_of (New k' ds # ss) k = (if k' = k then ds else deps_of ss k)"
| "deps_of (Fill k' ds # ss) k = (if k' = k then ds else deps_of ss k)"
| "deps_of (_ # ss) k = deps_of ss k"

fun first_module :: "dep list \<Rightarrow> string option" where
  "first_module [] = None"
| "first_module (Arg (IBCModule m) # ds) = Some m"
| "first_module (_ # ds) = first_module ds"

fun receive_path :: "nat \<Rightarrow> string \<Rightarrow> string list" where
  "receive_path 0 m = []"
| "receive_path (Suc n) m = m # (case first_module (deps_of NewAppKeeper (IBCModule m)) of
     None \<Rightarrow> []
   | Some m' \<Rightarrow> receive_path n m')"

lemma transfer_receive_path:
  "receive_path (length transfer_steps) ''transferStack'' =
     [''transferStack'', ''ibchooks'', ''opchildmigration'', ''ratelimit'', ''packetforward'', ''forwarding'', ''transfer'']"
  by code_simp

text \<open>Packets are sent through the hooks before the fee keeper.\<close>

lemma transfer_send_path:
  "Arg (Local ''packetForwardKeeper'') \<in> set (deps_of NewAppKeeper TransferKeeper)"
  "Arg (Local ''rateLimitKeeper'') \<in> set (deps_of NewAppKeeper (Local ''packetForwardKeeper''))"
  "Arg (Local ''ibcHooksICS4Wrapper'') \<in> set (deps_of NewAppKeeper (Local ''rateLimitKeeper''))"
  "Arg IBCFeeKeeper \<in> set (deps_of NewAppKeeper (Local ''ibcHooksICS4Wrapper''))"
  by code_simp+

end
