(* ===== verification/Cmd.thy ===== *)
theory Cmd
  imports App AppGenesis Strings
begin

text \<open>
  The commands of \<open>cmd/minitiad\<close> that are written here: initialising a node, rolling back, exporting,
  deploying the NFT contracts at launch, reading the environment and the default configurations.
  Files, the keyring, the network and the flag values are parameters; a command is a program over
  the state of the node.
\<close>

section \<open>Configuration (config.go)\<close>

text \<open>The fields that are set, in the server's configuration and in the consensus engine's.\<close>

record server_config =
  srv_MinGasPrices :: string
  srv_MaxTxs :: int
  srv_QueryGasLimit :: u64
  srv_InterBlockCache :: bool
  api_Enable :: bool
  api_Swagger :: bool
  api_EnableUnsafeCORS :: bool
  api_Address :: string
  grpc_Enable :: bool
  grpc_Address :: string

record wasm_config =
  SmartQueryGasLimit :: u64
  SimulationGasLimit :: "u64 option"

record ('a, 'm, 'v) minitiaAppConfig =
  cfg_Config :: server_config
  cfg_ABCIPP :: 'a
  cfg_MemIAVL :: 'm
  cfg_VersionDB :: 'v
  cfg_WasmConfig :: wasm_config

record ('a, 'm, 'v) config_lib =
  DefaultServerConfig :: server_config
  DefaultWasmConfig :: wasm_config
  DefaultABCIPP :: 'a
  DefaultMemIAVL :: 'm
  DefaultVersionDB :: 'v
  server_template :: string
  abcipp_template :: string
  wasm_template :: string
  memiavl_template :: string
  versiondb_template :: string

definition BaseDenom :: string where
  "BaseDenom = ''umin''"

text \<open>The simulation limit is a pointer to the query limit, read as its value.\<close>

definition initAppConfig :: "('a, 'm, 'v) config_lib \<Rightarrow> string \<times> ('a, 'm, 'v) minitiaAppConfig" where
  "initAppConfig C =
     (let srvCfg = (DefaultServerConfig C)\<lparr>
            srv_MinGasPrices := ''0'' @ BaseDenom,
            srv_MaxTxs := 2000,
            srv_QueryGasLimit := 10000000,
            srv_InterBlockCache := False,
            api_Enable := True,
            api_Swagger := True,
            api_EnableUnsafeCORS := True,
            api_Address := ''tcp://0.0.0.0:1317'',
            grpc_Enable := True,
            grpc_Address := ''0.0.0.0:9090''\<rparr>;
          wasmCfg = (DefaultWasmConfig C)\<lparr>SmartQueryGasLimit := 10000000\<rparr>;
          wasmCfg = wasmCfg\<lparr>SimulationGasLimit := Some (SmartQueryGasLimit wasmCfg)\<rparr>
      in (server_template C @ abcipp_template C @ wasm_template C @ memiavl_template C @ versiondb_template C,
          \<lparr>cfg_Config = srvCfg, cfg_ABCIPP = DefaultABCIPP C, cfg_MemIAVL = DefaultMemIAVL C,
           cfg_VersionDB = DefaultVersionDB C, cfg_WasmConfig = wasmCfg\<rparr>))"

text \<open>Durations are in nanoseconds.\<close>

record tm_config =
  RootDir :: string
  Moniker :: string
  ListenAddress :: string
  CORSAllowedOrigins :: "string list"
  SendRate :: int
  RecvRate :: int
  MaxPacketMsgPayloadSize :: int
  FlushThrottleTimeout :: int
  PeerGossipSleepDuration :: int
  mempool_Size :: int
  MaxTxsBytes :: int
  MaxTxBytes :: int
  BlockInterval :: int
  CreateEmptyBlocks :: bool
  CreateEmptyBlocksInterval :: int

definition millisecond :: int where
  "millisecond = 1000000"

definition minute :: int where
  "minute = 60000000000"

definition initTendermintConfig :: "tm_config \<Rightarrow> tm_config" where
  "initTendermintConfig DefaultConfig =
     DefaultConfig\<lparr>
       ListenAddress := ''tcp://0.0.0.0:26657'',
       CORSAllowedOrigins := [''*''],
       SendRate := 20480000,
       RecvRate := 20480000,
       MaxPacketMsgPayloadSize := 1000000,
       FlushThrottleTimeout := 10 * millisecond,
       PeerGossipSleepDuration := 30 * millisecond,
       mempool_Size := 1000,
       MaxTxsBytes := 10737418240,
       MaxTxBytes := 2048576,
       BlockInterval := 100 * millisecond,
       CreateEmptyBlocks := False,
       CreateEmptyBlocksInterval := minute\<rparr>"

section \<open>Flags\<close>






section \<open>Initialising a node (init.go)\<close>












definition wrapping :: "string \<Rightarrow> ('s, 'a) prog \<Rightarrow> ('s, 'a) prog" where
  "wrapping text m = andThen (attempt m) (\<lambda>r. case r of Inl e \<Rightarrow> fail (Wrap e text) | Inr x \<Rightarrow> ret x)"






section \<open>Rolling back (rollback.go)\<close>

text \<open>\<open>strconv.ParseInt(s, 10, 64)\<close>: an optional sign, digits, and the range of an \<open>int64\<close>.\<close>

definition digit_of :: "char \<Rightarrow> int option" where
  "digit_of c = (let n = (of_char c :: int) in if 48 \<le> n \<and> n \<le> 57 then Some (n - 48) else None)"

fun digits :: "string \<Rightarrow> int \<Rightarrow> int option" where
  "digits [] acc = Some acc"
| "digits (c # cs) acc = (case digit_of c of None \<Rightarrow> None | Some d \<Rightarrow> digits cs (10 * acc + d))"

definition parse_error :: "string \<Rightarrow> string \<Rightarrow> error" where
  "parse_error s why = Text (''strconv.ParseInt: parsing '' @ quote s @ '': '' @ why)"

definition ParseInt :: "string \<Rightarrow> error + int" where
  "ParseInt s =
     (let negative = (case s of c # _ \<Rightarrow> c = CHR ''-'' | [] \<Rightarrow> False);
          body = (case s of c # cs \<Rightarrow> if c = CHR ''-'' \<or> c = CHR ''+'' then cs else s | [] \<Rightarrow> [])
      in if body = [] then Inl (parse_error s ''invalid syntax'')
         else (case digits body 0 of
            None \<Rightarrow> Inl (parse_error s ''invalid syntax'')
          | Some n \<Rightarrow>
              (if negative then (if n > 2 ^ 63 then Inl (parse_error s ''value out of range'') else Inr (- n))
               else if n \<ge> 2 ^ 63 then Inl (parse_error s ''value out of range'') else Inr n)))"



section \<open>Launching (launch.go)\<close>

datatype launch_msg =
    MsgStoreCode (store_Sender: string) (WASMByteCode: bytes)
  | MsgInstantiateContract (inst_Sender: string) (inst_Admin: string) (inst_CodeID: nat) (inst_Label: string)
      (inst_Msg: bytes)

record 's launch_lib =
  ReadFile :: "string \<Rightarrow> error + bytes"
  ValidatorAddress :: string
  ValidatorMnemonic :: string
  BroadcastTxAndWait :: "string \<Rightarrow> string \<Rightarrow> u64 \<Rightarrow> Coin list \<Rightarrow> launch_msg \<Rightarrow> ('s, unit) prog"

definition nft_msgs :: "string \<Rightarrow> bytes \<Rightarrow> bytes \<Rightarrow> launch_msg list" where
  "nft_msgs validator cw721 ics721 =
     [MsgStoreCode validator cw721,
      MsgStoreCode validator ics721,
      MsgInstantiateContract validator validator 2 ''ics721''
        (to_bytes (''{'' @ [CHR 0x22] @ ''cw721_base_code_id'' @ [CHR 0x22] @ '':1}''))]"

definition StoreAndInstantiateNFTContracts :: "'s launch_lib \<Rightarrow> ('s, unit) prog" where
  "StoreAndInstantiateNFTContracts L =
     andThen (wrapping ''failed to read cw721_metadata_onchain.wasm''
       (of_result (ReadFile L ''wasm/cw721_metadata_onchain.wasm''))) (\<lambda>cw721.
     andThen (wrapping ''failed to read ics721_base.wasm''
       (of_result (ReadFile L ''wasm/ics721_base.wasm''))) (\<lambda>ics721.
     for_each (nft_msgs (ValidatorAddress L) cw721 ics721) (\<lambda>msg.
       wrapping ''failed to store and instantiate nft contracts''
         (BroadcastTxAndWait L (ValidatorAddress L) (ValidatorMnemonic L) 10000000 [] msg))))"

section \<open>Exporting and the environment (root.go)\<close>

record ('s, 'a, 'e) app_lib =
  HomeOption :: "string option"
  NewApp :: "bool \<Rightarrow> ('s, 'a) prog"
  LoadHeight :: "'a \<Rightarrow> i64 \<Rightarrow> ('s, unit) prog"
  ExportApp :: "'a \<Rightarrow> bool \<Rightarrow> string list \<Rightarrow> ('s, 'e) prog"

text \<open>\<open>HomeOption\<close> is the home option when it is a string.\<close>

definition appExport :: "('s, 'a, 'e) app_lib \<Rightarrow> i64 \<Rightarrow> bool \<Rightarrow> string list \<Rightarrow> ('s, 'e) prog" where
  "appExport A height forZeroHeight modulesToExport =
     (if HomeOption A = None \<or> HomeOption A = Some [] then fail (Text ''application home not set'')
      else
      andThen (if height \<noteq> - 1
         then andThen (NewApp A False) (\<lambda>app. andThen (LoadHeight A app height) (\<lambda>_. ret app))
         else NewApp A True) (\<lambda>app.
      ExportApp A app forZeroHeight modulesToExport))"

record ('k, 'n) client_ctx =
  OutputFormat :: string
  HomeDir :: string
  Simulation :: bool
  KeyringDir :: string
  ctx_ChainID :: string
  Keyring :: "'k option"
  NodeURI :: string
  Client :: "'n option"

text \<open>The values of the environment, empty or false when they are not set.\<close>

record env_values =
  env_output :: string
  env_home :: string
  env_dry_run :: bool
  env_keyring_dir :: string
  env_chain_id :: string
  env_keyring_backend :: string
  env_node :: string

definition readEnv ::
  "(('k, 'n) client_ctx \<Rightarrow> string \<Rightarrow> error + 'k) \<Rightarrow> (string \<Rightarrow> error + 'n) \<Rightarrow> env_values \<Rightarrow>
   ('k, 'n) client_ctx \<Rightarrow> error + ('k, 'n) client_ctx" where
  "readEnv NewKeyringFromBackend NewClientFromNode V clientCtx =
     (let clientCtx = (if env_output V \<noteq> [] then clientCtx\<lparr>OutputFormat := env_output V\<rparr> else clientCtx);
          clientCtx = (if env_home V \<noteq> [] then clientCtx\<lparr>HomeDir := env_home V\<rparr> else clientCtx);
          clientCtx = (if env_dry_run V then clientCtx\<lparr>Simulation := True\<rparr> else clientCtx);
          clientCtx = (if env_keyring_dir V \<noteq> [] then clientCtx\<lparr>KeyringDir := env_keyring_dir V\<rparr> else clientCtx);
          clientCtx = (if env_chain_id V \<noteq> [] then clientCtx\<lparr>ctx_ChainID := env_chain_id V\<rparr> else clientCtx)
      in case (if env_keyring_backend V \<noteq> []
               then (case NewKeyringFromBackend clientCtx (env_keyring_backend V) of
                  Inl e \<Rightarrow> Inl e | Inr kr \<Rightarrow> Inr (clientCtx\<lparr>Keyring := Some kr\<rparr>))
               else Inr clientCtx) of
           Inl e \<Rightarrow> Inl e
         | Inr clientCtx \<Rightarrow>
             (if env_node V \<noteq> []
              then (let clientCtx = clientCtx\<lparr>NodeURI := env_node V\<rparr>
                    in case NewClientFromNode (env_node V) of
                      Inl e \<Rightarrow> Inl e
                    | Inr client \<Rightarrow> Inr (clientCtx\<lparr>Client := Some client\<rparr>))
              else Inr clientCtx))"

section \<open>Properties\<close>

lemma wrapping_eq_Ok [result_iff]: "wrapping text m s = (Ok x, t) \<longleftrightarrow> m s = (Ok x, t)"
  by (auto simp: wrapping_def attempt_then fail_def ret_def split: prod.splits outcome.splits)

lemma digits_nonneg: "digits s acc = Some n \<Longrightarrow> 0 \<le> acc \<Longrightarrow> 0 \<le> n"
  by (induction s acc rule: digits.induct) (auto simp: digit_of_def Let_def split: option.splits if_splits)

text \<open>A parsed number is an \<open>int64\<close>.\<close>

lemma ParseInt_range: "ParseInt s = Inr n \<Longrightarrow> - (2 ^ 63) \<le> n \<and> n < 2 ^ 63"
  by (auto simp: ParseInt_def Let_def split: if_splits option.splits dest!: digits_nonneg)






section \<open>The commands on a small node\<close>








end
