(* ===== verification/NewApp.thy ===== *)
theory NewApp
  imports App Keepers Cmd
begin

text \<open>
  The construction of the application (\<open>NewMinitiaApp\<close> of \<open>app/app.go\<close>) and the modules it hands to the
  module manager (\<open>appModules\<close> of \<open>app/modules.go\<close>).  The functions that are called belong to other
  packages; modelled is which of them are called, in which order, and what an error of each leads to.
  Of the options that are read, those that only travel on to a keeper or a module are left out.
\<close>

section \<open>Modules\<close>

text \<open>
  The pointers each module is given, read as in the theory of the keepers: a field is passed on, or read
  through.
\<close>

definition appModules :: "step list" where
  "appModules =
    [New (Local ''auth'') [Deref AccountKeeper, NilArg, NilArg],
     New (Local ''bank'') [Arg BankKeeper, Arg AccountKeeper, NilArg],
     New (Local ''opchild'') [Arg OPChildKeeper],
     New (Local ''capability'') [Deref CapabilityKeeper],
     New (Local ''crisis'') [Arg CrisisKeeper, NilArg],
     New (Local ''feegrant'') [Arg AccountKeeper, Arg BankKeeper, Deref FeeGrantKeeper],
     New (Local ''upgrade'') [Arg UpgradeKeeper],
     New (Local ''authz'') [Deref AuthzKeeper, Arg AccountKeeper, Arg BankKeeper],
     New (Local ''group'') [Deref GroupKeeper, Arg AccountKeeper, Arg BankKeeper],
     New (Local ''consensus'') [Deref ConsensusParamsKeeper],
     New (Local ''wasm'') [Arg WasmKeeper, NilArg, Arg AccountKeeper, Arg BankKeeper, NilArg],
     New (Local ''tokenfactory'') [Arg TokenFactoryKeeper, Deref AccountKeeper, Deref BankKeeper],
     New (Local ''ibc'') [Arg IBCKeeper],
     New (Local ''ibctransfer'') [Deref TransferKeeper],
     New (Local ''ica'') [Arg ICAControllerKeeper, Arg ICAHostKeeper],
     New (Local ''icaauth'') [Deref ICAAuthKeeper],
     New (Local ''ibcfee'') [Deref IBCFeeKeeper],
     New (Local ''ibctm'') [],
     New (Local ''solomachine'') [],
     New (Local ''packetforward'') [Arg PacketForwardKeeper, NilArg],
     New (Local ''ibchooks'') [Deref IBCHooksKeeper],
     New (Local ''forwarding'') [Arg ForwardingKeeper],
     New (Local ''oracle'') [Deref OracleKeeper],
     New (Local ''marketmap'') [Arg MarketMapKeeper],
     New (Local ''wasmextension'') [Arg WasmKeeper, Deref OPChildKeeper]]"

text \<open>
  Every keeper that a module is given is set when the modules are built: the only nil pointer stays the
  transfer keeper of the forwarding keeper.
\<close>

lemma modules_get_keepers:
  "wired_up (exec GenerateKeys (NewAppKeeper @ appModules) \<lparr>Ptrs = [], NilArgs = [], NoKey = []\<rparr>)
     [(ForwardingKeeper, TransferKeeper)]"
  by code_simp

fun step_deps :: "step \<Rightarrow> dep list" where
  "step_deps (New k ds) = ds"
| "step_deps (Fill k ds) = ds"
| "step_deps (Method k ds) = ds"
| "step_deps _ = []"

text \<open>Of the keepers only the rate limit keeper belongs to no module.\<close>

lemma keepers_without_module:
  "filter (\<lambda>k. \<not> list_ex (\<lambda>m. List.member (step_deps m) (Arg k) \<or> List.member (step_deps m) (Deref k)) appModules) Keepers.fields =
     [RatelimitKeeper]"
  by code_simp

section \<open>Calls\<close>

text \<open>The setters of the base application, of which \<open>SetContextDecorator\<close> belongs to its message router.\<close>

datatype setter = CommitMultiStoreTracer | Version | InterfaceRegistry | TxEncoder | InitChain | PreBlocker
  | BeginBlocker | PostHandler | EndBlocker | ContextDecorator | Mempool | AnteHandlerOfApp | PrepareProposal
  | ProcessProposal | CheckTx | PrepareCheckStater | StreamingManager

datatype order = PreBlockers | BeginBlockers | EndBlockers | InitGenesisOrder | ExportGenesisOrder

datatype mount = KVStores | TransientStores | MemoryStores

datatype app_call =
    RegisterCodecs | SetupMemIAVL | NewBaseApp | SetBase setter | ReadNodeConfig
  | BuildKeepers "string set" "i64 set" | NewManager "step list" | NewBasicManager
  | SetOrder order "string list" | RegisterInvariants | NewConfigurator | RegisterServices | UpgradeHandlers
  | ExecutorChangePlans | RegisterAutoCLI | NewReflectionService | RegisterReflectionService
  | Mount mount "string list" | NewPostHandler | SetupABCIPP int | MergedRegistry
  | ValidateProtoAnnotations | RegisterExtensions | LoadLatestVersion | NewUncachedContext
  | InitializePinnedCodes | SetupVersionDB

text \<open>
  The errors of the calls, the options that are read, whether the mempool is a priority mempool and
  whether there is a snapshot manager.
\<close>

record new_app_lib =
  CallError :: "app_call \<Rightarrow> error option"
  CallErrorText :: "error \<Rightarrow> string"
  MempoolMaxTxs :: int
  UnsafeSkipUpgrades :: "int list"
  PriorityMempool :: bool
  HasSnapshotManager :: bool

type_synonym calls = "app_call list"

definition call :: "app_call \<Rightarrow> (calls, unit) prog" where
  "call c = modify (\<lambda>log. log @ [c])"

definition call_checked :: "new_app_lib \<Rightarrow> (string \<Rightarrow> (calls, unit) prog) \<Rightarrow> app_call \<Rightarrow> (calls, unit) prog" where
  "call_checked L on_error c = andThen (call c) (\<lambda>_.
     case CallError L c of None \<Rightarrow> ret () | Some err \<Rightarrow> on_error (CallErrorText L err))"

abbreviation call_or_exit :: "new_app_lib \<Rightarrow> app_call \<Rightarrow> (calls, unit) prog" where
  "call_or_exit L \<equiv> call_checked L tmos_Exit"

primrec in_order :: "('s, unit) prog list \<Rightarrow> ('s, unit) prog" where
  "in_order [] = ret ()"
| "in_order (m # ms) = andThen m (\<lambda>_. in_order ms)"

definition only_if :: "bool \<Rightarrow> ('s, unit) prog \<Rightarrow> ('s, unit) prog" where
  "only_if b m = (if b then m else ret ())"

section \<open>NewMinitiaApp\<close>

definition RegisterExecutorChangePlans :: "error option" where
  "RegisterExecutorChangePlans = None"

definition new_base :: "(calls, unit) prog" where
  "new_base = in_order [call RegisterCodecs, call SetupMemIAVL, call NewBaseApp, call (SetBase CommitMultiStoreTracer),
     call (SetBase Version), call (SetBase InterfaceRegistry), call (SetBase TxEncoder)]"

definition new_keepers ::
  "'x env \<Rightarrow> (string \<Rightarrow> bytes) \<Rightarrow> names \<Rightarrow> new_app_lib \<Rightarrow> (calls, unit) prog" where
  "new_keepers E NewModuleAddress N L =
     (let skipUpgradeHeights = set (map word_of_int (UnsafeSkipUpgrades L));
          moduleAccountAddresses = ModuleAccountAddrs E NewModuleAddress N;
          blocked = BlockedModuleAccountAddrs E NewModuleAddress moduleAccountAddresses
      in in_order
        [call_checked L (\<lambda>text. raise (PanicText (''error while reading wasm config: '' @ text))) ReadNodeConfig,
         call (BuildKeepers blocked skipUpgradeHeights)])"

definition new_modules :: "names \<Rightarrow> new_app_lib \<Rightarrow> bool \<Rightarrow> (calls, unit) prog" where
  "new_modules N L loadLatest =
     (let genesisModuleOrder = orderInitBlockers N
      in in_order
        [call (NewManager appModules), call NewBasicManager,
         call (SetOrder PreBlockers [upgrade_name N]),
         call (SetOrder BeginBlockers (orderBeginBlockers N)), call (SetOrder EndBlockers (orderEndBlockers N)),
         call (SetOrder InitGenesisOrder genesisModuleOrder), call (SetOrder ExportGenesisOrder genesisModuleOrder),
         call RegisterInvariants, call NewConfigurator, call_or_exit L RegisterServices,
         only_if loadLatest (call UpgradeHandlers),
         andThen (call ExecutorChangePlans) (\<lambda>_.
           case RegisterExecutorChangePlans of None \<Rightarrow> ret () | Some err \<Rightarrow> tmos_Exit (CallErrorText L err)),
         call RegisterAutoCLI, call_or_exit L NewReflectionService, call RegisterReflectionService])"

definition setPostHandler :: "new_app_lib \<Rightarrow> (calls, unit) prog" where
  "setPostHandler L = in_order [call_or_exit L NewPostHandler, call (SetBase PostHandler)]"

definition new_handlers :: "new_app_lib \<Rightarrow> (calls, unit) prog" where
  "new_handlers L = in_order
     [call (Mount KVStores (keys GenerateKeys)), call (Mount TransientStores (tkeys GenerateKeys)),
      call (Mount MemoryStores (memKeys GenerateKeys)),
      call (SetBase InitChain), call (SetBase PreBlocker), call (SetBase BeginBlocker),
      setPostHandler L, call (SetBase EndBlocker), call (SetBase ContextDecorator),
      call_or_exit L (SetupABCIPP (MempoolMaxTxs L)), call (SetBase Mempool), call (SetBase AnteHandlerOfApp),
      call (SetBase PrepareProposal), call (SetBase ProcessProposal), call (SetBase CheckTx),
      only_if (PriorityMempool L) (call (SetBase PrepareCheckStater)),
      call_or_exit L MergedRegistry, call_checked L (\<lambda>_. ret ()) ValidateProtoAnnotations,
      only_if (HasSnapshotManager L) (call_checked L
        (\<lambda>text. raise (PanicText (''failed to register snapshot extension: '' @ text))) RegisterExtensions)]"

definition new_load :: "new_app_lib \<Rightarrow> bool \<Rightarrow> (calls, unit) prog" where
  "new_load L loadLatest = in_order
     [only_if loadLatest (in_order
        [call_or_exit L LoadLatestVersion, call NewUncachedContext,
         call_checked L (\<lambda>text. tmos_Exit (''failed initialize pinned codes '' @ text)) InitializePinnedCodes]),
      call_or_exit L SetupVersionDB, call (SetBase StreamingManager)]"

definition NewMinitiaApp ::
  "'x env \<Rightarrow> (string \<Rightarrow> bytes) \<Rightarrow> names \<Rightarrow> new_app_lib \<Rightarrow> bool \<Rightarrow> (calls, unit) prog" where
  "NewMinitiaApp E NewModuleAddress N L loadLatest = in_order
     [new_base, new_keepers E NewModuleAddress N L, new_modules N L loadLatest, new_handlers L,
      new_load L loadLatest]"

section \<open>What a construction calls\<close>

lemma call_eq_Ok [result_iff]: "call c log = (Ok x, log') \<longleftrightarrow> log' = log @ [c]"
  by (simp add: call_def modify_eq_Ok)

lemma call_or_exit_eq_Ok [result_iff]:
  "call_or_exit L c log = (Ok x, log') \<longleftrightarrow> CallError L c = None \<and> log' = log @ [c]"
  by (auto simp: call_checked_def tmos_Exit_def result_iff split: option.splits)

lemma only_if_eq_Ok [result_iff]: "only_if b m s = (Ok x, t) \<longleftrightarrow> (if b then m s = (Ok x, t) else t = s)"
  by (simp add: only_if_def ret_eq_Ok)

lemma in_order_eq_Ok [result_iff]:
  "in_order [] s = (Ok x, t) \<longleftrightarrow> t = s"
  "in_order (m # ms) s = (Ok x, t) \<longleftrightarrow> (\<exists>u. m s = (Ok (), u) \<and> in_order ms u = (Ok x, t))"
  by (auto simp: result_iff)

lemmas new_app_defs = new_base_def new_keepers_def new_modules_def new_handlers_def new_load_def
  setPostHandler_def RegisterExecutorChangePlans_def

text \<open>
  The calls that belong to loading the state; everything else about the base application is set before
  them.
\<close>

definition loading :: "app_call set" where
  "loading = {LoadLatestVersion, NewUncachedContext, InitializePinnedCodes, SetupVersionDB, SetBase StreamingManager}"

definition adds :: "app_call set \<Rightarrow> calls \<Rightarrow> calls \<Rightarrow> bool" where
  "adds S log log' \<longleftrightarrow> (\<exists>cs. log' = log @ cs \<and> set cs \<subseteq> S)"

interpretation added: state_rel "adds S" for S
  by unfold_locales (fastforce simp: adds_def)+

lemma adds_call: "c \<in> S \<Longrightarrow> keeps (adds S) (call c)"
  unfolding call_def by (rule added.keeps_modify) (auto simp: adds_def)

lemma adds_call_checked:
  "c \<in> S \<Longrightarrow> (\<And>text. keeps (adds S) (on_error text)) \<Longrightarrow> keeps (adds S) (call_checked L on_error c)"
  unfolding call_checked_def
  by (rule added.keeps_andThen [OF adds_call]) (auto intro: added.keeps_ret split: option.splits)

lemma adds_exit: "keeps (adds S) (tmos_Exit text)"
  unfolding tmos_Exit_def by (rule added.keeps_raise)

lemma adds_only_if: "(b \<Longrightarrow> keeps (adds S) m) \<Longrightarrow> keeps (adds S) (only_if b m)"
  by (simp add: only_if_def added.keeps_ret)

lemma adds_in_order: "(\<And>m. m \<in> set ms \<Longrightarrow> keeps (adds S) m) \<Longrightarrow> keeps (adds S) (in_order ms)"
  by (induction ms) (auto intro: added.keeps_ret added.keeps_andThen)

lemmas adds_rules = adds_call adds_call_checked adds_exit adds_only_if adds_in_order added.keeps_ret
  added.keeps_raise added.keeps_andThen

lemma adds_loading: "keeps (adds (if latest then loading else loading - {LoadLatestVersion})) (new_load L latest)"
  unfolding new_load_def by (rule adds_in_order) (auto simp: loading_def intro!: adds_rules)

text \<open>Before loading, upgrade handlers are registered only for the latest version.\<close>

definition preparing :: "bool \<Rightarrow> app_call set" where
  "preparing latest = - (if latest then loading else insert UpgradeHandlers loading)"

lemma adds_preparing:
  "keeps (adds (preparing latest)) new_base"
  "keeps (adds (preparing latest)) (new_keepers E NA N L)"
  "keeps (adds (preparing latest)) (new_modules N L latest)"
  "keeps (adds (preparing latest)) (new_handlers L)"
  by (simp_all only: new_app_defs Let_def option.case, (rule adds_in_order, auto simp: preparing_def loading_def intro!: adds_rules)+)

lemma adds_mono: "keeps (adds S) m \<Longrightarrow> S \<subseteq> S' \<Longrightarrow> keeps (adds S') m"
  unfolding keeps_def adds_def by blast

lemma adds_loads: "keeps (adds loading) (new_load L latest)"
  by (rule adds_mono [OF adds_loading]) auto

lemma adds_split:
  assumes "keeps (adds S) m" and "keeps (adds S') n" and "andThen m (\<lambda>_. n) log = (r, log')"
  shows "\<exists>pre post. log' = log @ pre @ post \<and> set pre \<subseteq> S \<and> set post \<subseteq> S'"
proof -
  obtain r1 u where m: "m log = (r1, u)" by fastforce
  obtain r2 v where n: "n u = (r2, v)" by fastforce
  obtain pre where pre: "u = log @ pre" "set pre \<subseteq> S"
    using keepsD [OF assms(1) m] by (auto simp: adds_def)
  obtain post where post: "v = u @ post" "set post \<subseteq> S'"
    using keepsD [OF assms(2) n] by (auto simp: adds_def)
  have "log' = (case r1 of Ok x \<Rightarrow> v | _ \<Rightarrow> u)"
    using assms(3) m n by (simp add: andThen_def split: outcome.splits)
  then have "log' = log @ pre @ post \<or> log' = log @ pre @ []"
    by (cases r1) (simp_all add: pre(1) post(1))
  moreover have "set [] \<subseteq> S'" by simp
  ultimately show ?thesis using pre(2) post(2) by blast
qed

lemma in_order_append: "in_order (ms @ ns) = andThen (in_order ms) (\<lambda>_. in_order ns)"
  by (induction ms) (simp_all add: andThen_assoc)

text \<open>
  However a construction ends, it has set up everything but the streaming manager before it loads the
  state; without \<open>loadLatest\<close> it neither registers upgrade handlers nor loads the latest version.
\<close>

theorem construction_order:
  assumes "NewMinitiaApp E NA N L latest [] = (r, log)"
  shows "\<exists>pre post. log = pre @ post \<and> set pre \<subseteq> preparing latest \<and> set post \<subseteq> loading"
proof -
  let ?ms = "[new_base, new_keepers E NA N L, new_modules N L latest, new_handlers L]"
  have "in_order (?ms @ [new_load L latest]) [] = (r, log)"
    using assms by (simp only: NewMinitiaApp_def append_Cons append_Nil)
  then have run: "andThen (in_order ?ms) (\<lambda>_. in_order [new_load L latest]) [] = (r, log)"
    by (simp only: in_order_append)
  have "keeps (adds (preparing latest)) (in_order ?ms)"
    by (rule adds_in_order) (auto intro: adds_preparing)
  moreover have "keeps (adds loading) (in_order [new_load L latest])"
    by (rule adds_in_order) (simp add: adds_loads)
  ultimately show ?thesis using adds_split [OF _ _ run] by simp
qed

lemma adds_not_latest:
  "keeps (adds (- {LoadLatestVersion, UpgradeHandlers})) (NewMinitiaApp E NA N L False)"
proof -
  have "preparing False \<subseteq> - {LoadLatestVersion, UpgradeHandlers}"
    "loading - {LoadLatestVersion} \<subseteq> - {LoadLatestVersion, UpgradeHandlers}"
    by (auto simp: preparing_def loading_def)
  note mono = adds_mono [OF _ this(1)] adds_mono [OF adds_loading [of False, simplified] this(2)]
  show ?thesis unfolding NewMinitiaApp_def
    by (rule adds_in_order) (auto intro: mono adds_preparing [of False])
qed

text \<open>
  A construction returns when no call that is checked has an error; an error of the proto annotations
  does not stop it.
\<close>

definition returns :: "('s, unit) prog \<Rightarrow> bool" where
  "returns m \<longleftrightarrow> (\<forall>s. fst (m s) = Ok ())"

lemma returns_call: "returns (call c)"
  by (simp add: returns_def call_def modify_def)

lemma returns_ret: "returns (ret ())"
  by (simp add: returns_def ret_def)

lemma returns_andThen:
  assumes "returns m" and "returns (n ())"
  shows "returns (andThen m n)"
proof -
  have "fst (andThen m n s) = Ok ()" for s
    using assms by (cases "m s") (auto simp: returns_def andThen_def dest: spec [of _ s])
  then show ?thesis by (simp add: returns_def)
qed

lemma returns_in_order: "(\<And>m. m \<in> set ms \<Longrightarrow> returns m) \<Longrightarrow> returns (in_order ms)"
  by (induction ms) (auto intro: returns_ret returns_andThen)

lemma returns_only_if: "returns m \<Longrightarrow> returns (only_if b m)"
  by (simp add: only_if_def returns_ret)

lemma returns_call_checked: "CallError L c = None \<Longrightarrow> returns (call_checked L on_error c)"
  unfolding call_checked_def by (auto intro!: returns_andThen returns_call returns_ret)

lemma returns_call_warned: "returns (call_checked L (\<lambda>_. ret ()) c)"
  unfolding call_checked_def by (auto intro!: returns_andThen returns_call returns_ret split: option.splits)

lemma construction_returns:
  assumes "\<And>c. c \<noteq> ValidateProtoAnnotations \<Longrightarrow> CallError L c = None"
  shows "fst (NewMinitiaApp E NA N L latest log) = Ok ()"
proof -
  note rules = returns_call returns_only_if returns_andThen returns_ret returns_in_order
  note checked = returns_call_checked [OF assms]
  have "returns new_base" "returns (new_keepers E NA N L)" "returns (new_modules N L latest)"
    "returns (new_handlers L)" "returns (new_load L latest)"
    by (simp_all only: new_app_defs Let_def option.case, (rule returns_in_order, auto intro!: rules intro: returns_call_warned checked)+)
  then have "returns (NewMinitiaApp E NA N L latest)"
    unfolding NewMinitiaApp_def by (intro returns_in_order) auto
  then show ?thesis by (simp add: returns_def)
qed

text \<open>Exporting at a height neither loads the latest version nor registers upgrade handlers.\<close>

lemma export_at_height:
  assumes "NewApp A = NewMinitiaApp E NA N L" and "height \<noteq> -1"
    and "keeps (adds {}) (LoadHeight A () height)" and "keeps (adds {}) (ExportApp A () zero ms)"
    and "appExport A height zero ms [] = (r, log)"
  shows "LoadLatestVersion \<notin> set log \<and> UpgradeHandlers \<notin> set log"
proof -
  have "keeps (adds (- {LoadLatestVersion, UpgradeHandlers})) (appExport A height zero ms)"
    unfolding appExport_def using assms(1,2) adds_mono [OF assms(3) empty_subsetI] adds_mono [OF assms(4) empty_subsetI]
    by (auto intro!: added.keeps_andThen added.keeps_fail added.keeps_ret adds_not_latest)
  from keepsD [OF this assms(5)] show ?thesis by (auto simp: adds_def)
qed

end
