(* ===== verification/RootCmd.thy ===== *)
theory RootCmd
  imports Cmd
begin

text \<open>
  What every command does before it runs: \<open>PersistentPreRunE\<close> of \<open>cmd/minitiad/root.go\<close>.  The readers of
  the client configuration and of the flags, the keyrings and the handler of the server configurations
  belong to the SDK and are parameters.  The outputs of the command are left out.
\<close>

section \<open>Preparing a command\<close>

record ('k, 'n, 't) pre_run_lib =
  CmdName :: string
  EnvValues :: env_values
  NewKeyringFromBackend :: "('k, 'n) client_ctx \<Rightarrow> string \<Rightarrow> error + 'k"
  NewClientFromNode :: "string \<Rightarrow> error + 'n"
  HomeChanged :: bool
  HomeFlag :: string
  ReadFromClientConfig :: "('k, 'n) client_ctx \<Rightarrow> error + ('k, 'n) client_ctx"
  ReadPersistentCommandFlags :: "('k, 'n) client_ctx \<Rightarrow> error + ('k, 'n) client_ctx"
  AllowQueuedFlag :: "(error + bool) option"
  WithAllowQueued :: "'t \<Rightarrow> bool \<Rightarrow> 't"
  KeyringBackend :: "'k \<Rightarrow> string"
  NewKeyring :: "('k, 'n) client_ctx \<Rightarrow> string \<Rightarrow> error + 'k"
  HasKeyringFlag :: bool
  SetCmdClientContext :: "('k, 'n) client_ctx \<Rightarrow> 't \<Rightarrow> error option"
  InterceptConfigs :: "error option"
  ServerDBDir :: "string option"

text \<open>
  What the preparation changes: the global configuration, viper's home, the mark of the keyring flag, the
  context of the command with its transaction configuration, and the directory of the database.
\<close>

record ('k, 'n, 't) cmd_state =
  Sealed :: bool
  ViperHome :: string
  KeyringFlagChanged :: bool
  CmdCtx :: "(('k, 'n) client_ctx \<times> 't) option"
  DBDir :: string

definition override_keyring ::
  "('k, 'n, 't) pre_run_lib \<Rightarrow> ('k, 'n) client_ctx \<Rightarrow> (('k, 'n, 't) cmd_state, ('k, 'n) client_ctx) prog" where
  "override_keyring L ctx =
     (case Keyring ctx of
        None \<Rightarrow> ret ctx
      | Some keyring \<Rightarrow>
          andThen (of_result (NewKeyring L ctx (KeyringBackend L keyring))) (\<lambda>kr.
          andThen (if HasKeyringFlag L then modify (\<lambda>s. s\<lparr>KeyringFlagChanged := False\<rparr>) else ret ()) (\<lambda>_.
          ret (ctx\<lparr>Keyring := Some kr\<rparr>))))"

text \<open>The context, from the environment, the home flag, the client configuration and the other flags.\<close>

definition command_ctx ::
  "('k, 'n, 't) pre_run_lib \<Rightarrow> ('k, 'n) client_ctx \<Rightarrow> error + ('k, 'n) client_ctx" where
  "command_ctx L ctx =
     (case readEnv (NewKeyringFromBackend L) (NewClientFromNode L) (EnvValues L) ctx of
        Inl err \<Rightarrow> Inl err
      | Inr ctx \<Rightarrow>
          (let ctx = (if HomeDir ctx = [] \<or> HomeChanged L then ctx\<lparr>HomeDir := HomeFlag L\<rparr> else ctx)
           in case ReadFromClientConfig L ctx of
             Inl err \<Rightarrow> Inl err
           | Inr ctx \<Rightarrow> ReadPersistentCommandFlags L ctx))"

definition queued_tx_config :: "('k, 'n, 't) pre_run_lib \<Rightarrow> 't \<Rightarrow> error + 't" where
  "queued_tx_config L txConfig =
     (case AllowQueuedFlag L of
        None \<Rightarrow> Inr txConfig
      | Some (Inl err) \<Rightarrow> Inl err
      | Some (Inr allowQueued) \<Rightarrow> Inr (WithAllowQueued L txConfig allowQueued))"

definition prepare_cmd ::
  "('k, 'n, 't) pre_run_lib \<Rightarrow> ('k, 'n) client_ctx \<Rightarrow> 't \<Rightarrow> (('k, 'n, 't) cmd_state, unit) prog" where
  "prepare_cmd L ctx txConfig =
     andThen (of_result (command_ctx L ctx)) (\<lambda>ctx.
     andThen (of_result (queued_tx_config L txConfig)) (\<lambda>txConfig.
     andThen (modify (\<lambda>s. s\<lparr>ViperHome := HomeDir ctx\<rparr>)) (\<lambda>_.
     andThen (override_keyring L ctx) (\<lambda>ctx.
     andThen (of_err (SetCmdClientContext L ctx txConfig)) (\<lambda>_.
     andThen (modify (\<lambda>s. s\<lparr>CmdCtx := Some (ctx, txConfig)\<rparr>)) (\<lambda>_.
     andThen (of_err (InterceptConfigs L)) (\<lambda>_.
     modify (\<lambda>s. case ServerDBDir L of None \<Rightarrow> s | Some dir \<Rightarrow> s\<lparr>DBDir := dir\<rparr>))))))))"

definition PersistentPreRunE ::
  "('k, 'n, 't) pre_run_lib \<Rightarrow> ('k, 'n) client_ctx \<Rightarrow> 't \<Rightarrow> (('k, 'n, 't) cmd_state, unit) prog" where
  "PersistentPreRunE L ctx txConfig =
     andThen (modify (\<lambda>s. if CmdName L \<noteq> ''launch'' then s\<lparr>Sealed := True\<rparr> else s)) (\<lambda>_.
     prepare_cmd L ctx txConfig)"

section \<open>Properties\<close>

lemma readEnv_home:
  assumes "readEnv newKeyring newClient V ctx = Inr ctx'"
  shows "HomeDir ctx' = (if env_home V \<noteq> [] then env_home V else HomeDir ctx)"
  using assms by (auto simp: readEnv_def Let_def split: sum.splits if_splits)

lemma override_keyring_Ok:
  assumes "override_keyring L ctx s = (Ok ctx', t)"
  shows "HomeDir ctx' = HomeDir ctx" and "ViperHome t = ViperHome s" and "Sealed t = Sealed s"
  using assms by (auto simp: override_keyring_def result_iff split: option.splits if_splits)

lemma command_ctx_home:
  assumes "command_ctx L ctx = Inr ctx'"
    and "\<And>c c'. ReadFromClientConfig L c = Inr c' \<Longrightarrow> HomeDir c' = HomeDir c"
    and "\<And>c c'. ReadPersistentCommandFlags L c = Inr c' \<Longrightarrow> HomeDir c' = HomeDir c"
    and "HomeDir ctx \<noteq> []"
  shows "HomeDir ctx' = (if HomeChanged L then HomeFlag L
      else if env_home (EnvValues L) \<noteq> [] then env_home (EnvValues L) else HomeDir ctx)"
proof -
  obtain c d where c: "readEnv (NewKeyringFromBackend L) (NewClientFromNode L) (EnvValues L) ctx = Inr c"
    and d: "ReadFromClientConfig L (if HomeDir c = [] \<or> HomeChanged L then c\<lparr>HomeDir := HomeFlag L\<rparr> else c) = Inr d"
    and ctx': "ReadPersistentCommandFlags L d = Inr ctx'"
    using assms(1) unfolding command_ctx_def Let_def by (auto split: sum.splits)
  from assms(2) [OF d] assms(3) [OF ctx'] readEnv_home [OF c] assms(4) show ?thesis by simp
qed

text \<open>
  The home of a command is the flag when it is given, else the environment's value, else the default.
  The readers of the configuration and of the flags keep the home, as \<open>ReadPersistentCommandFlags\<close> does
  when the context has one and the flag is the one already taken.
\<close>

lemma home_precedence:
  assumes "PersistentPreRunE L ctx txConfig s = (Ok (), t)"
    and "\<And>c c'. ReadFromClientConfig L c = Inr c' \<Longrightarrow> HomeDir c' = HomeDir c"
    and "\<And>c c'. ReadPersistentCommandFlags L c = Inr c' \<Longrightarrow> HomeDir c' = HomeDir c"
    and "HomeDir ctx \<noteq> []"
  shows "ViperHome t = (if HomeChanged L then HomeFlag L
      else if env_home (EnvValues L) \<noteq> [] then env_home (EnvValues L) else HomeDir ctx) \<and>
    (\<exists>c tx. CmdCtx t = Some (c, tx) \<and> HomeDir c = ViperHome t)"
proof -
  obtain c d tx u v where c: "command_ctx L ctx = Inr c"
    and d: "override_keyring L c (u\<lparr>ViperHome := HomeDir c\<rparr>) = (Ok d, v)"
    and t: "t = (case ServerDBDir L of None \<Rightarrow> v\<lparr>CmdCtx := Some (d, tx)\<rparr>
      | Some dir \<Rightarrow> v\<lparr>CmdCtx := Some (d, tx)\<rparr>\<lparr>DBDir := dir\<rparr>)"
    using assms(1) unfolding PersistentPreRunE_def prepare_cmd_def andThen_eq_Ok modify_eq_Ok of_result_eq_Ok of_err_eq_Ok
    by auto
  have "ViperHome t = HomeDir c" "CmdCtx t = Some (d, tx)" "HomeDir d = HomeDir c"
    using override_keyring_Ok [OF d] by (simp_all add: t split: option.splits)
  with command_ctx_home [OF c assms(2-4)] show ?thesis by simp
qed

lemma keyring_keeps_seal: "keeps (same Sealed) (override_keyring L ctx)"
  by (auto simp: override_keyring_def keeps_def same_def andThen_def of_result_def prog_simps
      split: option.splits sum.splits)

lemma prepare_keeps_seal: "keeps (same Sealed) (prepare_cmd L ctx txConfig)"
  unfolding prepare_cmd_def
  by (intro same.keeps_andThen same.keeps_of_result same.keeps_of_err same.keeps_modify keyring_keeps_seal)
    (simp_all add: same_def split: option.splits)

text \<open>The global configuration is sealed for every command but \<open>launch\<close>, however the preparation ends.\<close>

lemma launch_not_sealed:
  "Sealed (snd (PersistentPreRunE L ctx txConfig s)) = (Sealed s \<or> CmdName L \<noteq> ''launch'')"
  using prepare_keeps_seal [of L ctx txConfig] by (simp add: PersistentPreRunE_def keeps_def same_def)

end
