(* ===== verification/TFGenesis.thy ===== *)
theory TFGenesis
  imports Authority
begin

text \<open>
  Genesis of the token factory (\<open>types/genesis.go\<close>, \<open>keeper/genesis.go\<close>): validation,
  initialisation from a genesis state and export, and the queries of \<open>keeper/grpc_query.go\<close>,
  which read the same stores.
\<close>

section \<open>Genesis state\<close>

record GenesisDenom =
  gd_Denom :: string
  gd_AuthorityMetadata :: DenomAuthorityMetadata

record GenesisState =
  gs_Params :: Params
  gs_FactoryDenoms :: "GenesisDenom list"

definition DefaultGenesis :: "('z) sdk_scheme \<Rightarrow> GenesisState outcome" where
  "DefaultGenesis E = (case DefaultParams E of
     Ok p \<Rightarrow> Ok \<lparr>gs_Params = p, gs_FactoryDenoms = []\<rparr>
   | Err e \<Rightarrow> Err e
   | Panic p \<Rightarrow> Panic p)"

text \<open>The loop of \<open>Validate\<close>; \<open>seen\<close> is the set of denoms met so far.\<close>

fun validate_denoms :: "('z) sdk_scheme \<Rightarrow> string set \<Rightarrow> GenesisDenom list \<Rightarrow> error option" where
  "validate_denoms E seen [] = None"
| "validate_denoms E seen (denom # rest) =
     (if gd_Denom denom \<in> seen
      then Some (Wrap ErrInvalidGenesis (''duplicate denom: '' @ gd_Denom denom))
      else (case DeconstructDenom E (gd_Denom denom) of
        Inl e \<Rightarrow> Some e
      | Inr _ \<Rightarrow>
          (case (if Admin (gd_AuthorityMetadata denom) \<noteq> []
                 then StringToBytes E (Admin (gd_AuthorityMetadata denom)) else Inr []) of
             Inl e \<Rightarrow> Some (Wrap ErrInvalidAuthorityMetadata
               (''Invalid admin address ('' @ ErrorString E e @ '')''))
           | Inr _ \<Rightarrow> validate_denoms E (insert (gd_Denom denom) seen) rest)))"

definition GenesisState_Validate :: "('z) sdk_scheme \<Rightarrow> GenesisState \<Rightarrow> error option" where
  "GenesisState_Validate E gs =
     (case Params_Validate E (gs_Params gs) of
        Some e \<Rightarrow> Some e
      | None \<Rightarrow> validate_denoms E {} (gs_FactoryDenoms gs))"

section \<open>Initialisation and export\<close>

text \<open>\<open>if err != nil { panic(err) }\<close>.\<close>

definition or_panic :: "('s, 'a) prog \<Rightarrow> ('s, 'a) prog" where
  "or_panic m s = (case m s of
     (Err e, t) \<Rightarrow> (Panic (PanicError e), t)
   | (r, t) \<Rightarrow> (r, t))"

definition init_denom :: "'x env \<Rightarrow> GenesisDenom \<Rightarrow> ('x ctx, unit) prog" where
  "init_denom E genDenom =
     andThen (or_panic (of_result (DeconstructDenom E (gd_Denom genDenom)))) (\<lambda>(creator, _).
     andThen (or_panic (createDenomAfterValidation E creator (gd_Denom genDenom))) (\<lambda>_.
     or_panic (in_tf (setAuthorityMetadata E (gd_Denom genDenom) (gd_AuthorityMetadata genDenom)))))"

definition InitGenesis :: "'x env \<Rightarrow> GenesisState \<Rightarrow> ('x ctx, unit) prog" where
  "InitGenesis E genState =
     andThen (CreateModuleAccount E) (\<lambda>_.
     andThen (case DenomCreationFee (gs_Params genState) of
         None \<Rightarrow> andThen (of_outcome (NewCoins E [])) (\<lambda>cs.
           ret ((gs_Params genState)\<lparr>DenomCreationFee := Some cs\<rparr>))
       | Some _ \<Rightarrow> ret (gs_Params genState)) (\<lambda>params.
     andThen (or_panic (in_tf (SetParams params))) (\<lambda>_.
     for_each (gs_FactoryDenoms genState) (init_denom E))))"

fun export_denoms :: "tf_store \<Rightarrow> (string \<times> string) list \<Rightarrow> GenesisDenom list outcome" where
  "export_denoms t [] = Ok []"
| "export_denoms t (key # keys) =
     (case GetAuthorityMetadata (snd key) t of
        (Ok md, _) \<Rightarrow>
          (case export_denoms t keys of
             Ok ds \<Rightarrow> Ok (\<lparr>gd_Denom = snd key, gd_AuthorityMetadata = md\<rparr> # ds)
           | r \<Rightarrow> r)
      | (Err e, _) \<Rightarrow> Panic (PanicError e)
      | (Panic p, _) \<Rightarrow> Panic p)"

definition ExportGenesis :: "tf_store \<Rightarrow> GenesisState outcome" where
  "ExportGenesis t =
     (case export_denoms t (ks_walk (CreatorDenoms t)) of
        Ok ds \<Rightarrow> Ok \<lparr>gs_Params = GetParams t, gs_FactoryDenoms = ds\<rparr>
      | Err e \<Rightarrow> Err e
      | Panic p \<Rightarrow> Panic p)"

section \<open>Queries\<close>

text \<open>\<open>url.QueryUnescape\<close> of the standard library; \<open>None\<close> is its error.\<close>

definition unhex :: "char \<Rightarrow> nat option" where
  "unhex c = (let n = of_char c :: nat in
     if 48 \<le> n \<and> n \<le> 57 then Some (n - 48)
     else if 97 \<le> n \<and> n \<le> 102 then Some (n - 87)
     else if 65 \<le> n \<and> n \<le> 70 then Some (n - 55)
     else None)"

fun QueryUnescape :: "string \<Rightarrow> string option" where
  "QueryUnescape [] = Some []"
| "QueryUnescape (c # s) =
     (if c = CHR ''%'' then
        (case s of
           a # b # rest \<Rightarrow>
             (case (unhex a, unhex b) of
                (Some x, Some y) \<Rightarrow> map_option (Cons (char_of (16 * x + y))) (QueryUnescape rest)
              | _ \<Rightarrow> None)
         | _ \<Rightarrow> None)
      else map_option (Cons (if c = CHR ''+'' then CHR '' '' else c)) (QueryUnescape s))"

definition decoded :: "string \<Rightarrow> string" where
  "decoded denom = (case QueryUnescape denom of Some decodedDenom \<Rightarrow> decodedDenom | None \<Rightarrow> denom)"

definition Querier_Params :: "tf_store \<Rightarrow> Params" where
  "Querier_Params t = GetParams t"

definition Querier_DenomAuthorityMetadata :: "string \<Rightarrow> (tf_store, DenomAuthorityMetadata) prog" where
  "Querier_DenomAuthorityMetadata denom = GetAuthorityMetadata (decoded denom)"

definition Querier_DenomsFromCreator ::
  "('z) sdk_scheme \<Rightarrow> string \<Rightarrow> (tf_store, string list) prog" where
  "Querier_DenomsFromCreator E creator = getDenomsFromCreator E creator"

definition Querier_BeforeSendHookAddress :: "string \<Rightarrow> 'x ctx \<Rightarrow> string" where
  "Querier_BeforeSendHookAddress denom s = GetBeforeSendHook s (decoded denom)"

section \<open>What initialisation writes\<close>

definition creator_of :: "('z) sdk_scheme \<Rightarrow> string \<Rightarrow> string" where
  "creator_of E d = (case DeconstructDenom E d of Inr (c, _) \<Rightarrow> c | Inl _ \<Rightarrow> [])"

definition genesis_index :: "('z) sdk_scheme \<Rightarrow> GenesisDenom list \<Rightarrow> (string \<times> string) list" where
  "genesis_index E ds = map (\<lambda>g. (creator_of E (gd_Denom g), gd_Denom g)) ds"

definition genesis_authority ::
  "GenesisDenom list \<Rightarrow> (string \<rightharpoonup> DenomAuthorityMetadata) \<Rightarrow> string \<rightharpoonup> DenomAuthorityMetadata" where
  "genesis_authority ds m = fold (\<lambda>g m. m(gd_Denom g \<mapsto> gd_AuthorityMetadata g)) ds m"

definition valid_entry :: "('z) sdk_scheme \<Rightarrow> GenesisDenom \<Rightarrow> bool" where
  "valid_entry E g \<longleftrightarrow> (\<exists>x. DeconstructDenom E (gd_Denom g) = Inr x) \<and>
     DenomAuthorityMetadata_Validate E (gd_AuthorityMetadata g) = None"

lemma validate_denoms_None:
  "validate_denoms E seen ds = None \<longleftrightarrow>
     distinct (map gd_Denom ds) \<and> set (map gd_Denom ds) \<inter> seen = {} \<and> (\<forall>g\<in>set ds. valid_entry E g)"
proof (induction ds arbitrary: seen)
  case (Cons g ds)
  show ?case
    by (cases "DeconstructDenom E (gd_Denom g)")
      (auto simp: Cons.IH valid_entry_def DenomAuthorityMetadata_Validate_def split: sum.splits)
qed simp

lemma or_panic_Ok [result_iff]: "or_panic m s = (Ok x, t) \<longleftrightarrow> m s = (Ok x, t)"
  by (auto simp: or_panic_def split: prod.splits outcome.splits)

lemma or_panic_simps: "m s = (Ok x, t) \<Longrightarrow> or_panic m s = (Ok x, t)"
  by (simp add: or_panic_Ok)

lemma tf_store_updates:
  "t\<lparr>CreatorDenoms := c, DenomAuthority := a\<rparr> = t\<lparr>DenomAuthority := a, CreatorDenoms := c\<rparr>"
  "t\<lparr>ParamsItem := p, DenomAuthority := a\<rparr> = t\<lparr>DenomAuthority := a, ParamsItem := p\<rparr>"
  "t\<lparr>ParamsItem := p, CreatorDenoms := c\<rparr> = t\<lparr>CreatorDenoms := c, ParamsItem := p\<rparr>"
  "(s :: 'x ctx)\<lparr>tf := u, sys := y\<rparr> = s\<lparr>sys := y, tf := u\<rparr>"
  by simp_all

lemma createDenomAfterValidation_store:
  assumes "codec_ok E" and "metadata_ok E" and "StringToBytes E a = Inr b"
  shows "\<exists>y. createDenomAfterValidation E a d s = (Ok (), s\<lparr>sys := y, tf := (tf s)
    \<lparr>DenomAuthority := (DenomAuthority (tf s))(d \<mapsto> \<lparr>Admin = a\<rparr>),
     CreatorDenoms := ks_put (a, d) (CreatorDenoms (tf s))\<rparr>\<rparr>)"
proof -
  obtain y where y: "createDenomAfterValidation E a d s =
       andThen (in_tf (setAuthorityMetadata E d \<lparr>Admin = a\<rparr>)) (\<lambda>_.
         in_tf (addDenomFromCreator E a d)) (s\<lparr>sys := y\<rparr>)"
    by (rule createDenomAfterValidation_metadata [OF assms(2)])
  have "PairKeyError E a = None" using assms(1,3) by (auto simp: codec_ok_def)
  with assms(3) show ?thesis
    by (auto simp: y in_tf_def setAuthorityMetadata_def addDenomFromCreator_def
        DenomAuthorityMetadata_Validate_def andThen_def prog_simps)
qed

lemma init_denom_store:
  assumes "codec_ok E" and "metadata_ok E" and "valid_entry E g"
  shows "\<exists>y. init_denom E g s = (Ok (), s\<lparr>sys := y, tf := (tf s)
    \<lparr>DenomAuthority := (DenomAuthority (tf s))(gd_Denom g \<mapsto> gd_AuthorityMetadata g),
     CreatorDenoms := ks_put (creator_of E (gd_Denom g), gd_Denom g) (CreatorDenoms (tf s))\<rparr>\<rparr>)"
proof -
  obtain c sub where d: "DeconstructDenom E (gd_Denom g) = Inr (c, sub)"
    using assms(3) by (auto simp: valid_entry_def)
  then obtain raw b where "StringToBytes E raw = Inr b" "BytesToString E b = Inr c"
    by (auto simp: DeconstructDenom_iff)
  then have c: "StringToBytes E c = Inr b" using assms(1) by (force simp: codec_ok_def)
  from createDenomAfterValidation_store [OF assms(1,2) c, of "gd_Denom g" s]
  obtain y where "createDenomAfterValidation E c (gd_Denom g) s = (Ok (), s\<lparr>sys := y, tf := (tf s)
    \<lparr>DenomAuthority := (DenomAuthority (tf s))(gd_Denom g \<mapsto> \<lparr>Admin = c\<rparr>),
     CreatorDenoms := ks_put (c, gd_Denom g) (CreatorDenoms (tf s))\<rparr>\<rparr>)" by blast
  with assms(3) d show ?thesis
    by (auto simp: init_denom_def creator_of_def valid_entry_def or_panic_def in_tf_def
        setAuthorityMetadata_def andThen_def prog_simps tf_store_updates)
qed

lemma genesis_Cons:
  "genesis_authority (g # ds) m = genesis_authority ds (m(gd_Denom g \<mapsto> gd_AuthorityMetadata g))"
  "genesis_index E (g # ds) = (creator_of E (gd_Denom g), gd_Denom g) # genesis_index E ds"
  by (simp_all add: genesis_authority_def genesis_index_def)

lemma init_denoms_store:
  assumes "codec_ok E" and "metadata_ok E" and "\<forall>g\<in>set ds. valid_entry E g"
  shows "\<exists>y. for_each ds (init_denom E) s = (Ok (), s\<lparr>sys := y, tf := (tf s)
    \<lparr>DenomAuthority := genesis_authority ds (DenomAuthority (tf s)),
     CreatorDenoms := fold ks_put (genesis_index E ds) (CreatorDenoms (tf s))\<rparr>\<rparr>)"
  using assms(3)
proof (induction ds arbitrary: s)
  case Nil
  show ?case
    by (rule exI [of _ "sys s"]) (simp add: ret_def genesis_authority_def genesis_index_def)
next
  case (Cons g ds)
  obtain y where "init_denom E g s = (Ok (), s\<lparr>sys := y, tf := (tf s)
    \<lparr>DenomAuthority := (DenomAuthority (tf s))(gd_Denom g \<mapsto> gd_AuthorityMetadata g),
     CreatorDenoms := ks_put (creator_of E (gd_Denom g), gd_Denom g) (CreatorDenoms (tf s))\<rparr>\<rparr>)"
    using init_denom_store [OF assms(1,2), of g s] Cons.prems by auto
  with Cons.IH [of "s\<lparr>sys := y, tf := (tf s)
    \<lparr>DenomAuthority := (DenomAuthority (tf s))(gd_Denom g \<mapsto> gd_AuthorityMetadata g),
     CreatorDenoms := ks_put (creator_of E (gd_Denom g), gd_Denom g) (CreatorDenoms (tf s))\<rparr>\<rparr>"]
    Cons.prems
  show ?case
    by (simp add: andThen_def genesis_Cons tf_store_updates fun_upd_def)
qed

text \<open>The account keeper returns the module account, and no coins make an empty list.\<close>

definition genesis_env_ok :: "'x env \<Rightarrow> bool" where
  "genesis_env_ok E \<longleftrightarrow> codec_ok E \<and> metadata_ok E \<and>
     (\<forall>n y. \<exists>a. fst (GetModuleAccount E n y) = Ok a) \<and> NewCoins E [] = Ok []"

lemma InitGenesis_store:
  assumes E: "genesis_env_ok E" and gs: "GenesisState_Validate E gs = None"
  shows "\<exists>y. InitGenesis E gs s = (Ok (), s\<lparr>sys := y, tf := (tf s)
    \<lparr>DenomAuthority := genesis_authority (gs_FactoryDenoms gs) (DenomAuthority (tf s)),
     CreatorDenoms := fold ks_put (genesis_index E (gs_FactoryDenoms gs)) (CreatorDenoms (tf s)),
     ParamsItem := Some (stored_params (gs_Params gs))\<rparr>\<rparr>)"
proof -
  obtain a y where acc: "GetModuleAccount E ModuleName (sys s) = (Ok a, y)"
    using E by (metis genesis_env_ok_def prod.collapse)
  have entries: "\<forall>g\<in>set (gs_FactoryDenoms gs). valid_entry E g"
    using gs by (auto simp: GenesisState_Validate_def validate_denoms_None split: option.splits)
  have pars: "stored_params ((gs_Params gs)\<lparr>DenomCreationFee := Some []\<rparr>) = stored_params (gs_Params gs)"
    if "DenomCreationFee (gs_Params gs) = None"
    using that by (simp add: stored_params_def)
  have E': "codec_ok E" "metadata_ok E" "NewCoins E [] = Ok []"
    using E by (simp_all add: genesis_env_ok_def)
  show ?thesis
    using init_denoms_store [OF E'(1,2) entries, of "s\<lparr>sys := y, tf := (tf s)
        \<lparr>ParamsItem := Some (stored_params (gs_Params gs))\<rparr>\<rparr>"] acc E'(3) pars
    by (cases "DenomCreationFee (gs_Params gs)")
      (auto simp: InitGenesis_def CreateModuleAccount_def in_sys_def andThen_def prog_simps
        or_panic_def in_tf_def SetParams_def tf_store_updates)
qed

section \<open>What export reads\<close>

lemma export_denoms_Ok:
  "(\<forall>k\<in>set keys. DenomAuthority t (snd k) \<noteq> None) \<Longrightarrow>
     export_denoms t keys =
       Ok (map (\<lambda>k. \<lparr>gd_Denom = snd k, gd_AuthorityMetadata = the (DenomAuthority t (snd k))\<rparr>) keys)"
  by (induction keys) (auto simp: GetAuthorityMetadata_def)

lemma genesis_authority_other:
  "d \<notin> set (map gd_Denom ds) \<Longrightarrow> genesis_authority ds m d = m d"
  by (induction ds arbitrary: m) (auto simp: genesis_Cons, simp add: genesis_authority_def)

lemma genesis_authority_lookup:
  "distinct (map gd_Denom ds) \<Longrightarrow> g \<in> set ds \<Longrightarrow>
     genesis_authority ds m (gd_Denom g) = Some (gd_AuthorityMetadata g)"
  by (induction ds arbitrary: m) (auto simp: genesis_Cons genesis_authority_other)

text \<open>
  A store whose denoms are all listed, under the creator that their name gives, and whose
  parameters are in stored form.
\<close>

definition exportable :: "('z) sdk_scheme \<Rightarrow> tf_store \<Rightarrow> bool" where
  "exportable E t \<longleftrightarrow> ks_ok (CreatorDenoms t) \<and>
     (\<forall>c d. (c, d) \<in> set (CreatorDenoms t) \<longrightarrow> (\<exists>sub. DeconstructDenom E d = Inr (c, sub))) \<and>
     dom (DenomAuthority t) = snd ` set (CreatorDenoms t) \<and>
     (\<forall>d md. DenomAuthority t d = Some md \<longrightarrow> DenomAuthorityMetadata_Validate E md = None) \<and>
     (\<exists>p. ParamsItem t = Some p \<and> stored_params p = p \<and> Params_Validate E p = None)"

definition exported :: "tf_store \<Rightarrow> GenesisState" where
  "exported t = \<lparr>gs_Params = GetParams t, gs_FactoryDenoms =
     map (\<lambda>k. \<lparr>gd_Denom = snd k, gd_AuthorityMetadata = the (DenomAuthority t (snd k))\<rparr>)
       (CreatorDenoms t)\<rparr>"

lemma ExportGenesis_eq: "exportable E t \<Longrightarrow> ExportGenesis t = Ok (exported t)"
proof -
  assume "exportable E t"
  then have "\<forall>k\<in>set (CreatorDenoms t). DenomAuthority t (snd k) \<noteq> None"
    by (auto simp: exportable_def)
  from export_denoms_Ok [OF this] show ?thesis
    by (simp add: ExportGenesis_def exported_def ks_walk_def)
qed

lemma exportable_keys:
  assumes "exportable E t"
  shows "distinct (map snd (CreatorDenoms t))"
    and "map (\<lambda>k. (creator_of E (snd k), snd k)) (CreatorDenoms t) = CreatorDenoms t"
proof -
  have creator: "(c, d) \<in> set (CreatorDenoms t) \<Longrightarrow> creator_of E d = c" for c d
    using assms by (fastforce simp: exportable_def creator_of_def)
  show "map (\<lambda>k. (creator_of E (snd k), snd k)) (CreatorDenoms t) = CreatorDenoms t"
    using creator by (auto intro!: map_idI)
  have "distinct (CreatorDenoms t)"
    using assms by (simp add: exportable_def ks_ok_def strict_sorted_iff)
  moreover have "inj_on snd (set (CreatorDenoms t))"
    using creator by (intro inj_onI) (metis prod.collapse)
  ultimately show "distinct (map snd (CreatorDenoms t))" by (simp add: distinct_map)
qed

lemma exported_valid:
  assumes "exportable E t"
  shows "GenesisState_Validate E (exported t) = None"
proof -
  have "valid_entry E \<lparr>gd_Denom = d, gd_AuthorityMetadata = the (DenomAuthority t d)\<rparr>"
    if cd: "(c, d) \<in> set (CreatorDenoms t)" for c d
  proof -
    have "d \<in> dom (DenomAuthority t)" using assms cd by (force simp: exportable_def)
    then obtain md where "DenomAuthority t d = Some md" by blast
    moreover obtain sub where "DeconstructDenom E d = Inr (c, sub)"
      using assms cd unfolding exportable_def by blast
    ultimately show ?thesis using assms by (auto simp: exportable_def valid_entry_def)
  qed
  moreover have "Params_Validate E (GetParams t) = None"
    using assms by (auto simp: exportable_def GetParams_def)
  ultimately show ?thesis
    using exportable_keys(1) [OF assms]
    by (auto simp: GenesisState_Validate_def validate_denoms_None exported_def comp_def)
qed

lemma exported_index:
  assumes "exportable E t"
  shows "fold ks_put (genesis_index E (gs_FactoryDenoms (exported t))) [] = CreatorDenoms t"
proof -
  have "genesis_index E (gs_FactoryDenoms (exported t)) = CreatorDenoms t"
    using exportable_keys(2) [OF assms] by (simp add: genesis_index_def exported_def comp_def)
  with ks.rebuild [of "CreatorDenoms t"] assms show ?thesis
    by (simp add: ks_walk_def exportable_def)
qed

lemma exported_authority:
  assumes "exportable E t"
  shows "genesis_authority (gs_FactoryDenoms (exported t)) Map.empty = DenomAuthority t"
proof
  fix d
  let ?ds = "gs_FactoryDenoms (exported t)"
  have denoms: "map gd_Denom ?ds = map snd (CreatorDenoms t)" by (simp add: exported_def comp_def)
  show "genesis_authority ?ds Map.empty d = DenomAuthority t d"
  proof (cases "d \<in> snd ` set (CreatorDenoms t)")
    case True
    then have "\<lparr>gd_Denom = d, gd_AuthorityMetadata = the (DenomAuthority t d)\<rparr> \<in> set ?ds"
      by (auto simp: exported_def)
    from genesis_authority_lookup [OF _ this] have
      "genesis_authority ?ds Map.empty d = Some (the (DenomAuthority t d))"
      using exportable_keys(1) [OF assms] by (simp add: denoms)
    moreover have "d \<in> dom (DenomAuthority t)" using assms True by (simp add: exportable_def)
    then obtain md where "DenomAuthority t d = Some md" by blast
    ultimately show ?thesis by simp
  next
    case False
    then have "genesis_authority ?ds Map.empty d = None"
      using genesis_authority_other [of d ?ds Map.empty] by (simp add: denoms flip: set_map)
    moreover have "d \<notin> dom (DenomAuthority t)" using assms False by (simp add: exportable_def)
    ultimately show ?thesis by (simp add: domIff)
  qed
qed

section \<open>Properties\<close>

text \<open>
  C19. A genesis state that passes validation is always accepted: initialisation neither fails nor
  panics, sets the parameters, gives every listed denom its admin and lists it under its creator.
\<close>

theorem valid_genesis_initialises:
  assumes "genesis_env_ok E" and "GenesisState_Validate E gs = None"
  shows "\<exists>t. InitGenesis E gs s = (Ok (), t) \<and>
    GetParams (tf t) = stored_params (gs_Params gs) \<and>
    (\<forall>g\<in>set (gs_FactoryDenoms gs).
       DenomAuthority (tf t) (gd_Denom g) = Some (gd_AuthorityMetadata g) \<and>
       (creator_of E (gd_Denom g), gd_Denom g) \<in> set (CreatorDenoms (tf t)))"
proof -
  have keys: "set (fold ks_put ks m) = set ks \<union> set m" for ks m :: "(string \<times> string) list"
    by (induction ks arbitrary: m) auto
  have "distinct (map gd_Denom (gs_FactoryDenoms gs))"
    using assms(2) by (simp add: GenesisState_Validate_def validate_denoms_None split: option.splits)
  with InitGenesis_store [OF assms, of s] show ?thesis
    by (auto simp: GetParams_def genesis_authority_lookup keys genesis_index_def)
qed

lemma sample_genesis_env_ok: "genesis_env_ok sample_env"
  by (simp add: genesis_env_ok_def sample_codec_ok sample_metadata_ok)

definition sample_genesis :: GenesisState where
  "sample_genesis = \<lparr>gs_Params = \<lparr>DenomCreationFee = None, DenomCreationGasConsume = 7\<rparr>,
     gs_FactoryDenoms = [\<lparr>gd_Denom = ''factory/ann/gold'', gd_AuthorityMetadata = \<lparr>Admin = ''bob''\<rparr>\<rparr>]\<rparr>"

lemma sample_deconstruct:
  "DeconstructDenom sample_env ''factory/ann/gold'' = Inr (''ann'', ''gold'')"
  "DeconstructDenom sample_env ''factory/ann/iron'' = Inr (''ann'', ''iron'')"
  "DeconstructDenom sample_env ''factory/ann/old'' = Inr (''ann'', ''old'')"
  by (simp_all add: DeconstructDenom_iff sample_denom_def, simp_all add: factory_denom_def
      ModuleDenomPrefix_def plain_address_def)

theorem valid_genesis_initialises_witness:
  "\<exists>t. InitGenesis sample_env sample_genesis sample_state = (Ok (), t) \<and>
     DenomAuthority (tf t) ''factory/ann/gold'' = Some \<lparr>Admin = ''bob''\<rparr>"
proof -
  have "GenesisState_Validate sample_env sample_genesis = None"
    by (simp add: GenesisState_Validate_def Params_Validate_def fee_coins_def sample_genesis_def
        sample_deconstruct sample_decode_def plain_address_def)
  from valid_genesis_initialises [OF sample_genesis_env_ok this, of sample_state]
  obtain t where "InitGenesis sample_env sample_genesis sample_state = (Ok (), t)"
    and all: "\<forall>g\<in>set (gs_FactoryDenoms sample_genesis).
      DenomAuthority (tf t) (gd_Denom g) = Some (gd_AuthorityMetadata g)" by blast
  moreover from all have "DenomAuthority (tf t) ''factory/ann/gold'' = Some \<lparr>Admin = ''bob''\<rparr>"
    by (simp add: sample_genesis_def)
  ultimately show ?thesis by blast
qed

text \<open>Genesis states that differ at most in a fee that is nil in one and empty in the other.\<close>

definition same_genesis :: "GenesisState \<Rightarrow> GenesisState \<Rightarrow> bool" where
  "same_genesis gs gs' \<longleftrightarrow> fee_coins (gs_Params gs) = fee_coins (gs_Params gs') \<and>
     DenomCreationGasConsume (gs_Params gs) = DenomCreationGasConsume (gs_Params gs') \<and>
     gs_FactoryDenoms gs = gs_FactoryDenoms gs'"

lemma same_genesis_stored:
  "same_genesis gs gs' \<Longrightarrow> stored_params (gs_Params gs) = stored_params (gs_Params gs')"
  by (cases "gs_Params gs"; cases "gs_Params gs'")
    (auto simp: same_genesis_def stored_params_def fee_coins_def split: option.splits list.splits)

lemma same_genesis_valid:
  "same_genesis gs gs' \<Longrightarrow> GenesisState_Validate E gs = GenesisState_Validate E gs'"
  by (simp add: same_genesis_def GenesisState_Validate_def Params_Validate_def)

lemma restart:
  assumes "genesis_env_ok E" and "exportable E (tf s)"
    and "tf s0 = \<lparr>CreatorDenoms = [], DenomAuthority = Map.empty, DenomHookAddr = Map.empty,
                  ParamsItem = None\<rparr>"
    and "same_genesis (exported (tf s)) gs"
  shows "GenesisState_Validate E gs = None \<and>
    (\<exists>t. InitGenesis E gs s0 = (Ok (), t) \<and> tf t = (tf s)\<lparr>DenomHookAddr := Map.empty\<rparr>)"
proof -
  have pars: "ParamsItem (tf s) = Some (stored_params (gs_Params gs))"
    using assms(2) same_genesis_stored [OF assms(4)] by (auto simp: exportable_def exported_def GetParams_def)
  have valid: "GenesisState_Validate E gs = None"
    using exported_valid [OF assms(2)] same_genesis_valid [OF assms(4), of E] by simp
  have denoms: "gs_FactoryDenoms gs = gs_FactoryDenoms (exported (tf s))"
    using assms(4) by (simp add: same_genesis_def)
  obtain y where "InitGenesis E gs s0 = (Ok (), s0\<lparr>sys := y, tf := (tf s0)
    \<lparr>DenomAuthority := genesis_authority (gs_FactoryDenoms gs) (DenomAuthority (tf s0)),
     CreatorDenoms := fold ks_put (genesis_index E (gs_FactoryDenoms gs)) (CreatorDenoms (tf s0)),
     ParamsItem := Some (stored_params (gs_Params gs))\<rparr>\<rparr>)"
    using InitGenesis_store [OF assms(1) valid, of s0] by blast
  with assms(3) pars exported_index [OF assms(2)] exported_authority [OF assms(2)] valid
  show ?thesis by (auto simp: denoms)
qed

definition sample_running :: "ledger ctx" where
  "sample_running = sample_state\<lparr>tf := (tf sample_state)
     \<lparr>ParamsItem := Some \<lparr>DenomCreationFee = None, DenomCreationGasConsume = 7\<rparr>\<rparr>\<rparr>"

definition sample_fresh :: "ledger ctx" where
  "sample_fresh = sample_state\<lparr>tf := \<lparr>CreatorDenoms = [], DenomAuthority = Map.empty,
     DenomHookAddr = Map.empty, ParamsItem = None\<rparr>\<rparr>"

lemma sample_exportable: "exportable sample_env (tf sample_running)"
proof -
  have "CreatorDenoms (tf sample_running) = [(''ann'', ''factory/ann/gold''),
      (''ann'', ''factory/ann/iron''), (''ann'', ''factory/ann/old'')]"
    by (simp add: sample_running_def sample_state_def)
  moreover have "ks_ok (CreatorDenoms (tf sample_running))"
    using sample_index_ok by (simp add: sample_running_def)
  ultimately show ?thesis
    by (auto simp: exportable_def sample_deconstruct DenomAuthorityMetadata_Validate_def
        sample_decode_def plain_address_def sample_running_def stored_params_def Params_Validate_def
        fee_coins_def split: if_splits)
qed

text \<open>
  Export never panics on a chain whose registry is well formed, which every run of messages
  keeps: each listed denom has its admin entry.
\<close>

lemma export_never_panics:
  assumes "reg_wf E (reg_abs s)"
  shows "\<exists>gs. ExportGenesis (tf s) = Ok gs \<and>
    map gd_Denom (gs_FactoryDenoms gs) = map snd (CreatorDenoms (tf s))"
proof -
  have "DenomAuthority (tf s) d \<noteq> None" if "(c, d) \<in> set (CreatorDenoms (tf s))" for c d
  proof -
    have "dom (reg_admin (reg_abs s)) = snd ` reg_created (reg_abs s)"
      using assms by (simp add: reg_wf_def)
    moreover have "d \<in> snd ` set (CreatorDenoms (tf s))" using that by force
    ultimately have "d \<in> dom (reg_admin (reg_abs s))" by (simp add: reg_abs_def ks_walk_def)
    then show ?thesis by (auto simp: reg_abs_def)
  qed
  then have "\<forall>k\<in>set (CreatorDenoms (tf s)). DenomAuthority (tf s) (snd k) \<noteq> None" by auto
  from export_denoms_Ok [OF this] show ?thesis
    by (simp add: ExportGenesis_def ks_walk_def comp_def)
qed

lemma export_never_panics_sample:
  "\<exists>gs. ExportGenesis (tf sample_state) = Ok gs \<and>
     map gd_Denom (gs_FactoryDenoms gs) = map snd (CreatorDenoms (tf sample_state))"
  by (rule export_never_panics [OF sample_reg_wf])

lemma filtered_pairs_sorted:
  fixes ks :: "('a::linorder \<times> 'b::linorder) list"
  assumes "sorted_wrt (<) ks"
  shows "sorted_wrt (<) (map snd (filter (\<lambda>key. fst key = a) ks))"
proof -
  have "x < y \<Longrightarrow> fst x = fst y \<Longrightarrow> snd x < snd y" for x y :: "'a \<times> 'b"
    by (cases x; cases y) auto
  with assms show ?thesis by (induction ks) auto
qed

text \<open>After a creation the sender's denoms include the new one, and the sender is its admin.\<close>

lemma creation_visible:
  assumes "metadata_ok E" and "server_CreateDenom E k msg s = (Ok d, t)"
    and "PairKeyError E (cd_Sender msg) = None" and "ks_ok (CreatorDenoms (tf t))"
  shows "\<exists>ds. getDenomsFromCreator E (cd_Sender msg) (tf t) = (Ok ds, tf t) \<and>
    d \<in> set ds \<and> sorted_wrt (<) ds \<and>
    GetAuthorityMetadata d (tf t) = (Ok \<lparr>Admin = cd_Sender msg\<rparr>, tf t)"
proof -
  have eff: "DenomAuthority (tf t) d = Some \<lparr>Admin = cd_Sender msg\<rparr>"
    "(cd_Sender msg, d) \<in> set (CreatorDenoms (tf t))"
    using CreateDenom_effect [OF assms(1,2)] unfolding ks_walk_def by blast+
  define ds where "ds = map snd (filter (\<lambda>key. fst key = cd_Sender msg) (CreatorDenoms (tf t)))"
  have "d \<in> set ds" unfolding ds_def using eff(2) by force
  moreover have "sorted_wrt (<) ds"
    unfolding ds_def by (rule filtered_pairs_sorted) (use assms(4) in \<open>simp add: ks_ok_def\<close>)
  moreover have "getDenomsFromCreator E (cd_Sender msg) (tf t) = (Ok ds, tf t)"
    using assms(3) by (simp add: getDenomsFromCreator_def ks_walk_def ds_def)
  ultimately show ?thesis using eff(1) by (auto simp: GetAuthorityMetadata_def)
qed

lemma sample_created:
  "\<exists>t. server_CreateDenom sample_env sample_keeper
        \<lparr>cd_Sender = ''bob'', cd_Subdenom = ''tin''\<rparr> sample_state = (Ok ''factory/bob/tin'', t) \<and>
      ks_ok (CreatorDenoms (tf t))"
proof -
  obtain t where t: "server_CreateDenom sample_env sample_keeper
      \<lparr>cd_Sender = ''bob'', cd_Subdenom = ''tin''\<rparr> sample_state = (Ok ''factory/bob/tin'', t)"
    using sample_create_server by blast
  have "tf_inv sample_env t"
    using keepsD [OF keeps_server_CreateDenom [OF sample_wired] t, of "{}"] sample_env_ok [of "{}"]
      sample_tf_inv by (simp add: moves_by_def tf_moves_def)
  with t show ?thesis by (auto simp: tf_inv_def)
qed

end
