(* ===== verification/TFModule.thy ===== *)
theory TFModule
  imports TFGenesis
begin

text \<open>
  The token factory as a module of the application (\<open>x/tokenfactory/module.go\<close>) and its transaction
  commands (\<open>x/tokenfactory/client/cli/tx.go\<close>).  The JSON codec of the genesis state, the client
  context and the parsing of coins are parameters.
\<close>

section \<open>Genesis as JSON\<close>

record genesis_json =
  UnmarshalJSON :: "string \<Rightarrow> error + GenesisState"
  MarshalJSON :: "GenesisState \<Rightarrow> error + string"

text \<open>\<open>MustMarshalJSON\<close> and \<open>MustUnmarshalJSON\<close>.\<close>

definition must :: "error + 'a \<Rightarrow> 'a outcome" where
  "must r = (case r of Inl e \<Rightarrow> Panic (PanicError e) | Inr x \<Rightarrow> Ok x)"

definition ConsensusVersion :: u64 where
  "ConsensusVersion = 1"

definition module_DefaultGenesis :: "('z) sdk_scheme \<Rightarrow> genesis_json \<Rightarrow> string outcome" where
  "module_DefaultGenesis E J = (case DefaultGenesis E of
     Ok gs \<Rightarrow> must (MarshalJSON J gs)
   | Err e \<Rightarrow> Err e
   | Panic p \<Rightarrow> Panic p)"






section \<open>Commands\<close>

record cli_lib =
  FromAddress :: "error + bytes"
  ParseCoinNormalized :: "string \<Rightarrow> error + Coin"

text \<open>The checks on the number of arguments.\<close>

definition ExactArgs :: "nat \<Rightarrow> string list \<Rightarrow> error option" where
  "ExactArgs n args = (if length args \<noteq> n
     then Some (Text (''accepts '' @ dec (int n) @ '' arg(s), received '' @ dec (int (length args))))
     else None)"

definition RangeArgs :: "nat \<Rightarrow> nat \<Rightarrow> string list \<Rightarrow> error option" where
  "RangeArgs lo hi args = (if length args < lo \<or> hi < length args
     then Some (Text (''accepts between '' @ dec (int lo) @ '' and '' @ dec (int hi) @
       '' arg(s), received '' @ dec (int (length args))))
     else None)"

text \<open>
  The start that the commands share: the sender from the client context.  The result of a command is
  the message it hands to \<open>GenerateOrBroadcastTxCLI\<close>.
\<close>

definition with_sender ::
  "('z) sdk_scheme \<Rightarrow> cli_lib \<Rightarrow> (string \<Rightarrow> error + chain_msg) \<Rightarrow> error + chain_msg" where
  "with_sender E L k = (case FromAddress L of
     Inl e \<Rightarrow> Inl e
   | Inr from \<Rightarrow> (case BytesToString E from of Inl e \<Rightarrow> Inl e | Inr fromAddr \<Rightarrow> k fromAddr))"

definition with_coin :: "cli_lib \<Rightarrow> string \<Rightarrow> (Coin \<Rightarrow> error + chain_msg) \<Rightarrow> error + chain_msg" where
  "with_coin L arg k = (case ParseCoinNormalized L arg of Inl e \<Rightarrow> Inl e | Inr amount \<Rightarrow> k amount)"

definition if_valid :: "error option \<Rightarrow> chain_msg \<Rightarrow> error + chain_msg" where
  "if_valid err msg = (case err of Some e \<Rightarrow> Inl e | None \<Rightarrow> Inr msg)"

definition if_args :: "error option \<Rightarrow> error + chain_msg \<Rightarrow> error + chain_msg" where
  "if_args err r = (case err of Some e \<Rightarrow> Inl e | None \<Rightarrow> r)"

definition NewCreateDenomCmd :: "('z) sdk_scheme \<Rightarrow> cli_lib \<Rightarrow> string list \<Rightarrow> error + chain_msg" where
  "NewCreateDenomCmd E L args = if_args (ExactArgs 1 args) (with_sender E L (\<lambda>fromAddr.
     let msg = NewMsgCreateDenom fromAddr (args ! 0)
     in if_valid (MsgCreateDenom_Validate E msg) (TfCreateDenom msg)))"

definition NewMintCmd :: "('z) sdk_scheme \<Rightarrow> cli_lib \<Rightarrow> string list \<Rightarrow> error + chain_msg" where
  "NewMintCmd E L args = if_args (RangeArgs 1 2 args) (with_sender E L (\<lambda>fromAddr.
     with_coin L (args ! 0) (\<lambda>amount.
     let mintToAddress = (if length args = 2 then args ! 1 else '''');
         msg = NewMsgMintTo fromAddr amount mintToAddress
     in if_valid (MsgMint_Validate E msg) (TfMint msg))))"

definition NewBurnCmd :: "('z) sdk_scheme \<Rightarrow> cli_lib \<Rightarrow> string list \<Rightarrow> error + chain_msg" where
  "NewBurnCmd E L args = if_args (ExactArgs 1 args) (with_sender E L (\<lambda>fromAddr.
     with_coin L (args ! 0) (\<lambda>amount.
     let msg = NewMsgBurn fromAddr amount
     in if_valid (MsgBurn_Validate E msg) (TfBurn msg))))"

definition NewChangeAdminCmd :: "('z) sdk_scheme \<Rightarrow> cli_lib \<Rightarrow> string list \<Rightarrow> error + chain_msg" where
  "NewChangeAdminCmd E L args = if_args (ExactArgs 2 args) (with_sender E L (\<lambda>fromAddr.
     let msg = NewMsgChangeAdmin fromAddr (args ! 0) (args ! 1)
     in if_valid (MsgChangeAdmin_Validate E msg) (TfChangeAdmin msg)))"

definition NewSetBeforeSendHookCmd :: "('z) sdk_scheme \<Rightarrow> cli_lib \<Rightarrow> string list \<Rightarrow> error + chain_msg" where
  "NewSetBeforeSendHookCmd E L args = if_args (ExactArgs 2 args) (with_sender E L (\<lambda>fromAddr.
     let msg = NewMsgSetBeforeSendHook fromAddr (args ! 0) (args ! 1)
     in if_valid (MsgSetBeforeSendHook_Validate E msg) (TfSetBeforeSendHook msg)))"

definition GetTxCmd ::
  "('z) sdk_scheme \<Rightarrow> cli_lib \<Rightarrow> (string \<times> (string list \<Rightarrow> error + chain_msg)) list" where
  "GetTxCmd E L =
    [(''create-denom'', NewCreateDenomCmd E L),
     (''mint'', NewMintCmd E L),
     (''burn'', NewBurnCmd E L),
     (''change-admin'', NewChangeAdminCmd E L),
     (''set-beforesend-hook'', NewSetBeforeSendHookCmd E L)]"

text \<open>The stateless validation that the handler of a message starts with.\<close>

fun stateless :: "('z) sdk_scheme \<Rightarrow> chain_msg \<Rightarrow> error option" where
  "stateless E (TfCreateDenom m) = MsgCreateDenom_Validate E m"
| "stateless E (TfMint m) = MsgMint_Validate E m"
| "stateless E (TfBurn m) = MsgBurn_Validate E m"
| "stateless E (TfChangeAdmin m) = MsgChangeAdmin_Validate E m"
| "stateless E (TfSetBeforeSendHook m) = MsgSetBeforeSendHook_Validate E m"
| "stateless E _ = None"

lemmas cmd_defs = NewCreateDenomCmd_def NewMintCmd_def NewBurnCmd_def NewChangeAdminCmd_def
  NewSetBeforeSendHookCmd_def if_args_def with_sender_def with_coin_def if_valid_def Let_def

text \<open>
  A transaction command hands on only a message that passes the validation its handler starts
  with and that the account of the client signs.
\<close>

lemma commands_hand_on_valid_messages:
  assumes "(name, cmd) \<in> set (GetTxCmd E L)" and "cmd args = Inr msg"
  shows "stateless E msg = None \<and>
    (\<exists>from fromAddr. FromAddress L = Inr from \<and> BytesToString E from = Inr fromAddr \<and> signers msg = [fromAddr])"
  using assms
  by (auto simp: GetTxCmd_def cmd_defs NewMsgCreateDenom_def NewMsgMintTo_def NewMsgBurn_def
      NewMsgChangeAdmin_def NewMsgSetBeforeSendHook_def split: sum.splits option.splits)

section \<open>Witnesses\<close>




definition sample_cli :: cli_lib where
  "sample_cli =
    \<lparr>FromAddress = Inr (to_bytes ''ann''),
     ParseCoinNormalized = (\<lambda>s. Inr \<lparr>coin_Denom = ''factory/ann/gold'', coin_Amount = Some 7\<rparr>)\<rparr>"

lemma commands_hand_on_valid_messages_sample:
  "\<exists>msg. NewChangeAdminCmd sample_env sample_cli [''factory/ann/gold'', ''bob''] = Inr msg \<and>
     stateless sample_env msg = None \<and> signers msg = [''ann'']"
proof -
  have cmd: "NewChangeAdminCmd sample_env sample_cli [''factory/ann/gold'', ''bob''] =
      Inr (TfChangeAdmin (NewMsgChangeAdmin ''ann'' ''factory/ann/gold'' ''bob''))"
    by (simp add: cmd_defs ExactArgs_def sample_cli_def MsgChangeAdmin_Validate_def NewMsgChangeAdmin_def
        sample_deconstruct sample_encode_def sample_decode_def plain_address_def)
  have "(''change-admin'', NewChangeAdminCmd sample_env sample_cli) \<in> set (GetTxCmd sample_env sample_cli)"
    by (simp add: GetTxCmd_def)
  from commands_hand_on_valid_messages [OF this cmd] cmd show ?thesis
    by (simp add: NewMsgChangeAdmin_def)
qed

end
