(* ===== verification/Gateway.thy ===== *)
theory Gateway
  imports TFGenesis
begin

text \<open>
  The HTTP gateway of the queries (\<open>x/tokenfactory/types/query.pb.gw.go\<close>): the functions that turn the
  parameters of a path into a request, the handlers around them and their registration with the
  multiplexer under the patterns of the paths.  The multiplexer, its way to match a pattern and the
  gRPC connection are parameters.
\<close>

section \<open>Requests\<close>

text \<open>The interface \<open>QueryServer\<close>, which \<open>QueryClient\<close> has too, and its answers.\<close>

record 's query_server =
  srv_Params :: "('s, Params) prog"
  srv_DenomAuthorityMetadata :: "string \<Rightarrow> ('s, DenomAuthorityMetadata) prog"
  srv_DenomsFromCreator :: "string \<Rightarrow> ('s, string list) prog"
  srv_BeforeSendHookAddress :: "string \<Rightarrow> ('s, string) prog"

datatype query_answer = ParamsAnswer Params | AuthorityAnswer DenomAuthorityMetadata
  | DenomsAnswer "string list" | HookAnswer string


text \<open>
  What the gateway calls of its library: \<open>runtime.String\<close>, the two functions that annotate the context
  of a request, and the text of an error.
\<close>

record 'q gateway_lib =
  RuntimeString :: "string \<Rightarrow> error + string"
  AnnotateContext :: "'q \<Rightarrow> error option"
  AnnotateIncomingContext :: "'q \<Rightarrow> error option"
  StatusText :: "error \<Rightarrow> string"

type_synonym path_params = "string \<rightharpoonup> string"

definition path_param :: "'q gateway_lib \<Rightarrow> string \<Rightarrow> path_params \<Rightarrow> ('s, string) prog" where
  "path_param G name pathParams =
     (case pathParams name of
        None \<Rightarrow> fail (Wrap (Sentinel ''codes.InvalidArgument'') (''missing parameter '' @ name))
      | Some val \<Rightarrow>
          (case RuntimeString G val of
             Inl err \<Rightarrow> fail (Wrap (Sentinel ''codes.InvalidArgument'')
               (''type mismatch, parameter: '' @ name @ '', error: '' @ StatusText G err))
           | Inr v \<Rightarrow> ret v))"

text \<open>A function for a client and its local variant for a server differ in nothing else.\<close>

definition request_Query_Params_0 :: "'s query_server \<Rightarrow> path_params \<Rightarrow> ('s, query_answer) prog" where
  "request_Query_Params_0 client pathParams =
     andThen (srv_Params client) (\<lambda>msg. ret (ParamsAnswer msg))"

definition request_Query_DenomAuthorityMetadata_0 ::
  "'q gateway_lib \<Rightarrow> 's query_server \<Rightarrow> path_params \<Rightarrow> ('s, query_answer) prog" where
  "request_Query_DenomAuthorityMetadata_0 G client pathParams =
     andThen (path_param G ''denom'' pathParams) (\<lambda>denom.
     andThen (srv_DenomAuthorityMetadata client denom) (\<lambda>msg. ret (AuthorityAnswer msg)))"

definition request_Query_DenomsFromCreator_0 ::
  "'q gateway_lib \<Rightarrow> 's query_server \<Rightarrow> path_params \<Rightarrow> ('s, query_answer) prog" where
  "request_Query_DenomsFromCreator_0 G client pathParams =
     andThen (path_param G ''creator'' pathParams) (\<lambda>creator.
     andThen (srv_DenomsFromCreator client creator) (\<lambda>msg. ret (DenomsAnswer msg)))"

definition request_Query_BeforeSendHookAddress_0 ::
  "'q gateway_lib \<Rightarrow> 's query_server \<Rightarrow> path_params \<Rightarrow> ('s, query_answer) prog" where
  "request_Query_BeforeSendHookAddress_0 G client pathParams =
     andThen (path_param G ''denom'' pathParams) (\<lambda>denom.
     andThen (srv_BeforeSendHookAddress client denom) (\<lambda>msg. ret (HookAnswer msg)))"

section \<open>Handlers and their registration\<close>

datatype http_reply = Forward query_answer | HTTPError error

type_synonym ('s, 'q) handler = "'q \<Rightarrow> path_params \<Rightarrow> ('s, http_reply) prog"

definition query_handler ::
  "('q \<Rightarrow> error option) \<Rightarrow> (path_params \<Rightarrow> ('s, query_answer) prog) \<Rightarrow> ('s, 'q) handler" where
  "query_handler annotate request req pathParams =
     (case annotate req of
        Some err \<Rightarrow> ret (HTTPError err)
      | None \<Rightarrow>
          andThen (attempt (request pathParams)) (\<lambda>r.
          ret (case r of Inl err \<Rightarrow> HTTPError err | Inr resp \<Rightarrow> Forward resp)))"

record pattern =
  pat_version :: nat
  pat_ops :: "nat list"
  pat_pool :: "string list"
  pat_verb :: string

datatype query_rpc = RpcParams | RpcDenomAuthorityMetadata | RpcDenomsFromCreator | RpcBeforeSendHookAddress

fun pattern_Query :: "query_rpc \<Rightarrow> pattern" where
  "pattern_Query RpcParams =
     \<lparr>pat_version = 1, pat_ops = [2, 0, 2, 1, 2, 2, 2, 3],
      pat_pool = [''miniwasm'', ''tokenfactory'', ''v1'', ''params''], pat_verb = []\<rparr>"
| "pattern_Query RpcDenomAuthorityMetadata =
     \<lparr>pat_version = 1, pat_ops = [2, 0, 2, 1, 2, 2, 2, 3, 1, 0, 4, 1, 5, 4, 2, 5],
      pat_pool = [''miniwasm'', ''tokenfactory'', ''v1'', ''denoms'', ''denom'', ''authority_metadata''],
      pat_verb = []\<rparr>"
| "pattern_Query RpcDenomsFromCreator =
     \<lparr>pat_version = 1, pat_ops = [2, 0, 2, 1, 2, 2, 2, 3, 1, 0, 4, 1, 5, 4],
      pat_pool = [''miniwasm'', ''tokenfactory'', ''v1'', ''denoms_from_creator'', ''creator''],
      pat_verb = []\<rparr>"
| "pattern_Query RpcBeforeSendHookAddress =
     \<lparr>pat_version = 1, pat_ops = [2, 0, 2, 1, 2, 2, 2, 3, 1, 0, 4, 1, 5, 4, 2, 5],
      pat_pool = [''miniwasm'', ''tokenfactory'', ''v1'', ''denoms'', ''denom'', ''before_send_hook''],
      pat_verb = []\<rparr>"

record ('s, 'q) route =
  route_method :: string
  route_pattern :: pattern
  route_handler :: "('s, 'q) handler"

text \<open>
  The multiplexer holds the routes in the order of their registration; of a connection it matters
  whether it is closed or will be closed when the context is done.
\<close>

record ('s, 'q, 'c) gateway =
  Mux :: "('s, 'q) route list"
  ClosedConns :: "'c list"
  CloseWhenDone :: "'c list"

definition mux_Handle ::
  "string \<Rightarrow> pattern \<Rightarrow> ('s, 'q) handler \<Rightarrow> (('s, 'q, 'c) gateway, unit) prog" where
  "mux_Handle meth pat h =
     modify (\<lambda>w. w\<lparr>Mux := Mux w @ [\<lparr>route_method = meth, route_pattern = pat, route_handler = h\<rparr>]\<rparr>)"

definition RegisterQueryHandlerServer ::
  "'q gateway_lib \<Rightarrow> 's query_server \<Rightarrow> (('s, 'q, 'c) gateway, unit) prog" where
  "RegisterQueryHandlerServer G server =
     andThen (mux_Handle ''GET'' (pattern_Query RpcParams)
       (query_handler (AnnotateIncomingContext G) (request_Query_Params_0 server))) (\<lambda>_.
     andThen (mux_Handle ''GET'' (pattern_Query RpcDenomAuthorityMetadata)
       (query_handler (AnnotateIncomingContext G) (request_Query_DenomAuthorityMetadata_0 G server))) (\<lambda>_.
     andThen (mux_Handle ''GET'' (pattern_Query RpcDenomsFromCreator)
       (query_handler (AnnotateIncomingContext G) (request_Query_DenomsFromCreator_0 G server))) (\<lambda>_.
     mux_Handle ''GET'' (pattern_Query RpcBeforeSendHookAddress)
       (query_handler (AnnotateIncomingContext G) (request_Query_BeforeSendHookAddress_0 G server)))))"

definition RegisterQueryHandlerClient ::
  "'q gateway_lib \<Rightarrow> 's query_server \<Rightarrow> (('s, 'q, 'c) gateway, unit) prog" where
  "RegisterQueryHandlerClient G client =
     andThen (mux_Handle ''GET'' (pattern_Query RpcParams)
       (query_handler (AnnotateContext G) (request_Query_Params_0 client))) (\<lambda>_.
     andThen (mux_Handle ''GET'' (pattern_Query RpcDenomAuthorityMetadata)
       (query_handler (AnnotateContext G) (request_Query_DenomAuthorityMetadata_0 G client))) (\<lambda>_.
     andThen (mux_Handle ''GET'' (pattern_Query RpcDenomsFromCreator)
       (query_handler (AnnotateContext G) (request_Query_DenomsFromCreator_0 G client))) (\<lambda>_.
     mux_Handle ''GET'' (pattern_Query RpcBeforeSendHookAddress)
       (query_handler (AnnotateContext G) (request_Query_BeforeSendHookAddress_0 G client)))))"

definition RegisterQueryHandler ::
  "'q gateway_lib \<Rightarrow> ('c \<Rightarrow> 's query_server) \<Rightarrow> 'c \<Rightarrow> (('s, 'q, 'c) gateway, unit) prog" where
  "RegisterQueryHandler G NewQueryClient conn = RegisterQueryHandlerClient G (NewQueryClient conn)"

definition RegisterQueryHandlerFromEndpoint ::
  "'q gateway_lib \<Rightarrow> (string \<Rightarrow> error + 'c) \<Rightarrow> ('c \<Rightarrow> 's query_server) \<Rightarrow> string \<Rightarrow>
   (('s, 'q, 'c) gateway, unit) prog" where
  "RegisterQueryHandlerFromEndpoint G Dial NewQueryClient endpoint =
     andThen (of_result (Dial endpoint)) (\<lambda>conn.
     andThen (attempt (RegisterQueryHandler G NewQueryClient conn)) (\<lambda>r.
     case r of
       Inl err \<Rightarrow> andThen (modify (\<lambda>w. w\<lparr>ClosedConns := ClosedConns w @ [conn]\<rparr>)) (\<lambda>_. fail err)
     | Inr _ \<Rightarrow> modify (\<lambda>w. w\<lparr>CloseWhenDone := CloseWhenDone w @ [conn]\<rparr>)))"

section \<open>Matching a path\<close>

text \<open>
  The documented meaning of the codes of a pattern, on the components of a path: 2 pushes a component
  that equals a literal, 1 pushes any component, 4 joins components of the stack, 5 binds the top of
  the stack to a variable.  Every component has to be used.
\<close>

fun run_ops :: "string list \<Rightarrow> nat list \<Rightarrow> string list \<Rightarrow> string list \<Rightarrow> path_params \<Rightarrow> path_params option" where
  "run_ops pool [] cs stk bs = (if cs = [] then Some bs else None)"
| "run_ops pool [code] cs stk bs = None"
| "run_ops pool (code # x # ops) cs stk bs =
     (if code = 1 then (case cs of [] \<Rightarrow> None | c # cs' \<Rightarrow> run_ops pool ops cs' (c # stk) bs)
      else if code = 2 then
        (case cs of [] \<Rightarrow> None | c # cs' \<Rightarrow> if c = pool ! x then run_ops pool ops cs' (c # stk) bs else None)
      else if code = 4 then run_ops pool ops cs (join ''/'' (rev (take x stk)) # drop x stk) bs
      else if code = 5 then
        (case stk of [] \<Rightarrow> None | v # stk' \<Rightarrow> run_ops pool ops cs stk' (bs(pool ! x \<mapsto> v)))
      else None)"

definition path_match :: "pattern \<Rightarrow> string list \<Rightarrow> path_params option" where
  "path_match P cs = run_ops (pat_pool P) (pat_ops P) cs [] Map.empty"





text \<open>The paths that the annotations of \<open>query.proto\<close> give to the four queries.\<close>

fun http_path :: "query_rpc \<Rightarrow> string \<Rightarrow> string list" where
  "http_path RpcParams v = [''miniwasm'', ''tokenfactory'', ''v1'', ''params'']"
| "http_path RpcDenomAuthorityMetadata v =
     [''miniwasm'', ''tokenfactory'', ''v1'', ''denoms'', v, ''authority_metadata'']"
| "http_path RpcDenomsFromCreator v = [''miniwasm'', ''tokenfactory'', ''v1'', ''denoms_from_creator'', v]"
| "http_path RpcBeforeSendHookAddress v =
     [''miniwasm'', ''tokenfactory'', ''v1'', ''denoms'', v, ''before_send_hook'']"




lemma path_match_other: "rpc \<noteq> rpc' \<Longrightarrow> path_match (pattern_Query rpc) (http_path rpc' v) = None"
  by (cases rpc; cases rpc') (auto simp: path_match_def)

section \<open>Serving the queries\<close>

fun rpc_request :: "'q gateway_lib \<Rightarrow> 's query_server \<Rightarrow> query_rpc \<Rightarrow> path_params \<Rightarrow> ('s, query_answer) prog" where
  "rpc_request G srv RpcParams = request_Query_Params_0 srv"
| "rpc_request G srv RpcDenomAuthorityMetadata = request_Query_DenomAuthorityMetadata_0 G srv"
| "rpc_request G srv RpcDenomsFromCreator = request_Query_DenomsFromCreator_0 G srv"
| "rpc_request G srv RpcBeforeSendHookAddress = request_Query_BeforeSendHookAddress_0 G srv"

definition rpc_route ::
  "('q \<Rightarrow> error option) \<Rightarrow> 'q gateway_lib \<Rightarrow> 's query_server \<Rightarrow> query_rpc \<Rightarrow> ('s, 'q) route" where
  "rpc_route annotate G srv rpc =
     \<lparr>route_method = ''GET'', route_pattern = pattern_Query rpc,
      route_handler = query_handler annotate (rpc_request G srv rpc)\<rparr>"

abbreviation all_rpcs :: "query_rpc list" where
  "all_rpcs \<equiv> [RpcParams, RpcDenomAuthorityMetadata, RpcDenomsFromCreator, RpcBeforeSendHookAddress]"

lemma registered_routes:
  "RegisterQueryHandlerClient G srv w =
     (Ok (), w\<lparr>Mux := Mux w @ map (rpc_route (AnnotateContext G) G srv) all_rpcs\<rparr>)"
  "RegisterQueryHandlerServer G srv w =
     (Ok (), w\<lparr>Mux := Mux w @ map (rpc_route (AnnotateIncomingContext G) G srv) all_rpcs\<rparr>)"
  by (simp_all add: RegisterQueryHandlerClient_def RegisterQueryHandlerServer_def mux_Handle_def
      rpc_route_def andThen_def modify_def)

text \<open>The connection of an endpoint is never closed early: the registration has no error.\<close>

lemma endpoint_kept_open:
  assumes "RegisterQueryHandlerFromEndpoint G Dial NewQueryClient endpoint w = (r, w')"
  shows "ClosedConns w' = ClosedConns w"
    and "Dial endpoint = Inr conn \<Longrightarrow> r = Ok () \<and> CloseWhenDone w' = CloseWhenDone w @ [conn]"
  using assms by (cases "Dial endpoint"; auto simp: RegisterQueryHandlerFromEndpoint_def
      RegisterQueryHandler_def registered_routes andThen_def attempt_def prog_simps)+









section \<open>Escaping a denom\<close>

text \<open>\<open>url.QueryEscape\<close> of the standard library, which a client applies to a denom.\<close>

definition hex_digit :: "nat \<Rightarrow> char" where
  "hex_digit n = char_of (if n < 10 then 48 + n else 55 + n)"

definition unreserved :: "char \<Rightarrow> bool" where
  "unreserved c = (let n = of_char c :: nat in
     48 \<le> n \<and> n \<le> 57 \<or> 65 \<le> n \<and> n \<le> 90 \<or> 97 \<le> n \<and> n \<le> 122 \<or> c \<in> set ''-_.~'')"

fun QueryEscape :: "string \<Rightarrow> string" where
  "QueryEscape [] = []"
| "QueryEscape (c # s) =
     (if unreserved c then c # QueryEscape s
      else if c = CHR '' '' then CHR ''+'' # QueryEscape s
      else CHR ''%'' # hex_digit (of_char c div 16) # hex_digit (of_char c mod 16) # QueryEscape s)"

lemma unhex_hex_digit: "n < 16 \<Longrightarrow> unhex (hex_digit n) = Some n"
  by (auto simp: unhex_def hex_digit_def Let_def of_char_of)

lemma unreserved_plain: "unreserved c \<Longrightarrow> c \<noteq> CHR ''%'' \<and> c \<noteq> CHR ''+'' \<and> c \<noteq> CHR ''/''"
  by (auto simp: unreserved_def Let_def)

lemma high_digit: "of_char c div 16 < (16 :: nat)"
  using nat_of_char_less_256 [of c] by (simp add: less_mult_imp_div_less)

lemma QueryUnescape_QueryEscape: "QueryUnescape (QueryEscape s) = Some s"
proof (induction s)
  case (Cons c s)
  show ?case using Cons unreserved_plain [of c] high_digit [of c]
    by (auto simp: unhex_hex_digit)
qed simp

lemma hex_digit_no_slash: "n < 16 \<Longrightarrow> hex_digit n \<noteq> CHR ''/''"
  using unhex_hex_digit [of n] by (auto simp: unhex_def)

lemma QueryEscape_one_component: "CHR ''/'' \<notin> set (QueryEscape s)"
proof (induction s)
  case (Cons c s)
  show ?case using Cons unreserved_plain [of c] hex_digit_no_slash [OF high_digit, of c]
      hex_digit_no_slash [of "of_char c mod 16"]
    by auto
qed simp

lemma decoded_QueryEscape [simp]: "decoded (QueryEscape d) = d"
  by (simp add: decoded_def QueryUnescape_QueryEscape)

section \<open>Properties\<close>












end
