(* ===== verification/WasmExt.thy ===== *)
theory WasmExt
  imports Sample Bank
begin

text \<open>
  \<open>x/wasmextension\<close>: the message that lets the chain's authority store contract code with the
  permissions of governance (\<open>keeper/msg_server.go\<close>, \<open>types/tx.go\<close>, \<open>types/types.go\<close>).
  The wasm keeper itself is a parameter.
\<close>

section \<open>Messages\<close>

text \<open>The permission is an \<open>int32\<close> enumeration of the wasm module.\<close>

record AccessConfig =
  Permission :: "32 word"
  Addresses :: "string list"

record MsgStoreCodeAdmin =
  sca_Authority :: string
  sca_Creator :: string
  WASMByteCode :: bytes
  InstantiatePermission :: "AccessConfig option"

record MsgStoreCodeAdminResponse =
  CodeID :: u64
  Checksum :: bytes

text \<open>\<open>wasmtypes.AccessConfig\<close> and the functions of the wasm module.\<close>

record WasmAccessConfig =
  wasm_Permission :: "32 word"
  wasm_Addresses :: "string list"

record 'x wasm_lib =
  MaxProposalWasmSize :: int
  AccessConfigValidateBasic :: "WasmAccessConfig \<Rightarrow> error option"
  GovCreate :: "bytes \<Rightarrow> bytes \<Rightarrow> WasmAccessConfig option \<Rightarrow> ('x ctx, u64 \<times> bytes) prog"

section \<open>Operations\<close>

text \<open>The receiver may be the nil pointer.\<close>

definition ToWasmAccessConfig :: "AccessConfig option \<Rightarrow> WasmAccessConfig option" where
  "ToWasmAccessConfig ac = (case ac of
     None \<Rightarrow> None
   | Some a \<Rightarrow> Some \<lparr>wasm_Permission = Permission a, wasm_Addresses = Addresses a\<rparr>)"

definition validateWasmCode :: "bytes \<Rightarrow> int \<Rightarrow> error option" where
  "validateWasmCode s maxSize =
     (if length s = 0 then Some (Wrap (Sentinel ''wasmtypes.ErrEmpty'') ''is required'')
      else if int (length s) > maxSize
      then Some (Wrap (Sentinel ''wasmtypes.ErrLimit'')
        (''cannot be longer than '' @ dec maxSize @ '' bytes''))
      else None)"

definition MsgStoreCodeAdmin_ValidateBasic ::
  "('z) sdk_scheme \<Rightarrow> 'x wasm_lib \<Rightarrow> MsgStoreCodeAdmin \<Rightarrow> error option" where
  "MsgStoreCodeAdmin_ValidateBasic E W msg =
     (case AccAddressFromBech32 E (sca_Creator msg) of
        Inl e \<Rightarrow> Some e
      | Inr _ \<Rightarrow>
          (case validateWasmCode (WASMByteCode msg) (MaxProposalWasmSize W) of
             Some e \<Rightarrow> Some (Wrap (Sentinel ''sdkerrors.ErrInvalidRequest'')
               (''code bytes '' @ ErrorString E e))
           | None \<Rightarrow>
               (case ToWasmAccessConfig (InstantiatePermission msg) of
                  None \<Rightarrow> None
                | Some ac \<Rightarrow>
                    (case AccessConfigValidateBasic W ac of
                       Some e \<Rightarrow> Some (Wrap e ''instantiate permission'')
                     | None \<Rightarrow> None))))"

definition StoreCodeAdmin ::
  "'x env \<Rightarrow> 'x wasm_lib \<Rightarrow> string \<Rightarrow> MsgStoreCodeAdmin \<Rightarrow> ('x ctx, MsgStoreCodeAdminResponse) prog" where
  "StoreCodeAdmin E W authority msg =
     (if authority \<noteq> sca_Authority msg
      then fail (bad_signer authority (sca_Authority msg))
      else
      andThen (of_err (MsgStoreCodeAdmin_ValidateBasic E W msg)) (\<lambda>_.
      case AccAddressFromBech32 E (sca_Creator msg) of
        Inl e \<Rightarrow> fail (Wrap e ''invalid creator address'')
      | Inr senderAddr \<Rightarrow>
          andThen (GovCreate W senderAddr (WASMByteCode msg)
            (ToWasmAccessConfig (InstantiatePermission msg))) (\<lambda>(codeID, checksum).
          ret \<lparr>CodeID = codeID, Checksum = checksum\<rparr>)))"

section \<open>When code is stored\<close>

lemma validateWasmCode_None:
  "validateWasmCode s n = None \<longleftrightarrow> s \<noteq> [] \<and> int (length s) \<le> n"
  by (auto simp: validateWasmCode_def)

text \<open>What a message must satisfy.\<close>

definition storable :: "'x env \<Rightarrow> 'x wasm_lib \<Rightarrow> string \<Rightarrow> MsgStoreCodeAdmin \<Rightarrow> bytes \<Rightarrow> bool" where
  "storable E W authority msg creator \<longleftrightarrow>
     sca_Authority msg = authority \<and>
     AccAddressFromBech32 E (sca_Creator msg) = Inr creator \<and>
     WASMByteCode msg \<noteq> [] \<and> int (length (WASMByteCode msg)) \<le> MaxProposalWasmSize W \<and>
     (\<forall>ac. InstantiatePermission msg = Some ac \<longrightarrow> AccessConfigValidateBasic W
        \<lparr>wasm_Permission = Permission ac, wasm_Addresses = Addresses ac\<rparr> = None)"

lemma ValidateBasic_None:
  "MsgStoreCodeAdmin_ValidateBasic E W msg = None \<longleftrightarrow>
     (\<exists>creator. storable E W (sca_Authority msg) msg creator)"
  by (auto simp: MsgStoreCodeAdmin_ValidateBasic_def storable_def ToWasmAccessConfig_def
      validateWasmCode_def split: sum.splits option.splits if_splits)

text \<open>
  C28. Code is stored through this message only when the chain's authority signs it, the creator is
  an address, the code is neither empty nor longer than the limit, and the permission is valid: then
  the message does exactly what the wasm keeper does for that creator, code and permission.  In
  every other case it returns an error and changes nothing.
\<close>

theorem store_code_guarded:
  "(storable E W authority msg creator \<longrightarrow>
      StoreCodeAdmin E W authority msg s =
        andThen (GovCreate W creator (WASMByteCode msg)
          (ToWasmAccessConfig (InstantiatePermission msg)))
          (\<lambda>(codeID, checksum). ret \<lparr>CodeID = codeID, Checksum = checksum\<rparr>) s) \<and>
   ((\<forall>c. \<not> storable E W authority msg c) \<longrightarrow>
      (\<exists>e. StoreCodeAdmin E W authority msg s = (Err e, s)))"
proof (intro conjI impI)
  assume ok: "storable E W authority msg creator"
  then have "MsgStoreCodeAdmin_ValidateBasic E W msg = None"
    using ValidateBasic_None by (metis storable_def)
  with ok show "StoreCodeAdmin E W authority msg s =
      andThen (GovCreate W creator (WASMByteCode msg)
        (ToWasmAccessConfig (InstantiatePermission msg)))
        (\<lambda>(codeID, checksum). ret \<lparr>CodeID = codeID, Checksum = checksum\<rparr>) s"
    by (simp add: StoreCodeAdmin_def storable_def)
next
  assume bad: "\<forall>c. \<not> storable E W authority msg c"
  then have "MsgStoreCodeAdmin_ValidateBasic E W msg \<noteq> None" if "sca_Authority msg = authority"
    using that ValidateBasic_None [of E W msg] by metis
  then show "\<exists>e. StoreCodeAdmin E W authority msg s = (Err e, s)"
    by (auto simp: StoreCodeAdmin_def prog_simps)
qed

text \<open>A wasm keeper that stores nothing and numbers every code with one.\<close>

definition sample_wasm :: "ledger wasm_lib" where
  "sample_wasm = \<lparr>MaxProposalWasmSize = 4,
     AccessConfigValidateBasic = (\<lambda>ac. if wasm_Permission ac = 0 then Some (Text ''unspecified'') else None),
     GovCreate = (\<lambda>_ code _. ret (1, code))\<rparr>"

theorem store_code_guarded_witness:
  "\<forall>s. fst (StoreCodeAdmin sample_env sample_wasm ''gov''
     \<lparr>sca_Authority = ''gov'', sca_Creator = ''ann'', WASMByteCode = [0, 97],
      InstantiatePermission = Some \<lparr>Permission = 3, Addresses = []\<rparr>\<rparr> s) =
     Ok \<lparr>CodeID = 1, Checksum = [0, 97]\<rparr> \<and>
   (\<exists>e. StoreCodeAdmin sample_env sample_wasm ''gov''
     \<lparr>sca_Authority = ''ann'', sca_Creator = ''ann'', WASMByteCode = [0, 97],
      InstantiatePermission = None\<rparr> s = (Err e, s))"
proof (intro allI conjI)
  fix s
  let ?m = "\<lparr>sca_Authority = ''gov'', sca_Creator = ''ann'', WASMByteCode = [0, 97],
      InstantiatePermission = Some \<lparr>Permission = 3, Addresses = []\<rparr>\<rparr>"
  have "storable sample_env sample_wasm ''gov'' ?m (to_bytes ''ann'')"
    by (simp add: storable_def sample_wasm_def plain_address_def)
  then show "fst (StoreCodeAdmin sample_env sample_wasm ''gov'' ?m s) =
      Ok \<lparr>CodeID = 1, Checksum = [0, 97]\<rparr>"
    using store_code_guarded [of sample_env sample_wasm "''gov''" ?m "to_bytes ''ann''" s]
    by (simp add: sample_wasm_def prog_simps)
  show "\<exists>e. StoreCodeAdmin sample_env sample_wasm ''gov''
     \<lparr>sca_Authority = ''ann'', sca_Creator = ''ann'', WASMByteCode = [0, 97],
      InstantiatePermission = None\<rparr> s = (Err e, s)"
    using store_code_guarded [of sample_env sample_wasm "''gov''" "\<lparr>sca_Authority = ''ann'',
      sca_Creator = ''ann'', WASMByteCode = [0, 97], InstantiatePermission = None\<rparr>"]
    by (auto simp: storable_def)
qed

end
