(* ===== verification/Wire.thy ===== *)
theory Wire
  imports Strings
begin

text \<open>
  The wire format of the generated protobuf code: varints, the writers that fill a buffer from its
  end, and the loop that reads a message.  Two generators wrote the code: \<open>*.pb.go\<close> is what the
  chain uses, \<open>*.pulsar.go\<close> what the API clients use.  Both repeat the same pieces for each message;
  here each piece is one definition, and a message is given by its list of fields.  The pieces that
  differ are arguments: how a varint is written and sized (a function of the file in \<open>*.pb.go\<close>, a
  function of a runtime package in \<open>*.pulsar.go\<close>) and what happens to a field that is not known.

  Indices into a buffer are natural numbers and additions to them wrap around at 64 bits, as \<open>int\<close>
  does.
\<close>

unbundle bit_operations_syntax

section \<open>Integers\<close>

text \<open>\<open>math/bits.Len64\<close> and \<open>sov\<close>, the length of a varint.\<close>

fun bit_len :: "nat \<Rightarrow> nat" where
  "bit_len n = (if n = 0 then 0 else 1 + bit_len (n div 2))"

declare bit_len.simps [simp del]

definition Len64 :: "u64 \<Rightarrow> nat" where
  "Len64 x = bit_len (unat x)"

definition sov :: "u64 \<Rightarrow> nat" where
  "sov x = (Len64 (x OR 1) + 6) div 7"

text \<open>Addition of \<open>int\<close> values: the result wraps around at 64 bits.\<close>

definition add64 :: "int \<Rightarrow> int \<Rightarrow> int" where
  "add64 a b = sint (word_of_int (a + b) :: u64)"

section \<open>Writing\<close>

text \<open>
  A writer works on a buffer and an index into it, and writes the bytes just before the index.  Every
  access outside the buffer panics.
\<close>

type_synonym writer = "(bytes \<times> nat, unit) prog"

definition out_of_range :: panic where
  "out_of_range = PanicText ''runtime error: index out of range''"

text \<open>\<open>i -= len(s); copy(dAtA[i:], s)\<close> and \<open>i--; dAtA[i] = b\<close>.\<close>

definition put_bytes :: "bytes \<Rightarrow> writer" where
  "put_bytes s b = (case b of (dAtA, i) \<Rightarrow>
     if length s \<le> i
     then (Ok (), (take (i - length s) dAtA @ s @ drop i dAtA, i - length s))
     else (Panic out_of_range, b))"

definition put_byte :: "byte \<Rightarrow> writer" where
  "put_byte x = put_bytes [x]"

text \<open>The loop of \<open>encodeVarint\<close>.\<close>

lemma drop_bit_less: "\<not> (v :: u64) < 128 \<Longrightarrow> unat (drop_bit 7 v) < unat v"
  by (simp add: drop_bit_eq_div unat_div_distrib word_less_nat_alt)

function varint_loop :: "bytes \<Rightarrow> nat \<Rightarrow> u64 \<Rightarrow> bytes option" where
  "varint_loop dAtA offset v =
     (if offset \<ge> length dAtA then None
      else if v \<ge> 128
      then varint_loop (dAtA[offset := ucast (v AND 0x7f OR 0x80)]) (offset + 1) (drop_bit 7 v)
      else Some (dAtA[offset := ucast v]))"
  by pat_completeness auto
termination
  by (relation "measure (\<lambda>(_, _, v). unat v)") (auto intro: drop_bit_less)

declare varint_loop.simps [simp del]

definition encodeVarint :: "u64 \<Rightarrow> writer" where
  "encodeVarint v b = (case b of (dAtA, i) \<Rightarrow>
     if sov v \<le> i
     then (case varint_loop dAtA (i - sov v) v of
             Some d \<Rightarrow> (Ok (), (d, i - sov v))
           | None \<Rightarrow> (Panic out_of_range, b))
     else (Panic out_of_range, b))"

text \<open>
  The code for a field: a string, a number, an embedded message, by the tag byte before it.  \<open>V\<close>
  writes a varint.
\<close>

text \<open>An element of a repeated string field, which is written even when it is empty.\<close>

definition put_element :: "(u64 \<Rightarrow> writer) \<Rightarrow> byte \<Rightarrow> bytes \<Rightarrow> writer" where
  "put_element V tag s =
     andThen (put_bytes s) (\<lambda>_.
     andThen (V (word_of_nat (length s))) (\<lambda>_.
     put_byte tag))"

definition put_string :: "(u64 \<Rightarrow> writer) \<Rightarrow> byte \<Rightarrow> bytes \<Rightarrow> writer" where
  "put_string V tag s = (if length s > 0 then put_element V tag s else ret ())"

definition put_uint :: "(u64 \<Rightarrow> writer) \<Rightarrow> byte \<Rightarrow> u64 \<Rightarrow> writer" where
  "put_uint V tag v =
     (if v \<noteq> 0 then andThen (V v) (\<lambda>_. put_byte tag) else ret ())"

text \<open>An embedded message that is written in place, and one that is encoded first.\<close>

definition put_message :: "(u64 \<Rightarrow> writer) \<Rightarrow> byte \<Rightarrow> writer \<Rightarrow> writer" where
  "put_message V tag w =
     andThen (reads snd) (\<lambda>i.
     andThen w (\<lambda>_.
     andThen (reads snd) (\<lambda>j.
     andThen (V (word_of_nat (i - j))) (\<lambda>_.
     put_byte tag))))"

definition put_encoded :: "(u64 \<Rightarrow> writer) \<Rightarrow> byte \<Rightarrow> bytes outcome \<Rightarrow> writer" where
  "put_encoded V tag r = andThen (of_outcome r) (put_element V tag)"

text \<open>A repeated field is written from its last element to its first.\<close>

definition put_repeated :: "('a \<Rightarrow> writer) \<Rightarrow> 'a list \<Rightarrow> writer" where
  "put_repeated w xs = for_each (rev xs) w"

text \<open>A pointer to a message: nothing is written for nil.\<close>

definition put_opt :: "('a \<Rightarrow> writer) \<Rightarrow> 'a option \<Rightarrow> writer" where
  "put_opt w x = (case x of None \<Rightarrow> ret () | Some y \<Rightarrow> w y)"

text \<open>\<open>Marshal\<close>: a buffer of the message's size, filled from its end.\<close>

definition marshal :: "nat \<Rightarrow> writer \<Rightarrow> bytes outcome" where
  "marshal sz w =
     (case w (replicate sz 0, sz) of
        (Ok _, (dAtA, i)) \<Rightarrow> Ok (take (sz - i) dAtA)
      | (Err e, _) \<Rightarrow> Err e
      | (Panic p, _) \<Rightarrow> Panic p)"

text \<open>The contribution of a field to the size; \<open>S\<close> is the size of a varint.\<close>

definition size_message :: "(u64 \<Rightarrow> nat) \<Rightarrow> nat \<Rightarrow> nat" where
  "size_message S l = 1 + l + S (word_of_nat l)"

definition size_string :: "(u64 \<Rightarrow> nat) \<Rightarrow> bytes \<Rightarrow> nat" where
  "size_string S s = (if length s > 0 then size_message S (length s) else 0)"

definition size_uint :: "(u64 \<Rightarrow> nat) \<Rightarrow> u64 \<Rightarrow> nat" where
  "size_uint S v = (if v \<noteq> 0 then 1 + S v else 0)"

definition size_opt :: "('a \<Rightarrow> nat) \<Rightarrow> 'a option \<Rightarrow> nat" where
  "size_opt f x = (case x of None \<Rightarrow> 0 | Some y \<Rightarrow> f y)"

section \<open>Reading\<close>

definition ErrIntOverflow :: error where
  "ErrIntOverflow = Text ''proto: integer overflow''"

definition ErrInvalidLength :: error where
  "ErrInvalidLength = Text ''proto: negative length found during unmarshaling''"

definition ErrUnexpectedEndOfGroup :: error where
  "ErrUnexpectedEndOfGroup = Text ''proto: unexpected end of group''"

definition ErrUnexpectedEOF :: error where
  "ErrUnexpectedEOF = Sentinel ''io.ErrUnexpectedEOF''"

text \<open>The loop that reads a varint at an index; it returns the value and the index after it.\<close>

function readVarint :: "bytes \<Rightarrow> nat \<Rightarrow> nat \<Rightarrow> u64 \<Rightarrow> error + u64 \<times> nat" where
  "readVarint dAtA iNdEx shift v =
     (if shift \<ge> 64 then Inl ErrIntOverflow
      else if iNdEx \<ge> length dAtA then Inl ErrUnexpectedEOF
      else (let b = dAtA ! iNdEx;
                v = v OR push_bit shift (ucast (b AND 0x7F))
            in if b < 0x80 then Inr (v, iNdEx + 1)
               else readVarint dAtA (iNdEx + 1) (shift + 7) v))"
  by pat_completeness auto
termination
  by (relation "measure (\<lambda>(_, _, shift, _). 64 - shift)") auto

declare readVarint.simps [simp del]

lemma readVarint_progress:
  "readVarint d i shift v = Inr (x, j) \<Longrightarrow> i < j \<and> j \<le> length d"
proof (induction d i shift v rule: readVarint.induct)
  case (1 d i shift v)
  from 1(2) show ?case
    by (subst (asm) readVarint.simps)
      (use 1(1) in \<open>fastforce simp: Let_def split: if_splits\<close>)
qed

text \<open>
  Adding a length to an index, followed by the test for a negative result.  The sum of two
  non-negative \<open>int\<close> values wraps around to a negative one exactly when it reaches \<open>2 ^ 63\<close>
  (\<open>index_add_wraps\<close>).
\<close>

definition index_add :: "nat \<Rightarrow> nat \<Rightarrow> error + nat" where
  "index_add i n = (if i + n < 2 ^ 63 then Inr (i + n) else Inl ErrInvalidLength)"

lemma index_add_wraps:
  assumes "i < 2 ^ 63" "n < 2 ^ 63"
  shows "index_add i n =
    (let s = add64 (int i) (int n) in if s < 0 then Inl ErrInvalidLength else Inr (nat s))"
proof -
  have sint: "sint (word_of_int z :: u64) = signed_take_bit 63 z" for z
    by (simp add: sint_sbintrunc')
  have "int i < 2 ^ 63" "int n < 2 ^ 63" using assms by simp_all
  then have "add64 (int i) (int n) =
      (if i + n < 2 ^ 63 then int i + int n else int i + int n - 2 ^ 64)"
    unfolding add64_def sint
    using mod_pos_geq [of "2 ^ 64" "int i + int n + 2 ^ 63"]
    by (auto simp: signed_take_bit_eq_take_bit_shift take_bit_eq_mod)
  then show ?thesis
    using assms by (auto simp: index_add_def Let_def)
qed

text \<open>One element of \<open>skip\<close>: the index after it and the depth of open groups.\<close>

definition skip_element :: "bytes \<Rightarrow> nat \<Rightarrow> nat \<Rightarrow> error + nat \<times> nat" where
  "skip_element dAtA iNdEx depth =
     (case readVarint dAtA iNdEx 0 0 of
        Inl e \<Rightarrow> Inl e
      | Inr (wire, i) \<Rightarrow>
          (let wireType = unat (wire AND 0x7);
               advance = (\<lambda>i n. case index_add i n of Inl e \<Rightarrow> Inl e | Inr j \<Rightarrow> Inr (j, depth))
           in if wireType = 0 then
                (case readVarint dAtA i 0 0 of Inl e \<Rightarrow> Inl e | Inr (_, j) \<Rightarrow> Inr (j, depth))
              else if wireType = 1 then advance i 8
              else if wireType = 2 then
                (case readVarint dAtA i 0 0 of
                   Inl e \<Rightarrow> Inl e
                 | Inr (len, j) \<Rightarrow>
                     if sint len < 0 then Inl ErrInvalidLength
                     else advance j (nat (sint len)))
              else if wireType = 3 then Inr (i, depth + 1)
              else if wireType = 4 then
                (if depth = 0 then Inl ErrUnexpectedEndOfGroup else Inr (i, depth - 1))
              else if wireType = 5 then advance i 4
              else Inl (Text (''proto: illegal wireType '' @ dec (int wireType)))))"

lemma index_add_le: "index_add i n = Inr j \<Longrightarrow> j = i + n \<and> j < 2 ^ 63"
  by (auto simp: index_add_def split: if_splits)

lemma skip_element_progress: "skip_element d i n = Inr (j, m) \<Longrightarrow> i < j"
  by (auto simp: skip_element_def Let_def split: sum.splits if_splits
      dest!: readVarint_progress index_add_le)

function skip :: "bytes \<Rightarrow> nat \<Rightarrow> nat \<Rightarrow> error + nat" where
  "skip dAtA iNdEx depth =
     (if iNdEx < length dAtA
      then (case skip_element dAtA iNdEx depth of
              Inl e \<Rightarrow> Inl e
            | Inr (i, n) \<Rightarrow> if n = 0 then Inr i else skip dAtA i n)
      else Inl ErrUnexpectedEOF)"
  by pat_completeness auto
termination
  by (relation "measure (\<lambda>(d, i, _). length d - i)") (auto dest!: skip_element_progress)

declare skip.simps [simp del]

lemma skip_progress: "skip d i n = Inr j \<Longrightarrow> i < j"
proof (induction d i n rule: skip.induct)
  case (1 d i n)
  from 1(2) show ?case
    by (subst (asm) skip.simps)
      (use 1(1) in \<open>fastforce split: if_splits sum.splits dest: skip_element_progress\<close>)
qed

text \<open>A length-delimited value: its bytes and the index after it.\<close>

definition read_delimited :: "bytes \<Rightarrow> nat \<Rightarrow> error + bytes \<times> nat" where
  "read_delimited dAtA iNdEx =
     (case readVarint dAtA iNdEx 0 0 of
        Inl e \<Rightarrow> Inl e
      | Inr (len, i) \<Rightarrow>
          if sint len < 0 then Inl ErrInvalidLength
          else (case index_add i (nat (sint len)) of
             Inl e \<Rightarrow> Inl e
           | Inr postIndex \<Rightarrow>
               if postIndex > length dAtA then Inl ErrUnexpectedEOF
               else Inr (take (nat (sint len)) (drop i dAtA), postIndex)))"

text \<open>
  The fields of a message of type \<open>'m\<close>: what a case of the \<open>switch\<close> does with the value it reads.
  A string or number replaces the field, an embedded message is unmarshalled into it.  \<open>None\<close> stands
  for a call that does not return.
\<close>

datatype 'm field =
    Delimited "bytes \<Rightarrow> 'm \<Rightarrow> (error + 'm) option"
  | Varint "u64 \<Rightarrow> 'm \<Rightarrow> 'm"

definition read_field ::
  "string \<Rightarrow> 'm field \<Rightarrow> nat \<Rightarrow> bytes \<Rightarrow> nat \<Rightarrow> 'm \<Rightarrow> (error + 'm \<times> nat) option" where
  "read_field fname f wireType dAtA iNdEx m =
     (let wrong = Some (Inl (Text (''proto: wrong wireType = '' @ dec (int wireType) @ '' for field '' @ fname)))
      in case f of
        Delimited unm \<Rightarrow>
          if wireType \<noteq> 2 then wrong
          else (case read_delimited dAtA iNdEx of
             Inl e \<Rightarrow> Some (Inl e)
           | Inr (bz, i) \<Rightarrow> map_option (map_sum id (\<lambda>m'. (m', i))) (unm bz m))
      | Varint upd \<Rightarrow>
          if wireType \<noteq> 0 then wrong
          else (case readVarint dAtA iNdEx 0 0 of
             Inl e \<Rightarrow> Some (Inl e)
           | Inr (v, i) \<Rightarrow> Some (Inr (upd v m, i))))"

lemma read_delimited_progress: "read_delimited d i = Inr (bz, j) \<Longrightarrow> i < j"
  by (auto simp: read_delimited_def split: sum.splits if_splits
      dest!: readVarint_progress index_add_le)

lemma read_field_progress: "read_field fname f w d i m = Some (Inr (m', j)) \<Longrightarrow> i < j"
  by (auto simp: read_field_def Let_def map_sum_def split: field.splits sum.splits if_splits
      dest!: readVarint_progress read_delimited_progress)

text \<open>
  The loop that reads the message \<open>name\<close> with the cases \<open>fs\<close> of its \<open>switch\<close>.  \<open>unknown\<close> is the
  default case, for the field that starts at \<open>preIndex\<close>.
\<close>

type_synonym 'm default_case = "bytes \<Rightarrow> nat \<Rightarrow> 'm \<Rightarrow> error + 'm \<times> nat"

partial_function (option) unmarshal_from ::
  "string \<Rightarrow> (int \<times> string \<times> 'm field) list \<Rightarrow> 'm default_case \<Rightarrow> bytes \<Rightarrow> nat \<Rightarrow> 'm \<Rightarrow> (error + 'm) option" where
  "unmarshal_from name fs unknown dAtA iNdEx m =
     (if iNdEx < length dAtA
      then (case readVarint dAtA iNdEx 0 0 of
              Inl e \<Rightarrow> Some (Inl e)
            | Inr (wire, i) \<Rightarrow>
                (let fieldNum = sint (ucast (drop_bit 3 wire) :: 32 word);
                     wireType = unat (wire AND 0x7)
                 in if wireType = 4
                    then Some (Inl (Text (''proto: '' @ name @ '': wiretype end group for non-group'')))
                    else if fieldNum \<le> 0
                    then Some (Inl (Text (''proto: '' @ name @ '': illegal tag '' @ dec fieldNum @
                           '' (wire type '' @ dec (uint wire) @ '')'')))
                    else Option.bind (case map_of fs fieldNum of
                        Some (fname, f) \<Rightarrow> read_field fname f wireType dAtA i m
                      | None \<Rightarrow> Some (unknown dAtA iNdEx m)) (\<lambda>r.
                      case r of
                        Inl e \<Rightarrow> Some (Inl e)
                      | Inr (m', j) \<Rightarrow> unmarshal_from name fs unknown dAtA j m')))
      else if iNdEx > length dAtA then Some (Inl ErrUnexpectedEOF)
      else Some (Inr m))"

text \<open>The default case of \<open>*.pb.go\<close>: the field is skipped.\<close>

definition skip_field :: "'m default_case" where
  "skip_field dAtA preIndex m =
     (case skip (drop preIndex dAtA) 0 0 of
        Inl e \<Rightarrow> Inl e
      | Inr skippy \<Rightarrow>
          (case index_add preIndex skippy of
             Inl e \<Rightarrow> Inl e
           | Inr i \<Rightarrow> if i > length dAtA then Inl ErrUnexpectedEOF else Inr (m, i)))"

section \<open>The loop returns\<close>

text \<open>A default case that moves on, and fields whose readers return.\<close>

definition moves_on :: "'m default_case \<Rightarrow> bool" where
  "moves_on unknown \<longleftrightarrow> (\<forall>d i m m' j. unknown d i m = Inr (m', j) \<longrightarrow> i < j)"

definition field_returns :: "'m field \<Rightarrow> bool" where
  "field_returns f = (case f of Delimited unm \<Rightarrow> (\<forall>bz m. unm bz m \<noteq> None) | Varint _ \<Rightarrow> True)"

lemma skip_field_moves_on: "moves_on skip_field"
  by (auto simp: moves_on_def skip_field_def split: sum.splits if_splits dest!: skip_progress index_add_le)

lemma read_field_returns: "field_returns f \<Longrightarrow> read_field fname f w d i m \<noteq> None"
  by (auto simp: read_field_def field_returns_def Let_def split: field.splits sum.splits)

lemma unmarshal_returns:
  assumes "moves_on unknown" and "list_all (\<lambda>(_, _, f). field_returns f) fs"
  shows "\<exists>r. unmarshal_from name fs unknown d i m = Some r"
proof (induction "length d - i" arbitrary: i m rule: less_induct)
  case less
  have returns: "\<exists>r. (case map_of fs n of Some (fname, f) \<Rightarrow> read_field fname f w d j m
      | None \<Rightarrow> Some (unknown d i m)) = Some r" for n w j
    using assms(2) read_field_returns
    by (fastforce split: option.splits dest: map_of_SomeD simp: list_all_iff)
  have progress: "i < k" if "readVarint d i 0 0 = Inr (wire, j)" and
    "(case map_of fs n of Some (fname, f) \<Rightarrow> read_field fname f w d j m
      | None \<Rightarrow> Some (unknown d i m)) = Some (Inr (m', k))" for wire j n w m' k
    using that assms(1) readVarint_progress [OF that(1)] read_field_progress
    by (fastforce simp: moves_on_def split: option.splits)
  show ?case
  proof (cases "i < length d")
    case True
    show ?thesis
    proof (cases "readVarint d i 0 0")
      case (Inr p)
      obtain wire j where p: "p = (wire, j)" by fastforce
      let ?n = "sint (ucast (drop_bit 3 wire) :: 32 word)" and ?w = "unat (wire AND 0x7)"
      obtain r where r: "(case map_of fs ?n of Some (fname, f) \<Rightarrow> read_field fname f ?w d j m
          | None \<Rightarrow> Some (unknown d i m)) = Some r" using returns by blast
      show ?thesis
      proof (cases r)
        case (Inl e)
        with True Inr p r show ?thesis by (subst unmarshal_from.simps) (simp add: Let_def)
      next
        case (Inr q)
        obtain m' k where q: "q = (m', k)" by fastforce
        have "i < k" using progress [of wire j] \<open>readVarint d i 0 0 = Inr p\<close> p r Inr q by blast
        then have "\<exists>s. unmarshal_from name fs unknown d k m' = Some s" using True by (intro less) simp
        with True \<open>readVarint d i 0 0 = Inr p\<close> p r Inr q show ?thesis
          by (subst unmarshal_from.simps) (auto simp: Let_def)
      qed
    qed (use True in \<open>subst unmarshal_from.simps, simp\<close>)
  qed (subst unmarshal_from.simps, simp)
qed

end
