(* ===== verification/WireLemmas.thy ===== *)
theory WireLemmas
  imports Wire
begin

text \<open>
  Facts about the wire format.  \<open>writes\<close> says which bytes a writer puts before the index and
  \<open>decodes\<close> what the loop of \<open>Unmarshal\<close> makes of some bytes; both compose, so that a message is
  handled field by field.  The locale \<open>wire_codec\<close> puts them together: marshalling fills the
  buffer exactly, never panics, and unmarshalling gives the message back.
\<close>

unbundle bit_operations_syntax

declare unmarshal_from.simps [simp del]

section \<open>Varints\<close>

text \<open>The encoding of a number: seven bits to a byte, the lowest first.\<close>

function varint :: "u64 \<Rightarrow> bytes" where
  "varint v = (if v < 128 then [ucast v] else ucast (v AND 0x7f OR 0x80) # varint (drop_bit 7 v))"
  by pat_completeness auto
termination
  by (relation "measure unat") (auto intro: drop_bit_less)

declare varint.simps [simp del]

lemma bit_len_div: "2 ^ k \<le> n \<Longrightarrow> bit_len n = k + bit_len (n div 2 ^ k)"
proof (induction k arbitrary: n)
  case (Suc k)
  then have "2 ^ k \<le> n div 2" and "0 < n" by (simp, cases n) simp_all
  from Suc.IH [OF this(1)] this(2) show ?case
    by (subst bit_len.simps) (auto simp: div_mult2_eq mult.commute)
qed simp

lemma bit_len_le: "n < 2 ^ k \<Longrightarrow> bit_len n \<le> k"
proof (induction k arbitrary: n)
  case 0
  then show ?case by (simp add: bit_len.simps)
next
  case (Suc k)
  then have "bit_len (n div 2) \<le> k" by (intro Suc.IH) auto
  then show ?case by (subst bit_len.simps) auto
qed

lemma or_Suc_0: "(n :: nat) OR Suc 0 = n + of_bool (even n)"
  using or_one_eq [of n] by simp

lemma unat_or_one: "unat (v OR 1 :: u64) = unat v OR 1"
  by (simp add: unsigned_or_eq)

lemma bit_len_or_one: "0 < n \<Longrightarrow> bit_len (n OR 1) = bit_len n"
proof -
  assume "0 < n"
  moreover have "(n OR 1) div 2 = n div 2" by (simp add: or_Suc_0)
  ultimately show ?thesis
    by (subst (1 2) bit_len.simps) (simp add: or_Suc_0)
qed

lemma sov_varint: "sov v = length (varint v)"
proof (induction v rule: varint.induct)
  case (1 v)
  show ?case
  proof (cases "v < 128")
    case True
    then have "unat v < 128" by (simp add: word_less_nat_alt)
    then have "unat v OR 1 < 2 ^ 7" by (simp add: or_Suc_0) presburger
    then have "bit_len (unat v OR 1) \<le> 7" by (rule bit_len_le)
    moreover have "1 \<le> bit_len (unat v OR 1)" by (subst bit_len.simps) (cases "unat v = 0"; simp add: or_Suc_0)
    ultimately show ?thesis
      using True by (simp add: varint.simps sov_def Len64_def unat_or_one)
  next
    case False
    then have ge: "128 \<le> unat v" by (simp add: word_less_nat_alt)
    then have "bit_len (unat v OR 1) = 7 + bit_len (unat v div 128)"
      using bit_len_div [of 7 "unat v"] bit_len_or_one [of "unat v"] by simp
    moreover have "unat (drop_bit 7 v) = unat v div 128"
      by (simp add: drop_bit_eq_div unat_div_distrib)
    moreover have "bit_len (unat v div 128 OR 1) = bit_len (unat v div 128)"
      using ge by (intro bit_len_or_one) (simp add: div_greater_zero_iff)
    ultimately show ?thesis
      using False 1 by (simp add: varint.simps [of v] sov_def Len64_def unat_or_one)
  qed
qed

lemma low_bits: "(ucast ((ucast v :: byte) AND 0x7F) :: u64) = v AND 0x7F"
proof -
  have "(ucast ((ucast v :: byte) AND mask 7) :: u64) = v AND mask 7"
    by (rule bit_word_eqI) (auto simp: bit_simps)
  then show ?thesis by (simp add: mask_eq_exp_minus_1)
qed

lemma take_bit_small:
  "(v :: u64) < 128 \<Longrightarrow> take_bit 7 v = v" "(b :: byte) < 128 \<Longrightarrow> take_bit 7 b = b"
  by (simp_all add: word_unat_eq_iff unsigned_take_bit_eq take_bit_nat_eq_self_iff word_less_nat_alt)

lemma byte_small: "v < 128 \<Longrightarrow> (ucast (v :: u64) :: byte) < 128 \<and> v AND 0x7F = v"
proof -
  assume v: "v < 128"
  then have "unat v < 128" by (simp add: word_less_nat_alt)
  moreover from this have "unat (ucast v :: byte) = unat v" by (simp add: unsigned_ucast_eq take_bit_nat_eq_self_iff)
  moreover have "take_bit 7 v = v" using v by (rule take_bit_small(1))
  then have "v AND mask 7 = v" by (simp add: take_bit_eq_mask)
  ultimately show ?thesis by (simp add: word_less_nat_alt mask_eq_exp_minus_1)
qed

lemma byte_more:
  "\<not> (ucast (v AND 0x7F OR 0x80 :: u64) :: byte) < 128"
  "(ucast ((ucast (v AND 0x7F OR 0x80) :: byte) AND 0x7F) :: u64) = v AND 0x7F"
proof -
  define b where "b = (ucast (v AND mask 7 OR push_bit 7 1 :: u64) :: byte)"
  have "bit b 7" by (simp add: b_def bit_simps)
  moreover have "take_bit 7 b = b" if "b < 128" using that by (rule take_bit_small(2))
  ultimately have "\<not> b < 128" by (metis bit_take_bit_iff less_irrefl)
  then show "\<not> (ucast (v AND 0x7F OR 0x80 :: u64) :: byte) < 128"
    by (simp add: b_def mask_eq_exp_minus_1)
  have "\<not> bit (128 :: u64) n" if "n < 7" for n
    using that bit_exp_iff [where 'a = u64, of 7 n] by simp
  then have "(ucast (b AND mask 7) :: u64) = v AND mask 7"
    by (intro bit_word_eqI) (auto simp: b_def bit_simps)
  then show "(ucast ((ucast (v AND 0x7F OR 0x80) :: byte) AND 0x7F) :: u64) = v AND 0x7F"
    by (simp add: b_def mask_eq_exp_minus_1)
qed

lemma split_bits:
  "(a OR push_bit n (v AND 0x7F)) OR push_bit (n + 7) (drop_bit 7 v) = a OR push_bit n (v :: u64)"
proof -
  have "(a OR push_bit n (v AND mask 7)) OR push_bit (n + 7) (drop_bit 7 v) = a OR push_bit n v"
  proof (rule bit_word_eqI)
    fix k
    assume "k < LENGTH(64)"
    then show "bit ((a OR push_bit n (v AND mask 7)) OR push_bit (n + 7) (drop_bit 7 v)) k =
        bit (a OR push_bit n v) k"
      by (cases "k - n < 7") (auto simp: bit_simps add.commute)
  qed
  then show ?thesis by (simp add: mask_eq_exp_minus_1)
qed

lemma readVarint_at:
  assumes "unat v < 2 ^ (64 - shift)" and "shift < 64"
  shows "readVarint (pre @ varint v @ rest) (length pre) shift acc =
    Inr (acc OR push_bit shift v, length pre + length (varint v))"
  using assms
proof (induction v arbitrary: shift acc pre rule: varint.induct)
  case (1 v)
  show ?case
  proof (cases "v < 128")
    case True
    with 1 byte_small [OF True] low_bits [of v] show ?thesis
      by (subst readVarint.simps) (simp add: varint.simps [of v] nth_append Let_def)
  next
    case False
    define b where "b = (ucast (v AND 0x7F OR 0x80) :: byte)"
    have "2 ^ 7 \<le> unat v" using False by (simp add: word_less_nat_alt)
    with 1(2) have "(2::nat) ^ 7 < 2 ^ (64 - shift)" by linarith
    then have "7 < 64 - shift" by (rule power_less_imp_less_exp [rotated]) simp
    then have s: "shift + 7 < 64" and e: "64 - shift = 7 + (64 - (shift + 7))" by simp_all
    from 1(2) have "unat v < 2 ^ 7 * 2 ^ (64 - (shift + 7))" unfolding e power_add .
    then have "unat (drop_bit 7 v) < 2 ^ (64 - (shift + 7))"
      by (simp add: drop_bit_eq_div unat_div_distrib less_mult_imp_div_less mult.commute)
    from 1(1) [OF False this s, of "pre @ [b]" "acc OR push_bit shift (v AND 0x7F)"]
    show ?thesis
      using False 1(3) byte_more [of v]
      by (subst readVarint.simps)
        (simp add: varint.simps [of v] nth_append Let_def b_def split_bits add.commute
          del: push_bit_and)
  qed
qed

lemma readVarint_varint:
  assumes "drop i d = varint v @ rest"
  shows "readVarint d i 0 0 = Inr (v, i + length (varint v))"
proof -
  have ne: "varint v \<noteq> []" by (subst varint.simps) simp
  have i: "i \<le> length d" using assms ne by (cases "i \<le> length d") auto
  have "unat v < 2 ^ (64 - 0)" using unsigned_less [of v] by simp
  then have "readVarint (take i d @ varint v @ rest) (length (take i d)) 0 0 =
      Inr (0 OR push_bit 0 v, length (take i d) + length (varint v))"
    by (rule readVarint_at) simp
  moreover have "take i d @ varint v @ rest = d" unfolding assms [symmetric] by simp
  ultimately show ?thesis using i by simp
qed

section \<open>Writers\<close>

definition writes :: "writer \<Rightarrow> bytes \<Rightarrow> bool" where
  "writes w bs \<longleftrightarrow> (\<forall>d i. length bs \<le> i \<and> i \<le> length d \<longrightarrow>
     w (d, i) = (Ok (), (take (i - length bs) d @ bs @ drop i d, i - length bs)))"

lemma writesD:
  "writes w bs \<Longrightarrow> length bs \<le> i \<Longrightarrow> i \<le> length d \<Longrightarrow>
     w (d, i) = (Ok (), (take (i - length bs) d @ bs @ drop i d, i - length bs))"
  by (simp add: writes_def)

lemma writes_ret: "writes (ret ()) []"
  by (simp add: writes_def ret_def)

lemma writes_put_bytes: "writes (put_bytes s) s"
  by (simp add: writes_def put_bytes_def)

lemma writes_put_byte: "writes (put_byte b) [b]"
  by (simp add: put_byte_def writes_put_bytes)

lemma writes_andThen:
  assumes "writes a x" and "writes b y"
  shows "writes (andThen a (\<lambda>_. b)) (y @ x)"
  unfolding writes_def
proof (intro allI impI)
  fix d :: bytes and i
  assume i: "length (y @ x) \<le> i \<and> i \<le> length d"
  define d' where "d' = take (i - length x) d @ x @ drop i d"
  have "a (d, i) = (Ok (), (d', i - length x))" unfolding d'_def by (rule writesD) (use assms i in auto)
  moreover have "b (d', i - length x) =
      (Ok (), (take (i - length x - length y) d' @ y @ drop (i - length x) d', i - length x - length y))"
    by (rule writesD) (use assms i in \<open>auto simp: d'_def\<close>)
  moreover have "take (i - length x - length y) d' = take (i - length (y @ x)) d"
    and "drop (i - length x) d' = x @ drop i d"
    using i by (auto simp: d'_def min_def algebra_simps)
  ultimately show "andThen a (\<lambda>_. b) (d, i) = (Ok (),
      (take (i - length (y @ x)) d @ (y @ x) @ drop i d, i - length (y @ x)))"
    by (simp add: andThen_def algebra_simps)
qed

lemma varint_loop_eq:
  "off + length (varint v) \<le> length d \<Longrightarrow>
     varint_loop d off v = Some (take off d @ varint v @ drop (off + length (varint v)) d)"
proof (induction v arbitrary: d off rule: varint.induct)
  case (1 v)
  show ?case
  proof (cases "v < 128")
    case True
    then have v: "varint v = [ucast v]" by (simp add: varint.simps)
    moreover have "\<not> 128 \<le> v" using True by simp
    moreover have "\<not> length d \<le> off" using 1(2) v by simp
    ultimately show ?thesis
      by (subst varint_loop.simps) (simp add: upd_conv_take_nth_drop)
  next
    case False
    define b where "b = (ucast (v AND 0x7F OR 0x80) :: byte)"
    have v: "varint v = b # varint (drop_bit 7 v)" using False by (simp add: varint.simps b_def)
    have len: "off < length d" using 1(2) v by simp
    then have upd: "take (Suc off) (d[off := b]) = take off d @ [b]"
      by (simp add: take_Suc_conv_app_nth)
    have "varint_loop (d[off := b]) (off + 1) (drop_bit 7 v) = Some (take (off + 1) (d[off := b]) @
        varint (drop_bit 7 v) @ drop (off + 1 + length (varint (drop_bit 7 v))) (d[off := b]))"
      using 1(2) v by (intro 1(1) [OF False]) simp
    with False len v show ?thesis
      by (subst varint_loop.simps) (simp add: upd [unfolded b_def] b_def not_less)
  qed
qed

lemma writes_varint: "writes (encodeVarint v) (varint v)"
  by (auto simp: writes_def encodeVarint_def sov_varint varint_loop_eq)

section \<open>Fields\<close>

definition enc_string :: "byte \<Rightarrow> bytes \<Rightarrow> bytes" where
  "enc_string tag s = (if s = [] then [] else tag # varint (word_of_nat (length s)) @ s)"

definition enc_uint :: "byte \<Rightarrow> u64 \<Rightarrow> bytes" where
  "enc_uint tag v = (if v = 0 then [] else tag # varint v)"

definition enc_message :: "byte \<Rightarrow> bytes \<Rightarrow> bytes" where
  "enc_message tag bz = tag # varint (word_of_nat (length bz)) @ bz"

text \<open>A way to write varints and the size of a varint.\<close>

definition varint_len :: "u64 \<Rightarrow> nat" where
  "varint_len v = length (varint v)"

definition varint_ok :: "(u64 \<Rightarrow> writer) \<Rightarrow> bool" where
  "varint_ok V \<longleftrightarrow> (\<forall>v. writes (V v) (varint v))"

lemma writes_V: "varint_ok V \<Longrightarrow> writes (V v) (varint v)"
  by (simp add: varint_ok_def)

lemma encodeVarint_ok: "varint_ok encodeVarint"
  by (simp add: varint_ok_def writes_varint)

lemma sov_eq: "sov = varint_len"
  by (simp add: fun_eq_iff sov_varint varint_len_def)

lemma writes_element:
  assumes "varint_ok V"
  shows "writes (put_element V tag s) (enc_message tag s)"
proof -
  have "writes (put_element V tag s) (([tag] @ varint (word_of_nat (length s))) @ s)"
    unfolding put_element_def
    by (intro writes_andThen writes_put_bytes writes_V assms writes_put_byte)
  then show ?thesis by (simp add: enc_message_def)
qed

lemma writes_string: "varint_ok V \<Longrightarrow> writes (put_string V tag s) (enc_string tag s)"
  using writes_element [of V tag s]
  by (cases "s = []") (simp_all add: put_string_def enc_string_def enc_message_def writes_ret)

lemma writes_uint: "varint_ok V \<Longrightarrow> writes (put_uint V tag v) (enc_uint tag v)"
  using writes_andThen [OF writes_V [of V v] writes_put_byte [of tag]]
  by (simp add: put_uint_def enc_uint_def writes_ret)

lemma writes_encoded: "varint_ok V \<Longrightarrow> r = Ok bz \<Longrightarrow> writes (put_encoded V tag r) (enc_message tag bz)"
  using writes_element [of V tag bz] by (simp add: put_encoded_def writes_def andThen_def of_outcome_def)

definition enc_opt :: "('a \<Rightarrow> bytes) \<Rightarrow> 'a option \<Rightarrow> bytes" where
  "enc_opt e x = (case x of None \<Rightarrow> [] | Some y \<Rightarrow> e y)"

lemma writes_opt: "(\<And>y. x = Some y \<Longrightarrow> writes (w y) (e y)) \<Longrightarrow> writes (put_opt w x) (enc_opt e x)"
  by (cases x) (simp_all add: put_opt_def enc_opt_def writes_ret)

lemma writes_message:
  assumes "varint_ok V" and "writes w bz"
  shows "writes (put_message V tag w) (enc_message tag bz)"
  unfolding writes_def
proof (intro allI impI)
  fix d :: bytes and i
  assume i: "length (enc_message tag bz) \<le> i \<and> i \<le> length d"
  have body: "writes (andThen w (\<lambda>_. andThen (V (word_of_nat (length bz))) (\<lambda>_.
      put_byte tag))) (([tag] @ varint (word_of_nat (length bz))) @ bz)"
    by (intro writes_andThen assms writes_V writes_put_byte)
  have "w (d, i) = (Ok (), (take (i - length bz) d @ bz @ drop i d, i - length bz))"
    by (rule writesD [OF assms(2)]) (use i in \<open>auto simp: enc_message_def\<close>)
  moreover have "i - (i - length bz) = length bz" using i by (simp add: enc_message_def)
  ultimately have "put_message V tag w (d, i) =
      andThen w (\<lambda>_. andThen (V (word_of_nat (length bz))) (\<lambda>_. put_byte tag)) (d, i)"
    by (simp add: put_message_def andThen_def reads_def)
  with writesD [OF body, of i d] i show "put_message V tag w (d, i) = (Ok (),
      (take (i - length (enc_message tag bz)) d @ enc_message tag bz @ drop i d,
       i - length (enc_message tag bz)))"
    by (simp add: enc_message_def)
qed

lemma writes_repeated:
  assumes "\<And>x. x \<in> set xs \<Longrightarrow> writes (w x) (e x)"
  shows "writes (put_repeated w xs) (concat (map e xs))"
proof -
  have "writes (for_each ys w) (concat (map e (rev ys)))" if "set ys \<subseteq> set xs" for ys
    using that
  proof (induction ys)
    case (Cons y ys)
    then show ?case using writes_andThen [OF assms [of y] Cons.IH] by simp
  qed (simp add: writes_ret)
  from this [of "rev xs"] show ?thesis by (simp add: put_repeated_def)
qed

lemma length_fields [simp]:
  "length (enc_string tag s) = size_string varint_len s"
  "length (enc_uint tag v) = size_uint varint_len v"
  "length (enc_message tag bz) = size_message varint_len (length bz)"
  "length (enc_opt e x) = size_opt (\<lambda>y. length (e y)) x"
  by (simp_all add: size_string_def size_uint_def size_message_def size_opt_def enc_string_def enc_uint_def
      enc_message_def enc_opt_def varint_len_def split: option.split)

lemma writes_eq: "writes w bs \<Longrightarrow> bs = bs' \<Longrightarrow> writes w bs'"
  by simp

lemmas writes_rules = writes_andThen writes_string writes_uint writes_message writes_element
  writes_encoded writes_opt writes_repeated writes_put_bytes writes_ret

lemma marshal_writes: "writes w bs \<Longrightarrow> marshal (length bs) w = Ok bs"
  using writesD [of w bs "length bs" "replicate (length bs) 0"] by (simp add: marshal_def)

section \<open>Reading fields\<close>

definition decodes ::
  "string \<Rightarrow> (int \<times> string \<times> 'm field) list \<Rightarrow> 'm default_case \<Rightarrow> bytes \<Rightarrow> 'm \<Rightarrow> 'm \<Rightarrow> bool" where
  "decodes name fs u bs m m' \<longleftrightarrow> (\<forall>d i rest. drop i d = bs @ rest \<and> i \<le> length d \<and> length d < 2 ^ 63 \<longrightarrow>
     unmarshal_from name fs u d i m = unmarshal_from name fs u d (i + length bs) m')"

lemma decodes_Nil: "decodes name fs u [] m m"
  by (simp add: decodes_def)

lemma decodesD:
  "decodes name fs u bs m m' \<Longrightarrow> drop i d = bs @ rest \<Longrightarrow> i \<le> length d \<Longrightarrow> length d < 2 ^ 63 \<Longrightarrow>
     unmarshal_from name fs u d i m = unmarshal_from name fs u d (i + length bs) m'"
  unfolding decodes_def by blast

lemma decodes_append:
  assumes "decodes name fs u x m m1" and "decodes name fs u y m1 m2"
  shows "decodes name fs u (x @ y) m m2"
  unfolding decodes_def
proof (intro allI impI)
  fix d rest :: bytes and i
  assume d: "drop i d = (x @ y) @ rest \<and> i \<le> length d \<and> length d < 2 ^ 63"
  then have x: "drop i d = x @ y @ rest" by simp
  then have "drop (length x) (drop i d) = y @ rest" by simp
  then have y: "drop (i + length x) d = y @ rest" by (simp add: add.commute)
  have "length d - i = length x + length y + length rest" using arg_cong [OF x, of length] by simp
  then have i: "i + length x \<le> length d" using d by linarith
  have "unmarshal_from name fs u d i m = unmarshal_from name fs u d (i + length x) m1"
    by (rule decodesD [OF assms(1) x]) (use d in simp_all)
  also have "\<dots> = unmarshal_from name fs u d (i + length x + length y) m2"
    by (rule decodesD [OF assms(2) y i]) (use d in simp)
  finally show "unmarshal_from name fs u d i m = unmarshal_from name fs u d (i + length (x @ y)) m2"
    by (simp add: add.assoc)
qed

lemma unmarshal_decodes:
  assumes "decodes name fs u bs m m'" and "length bs < 2 ^ 63"
  shows "unmarshal_from name fs u bs 0 m = Some (Inr m')"
proof -
  have "unmarshal_from name fs u bs 0 m = unmarshal_from name fs u bs (0 + length bs) m'"
    by (rule decodesD [OF assms(1), of _ _ "[]"]) (use assms(2) in simp_all)
  then show ?thesis by (simp add: unmarshal_from.simps [of _ _ _ bs "length bs"])
qed

text \<open>A tag byte: the number of a field and the type of its encoding.\<close>

definition field_no :: "byte \<Rightarrow> int" where
  "field_no t = sint (ucast (drop_bit 3 (ucast t :: u64)) :: 32 word)"

definition tag :: "byte \<Rightarrow> nat \<Rightarrow> bool" where
  "tag t w \<longleftrightarrow> t < 128 \<and> unat ((ucast t :: u64) AND 0x7) = w \<and> 0 < field_no t \<and> w \<noteq> 4"

lemma field_nos [simp]:
  "field_no 0x8 = 1" "field_no 0x10 = 2" "field_no 0xa = 1" "field_no 0x12 = 2"
  "field_no 0x1a = 3" "field_no 0x22 = 4"
  by (simp_all add: field_no_def drop_bit_eq_div)

lemma tags [simp]: "tag 0x8 0" "tag 0x10 0" "tag 0xa 2" "tag 0x12 2" "tag 0x1a 2" "tag 0x22 2"
  by (simp_all add: tag_def)

lemma varint_tag: "t < 128 \<Longrightarrow> varint (ucast t) = [t :: byte]"
proof -
  assume "t < 128"
  then have "(ucast t :: u64) < 128"
    by (simp add: word_less_nat_alt unsigned_ucast_eq le_less_trans [OF take_bit_nat_less_eq_self])
  moreover have "(ucast (ucast t :: u64) :: byte) = t"
    by (rule bit_word_eqI) (simp add: bit_simps)
  ultimately show ?thesis by (simp add: varint.simps)
qed

lemma unmarshal_tag:
  assumes "tag t w" and "map_of fs (field_no t) = Some (fname, f)"
    and "drop i d = t # rest" and "i \<le> length d"
  shows "unmarshal_from name fs u d i m = Option.bind (read_field fname f w d (Suc i) m) (\<lambda>r. case r of
     Inl e \<Rightarrow> Some (Inl e) | Inr (m', j) \<Rightarrow> unmarshal_from name fs u d j m')"
proof -
  have "readVarint d i 0 0 = Inr (ucast t, Suc i)"
    using readVarint_varint [of i d "ucast t" rest] assms(1,3) by (simp add: varint_tag tag_def)
  moreover have "i < length d" using assms(3,4) by (cases "i = length d") auto
  ultimately show ?thesis
    using assms(1,2)
    by (subst unmarshal_from.simps) (auto simp: Let_def tag_def field_no_def split: sum.splits)
qed

text \<open>What the case for a tag makes of a value.\<close>

definition read_into ::
  "(int \<times> string \<times> 'm field) list \<Rightarrow> byte \<Rightarrow> bytes \<Rightarrow> 'm \<Rightarrow> (error + 'm) option" where
  "read_into fs t bz m = (case map_of fs (field_no t) of
     Some (_, Delimited unm) \<Rightarrow> unm bz m
   | _ \<Rightarrow> None)"

definition read_number ::
  "(int \<times> string \<times> 'm field) list \<Rightarrow> byte \<Rightarrow> u64 \<Rightarrow> 'm \<Rightarrow> error + 'm" where
  "read_number fs t v m = (case map_of fs (field_no t) of
     Some (_, Varint upd) \<Rightarrow> Inr (upd v m)
   | _ \<Rightarrow> Inl ErrUnexpectedEOF)"

lemma sint_of_nat: "n < 2 ^ 63 \<Longrightarrow> sint (word_of_nat n :: u64) = int n"
  using sint_sbintrunc' [of "int n", where 'a = 64] by (simp add: signed_take_bit_int_eq_self_iff)

lemma read_delimited_at:
  assumes "drop i d = varint (word_of_nat (length bz)) @ bz @ rest" and "i \<le> length d"
    and "length d < 2 ^ 63"
  shows "read_delimited d i = Inr (bz, i + length (varint (word_of_nat (length bz))) + length bz)"
proof -
  let ?v = "varint (word_of_nat (length bz) :: u64)"
  have len: "i + length ?v + length bz + length rest = length d"
    using arg_cong [OF assms(1), of length] assms(2) by simp
  have "drop (i + length ?v) d = bz @ rest"
    using arg_cong [OF assms(1), of "drop (length ?v)"] by (simp add: add.commute)
  then have "take (length bz) (drop (i + length ?v) d) = bz" by simp
  moreover have "sint (word_of_nat (length bz) :: u64) = int (length bz)"
    using len assms(3) by (intro sint_of_nat) simp
  ultimately show ?thesis
    using readVarint_varint [OF assms(1)] len assms(3)
    by (simp add: read_delimited_def index_add_def)
qed

lemma decodes_message:
  assumes "tag t 2" and "read_into fs t bz m = Some (Inr m')"
  shows "decodes name fs u (enc_message t bz) m m'"
  unfolding decodes_def
proof (intro allI impI)
  obtain fname unm where f: "map_of fs (field_no t) = Some (fname, Delimited unm)"
    and unm: "unm bz m = Some (Inr m')"
    using assms(2) by (auto simp: read_into_def split: option.splits prod.splits field.splits)
  fix d rest :: bytes and i
  assume d: "drop i d = enc_message t bz @ rest \<and> i \<le> length d \<and> length d < 2 ^ 63"
  then have t: "drop i d = t # varint (word_of_nat (length bz)) @ bz @ rest"
    by (simp add: enc_message_def)
  then have "drop (Suc i) d = varint (word_of_nat (length bz)) @ bz @ rest"
    by (metis drop_Suc list.sel(3) tl_drop)
  moreover have "Suc i \<le> length d" using t d by (cases "i = length d") auto
  ultimately have "read_delimited d (Suc i) =
      Inr (bz, Suc i + length (varint (word_of_nat (length bz))) + length bz)"
    using d by (intro read_delimited_at) simp_all
  with unmarshal_tag [OF assms(1) f t] d unm
  show "unmarshal_from name fs u d i m = unmarshal_from name fs u d (i + length (enc_message t bz)) m'"
    by (simp add: read_field_def enc_message_def algebra_simps del: length_fields)
qed

lemma decodes_string:
  assumes "tag t 2" and "read_into fs t s m = Some (Inr m')" and "s = [] \<Longrightarrow> m' = m"
  shows "decodes name fs u (enc_string t s) m m'"
  using decodes_message [OF assms(1,2), of name u] assms(3)
  by (cases "s = []") (simp_all add: enc_string_def enc_message_def decodes_Nil)

lemma decodes_uint:
  assumes "tag t 0" and "read_number fs t v m = Inr m'" and "v = 0 \<Longrightarrow> m' = m"
  shows "decodes name fs u (enc_uint t v) m m'"
proof (cases "v = 0")
  case False
  obtain fname upd where f: "map_of fs (field_no t) = Some (fname, Varint upd)"
    and upd: "upd v m = m'"
    using assms(2) by (auto simp: read_number_def split: option.splits prod.splits field.splits)
  show ?thesis
    unfolding decodes_def
  proof (intro allI impI)
    fix d rest :: bytes and i
    assume d: "drop i d = enc_uint t v @ rest \<and> i \<le> length d \<and> length d < 2 ^ 63"
    with False have t: "drop i d = t # varint v @ rest" by (simp add: enc_uint_def)
    then have "drop (Suc i) d = varint v @ rest" by (metis drop_Suc list.sel(3) tl_drop)
    with unmarshal_tag [OF assms(1) f t] readVarint_varint d False upd
    show "unmarshal_from name fs u d i m = unmarshal_from name fs u d (i + length (enc_uint t v)) m'"
      by (simp add: read_field_def enc_uint_def del: length_fields)
  qed
qed (simp add: assms(3) enc_uint_def decodes_Nil)

text \<open>A repeated field: each element takes the message one step further.\<close>

lemma decodes_repeated:
  assumes "\<And>x m. x \<in> set xs \<Longrightarrow> decodes name fs u (e x) m (add x m)"
  shows "decodes name fs u (concat (map e xs)) m (fold add xs m)"
  using assms
proof (induction xs arbitrary: m)
  case (Cons x xs)
  have "decodes name fs u (e x @ concat (map e xs)) m (fold add xs (add x m))"
    by (rule decodes_append [of name fs u "e x" m "add x m"]) (simp_all add: Cons)
  then show ?case by simp
qed (simp add: decodes_Nil)

lemma decodes_eq: "decodes name fs u bs m r \<Longrightarrow> r = m' \<Longrightarrow> decodes name fs u bs m m'"
  by simp

lemma decodes_opt:
  "(\<And>y. x = Some y \<Longrightarrow> decodes name fs u (e y) m m') \<Longrightarrow> (x = None \<Longrightarrow> m' = m) \<Longrightarrow>
     decodes name fs u (enc_opt e x) m m'"
  by (cases x) (simp_all add: enc_opt_def decodes_Nil)

lemmas decodes_rules = decodes_append decodes_string decodes_message decodes_uint decodes_opt decodes_Nil

section \<open>Codecs\<close>

text \<open>
  What the protobuf runtime calls on a message through a pointer: its size, its encoding, reading
  bytes into it, and a new message.  The runtime dispatches embedded messages to these methods.
\<close>

record 'm codec =
  Size :: "'m option \<Rightarrow> nat"
  Marshal :: "'m option \<Rightarrow> bytes outcome"
  Unmarshal :: "bytes \<Rightarrow> 'm option \<Rightarrow> (error + 'm option) option"
  NewMessage :: 'm

text \<open>
  The contract of a message type.  \<open>enc\<close> is the encoding, \<open>ok\<close> the messages the laws hold for.
\<close>

locale message_codec =
  fixes C :: "'m codec"
    and enc :: "'m \<Rightarrow> bytes"
    and ok :: "'m \<Rightarrow> bool"
  assumes size_enc: "ok m \<Longrightarrow> Size C (Some m) = length (enc m)"
    and marshal_enc: "ok m \<Longrightarrow> Marshal C (Some m) = Ok (enc m)"
    and decode_enc: "ok m \<Longrightarrow> length (enc m) < 2 ^ 63 \<Longrightarrow>
      Unmarshal C (enc m) (Some (NewMessage C)) = Some (Inr (Some m))"
    and returns: "Unmarshal C bz x \<noteq> None"
begin

lemma roundtrip:
  "ok m \<Longrightarrow> Size C (Some m) < 2 ^ 63 \<Longrightarrow>
     \<exists>bz. Marshal C (Some m) = Ok bz \<and> length bz = Size C (Some m) \<and>
       Unmarshal C bz (Some (NewMessage C)) = Some (Inr (Some m))"
  by (intro exI [of _ "enc m"]) (simp add: marshal_enc size_enc decode_enc)

text \<open>The encoding determines the message.\<close>

lemma enc_inject:
  assumes "ok m" and "ok n" and "enc m = enc n" and "length (enc m) < 2 ^ 63"
  shows "m = n"
proof -
  have "length (enc n) < 2 ^ 63" using assms(3,4) by (simp only:)
  then have "Some (Inr (Some m)) = (Some (Inr (Some n)) :: (error + 'm option) option)"
    using decode_enc [OF assms(1,4)] decode_enc [OF assms(2)] unfolding assms(3) by (simp only:)
  then show ?thesis by simp
qed

end

end
