(* ===== verification/Pulsar.thy ===== *)
theory Pulsar
  imports WireLemmas
begin

text \<open>
  What the messages of \<open>api/**/*.pulsar.go\<close> share: the methods \<open>size\<close>, \<open>marshal\<close> and
  \<open>unmarshal\<close> that \<open>ProtoMethods\<close> returns for a message, around the code of its fields.  Fields
  that are not known are kept with the message and written again.  The runtime package of the
  generator is a parameter, and so are the codecs of messages of other repositories; an embedded
  message of this repository is dispatched to its own methods.  A call that fails is its error: what
  it has already stored in the message is not modelled.
\<close>

section \<open>The runtime\<close>

record runtime =
  Sov :: "u64 \<Rightarrow> nat"
  EncodeVarint :: "u64 \<Rightarrow> writer"
  Skip :: "bytes \<Rightarrow> error + int"

text \<open>
  It writes and sizes varints as the wire format has them, and skipping a field that is there moves
  on.
\<close>

definition runtime_ok :: "runtime \<Rightarrow> bool" where
  "runtime_ok R \<longleftrightarrow> Sov R = varint_len \<and> varint_ok (EncodeVarint R) \<and>
     (\<forall>bz n. Skip R bz = Inr n \<longrightarrow> 0 < n)"

section \<open>The methods\<close>

text \<open>The methods on a nil message do nothing.\<close>

definition api_size :: "('m \<Rightarrow> nat) \<Rightarrow> 'm option \<Rightarrow> nat" where
  "api_size sz x = (case x of None \<Rightarrow> 0 | Some m \<Rightarrow> sz m)"

text \<open>A buffer of the message's size, filled from its end and appended to the buffer given.\<close>

definition api_marshal :: "('m \<Rightarrow> nat) \<Rightarrow> ('m \<Rightarrow> writer) \<Rightarrow> bytes \<Rightarrow> 'm option \<Rightarrow> bytes outcome" where
  "api_marshal sz put buf x = (case x of
     None \<Rightarrow> Ok buf
   | Some m \<Rightarrow>
       (case put m (replicate (sz m) 0, sz m) of
          (Ok _, (dAtA, _)) \<Rightarrow> Ok (buf @ dAtA)
        | (Err e, _) \<Rightarrow> Err e
        | (Panic p, _) \<Rightarrow> Panic p))"

text \<open>The default case keeps the bytes of the field, unless unknown fields are to be dropped.\<close>

definition keep_unknown :: "runtime \<Rightarrow> bool \<Rightarrow> (bytes \<Rightarrow> 'm \<Rightarrow> 'm) \<Rightarrow> 'm default_case" where
  "keep_unknown R DiscardUnknown add dAtA preIndex m =
     (case Skip R (drop preIndex dAtA) of
        Inl e \<Rightarrow> Inl e
      | Inr skippy \<Rightarrow>
          if skippy < 0 then Inl ErrInvalidLength
          else (case index_add preIndex (nat skippy) of
             Inl e \<Rightarrow> Inl e
           | Inr i \<Rightarrow>
               if i > length dAtA then Inl ErrUnexpectedEOF
               else Inr (if \<not> DiscardUnknown then add (take (nat skippy) (drop preIndex dAtA)) m else m, i)))"

definition api_unmarshal ::
  "string \<Rightarrow> (int \<times> string \<times> 'm field) list \<Rightarrow> 'm default_case \<Rightarrow> bytes \<Rightarrow> 'm option \<Rightarrow>
   (error + 'm option) option" where
  "api_unmarshal name fs unknown dAtA x = (case x of
     None \<Rightarrow> Some (Inr None)
   | Some m \<Rightarrow> map_option (map_sum id Some) (unmarshal_from name fs unknown dAtA 0 m))"

definition api_codec ::
  "string \<Rightarrow> ('m \<Rightarrow> nat) \<Rightarrow> ('m \<Rightarrow> writer) \<Rightarrow> (int \<times> string \<times> 'm field) list \<Rightarrow> 'm default_case \<Rightarrow> 'm \<Rightarrow>
   'm codec" where
  "api_codec name sz put fs unknown new =
     \<lparr>Size = api_size sz, Marshal = api_marshal sz put [], Unmarshal = api_unmarshal name fs unknown,
      NewMessage = new\<rparr>"

text \<open>
  The cases of the \<open>switch\<close> by the kind of a field: a string, bytes, an embedded message behind a
  pointer, an element of a list of strings or of messages.
\<close>

definition string_field :: "(string \<Rightarrow> 'm \<Rightarrow> 'm) \<Rightarrow> 'm field" where
  "string_field upd = Delimited (\<lambda>bz m. Some (Inr (upd (of_bytes bz) m)))"

definition bytes_field :: "(bytes \<Rightarrow> 'm \<Rightarrow> 'm) \<Rightarrow> 'm field" where
  "bytes_field upd = Delimited (\<lambda>bz m. Some (Inr (upd bz m)))"

definition message_field :: "'c codec \<Rightarrow> ('m \<Rightarrow> 'c option) \<Rightarrow> ('c option \<Rightarrow> 'm \<Rightarrow> 'm) \<Rightarrow> 'm field" where
  "message_field C get upd = Delimited (\<lambda>bz m.
     map_option (map_sum id (\<lambda>y. upd y m))
       (Unmarshal C bz (Some (case get m of None \<Rightarrow> NewMessage C | Some y \<Rightarrow> y))))"

definition messages_field :: "'c codec \<Rightarrow> ('c option \<Rightarrow> 'm \<Rightarrow> 'm) \<Rightarrow> 'm field" where
  "messages_field C app = Delimited (\<lambda>bz m.
     map_option (map_sum id (\<lambda>y. app y m)) (Unmarshal C bz (Some (NewMessage C))))"

text \<open>Writing and sizing an embedded message and a list of messages.\<close>

definition put_api_message :: "runtime \<Rightarrow> 'c codec \<Rightarrow> byte \<Rightarrow> 'c option \<Rightarrow> writer" where
  "put_api_message R C t = put_opt (\<lambda>y. put_encoded (EncodeVarint R) t (Marshal C (Some y)))"

definition put_api_messages :: "runtime \<Rightarrow> 'c codec \<Rightarrow> byte \<Rightarrow> 'c option list \<Rightarrow> writer" where
  "put_api_messages R C t = put_repeated (\<lambda>e. put_encoded (EncodeVarint R) t (Marshal C e))"

definition size_api_message :: "runtime \<Rightarrow> 'c codec \<Rightarrow> 'c option \<Rightarrow> nat" where
  "size_api_message R C = size_opt (\<lambda>y. size_message (Sov R) (Size C (Some y)))"

definition size_api_messages :: "runtime \<Rightarrow> 'c codec \<Rightarrow> 'c option list \<Rightarrow> nat" where
  "size_api_messages R C es = sum_list (map (\<lambda>e. size_message (Sov R) (Size C e)) es)"

definition size_api_strings :: "runtime \<Rightarrow> string list \<Rightarrow> nat" where
  "size_api_strings R ss = sum_list (map (\<lambda>s. size_message (Sov R) (length s)) ss)"

definition put_api_strings :: "runtime \<Rightarrow> byte \<Rightarrow> string list \<Rightarrow> writer" where
  "put_api_strings R t = put_repeated (\<lambda>s. put_element (EncodeVarint R) t (to_bytes s))"

section \<open>The contract of a message\<close>

lemma api_marshal_writes:
  assumes "writes (put m) bs" and "sz m = length bs"
  shows "api_marshal sz put buf (Some m) = Ok (buf @ bs)"
  using writesD [OF assms(1), of "length bs" "replicate (length bs) 0"] assms(2)
  by (simp add: api_marshal_def)

lemma api_message_codec:
  assumes "\<And>m. ok m \<Longrightarrow> sz m = length (enc m)"
    and "\<And>m. ok m \<Longrightarrow> writes (put m) (enc m)"
    and "\<And>m. ok m \<Longrightarrow> length (enc m) < 2 ^ 63 \<Longrightarrow> decodes name fs u (enc m) new m"
    and "moves_on u" and "list_all (\<lambda>(_, _, f). field_returns f) fs"
  shows "message_codec (api_codec name sz put fs u new) enc ok"
proof
  fix m assume m: "ok m"
  show "Size (api_codec name sz put fs u new) (Some m) = length (enc m)"
    by (simp add: api_codec_def api_size_def assms(1) [OF m])
  show "Marshal (api_codec name sz put fs u new) (Some m) = Ok (enc m)"
    using api_marshal_writes [where put = put and sz = sz and buf = "[]", OF assms(2) [OF m] assms(1) [OF m]]
    by (simp add: api_codec_def)
  show "Unmarshal (api_codec name sz put fs u new) (enc m)
      (Some (NewMessage (api_codec name sz put fs u new))) = Some (Inr (Some m))"
    if "length (enc m) < 2 ^ 63"
    using unmarshal_decodes [OF assms(3) [OF m that] that] by (simp add: api_codec_def api_unmarshal_def)
next
  fix bz x
  show "Unmarshal (api_codec name sz put fs u new) bz x \<noteq> None"
    using unmarshal_returns [OF assms(4,5)] by (auto simp: api_codec_def api_unmarshal_def split: option.split)
qed

section \<open>Unknown fields\<close>

text \<open>Bytes that are fields with numbers other than \<open>ns\<close>, each skipped as one piece.\<close>

inductive unknown_fields :: "runtime \<Rightarrow> int set \<Rightarrow> bytes \<Rightarrow> bool" for R and ns where
  none: "unknown_fields R ns []"
| field: "unknown_fields R ns (u @ us)"
  if "u \<noteq> []" and "\<And>rest. Skip R (u @ rest) = Inr (int (length u))"
    and "\<And>rest. \<exists>n. readVarint (u @ rest) 0 0 0 = Inr (wire, n)"
    and "unat (wire AND 0x7) \<noteq> 4" and "0 < sint (ucast (drop_bit 3 wire) :: 32 word)"
    and "sint (ucast (drop_bit 3 wire) :: 32 word) \<notin> ns" and "unknown_fields R ns us"

lemma readVarint_drop:
  "readVarint (drop i d) j shift v = Inr (w, n) \<Longrightarrow> readVarint d (i + j) shift v = Inr (w, i + n)"
proof (induction "drop i d" j shift v rule: readVarint.induct)
  case (1 j shift v)
  have "\<not> shift \<ge> 64" "j < length (drop i d)"
    using 1(2) by (auto simp: readVarint.simps [of "drop i d"] split: if_splits)
  with 1 show ?case
    by (simp add: readVarint.simps [of "drop i d" j] readVarint.simps [of d "i + j"] Let_def add.assoc
        split: if_splits)
qed

lemma decodes_unknown:
  assumes "unknown_fields R ns bs" and "ns = fst ` set fs"
    and "\<And>v w m. add v (add w m) = add (w @ v) m" and "\<And>m. add [] m = m"
  shows "decodes name fs (keep_unknown R False add) bs m (add bs m)"
  using assms(1)
proof (induction arbitrary: m)
  case none
  then show ?case by (simp add: assms(4) decodes_Nil)
next
  case (field u wire us)
  have "decodes name fs (keep_unknown R False add) u m (add u m)"
    unfolding decodes_def
  proof (intro allI impI)
    fix d rest :: bytes and i
    assume d: "drop i d = u @ rest \<and> i \<le> length d \<and> length d < 2 ^ 63"
    have "length (drop i d) = length (u @ rest)" using d by (simp only:)
    then have "length d - i = length u + length rest" by (simp only: length_drop length_append)
    moreover have "0 < length u" using field(1) by simp
    ultimately have len: "i + length u \<le> length d" "i < length d" using d by linarith+
    obtain n where "readVarint (u @ rest) 0 0 0 = Inr (wire, n)" using field(3) by blast
    then have "readVarint d i 0 0 = Inr (wire, i + n)" using readVarint_drop [of i d 0] d by simp
    moreover have "map_of fs (sint (ucast (drop_bit 3 wire) :: 32 word)) = None"
      using field(6) assms(2) by (simp add: map_of_eq_None_iff)
    moreover have "keep_unknown R False add d i m = Inr (add u m, i + length u)"
      using d field(2) [of rest] len by (simp add: keep_unknown_def index_add_def)
    ultimately show "unmarshal_from name fs (keep_unknown R False add) d i m =
        unmarshal_from name fs (keep_unknown R False add) d (i + length u) (add u m)"
      using field(4,5) len by (subst unmarshal_from.simps) (simp add: Let_def)
  qed
  then show ?case using field.IH assms(3) by (metis decodes_append)
qed

text \<open>The condition on the unknown fields of a message: none are kept when they are dropped.\<close>

definition unknown_ok :: "runtime \<Rightarrow> bool \<Rightarrow> int set \<Rightarrow> bytes \<Rightarrow> bool" where
  "unknown_ok R discard ns bs \<longleftrightarrow> (if discard then bs = [] else unknown_fields R ns bs)"

lemma decodes_kept:
  assumes "unknown_ok R discard (fst ` set fs) bs"
    and "\<And>v w m. add v (add w m) = add (w @ v) m" and "\<And>m. add [] m = m" and "m' = add bs m"
  shows "decodes name fs (keep_unknown R discard add) bs m m'"
  using assms decodes_unknown [of R _ bs fs add name m]
  by (cases discard) (simp_all add: unknown_ok_def decodes_Nil)

lemma keep_unknown_moves_on: "runtime_ok R \<Longrightarrow> moves_on (keep_unknown R discard add)"
  by (fastforce simp: moves_on_def keep_unknown_def runtime_ok_def split: sum.splits if_splits dest!: index_add_le)

section \<open>Rules for the fields\<close>

lemma fields_return [simp]:
  "field_returns (string_field upd)" "field_returns (bytes_field bupd)" "field_returns (Varint vupd)"
  by (simp_all add: field_returns_def string_field_def bytes_field_def)

lemma message_fields_return:
  assumes "message_codec C enc ok"
  shows "field_returns (message_field C get upd)" "field_returns (messages_field C app)"
  using message_codec.returns [OF assms] by (simp_all add: field_returns_def message_field_def messages_field_def)

text \<open>The encodings of an embedded message and of a list of messages.\<close>

definition enc_api_message :: "byte \<Rightarrow> ('c \<Rightarrow> bytes) \<Rightarrow> 'c option \<Rightarrow> bytes" where
  "enc_api_message t e = enc_opt (\<lambda>y. enc_message t (e y))"

definition enc_api_messages :: "byte \<Rightarrow> ('c \<Rightarrow> bytes) \<Rightarrow> 'c option list \<Rightarrow> bytes" where
  "enc_api_messages t e xs = concat (map (\<lambda>x. enc_message t (e (the x))) xs)"

definition enc_api_strings :: "byte \<Rightarrow> string list \<Rightarrow> bytes" where
  "enc_api_strings t ss = concat (map (\<lambda>s. enc_message t (to_bytes s)) ss)"

definition ok_opt :: "('c \<Rightarrow> bool) \<Rightarrow> 'c option \<Rightarrow> bool" where
  "ok_opt P x = (case x of None \<Rightarrow> True | Some y \<Rightarrow> P y)"

definition ok_all :: "('c \<Rightarrow> bool) \<Rightarrow> 'c option list \<Rightarrow> bool" where
  "ok_all P = list_all (\<lambda>x. case x of None \<Rightarrow> False | Some y \<Rightarrow> P y)"

lemma runtime_okD:
  assumes "runtime_ok R"
  shows "Sov R = varint_len" and "varint_ok (EncodeVarint R)"
  using assms by (simp_all add: runtime_ok_def)

lemma length_api_fields:
  assumes "runtime_ok R" and "message_codec C e P"
  shows "ok_opt P x \<Longrightarrow> size_api_message R C x = length (enc_api_message t e x)"
    and "ok_all P xs \<Longrightarrow> size_api_messages R C xs = length (enc_api_messages t e xs)"
  subgoal
    by (cases x) (simp_all add: size_api_message_def enc_api_message_def size_opt_def ok_opt_def
        runtime_okD [OF assms(1)] message_codec.size_enc [OF assms(2)])
  subgoal
    by (induction xs) (auto simp: size_api_messages_def enc_api_messages_def ok_all_def
        runtime_okD [OF assms(1)] message_codec.size_enc [OF assms(2)] split: option.splits)
  done

lemma length_api_strings:
  "runtime_ok R \<Longrightarrow> size_api_strings R ss = length (enc_api_strings t ss)"
  by (induction ss) (simp_all add: size_api_strings_def enc_api_strings_def runtime_okD)

lemma writes_api_message:
  assumes "runtime_ok R" and "message_codec C e P" and "ok_opt P x"
  shows "writes (put_api_message R C t x) (enc_api_message t e x)"
  unfolding put_api_message_def enc_api_message_def
  by (intro writes_opt writes_encoded runtime_okD(2) assms(1) message_codec.marshal_enc [OF assms(2)])
    (use assms(3) in \<open>simp add: ok_opt_def\<close>)

lemma writes_api_messages:
  assumes "runtime_ok R" and "message_codec C e P" and "ok_all P xs"
  shows "writes (put_api_messages R C t xs) (enc_api_messages t e xs)"
  unfolding put_api_messages_def enc_api_messages_def
proof (intro writes_repeated writes_encoded runtime_okD(2) assms(1))
  fix x assume "x \<in> set xs"
  then obtain y where "x = Some y" "P y"
    using assms(3) by (auto simp: ok_all_def list_all_iff split: option.splits)
  then show "Marshal C x = Ok (e (the x))" using message_codec.marshal_enc [OF assms(2)] by simp
qed

lemma writes_api_strings:
  "runtime_ok R \<Longrightarrow> writes (put_api_strings R t ss) (enc_api_strings t ss)"
  unfolding put_api_strings_def enc_api_strings_def by (intro writes_repeated writes_element runtime_okD(2))

text \<open>What reading the encoding of a field does to a message.\<close>

lemma decodes_api_string:
  assumes "tag t 2" and "map_of fs (field_no t) = Some (n, string_field upd)" and "s = [] \<Longrightarrow> upd s m = m"
  shows "decodes name fs u (enc_string t (to_bytes s)) m (upd s m)"
proof (rule decodes_string)
  show "upd s m = m" if "to_bytes s = []" using that assms(3) by (simp add: to_bytes_def)
qed (use assms in \<open>simp_all add: read_into_def string_field_def\<close>)

lemma decodes_api_bytes:
  assumes "tag t 2" and "map_of fs (field_no t) = Some (n, bytes_field upd)" and "s = [] \<Longrightarrow> upd s m = m"
  shows "decodes name fs u (enc_string t s) m (upd s m)"
  by (rule decodes_string) (use assms in \<open>auto simp: read_into_def bytes_field_def\<close>)

lemma decodes_api_uint:
  assumes "tag t 0" and "map_of fs (field_no t) = Some (n, Varint upd)" and "v = 0 \<Longrightarrow> upd v m = m"
  shows "decodes name fs u (enc_uint t v) m (upd v m)"
  by (rule decodes_uint) (use assms in \<open>auto simp: read_number_def\<close>)

lemma decodes_api_message:
  assumes "message_codec C e P" and "ok_opt P x" and "length (enc_api_message t e x) < 2 ^ 63"
    and "tag t 2" and "map_of fs (field_no t) = Some (n, message_field C get upd)"
    and "get m = None" and "x = None \<Longrightarrow> upd x m = m"
  shows "decodes name fs u (enc_api_message t e x) m (upd x m)"
  unfolding enc_api_message_def
proof (rule decodes_opt)
  fix y assume x: "x = Some y"
  have "length (e y) < 2 ^ 63" using assms(3) x by (simp add: enc_api_message_def enc_opt_def enc_message_def)
  then have "Unmarshal C (e y) (Some (NewMessage C)) = Some (Inr (Some y))"
    using assms(2) x by (intro message_codec.decode_enc [OF assms(1)]) (simp add: ok_opt_def)
  then show "decodes name fs u (enc_message t (e y)) m (upd x m)"
    using assms(5,6) x by (intro decodes_message assms(4)) (simp add: read_into_def message_field_def)
qed (rule assms(7))

lemma decodes_api_messages:
  assumes "message_codec C e P" and "ok_all P xs" and "length (enc_api_messages t e xs) < 2 ^ 63"
    and "tag t 2" and "map_of fs (field_no t) = Some (n, messages_field C app)"
  shows "decodes name fs u (enc_api_messages t e xs) m (fold app xs m)"
  unfolding enc_api_messages_def
proof (rule decodes_repeated)
  fix x m assume x: "x \<in> set xs"
  then obtain y where y: "x = Some y" "P y"
    using assms(2) by (auto simp: ok_all_def list_all_iff split: option.splits)
  have "length (enc_message t (e y)) \<le> length (enc_api_messages t e xs)"
    using x y by (force simp: enc_api_messages_def length_concat o_def intro: member_le_sum_list)
  then have "length (e y) < 2 ^ 63" using assms(3) by (simp add: enc_message_def del: length_fields)
  then have "Unmarshal C (e y) (Some (NewMessage C)) = Some (Inr (Some y))"
    using y by (intro message_codec.decode_enc [OF assms(1)])
  then show "decodes name fs u (enc_message t (e (the x))) m (app x m)"
    using assms(5) y by (intro decodes_message assms(4)) (simp add: read_into_def messages_field_def)
qed

lemma decodes_api_strings:
  assumes "tag t 2" and "map_of fs (field_no t) = Some (n, string_field app)"
  shows "decodes name fs u (enc_api_strings t ss) m (fold app ss m)"
  unfolding enc_api_strings_def
  by (intro decodes_repeated decodes_message assms(1)) (use assms(2) in \<open>simp add: read_into_def string_field_def\<close>)

lemma empty_message_codec:
  assumes "runtime_ok R" and "\<And>v w m. add v (add w m) = add (w @ v) m" and "\<And>m. add [] m = m"
    and "\<And>m. add (get m) new = m"
  shows "message_codec (api_codec name (\<lambda>m. length (get m)) (\<lambda>m. put_bytes (get m)) []
    (keep_unknown R discard add) new) (\<lambda>m. get m) (\<lambda>m. unknown_ok R discard {} (get m))"
  by (rule api_message_codec)
    (simp_all add: writes_put_bytes keep_unknown_moves_on assms decodes_kept [OF _ assms(2,3)])

text \<open>An enum is sign-extended when it is written and truncated when it is read.\<close>

lemma enum_widen [simp]: "ucast (scast p :: u64) = (p :: 32 word)"
proof (rule bit_word_eqI)
  fix n assume "n < LENGTH(32)"
  then have "n < 31 \<or> n = 31" by auto
  then show "bit (ucast (scast p :: u64) :: 32 word) n = bit p n" by (auto simp: bit_simps min_def)
qed

text \<open>The runtime as the functions of \<open>*.pb.go\<close>, which do the same work, satisfy it.\<close>

definition pb_runtime :: runtime where
  "pb_runtime = \<lparr>Sov = sov, EncodeVarint = encodeVarint, Skip = (\<lambda>bz. map_sum id int (skip bz 0 0))\<rparr>"

lemma pb_runtime_ok: "runtime_ok pb_runtime"
  by (auto simp: runtime_ok_def pb_runtime_def sov_eq encodeVarint_ok map_sum_def split: sum.splits
      dest!: skip_progress)

end
