(* ===== verification/ChainWire.thy ===== *)
theory ChainWire
  imports TFGenesis WasmExt Pulsar
begin

text \<open>
  The codecs the chain uses: \<open>Size\<close>, \<open>MarshalToSizedBuffer\<close>, \<open>Marshal\<close> and \<open>Unmarshal\<close> of
  \<open>x/tokenfactory/types/*.pb.go\<close> and \<open>x/wasmextension/types/*.pb.go\<close>, on the messages that the
  handlers, the keeper and the genesis state work with.  Embedded messages are values rather than
  pointers here, unknown fields are dropped, and an embedded message is written in place.  The codecs
  of \<open>sdk.Coin\<close> and \<open>banktypes.Metadata\<close> belong to the SDK and are the argument \<open>X\<close>.
\<close>

section \<open>The methods of a message\<close>

record 'm pb_codec =
  pb_Size :: "'m \<Rightarrow> nat"
  pb_Put :: "'m \<Rightarrow> writer"
  pb_Unmarshal :: "bytes \<Rightarrow> 'm \<Rightarrow> (error + 'm) option"

definition pb_Marshal :: "'m pb_codec \<Rightarrow> 'm \<Rightarrow> bytes outcome" where
  "pb_Marshal C m = marshal (pb_Size C m) (pb_Put C m)"

definition chain_codec_of ::
  "string \<Rightarrow> ('m \<Rightarrow> nat) \<Rightarrow> ('m \<Rightarrow> writer) \<Rightarrow> (int \<times> string \<times> 'm field) list \<Rightarrow> 'm pb_codec" where
  "chain_codec_of name sz put fs =
    \<lparr>pb_Size = sz, pb_Put = put, pb_Unmarshal = (\<lambda>bz m. unmarshal_from name fs skip_field bz 0 m)\<rparr>"

text \<open>The cases of \<open>Unmarshal\<close>: a message by value, behind a pointer, and an element of a slice.\<close>

definition value_field :: "'c pb_codec \<Rightarrow> ('m \<Rightarrow> 'c) \<Rightarrow> ('c \<Rightarrow> 'm \<Rightarrow> 'm) \<Rightarrow> 'm field" where
  "value_field C get upd = Delimited (\<lambda>bz m. map_option (map_sum id (\<lambda>y. upd y m)) (pb_Unmarshal C bz (get m)))"

definition pointer_field ::
  "'c pb_codec \<Rightarrow> 'c \<Rightarrow> ('m \<Rightarrow> 'c option) \<Rightarrow> ('c option \<Rightarrow> 'm \<Rightarrow> 'm) \<Rightarrow> 'm field" where
  "pointer_field C zero get upd = Delimited (\<lambda>bz m. map_option (map_sum id (\<lambda>y. upd (Some y) m))
     (pb_Unmarshal C bz (case get m of None \<Rightarrow> zero | Some y \<Rightarrow> y)))"

definition values_field :: "'c pb_codec \<Rightarrow> 'c \<Rightarrow> ('c \<Rightarrow> 'm \<Rightarrow> 'm) \<Rightarrow> 'm field" where
  "values_field C zero app = Delimited (\<lambda>bz m. map_option (map_sum id (\<lambda>y. app y m)) (pb_Unmarshal C bz zero))"

text \<open>The elements of a slice that may be nil.\<close>

definition coins_of :: "'a list option \<Rightarrow> 'a list" where
  "coins_of xs = (case xs of None \<Rightarrow> [] | Some ys \<Rightarrow> ys)"

lemma coins_of_simps [simp]: "coins_of None = []" "coins_of (Some xs) = xs"
  by (simp_all add: coins_of_def)

section \<open>The contract of a codec\<close>

text \<open>
  The bytes \<open>enc\<close> of a message that satisfies \<open>ok\<close> are written in place, and reading them into a zero
  message gives \<open>norm m\<close>: what the encoding cannot tell apart, a nil slice and an empty one or a nil
  amount and zero, is read as one of the two.
\<close>

locale chain_codec =
  fixes C :: "'m pb_codec"
    and zero :: 'm
    and enc :: "'m \<Rightarrow> bytes"
    and ok :: "'m \<Rightarrow> bool"
    and norm :: "'m \<Rightarrow> 'm"
  assumes size_enc: "ok m \<Longrightarrow> pb_Size C m = length (enc m)"
    and put_enc: "ok m \<Longrightarrow> writes (pb_Put C m) (enc m)"
    and decode_enc: "ok m \<Longrightarrow> length (enc m) < 2 ^ 63 \<Longrightarrow> pb_Unmarshal C (enc m) zero = Some (Inr (norm m))"
    and returns: "pb_Unmarshal C bz m \<noteq> None"
begin

lemma marshal_enc: "ok m \<Longrightarrow> pb_Marshal C m = Ok (enc m)"
  by (simp add: pb_Marshal_def size_enc marshal_writes put_enc)

lemma reads_back:
  assumes "ok m" and "pb_Marshal C m = Ok bz" and "length bz < 2 ^ 63"
  shows "pb_Unmarshal C bz zero = Some (Inr (norm m))"
  using assms(2,3) decode_enc [OF assms(1)] by (simp add: marshal_enc [OF assms(1)])

end

lemma chain_codec_of_ok:
  assumes "\<And>m. ok m \<Longrightarrow> sz m = length (enc m)"
    and "\<And>m. ok m \<Longrightarrow> writes (put m) (enc m)"
    and "\<And>m. ok m \<Longrightarrow> length (enc m) < 2 ^ 63 \<Longrightarrow> decodes name fs skip_field (enc m) zero (norm m)"
    and "list_all (\<lambda>(_, _, f). field_returns f) fs"
  shows "chain_codec (chain_codec_of name sz put fs) zero enc ok norm"
  by unfold_locales
    (simp_all add: chain_codec_of_def assms unmarshal_decodes unmarshal_returns [OF skip_field_moves_on])

section \<open>Rules for the fields\<close>

lemma chain_fields_return:
  assumes "chain_codec C zero enc ok norm"
  shows "field_returns (value_field C get upd)" "field_returns (pointer_field C z pget pupd)"
    "field_returns (values_field C z app)"
  using chain_codec.returns [OF assms]
  by (simp_all add: field_returns_def value_field_def pointer_field_def values_field_def)

lemma all_True [simp]: "list_all (\<lambda>_. True) xs"
  by (simp add: list_all_iff)

lemma opt_True [simp]: "ok_opt (\<lambda>_. True) x"
  by (cases x) (simp_all add: ok_opt_def)

lemma size_values:
  assumes "chain_codec C zero enc ok norm"
  shows "list_all ok xs \<Longrightarrow> sum_list (map (\<lambda>e. size_message varint_len (pb_Size C e)) xs) =
    length (concat (map (\<lambda>e. enc_message t (enc e)) xs))"
  by (induction xs) (simp_all add: chain_codec.size_enc [OF assms])

lemma size_strings:
  "sum_list (map (\<lambda>s. size_message varint_len (length s)) ss) = length (enc_api_strings t ss)"
  by (induction ss) (simp_all add: enc_api_strings_def)

lemma writes_values:
  assumes "chain_codec C zero enc ok norm" and "list_all ok xs"
  shows "writes (put_repeated (\<lambda>e. put_message encodeVarint t (pb_Put C e)) xs)
    (concat (map (\<lambda>e. enc_message t (enc e)) xs))"
  using assms(2)
  by (intro writes_repeated writes_message encodeVarint_ok chain_codec.put_enc [OF assms(1)])
    (simp add: list_all_iff)

lemma writes_pointer:
  assumes "chain_codec C zero enc ok norm" and "ok_opt ok x"
  shows "writes (put_opt (\<lambda>y. put_message encodeVarint t (pb_Put C y)) x) (enc_opt (\<lambda>y. enc_message t (enc y)) x)"
  using assms(2)
  by (intro writes_opt writes_message encodeVarint_ok chain_codec.put_enc [OF assms(1)]) (simp add: ok_opt_def)

lemma writes_strings:
  "writes (put_repeated (\<lambda>s. put_element encodeVarint t (to_bytes s)) ss) (enc_api_strings t ss)"
  unfolding enc_api_strings_def by (intro writes_repeated writes_element encodeVarint_ok)

lemma decodes_value:
  assumes "chain_codec C zero e P norm" and "P x" and "length (enc_message t (e x)) < 2 ^ 63"
    and "tag t 2" and "map_of fs (field_no t) = Some (n, value_field C get upd)" and "get m = zero"
  shows "decodes name fs u (enc_message t (e x)) m (upd (norm x) m)"
proof -
  have "length (e x) < 2 ^ 63" using assms(3) by (simp add: enc_message_def del: length_fields)
  then have "pb_Unmarshal C (e x) zero = Some (Inr (norm x))"
    by (rule chain_codec.decode_enc [OF assms(1,2)])
  then show ?thesis
    using assms(5,6) by (intro decodes_message assms(4)) (simp add: read_into_def value_field_def)
qed

lemma decodes_pointer:
  assumes "chain_codec C zero e P norm" and "ok_opt P x" and "length (enc_opt (\<lambda>y. enc_message t (e y)) x) < 2 ^ 63"
    and "tag t 2" and "map_of fs (field_no t) = Some (n, pointer_field C zero get upd)"
    and "get m = None" and "x = None \<Longrightarrow> upd x m = m"
  shows "decodes name fs u (enc_opt (\<lambda>y. enc_message t (e y)) x) m (upd (map_option norm x) m)"
proof (rule decodes_opt)
  fix y assume x: "x = Some y"
  have "length (e y) < 2 ^ 63" using assms(3) x by (simp add: enc_opt_def enc_message_def)
  then have "pb_Unmarshal C (e y) zero = Some (Inr (norm y))"
    using assms(2) x by (intro chain_codec.decode_enc [OF assms(1)]) (simp add: ok_opt_def)
  then show "decodes name fs u (enc_message t (e y)) m (upd (map_option norm x) m)"
    using assms(5,6) x by (intro decodes_message assms(4)) (simp add: read_into_def pointer_field_def)
qed (use assms(7) in simp)

lemma decodes_values:
  assumes "chain_codec C zero e P norm" and "list_all P xs"
    and "length (concat (map (\<lambda>x. enc_message t (e x)) xs)) < 2 ^ 63"
    and "tag t 2" and "map_of fs (field_no t) = Some (n, values_field C zero app)"
  shows "decodes name fs u (concat (map (\<lambda>x. enc_message t (e x)) xs)) m (fold (\<lambda>x. app (norm x)) xs m)"
proof (rule decodes_repeated)
  fix x m assume x: "x \<in> set xs"
  have "length (enc_message t (e x)) \<le> length (concat (map (\<lambda>x. enc_message t (e x)) xs))"
    using x by (force simp: length_concat o_def intro: member_le_sum_list)
  then have "length (e x) < 2 ^ 63" using assms(3) by (simp add: enc_message_def del: length_fields)
  then have "pb_Unmarshal C (e x) zero = Some (Inr (norm x))"
    using x assms(2) by (intro chain_codec.decode_enc [OF assms(1)]) (simp_all add: list_all_iff)
  then show "decodes name fs u (enc_message t (e x)) m (app (norm x) m)"
    using assms(5) by (intro decodes_message assms(4)) (simp add: read_into_def values_field_def)
qed

text \<open>What decoding makes of a slice of coins: nil when there are none.\<close>

lemma fold_DenomCreationFee:
  "fold (\<lambda>x. (\<lambda>y m. m\<lparr>DenomCreationFee := Some (coins_of (DenomCreationFee m) @ [y])\<rparr>) (f x)) xs m =
     (if xs = [] then m else m\<lparr>DenomCreationFee := Some (coins_of (DenomCreationFee m) @ map f xs)\<rparr>)"
  by (induction xs arbitrary: m) simp_all

lemma fold_gs_FactoryDenoms:
  "fold (\<lambda>x. (\<lambda>y m. m\<lparr>gs_FactoryDenoms := gs_FactoryDenoms m @ [y]\<rparr>) (f x)) xs m =
     m\<lparr>gs_FactoryDenoms := gs_FactoryDenoms m @ map f xs\<rparr>"
  by (induction xs arbitrary: m) simp_all

section \<open>Messages of the SDK\<close>

record wire_ext =
  CoinCodec :: "Coin pb_codec"
  MetadataCodec :: "Metadata pb_codec"

definition zero_Coin :: Coin where
  "zero_Coin = \<lparr>coin_Denom = [], coin_Amount = None\<rparr>"

definition zero_Metadata :: Metadata where
  "zero_Metadata = \<lparr>Description = [], DenomUnits = [], Base = [], Display = [], Name = [],
     Symbol = [], URI = [], URIHash = []\<rparr>"

text \<open>
  Their bytes, and the values they are for.  The SDK's codecs follow the same scheme, and a nil amount
  is read as zero.
\<close>

record wire_laws =
  encCoin :: "Coin \<Rightarrow> bytes"
  okCoin :: "Coin \<Rightarrow> bool"
  encMetadata :: "Metadata \<Rightarrow> bytes"
  okMetadata :: "Metadata \<Rightarrow> bool"

definition wire_ext_ok :: "wire_ext \<Rightarrow> wire_laws \<Rightarrow> bool" where
  "wire_ext_ok X L \<longleftrightarrow>
     chain_codec (CoinCodec X) zero_Coin (encCoin L) (okCoin L) stored_coin \<and>
     chain_codec (MetadataCodec X) zero_Metadata (encMetadata L) (okMetadata L) (\<lambda>m. m)"

lemma wire_ext_okD:
  assumes "wire_ext_ok X L"
  shows "chain_codec (CoinCodec X) zero_Coin (encCoin L) (okCoin L) stored_coin"
    and "chain_codec (MetadataCodec X) zero_Metadata (encMetadata L) (okMetadata L) (\<lambda>m. m)"
  using assms by (simp_all add: wire_ext_ok_def)

section \<open>The messages\<close>

text \<open>
  For a message \<open>M\<close>: a new message, the bodies of \<open>Size\<close> and \<open>MarshalToSizedBuffer\<close>, the cases of
  \<open>Unmarshal\<close>, and the methods together; then its encoding and that the methods implement it.
\<close>


subsection \<open>DenomAuthorityMetadata\<close>

definition zero_DenomAuthorityMetadata :: DenomAuthorityMetadata where
  "zero_DenomAuthorityMetadata = \<lparr>Admin = ''''\<rparr>"

definition pb_size_DenomAuthorityMetadata :: "DenomAuthorityMetadata \<Rightarrow> nat" where
  "pb_size_DenomAuthorityMetadata m =
     size_string sov (to_bytes (Admin m))"

definition pb_put_DenomAuthorityMetadata :: "DenomAuthorityMetadata \<Rightarrow> writer" where
  "pb_put_DenomAuthorityMetadata m =
     put_string encodeVarint 0xa (to_bytes (Admin m))"

definition pb_fields_DenomAuthorityMetadata :: "(int \<times> string \<times> DenomAuthorityMetadata field) list" where
  "pb_fields_DenomAuthorityMetadata =
    [(1, ''Admin'', string_field (\<lambda>s m. m\<lparr>Admin := s\<rparr>))]"

definition pb_DenomAuthorityMetadata :: "DenomAuthorityMetadata pb_codec" where
  "pb_DenomAuthorityMetadata = chain_codec_of ''DenomAuthorityMetadata'' (pb_size_DenomAuthorityMetadata) (pb_put_DenomAuthorityMetadata) (pb_fields_DenomAuthorityMetadata)"

definition pb_enc_DenomAuthorityMetadata :: "DenomAuthorityMetadata \<Rightarrow> bytes" where
  "pb_enc_DenomAuthorityMetadata m =
     enc_string 0xa (to_bytes (Admin m))"

lemma pb_lookup_DenomAuthorityMetadata:
  "map_of pb_fields_DenomAuthorityMetadata (field_no 0xa) = Some (''Admin'', string_field (\<lambda>s m. m\<lparr>Admin := s\<rparr>))"
  by (simp_all add: pb_fields_DenomAuthorityMetadata_def)

lemma pb_DenomAuthorityMetadata_codec:
  shows "chain_codec pb_DenomAuthorityMetadata zero_DenomAuthorityMetadata pb_enc_DenomAuthorityMetadata (\<lambda>_. True) (\<lambda>m. m)"
proof -
  show ?thesis
    unfolding pb_DenomAuthorityMetadata_def
    apply (rule chain_codec_of_ok)
    subgoal for m
      by (simp add: pb_size_DenomAuthorityMetadata_def pb_enc_DenomAuthorityMetadata_def sov_eq)
    subgoal for m
      unfolding pb_put_DenomAuthorityMetadata_def pb_enc_DenomAuthorityMetadata_def
      by (rule writes_eq [OF writes_string [OF encodeVarint_ok]])
        (auto simp: option.case_eq_if)
    subgoal for m
      unfolding pb_enc_DenomAuthorityMetadata_def
      by (rule decodes_eq [OF decodes_api_string [OF tags(3) pb_lookup_DenomAuthorityMetadata]])
        (auto simp: zero_DenomAuthorityMetadata_def ok_opt_def option.map_ident split: option.splits list.splits)
    by (simp add: pb_fields_DenomAuthorityMetadata_def)
qed

interpretation pb_DenomAuthorityMetadata: chain_codec pb_DenomAuthorityMetadata zero_DenomAuthorityMetadata pb_enc_DenomAuthorityMetadata "\<lambda>_. True" "\<lambda>m. m"
  by (rule pb_DenomAuthorityMetadata_codec)

subsection \<open>Params\<close>

definition zero_Params :: Params where
  "zero_Params = \<lparr>DenomCreationFee = None, DenomCreationGasConsume = 0\<rparr>"

definition pb_size_Params :: "wire_ext \<Rightarrow> Params \<Rightarrow> nat" where
  "pb_size_Params X m =
     sum_list (map (\<lambda>e. size_message sov (pb_Size (CoinCodec X) e)) (coins_of (DenomCreationFee m))) +
     size_uint sov (DenomCreationGasConsume m)"

definition pb_put_Params :: "wire_ext \<Rightarrow> Params \<Rightarrow> writer" where
  "pb_put_Params X m =
     andThen (put_uint encodeVarint 0x10 (DenomCreationGasConsume m)) (\<lambda>_.
     put_repeated (\<lambda>e. put_message encodeVarint 0xa (pb_Put (CoinCodec X) e)) (coins_of (DenomCreationFee m)))"

definition pb_fields_Params :: "wire_ext \<Rightarrow> (int \<times> string \<times> Params field) list" where
  "pb_fields_Params X =
    [(1, ''DenomCreationFee'', values_field (CoinCodec X) zero_Coin
       (\<lambda>y m. m\<lparr>DenomCreationFee := Some (coins_of (DenomCreationFee m) @ [y])\<rparr>)),
     (2, ''DenomCreationGasConsume'', Varint (\<lambda>v m. m\<lparr>DenomCreationGasConsume := v\<rparr>))]"

definition pb_Params :: "wire_ext \<Rightarrow> Params pb_codec" where
  "pb_Params X = chain_codec_of ''Params'' (pb_size_Params X) (pb_put_Params X) (pb_fields_Params X)"

definition pb_enc_Params :: "wire_laws \<Rightarrow> Params \<Rightarrow> bytes" where
  "pb_enc_Params L m =
     concat (map (\<lambda>e. enc_message 0xa ((encCoin L) e)) (coins_of (DenomCreationFee m))) @
     enc_uint 0x10 (DenomCreationGasConsume m)"

definition pb_ok_Params :: "wire_laws \<Rightarrow> Params \<Rightarrow> bool" where
  "pb_ok_Params L m \<longleftrightarrow> list_all (okCoin L) (coins_of (DenomCreationFee m))"

lemma pb_lookup_Params:
  "map_of (pb_fields_Params X) (field_no 0xa) = Some (''DenomCreationFee'', values_field (CoinCodec X) zero_Coin
       (\<lambda>y m. m\<lparr>DenomCreationFee := Some (coins_of (DenomCreationFee m) @ [y])\<rparr>))"
  "map_of (pb_fields_Params X) (field_no 0x10) = Some (''DenomCreationGasConsume'', Varint (\<lambda>v m. m\<lparr>DenomCreationGasConsume := v\<rparr>))"
  by (simp_all add: pb_fields_Params_def)

lemma pb_Params_codec:
  assumes L: "wire_ext_ok X L"
  shows "chain_codec (pb_Params X) zero_Params (pb_enc_Params L) (pb_ok_Params L) stored_params"
proof -
  note cCoin = wire_ext_okD(1) [OF L]
  show ?thesis
    unfolding pb_Params_def
    apply (rule chain_codec_of_ok)
    subgoal for m
      by (simp add: pb_ok_Params_def pb_size_Params_def pb_enc_Params_def sov_eq
          size_values [OF cCoin, where t = "0xa"])
    subgoal for m
      unfolding pb_put_Params_def pb_enc_Params_def pb_ok_Params_def
      by (rule writes_eq [OF writes_andThen [OF writes_uint [OF encodeVarint_ok]
          writes_values [OF cCoin]]])
        (auto simp: option.case_eq_if)
    subgoal for m
      unfolding pb_enc_Params_def pb_ok_Params_def
      by (rule decodes_eq [OF decodes_append [OF decodes_values [OF cCoin _ _ tags(3) pb_lookup_Params(1)]
          decodes_api_uint [OF tags(2) pb_lookup_Params(2)]]])
        (auto simp: zero_Params_def stored_params_def fold_DenomCreationFee ok_opt_def option.map_ident split: option.splits list.splits)
    by (simp add: pb_fields_Params_def
        chain_fields_return [OF cCoin])
qed

subsection \<open>GenesisDenom\<close>

definition zero_GenesisDenom :: GenesisDenom where
  "zero_GenesisDenom = \<lparr>gd_Denom = '''', gd_AuthorityMetadata = zero_DenomAuthorityMetadata\<rparr>"

definition pb_size_GenesisDenom :: "GenesisDenom \<Rightarrow> nat" where
  "pb_size_GenesisDenom m =
     size_string sov (to_bytes (gd_Denom m)) +
     size_message sov (pb_Size pb_DenomAuthorityMetadata (gd_AuthorityMetadata m))"

definition pb_put_GenesisDenom :: "GenesisDenom \<Rightarrow> writer" where
  "pb_put_GenesisDenom m =
     andThen (put_message encodeVarint 0x12 (pb_Put pb_DenomAuthorityMetadata (gd_AuthorityMetadata m))) (\<lambda>_.
     put_string encodeVarint 0xa (to_bytes (gd_Denom m)))"

definition pb_fields_GenesisDenom :: "(int \<times> string \<times> GenesisDenom field) list" where
  "pb_fields_GenesisDenom =
    [(1, ''Denom'', string_field (\<lambda>s m. m\<lparr>gd_Denom := s\<rparr>)),
     (2, ''AuthorityMetadata'', value_field pb_DenomAuthorityMetadata gd_AuthorityMetadata (\<lambda>y m. m\<lparr>gd_AuthorityMetadata := y\<rparr>))]"

definition pb_GenesisDenom :: "GenesisDenom pb_codec" where
  "pb_GenesisDenom = chain_codec_of ''GenesisDenom'' (pb_size_GenesisDenom) (pb_put_GenesisDenom) (pb_fields_GenesisDenom)"

definition pb_enc_GenesisDenom :: "GenesisDenom \<Rightarrow> bytes" where
  "pb_enc_GenesisDenom m =
     enc_string 0xa (to_bytes (gd_Denom m)) @
     enc_message 0x12 (pb_enc_DenomAuthorityMetadata (gd_AuthorityMetadata m))"

lemma pb_lookup_GenesisDenom:
  "map_of pb_fields_GenesisDenom (field_no 0xa) = Some (''Denom'', string_field (\<lambda>s m. m\<lparr>gd_Denom := s\<rparr>))"
  "map_of pb_fields_GenesisDenom (field_no 0x12) = Some (''AuthorityMetadata'', value_field pb_DenomAuthorityMetadata gd_AuthorityMetadata (\<lambda>y m. m\<lparr>gd_AuthorityMetadata := y\<rparr>))"
  by (simp_all add: pb_fields_GenesisDenom_def)

lemma pb_GenesisDenom_codec:
  shows "chain_codec pb_GenesisDenom zero_GenesisDenom pb_enc_GenesisDenom (\<lambda>_. True) (\<lambda>m. m)"
proof -
  note cDenomAuthorityMetadata = pb_DenomAuthorityMetadata_codec
  show ?thesis
    unfolding pb_GenesisDenom_def
    apply (rule chain_codec_of_ok)
    subgoal for m
      by (simp add: pb_size_GenesisDenom_def pb_enc_GenesisDenom_def sov_eq
          chain_codec.size_enc [OF cDenomAuthorityMetadata])
    subgoal for m
      unfolding pb_put_GenesisDenom_def pb_enc_GenesisDenom_def
      by (rule writes_eq [OF writes_andThen [OF writes_message [OF encodeVarint_ok chain_codec.put_enc [OF cDenomAuthorityMetadata]]
          writes_string [OF encodeVarint_ok]]])
        (auto simp: option.case_eq_if)
    subgoal for m
      unfolding pb_enc_GenesisDenom_def
      by (rule decodes_eq [OF decodes_append [OF decodes_api_string [OF tags(3) pb_lookup_GenesisDenom(1)]
          decodes_value [OF cDenomAuthorityMetadata _ _ tags(4) pb_lookup_GenesisDenom(2)]]])
        (auto simp: zero_GenesisDenom_def ok_opt_def option.map_ident split: option.splits list.splits)
    by (simp add: pb_fields_GenesisDenom_def
        chain_fields_return [OF cDenomAuthorityMetadata])
qed

interpretation pb_GenesisDenom: chain_codec pb_GenesisDenom zero_GenesisDenom pb_enc_GenesisDenom "\<lambda>_. True" "\<lambda>m. m"
  by (rule pb_GenesisDenom_codec)

subsection \<open>GenesisState\<close>

definition zero_GenesisState :: GenesisState where
  "zero_GenesisState = \<lparr>gs_Params = zero_Params, gs_FactoryDenoms = []\<rparr>"

definition pb_size_GenesisState :: "wire_ext \<Rightarrow> GenesisState \<Rightarrow> nat" where
  "pb_size_GenesisState X m =
     size_message sov (pb_Size (pb_Params X) (gs_Params m)) +
     sum_list (map (\<lambda>e. size_message sov (pb_Size pb_GenesisDenom e)) (gs_FactoryDenoms m))"

definition pb_put_GenesisState :: "wire_ext \<Rightarrow> GenesisState \<Rightarrow> writer" where
  "pb_put_GenesisState X m =
     andThen (put_repeated (\<lambda>e. put_message encodeVarint 0x12 (pb_Put pb_GenesisDenom e)) (gs_FactoryDenoms m)) (\<lambda>_.
     put_message encodeVarint 0xa (pb_Put (pb_Params X) (gs_Params m)))"

definition pb_fields_GenesisState :: "wire_ext \<Rightarrow> (int \<times> string \<times> GenesisState field) list" where
  "pb_fields_GenesisState X =
    [(1, ''Params'', value_field (pb_Params X) gs_Params (\<lambda>y m. m\<lparr>gs_Params := y\<rparr>)),
     (2, ''FactoryDenoms'', values_field pb_GenesisDenom zero_GenesisDenom
       (\<lambda>y m. m\<lparr>gs_FactoryDenoms := gs_FactoryDenoms m @ [y]\<rparr>))]"

definition pb_GenesisState :: "wire_ext \<Rightarrow> GenesisState pb_codec" where
  "pb_GenesisState X = chain_codec_of ''GenesisState'' (pb_size_GenesisState X) (pb_put_GenesisState X) (pb_fields_GenesisState X)"

definition pb_enc_GenesisState :: "wire_laws \<Rightarrow> GenesisState \<Rightarrow> bytes" where
  "pb_enc_GenesisState L m =
     enc_message 0xa (pb_enc_Params L (gs_Params m)) @
     concat (map (\<lambda>e. enc_message 0x12 (pb_enc_GenesisDenom e)) (gs_FactoryDenoms m))"

definition pb_ok_GenesisState :: "wire_laws \<Rightarrow> GenesisState \<Rightarrow> bool" where
  "pb_ok_GenesisState L m \<longleftrightarrow> pb_ok_Params L (gs_Params m)"

definition pb_norm_GenesisState :: "GenesisState \<Rightarrow> GenesisState" where
  "pb_norm_GenesisState m = m\<lparr>gs_Params := stored_params (gs_Params m)\<rparr>"

lemma pb_lookup_GenesisState:
  "map_of (pb_fields_GenesisState X) (field_no 0xa) = Some (''Params'', value_field (pb_Params X) gs_Params (\<lambda>y m. m\<lparr>gs_Params := y\<rparr>))"
  "map_of (pb_fields_GenesisState X) (field_no 0x12) = Some (''FactoryDenoms'', values_field pb_GenesisDenom zero_GenesisDenom
       (\<lambda>y m. m\<lparr>gs_FactoryDenoms := gs_FactoryDenoms m @ [y]\<rparr>))"
  by (simp_all add: pb_fields_GenesisState_def)

lemma pb_GenesisState_codec:
  assumes L: "wire_ext_ok X L"
  shows "chain_codec (pb_GenesisState X) zero_GenesisState (pb_enc_GenesisState L) (pb_ok_GenesisState L) pb_norm_GenesisState"
proof -
  note cParams = pb_Params_codec [OF L]
  note cGenesisDenom = pb_GenesisDenom_codec
  show ?thesis
    unfolding pb_GenesisState_def
    apply (rule chain_codec_of_ok)
    subgoal for m
      by (simp add: pb_ok_GenesisState_def pb_size_GenesisState_def pb_enc_GenesisState_def sov_eq
          chain_codec.size_enc [OF cParams]
          size_values [OF cGenesisDenom, where t = "0x12"])
    subgoal for m
      unfolding pb_put_GenesisState_def pb_enc_GenesisState_def pb_ok_GenesisState_def
      by (rule writes_eq [OF writes_andThen [OF writes_values [OF cGenesisDenom]
          writes_message [OF encodeVarint_ok chain_codec.put_enc [OF cParams]]]])
        (auto simp: option.case_eq_if)
    subgoal for m
      unfolding pb_enc_GenesisState_def pb_ok_GenesisState_def
      by (rule decodes_eq [OF decodes_append [OF decodes_value [OF cParams _ _ tags(3) pb_lookup_GenesisState(1)]
          decodes_values [OF cGenesisDenom _ _ tags(4) pb_lookup_GenesisState(2)]]])
        (auto simp: zero_GenesisState_def pb_norm_GenesisState_def fold_gs_FactoryDenoms ok_opt_def option.map_ident split: option.splits list.splits)
    by (simp add: pb_fields_GenesisState_def
        chain_fields_return [OF cParams]
        chain_fields_return [OF cGenesisDenom])
qed

end
