(* ===== verification/ChainMsgs.thy ===== *)
theory ChainMsgs
  imports ChainWire
begin

text \<open>
  The codecs of the messages and queries of \<open>tx.pb.go\<close> and \<open>query.pb.go\<close> of the token factory and of
  \<open>types.pb.go\<close> and \<open>tx.pb.go\<close> of the wasm extension, in the scheme of \<open>ChainWire\<close>.
\<close>

subsection \<open>MsgCreateDenom\<close>

definition zero_MsgCreateDenom :: MsgCreateDenom where
  "zero_MsgCreateDenom = \<lparr>cd_Sender = '''', cd_Subdenom = ''''\<rparr>"

definition pb_size_MsgCreateDenom :: "MsgCreateDenom \<Rightarrow> nat" where
  "pb_size_MsgCreateDenom m =
     size_string sov (to_bytes (cd_Sender m)) +
     size_string sov (to_bytes (cd_Subdenom m))"

definition pb_put_MsgCreateDenom :: "MsgCreateDenom \<Rightarrow> writer" where
  "pb_put_MsgCreateDenom m =
     andThen (put_string encodeVarint 0x12 (to_bytes (cd_Subdenom m))) (\<lambda>_.
     put_string encodeVarint 0xa (to_bytes (cd_Sender m)))"

definition pb_fields_MsgCreateDenom :: "(int \<times> string \<times> MsgCreateDenom field) list" where
  "pb_fields_MsgCreateDenom =
    [(1, ''Sender'', string_field (\<lambda>s m. m\<lparr>cd_Sender := s\<rparr>)),
     (2, ''Subdenom'', string_field (\<lambda>s m. m\<lparr>cd_Subdenom := s\<rparr>))]"

definition pb_MsgCreateDenom :: "MsgCreateDenom pb_codec" where
  "pb_MsgCreateDenom = chain_codec_of ''MsgCreateDenom'' (pb_size_MsgCreateDenom) (pb_put_MsgCreateDenom) (pb_fields_MsgCreateDenom)"

definition pb_enc_MsgCreateDenom :: "MsgCreateDenom \<Rightarrow> bytes" where
  "pb_enc_MsgCreateDenom m =
     enc_string 0xa (to_bytes (cd_Sender m)) @
     enc_string 0x12 (to_bytes (cd_Subdenom m))"

lemma pb_lookup_MsgCreateDenom:
  "map_of pb_fields_MsgCreateDenom (field_no 0xa) = Some (''Sender'', string_field (\<lambda>s m. m\<lparr>cd_Sender := s\<rparr>))"
  "map_of pb_fields_MsgCreateDenom (field_no 0x12) = Some (''Subdenom'', string_field (\<lambda>s m. m\<lparr>cd_Subdenom := s\<rparr>))"
  by (simp_all add: pb_fields_MsgCreateDenom_def)

lemma pb_MsgCreateDenom_codec:
  shows "chain_codec pb_MsgCreateDenom zero_MsgCreateDenom pb_enc_MsgCreateDenom (\<lambda>_. True) (\<lambda>m. m)"
proof -
  show ?thesis
    unfolding pb_MsgCreateDenom_def
    apply (rule chain_codec_of_ok)
    subgoal for m
      by (simp add: pb_size_MsgCreateDenom_def pb_enc_MsgCreateDenom_def sov_eq)
    subgoal for m
      unfolding pb_put_MsgCreateDenom_def pb_enc_MsgCreateDenom_def
      by (rule writes_eq [OF writes_andThen [OF writes_string [OF encodeVarint_ok]
          writes_string [OF encodeVarint_ok]]])
        (auto simp: option.case_eq_if)
    subgoal for m
      unfolding pb_enc_MsgCreateDenom_def
      by (rule decodes_eq [OF decodes_append [OF decodes_api_string [OF tags(3) pb_lookup_MsgCreateDenom(1)]
          decodes_api_string [OF tags(4) pb_lookup_MsgCreateDenom(2)]]])
        (auto simp: zero_MsgCreateDenom_def ok_opt_def option.map_ident split: option.splits list.splits)
    by (simp add: pb_fields_MsgCreateDenom_def)
qed

interpretation pb_MsgCreateDenom: chain_codec pb_MsgCreateDenom zero_MsgCreateDenom pb_enc_MsgCreateDenom "\<lambda>_. True" "\<lambda>m. m"
  by (rule pb_MsgCreateDenom_codec)

subsection \<open>MsgMint\<close>

definition zero_MsgMint :: MsgMint where
  "zero_MsgMint = \<lparr>mint_Sender = '''', mint_Amount = zero_Coin, MintToAddress = ''''\<rparr>"

definition pb_size_MsgMint :: "wire_ext \<Rightarrow> MsgMint \<Rightarrow> nat" where
  "pb_size_MsgMint X m =
     size_string sov (to_bytes (mint_Sender m)) +
     size_message sov (pb_Size (CoinCodec X) (mint_Amount m)) +
     size_string sov (to_bytes (MintToAddress m))"

definition pb_put_MsgMint :: "wire_ext \<Rightarrow> MsgMint \<Rightarrow> writer" where
  "pb_put_MsgMint X m =
     andThen (put_string encodeVarint 0x1a (to_bytes (MintToAddress m))) (\<lambda>_.
     andThen (put_message encodeVarint 0x12 (pb_Put (CoinCodec X) (mint_Amount m))) (\<lambda>_.
     put_string encodeVarint 0xa (to_bytes (mint_Sender m))))"

definition pb_fields_MsgMint :: "wire_ext \<Rightarrow> (int \<times> string \<times> MsgMint field) list" where
  "pb_fields_MsgMint X =
    [(1, ''Sender'', string_field (\<lambda>s m. m\<lparr>mint_Sender := s\<rparr>)),
     (2, ''Amount'', value_field (CoinCodec X) mint_Amount (\<lambda>y m. m\<lparr>mint_Amount := y\<rparr>)),
     (3, ''MintToAddress'', string_field (\<lambda>s m. m\<lparr>MintToAddress := s\<rparr>))]"

definition pb_MsgMint :: "wire_ext \<Rightarrow> MsgMint pb_codec" where
  "pb_MsgMint X = chain_codec_of ''MsgMint'' (pb_size_MsgMint X) (pb_put_MsgMint X) (pb_fields_MsgMint X)"

definition pb_enc_MsgMint :: "wire_laws \<Rightarrow> MsgMint \<Rightarrow> bytes" where
  "pb_enc_MsgMint L m =
     enc_string 0xa (to_bytes (mint_Sender m)) @
     enc_message 0x12 (encCoin L (mint_Amount m)) @
     enc_string 0x1a (to_bytes (MintToAddress m))"

definition pb_ok_MsgMint :: "wire_laws \<Rightarrow> MsgMint \<Rightarrow> bool" where
  "pb_ok_MsgMint L m \<longleftrightarrow> okCoin L (mint_Amount m)"

definition pb_norm_MsgMint :: "MsgMint \<Rightarrow> MsgMint" where
  "pb_norm_MsgMint m = m\<lparr>mint_Amount := stored_coin (mint_Amount m)\<rparr>"

lemma pb_lookup_MsgMint:
  "map_of (pb_fields_MsgMint X) (field_no 0xa) = Some (''Sender'', string_field (\<lambda>s m. m\<lparr>mint_Sender := s\<rparr>))"
  "map_of (pb_fields_MsgMint X) (field_no 0x12) = Some (''Amount'', value_field (CoinCodec X) mint_Amount (\<lambda>y m. m\<lparr>mint_Amount := y\<rparr>))"
  "map_of (pb_fields_MsgMint X) (field_no 0x1a) = Some (''MintToAddress'', string_field (\<lambda>s m. m\<lparr>MintToAddress := s\<rparr>))"
  by (simp_all add: pb_fields_MsgMint_def)

lemma pb_MsgMint_codec:
  assumes L: "wire_ext_ok X L"
  shows "chain_codec (pb_MsgMint X) zero_MsgMint (pb_enc_MsgMint L) (pb_ok_MsgMint L) pb_norm_MsgMint"
proof -
  note cCoin = wire_ext_okD(1) [OF L]
  show ?thesis
    unfolding pb_MsgMint_def
    apply (rule chain_codec_of_ok)
    subgoal for m
      by (simp add: pb_ok_MsgMint_def pb_size_MsgMint_def pb_enc_MsgMint_def sov_eq
          chain_codec.size_enc [OF cCoin])
    subgoal for m
      unfolding pb_put_MsgMint_def pb_enc_MsgMint_def pb_ok_MsgMint_def
      by (rule writes_eq [OF writes_andThen [OF writes_string [OF encodeVarint_ok]
          writes_andThen [OF writes_message [OF encodeVarint_ok chain_codec.put_enc [OF cCoin]]
          writes_string [OF encodeVarint_ok]]]])
        (auto simp: option.case_eq_if)
    subgoal for m
      unfolding pb_enc_MsgMint_def pb_ok_MsgMint_def
      by (rule decodes_eq [OF decodes_append [OF decodes_api_string [OF tags(3) pb_lookup_MsgMint(1)]
          decodes_append [OF decodes_value [OF cCoin _ _ tags(4) pb_lookup_MsgMint(2)]
          decodes_api_string [OF tags(5) pb_lookup_MsgMint(3)]]]])
        (auto simp: zero_MsgMint_def pb_norm_MsgMint_def ok_opt_def option.map_ident split: option.splits list.splits)
    by (simp add: pb_fields_MsgMint_def
        chain_fields_return [OF cCoin])
qed

subsection \<open>MsgBurn\<close>

definition zero_MsgBurn :: MsgBurn where
  "zero_MsgBurn = \<lparr>burn_Sender = '''', burn_Amount = zero_Coin\<rparr>"

definition pb_size_MsgBurn :: "wire_ext \<Rightarrow> MsgBurn \<Rightarrow> nat" where
  "pb_size_MsgBurn X m =
     size_string sov (to_bytes (burn_Sender m)) +
     size_message sov (pb_Size (CoinCodec X) (burn_Amount m))"

definition pb_put_MsgBurn :: "wire_ext \<Rightarrow> MsgBurn \<Rightarrow> writer" where
  "pb_put_MsgBurn X m =
     andThen (put_message encodeVarint 0x12 (pb_Put (CoinCodec X) (burn_Amount m))) (\<lambda>_.
     put_string encodeVarint 0xa (to_bytes (burn_Sender m)))"

definition pb_fields_MsgBurn :: "wire_ext \<Rightarrow> (int \<times> string \<times> MsgBurn field) list" where
  "pb_fields_MsgBurn X =
    [(1, ''Sender'', string_field (\<lambda>s m. m\<lparr>burn_Sender := s\<rparr>)),
     (2, ''Amount'', value_field (CoinCodec X) burn_Amount (\<lambda>y m. m\<lparr>burn_Amount := y\<rparr>))]"

definition pb_MsgBurn :: "wire_ext \<Rightarrow> MsgBurn pb_codec" where
  "pb_MsgBurn X = chain_codec_of ''MsgBurn'' (pb_size_MsgBurn X) (pb_put_MsgBurn X) (pb_fields_MsgBurn X)"

definition pb_enc_MsgBurn :: "wire_laws \<Rightarrow> MsgBurn \<Rightarrow> bytes" where
  "pb_enc_MsgBurn L m =
     enc_string 0xa (to_bytes (burn_Sender m)) @
     enc_message 0x12 (encCoin L (burn_Amount m))"

definition pb_ok_MsgBurn :: "wire_laws \<Rightarrow> MsgBurn \<Rightarrow> bool" where
  "pb_ok_MsgBurn L m \<longleftrightarrow> okCoin L (burn_Amount m)"

definition pb_norm_MsgBurn :: "MsgBurn \<Rightarrow> MsgBurn" where
  "pb_norm_MsgBurn m = m\<lparr>burn_Amount := stored_coin (burn_Amount m)\<rparr>"

lemma pb_lookup_MsgBurn:
  "map_of (pb_fields_MsgBurn X) (field_no 0xa) = Some (''Sender'', string_field (\<lambda>s m. m\<lparr>burn_Sender := s\<rparr>))"
  "map_of (pb_fields_MsgBurn X) (field_no 0x12) = Some (''Amount'', value_field (CoinCodec X) burn_Amount (\<lambda>y m. m\<lparr>burn_Amount := y\<rparr>))"
  by (simp_all add: pb_fields_MsgBurn_def)

lemma pb_MsgBurn_codec:
  assumes L: "wire_ext_ok X L"
  shows "chain_codec (pb_MsgBurn X) zero_MsgBurn (pb_enc_MsgBurn L) (pb_ok_MsgBurn L) pb_norm_MsgBurn"
proof -
  note cCoin = wire_ext_okD(1) [OF L]
  show ?thesis
    unfolding pb_MsgBurn_def
    apply (rule chain_codec_of_ok)
    subgoal for m
      by (simp add: pb_ok_MsgBurn_def pb_size_MsgBurn_def pb_enc_MsgBurn_def sov_eq
          chain_codec.size_enc [OF cCoin])
    subgoal for m
      unfolding pb_put_MsgBurn_def pb_enc_MsgBurn_def pb_ok_MsgBurn_def
      by (rule writes_eq [OF writes_andThen [OF writes_message [OF encodeVarint_ok chain_codec.put_enc [OF cCoin]]
          writes_string [OF encodeVarint_ok]]])
        (auto simp: option.case_eq_if)
    subgoal for m
      unfolding pb_enc_MsgBurn_def pb_ok_MsgBurn_def
      by (rule decodes_eq [OF decodes_append [OF decodes_api_string [OF tags(3) pb_lookup_MsgBurn(1)]
          decodes_value [OF cCoin _ _ tags(4) pb_lookup_MsgBurn(2)]]])
        (auto simp: zero_MsgBurn_def pb_norm_MsgBurn_def ok_opt_def option.map_ident split: option.splits list.splits)
    by (simp add: pb_fields_MsgBurn_def
        chain_fields_return [OF cCoin])
qed

subsection \<open>MsgChangeAdmin\<close>

definition zero_MsgChangeAdmin :: MsgChangeAdmin where
  "zero_MsgChangeAdmin = \<lparr>ca_Sender = '''', ca_Denom = '''', NewAdmin = ''''\<rparr>"

definition pb_size_MsgChangeAdmin :: "MsgChangeAdmin \<Rightarrow> nat" where
  "pb_size_MsgChangeAdmin m =
     size_string sov (to_bytes (ca_Sender m)) +
     size_string sov (to_bytes (ca_Denom m)) +
     size_string sov (to_bytes (NewAdmin m))"

definition pb_put_MsgChangeAdmin :: "MsgChangeAdmin \<Rightarrow> writer" where
  "pb_put_MsgChangeAdmin m =
     andThen (put_string encodeVarint 0x1a (to_bytes (NewAdmin m))) (\<lambda>_.
     andThen (put_string encodeVarint 0x12 (to_bytes (ca_Denom m))) (\<lambda>_.
     put_string encodeVarint 0xa (to_bytes (ca_Sender m))))"

definition pb_fields_MsgChangeAdmin :: "(int \<times> string \<times> MsgChangeAdmin field) list" where
  "pb_fields_MsgChangeAdmin =
    [(1, ''Sender'', string_field (\<lambda>s m. m\<lparr>ca_Sender := s\<rparr>)),
     (2, ''Denom'', string_field (\<lambda>s m. m\<lparr>ca_Denom := s\<rparr>)),
     (3, ''NewAdmin'', string_field (\<lambda>s m. m\<lparr>NewAdmin := s\<rparr>))]"

definition pb_MsgChangeAdmin :: "MsgChangeAdmin pb_codec" where
  "pb_MsgChangeAdmin = chain_codec_of ''MsgChangeAdmin'' (pb_size_MsgChangeAdmin) (pb_put_MsgChangeAdmin) (pb_fields_MsgChangeAdmin)"

definition pb_enc_MsgChangeAdmin :: "MsgChangeAdmin \<Rightarrow> bytes" where
  "pb_enc_MsgChangeAdmin m =
     enc_string 0xa (to_bytes (ca_Sender m)) @
     enc_string 0x12 (to_bytes (ca_Denom m)) @
     enc_string 0x1a (to_bytes (NewAdmin m))"

lemma pb_lookup_MsgChangeAdmin:
  "map_of pb_fields_MsgChangeAdmin (field_no 0xa) = Some (''Sender'', string_field (\<lambda>s m. m\<lparr>ca_Sender := s\<rparr>))"
  "map_of pb_fields_MsgChangeAdmin (field_no 0x12) = Some (''Denom'', string_field (\<lambda>s m. m\<lparr>ca_Denom := s\<rparr>))"
  "map_of pb_fields_MsgChangeAdmin (field_no 0x1a) = Some (''NewAdmin'', string_field (\<lambda>s m. m\<lparr>NewAdmin := s\<rparr>))"
  by (simp_all add: pb_fields_MsgChangeAdmin_def)

lemma pb_MsgChangeAdmin_codec:
  shows "chain_codec pb_MsgChangeAdmin zero_MsgChangeAdmin pb_enc_MsgChangeAdmin (\<lambda>_. True) (\<lambda>m. m)"
proof -
  show ?thesis
    unfolding pb_MsgChangeAdmin_def
    apply (rule chain_codec_of_ok)
    subgoal for m
      by (simp add: pb_size_MsgChangeAdmin_def pb_enc_MsgChangeAdmin_def sov_eq)
    subgoal for m
      unfolding pb_put_MsgChangeAdmin_def pb_enc_MsgChangeAdmin_def
      by (rule writes_eq [OF writes_andThen [OF writes_string [OF encodeVarint_ok]
          writes_andThen [OF writes_string [OF encodeVarint_ok]
          writes_string [OF encodeVarint_ok]]]])
        (auto simp: option.case_eq_if)
    subgoal for m
      unfolding pb_enc_MsgChangeAdmin_def
      by (rule decodes_eq [OF decodes_append [OF decodes_api_string [OF tags(3) pb_lookup_MsgChangeAdmin(1)]
          decodes_append [OF decodes_api_string [OF tags(4) pb_lookup_MsgChangeAdmin(2)]
          decodes_api_string [OF tags(5) pb_lookup_MsgChangeAdmin(3)]]]])
        (auto simp: zero_MsgChangeAdmin_def ok_opt_def option.map_ident split: option.splits list.splits)
    by (simp add: pb_fields_MsgChangeAdmin_def)
qed

interpretation pb_MsgChangeAdmin: chain_codec pb_MsgChangeAdmin zero_MsgChangeAdmin pb_enc_MsgChangeAdmin "\<lambda>_. True" "\<lambda>m. m"
  by (rule pb_MsgChangeAdmin_codec)

subsection \<open>MsgSetBeforeSendHook\<close>

definition zero_MsgSetBeforeSendHook :: MsgSetBeforeSendHook where
  "zero_MsgSetBeforeSendHook = \<lparr>sbh_Sender = '''', sbh_Denom = '''', CosmwasmAddress = ''''\<rparr>"

definition pb_size_MsgSetBeforeSendHook :: "MsgSetBeforeSendHook \<Rightarrow> nat" where
  "pb_size_MsgSetBeforeSendHook m =
     size_string sov (to_bytes (sbh_Sender m)) +
     size_string sov (to_bytes (sbh_Denom m)) +
     size_string sov (to_bytes (CosmwasmAddress m))"

definition pb_put_MsgSetBeforeSendHook :: "MsgSetBeforeSendHook \<Rightarrow> writer" where
  "pb_put_MsgSetBeforeSendHook m =
     andThen (put_string encodeVarint 0x1a (to_bytes (CosmwasmAddress m))) (\<lambda>_.
     andThen (put_string encodeVarint 0x12 (to_bytes (sbh_Denom m))) (\<lambda>_.
     put_string encodeVarint 0xa (to_bytes (sbh_Sender m))))"

definition pb_fields_MsgSetBeforeSendHook :: "(int \<times> string \<times> MsgSetBeforeSendHook field) list" where
  "pb_fields_MsgSetBeforeSendHook =
    [(1, ''Sender'', string_field (\<lambda>s m. m\<lparr>sbh_Sender := s\<rparr>)),
     (2, ''Denom'', string_field (\<lambda>s m. m\<lparr>sbh_Denom := s\<rparr>)),
     (3, ''CosmwasmAddress'', string_field (\<lambda>s m. m\<lparr>CosmwasmAddress := s\<rparr>))]"

definition pb_MsgSetBeforeSendHook :: "MsgSetBeforeSendHook pb_codec" where
  "pb_MsgSetBeforeSendHook = chain_codec_of ''MsgSetBeforeSendHook'' (pb_size_MsgSetBeforeSendHook) (pb_put_MsgSetBeforeSendHook) (pb_fields_MsgSetBeforeSendHook)"

definition pb_enc_MsgSetBeforeSendHook :: "MsgSetBeforeSendHook \<Rightarrow> bytes" where
  "pb_enc_MsgSetBeforeSendHook m =
     enc_string 0xa (to_bytes (sbh_Sender m)) @
     enc_string 0x12 (to_bytes (sbh_Denom m)) @
     enc_string 0x1a (to_bytes (CosmwasmAddress m))"

lemma pb_lookup_MsgSetBeforeSendHook:
  "map_of pb_fields_MsgSetBeforeSendHook (field_no 0xa) = Some (''Sender'', string_field (\<lambda>s m. m\<lparr>sbh_Sender := s\<rparr>))"
  "map_of pb_fields_MsgSetBeforeSendHook (field_no 0x12) = Some (''Denom'', string_field (\<lambda>s m. m\<lparr>sbh_Denom := s\<rparr>))"
  "map_of pb_fields_MsgSetBeforeSendHook (field_no 0x1a) = Some (''CosmwasmAddress'', string_field (\<lambda>s m. m\<lparr>CosmwasmAddress := s\<rparr>))"
  by (simp_all add: pb_fields_MsgSetBeforeSendHook_def)

lemma pb_MsgSetBeforeSendHook_codec:
  shows "chain_codec pb_MsgSetBeforeSendHook zero_MsgSetBeforeSendHook pb_enc_MsgSetBeforeSendHook (\<lambda>_. True) (\<lambda>m. m)"
proof -
  show ?thesis
    unfolding pb_MsgSetBeforeSendHook_def
    apply (rule chain_codec_of_ok)
    subgoal for m
      by (simp add: pb_size_MsgSetBeforeSendHook_def pb_enc_MsgSetBeforeSendHook_def sov_eq)
    subgoal for m
      unfolding pb_put_MsgSetBeforeSendHook_def pb_enc_MsgSetBeforeSendHook_def
      by (rule writes_eq [OF writes_andThen [OF writes_string [OF encodeVarint_ok]
          writes_andThen [OF writes_string [OF encodeVarint_ok]
          writes_string [OF encodeVarint_ok]]]])
        (auto simp: option.case_eq_if)
    subgoal for m
      unfolding pb_enc_MsgSetBeforeSendHook_def
      by (rule decodes_eq [OF decodes_append [OF decodes_api_string [OF tags(3) pb_lookup_MsgSetBeforeSendHook(1)]
          decodes_append [OF decodes_api_string [OF tags(4) pb_lookup_MsgSetBeforeSendHook(2)]
          decodes_api_string [OF tags(5) pb_lookup_MsgSetBeforeSendHook(3)]]]])
        (auto simp: zero_MsgSetBeforeSendHook_def ok_opt_def option.map_ident split: option.splits list.splits)
    by (simp add: pb_fields_MsgSetBeforeSendHook_def)
qed

interpretation pb_MsgSetBeforeSendHook: chain_codec pb_MsgSetBeforeSendHook zero_MsgSetBeforeSendHook pb_enc_MsgSetBeforeSendHook "\<lambda>_. True" "\<lambda>m. m"
  by (rule pb_MsgSetBeforeSendHook_codec)

subsection \<open>MsgSetDenomMetadata\<close>

definition zero_MsgSetDenomMetadata :: MsgSetDenomMetadata where
  "zero_MsgSetDenomMetadata = \<lparr>sdm_Sender = '''', sdm_Metadata = zero_Metadata\<rparr>"

definition pb_size_MsgSetDenomMetadata :: "wire_ext \<Rightarrow> MsgSetDenomMetadata \<Rightarrow> nat" where
  "pb_size_MsgSetDenomMetadata X m =
     size_string sov (to_bytes (sdm_Sender m)) +
     size_message sov (pb_Size (MetadataCodec X) (sdm_Metadata m))"

definition pb_put_MsgSetDenomMetadata :: "wire_ext \<Rightarrow> MsgSetDenomMetadata \<Rightarrow> writer" where
  "pb_put_MsgSetDenomMetadata X m =
     andThen (put_message encodeVarint 0x12 (pb_Put (MetadataCodec X) (sdm_Metadata m))) (\<lambda>_.
     put_string encodeVarint 0xa (to_bytes (sdm_Sender m)))"

definition pb_fields_MsgSetDenomMetadata :: "wire_ext \<Rightarrow> (int \<times> string \<times> MsgSetDenomMetadata field) list" where
  "pb_fields_MsgSetDenomMetadata X =
    [(1, ''Sender'', string_field (\<lambda>s m. m\<lparr>sdm_Sender := s\<rparr>)),
     (2, ''Metadata'', value_field (MetadataCodec X) sdm_Metadata (\<lambda>y m. m\<lparr>sdm_Metadata := y\<rparr>))]"

definition pb_MsgSetDenomMetadata :: "wire_ext \<Rightarrow> MsgSetDenomMetadata pb_codec" where
  "pb_MsgSetDenomMetadata X = chain_codec_of ''MsgSetDenomMetadata'' (pb_size_MsgSetDenomMetadata X) (pb_put_MsgSetDenomMetadata X) (pb_fields_MsgSetDenomMetadata X)"

definition pb_enc_MsgSetDenomMetadata :: "wire_laws \<Rightarrow> MsgSetDenomMetadata \<Rightarrow> bytes" where
  "pb_enc_MsgSetDenomMetadata L m =
     enc_string 0xa (to_bytes (sdm_Sender m)) @
     enc_message 0x12 (encMetadata L (sdm_Metadata m))"

definition pb_ok_MsgSetDenomMetadata :: "wire_laws \<Rightarrow> MsgSetDenomMetadata \<Rightarrow> bool" where
  "pb_ok_MsgSetDenomMetadata L m \<longleftrightarrow> okMetadata L (sdm_Metadata m)"

lemma pb_lookup_MsgSetDenomMetadata:
  "map_of (pb_fields_MsgSetDenomMetadata X) (field_no 0xa) = Some (''Sender'', string_field (\<lambda>s m. m\<lparr>sdm_Sender := s\<rparr>))"
  "map_of (pb_fields_MsgSetDenomMetadata X) (field_no 0x12) = Some (''Metadata'', value_field (MetadataCodec X) sdm_Metadata (\<lambda>y m. m\<lparr>sdm_Metadata := y\<rparr>))"
  by (simp_all add: pb_fields_MsgSetDenomMetadata_def)

lemma pb_MsgSetDenomMetadata_codec:
  assumes L: "wire_ext_ok X L"
  shows "chain_codec (pb_MsgSetDenomMetadata X) zero_MsgSetDenomMetadata (pb_enc_MsgSetDenomMetadata L) (pb_ok_MsgSetDenomMetadata L) (\<lambda>m. m)"
proof -
  note cMetadata = wire_ext_okD(2) [OF L]
  show ?thesis
    unfolding pb_MsgSetDenomMetadata_def
    apply (rule chain_codec_of_ok)
    subgoal for m
      by (simp add: pb_ok_MsgSetDenomMetadata_def pb_size_MsgSetDenomMetadata_def pb_enc_MsgSetDenomMetadata_def sov_eq
          chain_codec.size_enc [OF cMetadata])
    subgoal for m
      unfolding pb_put_MsgSetDenomMetadata_def pb_enc_MsgSetDenomMetadata_def pb_ok_MsgSetDenomMetadata_def
      by (rule writes_eq [OF writes_andThen [OF writes_message [OF encodeVarint_ok chain_codec.put_enc [OF cMetadata]]
          writes_string [OF encodeVarint_ok]]])
        (auto simp: option.case_eq_if)
    subgoal for m
      unfolding pb_enc_MsgSetDenomMetadata_def pb_ok_MsgSetDenomMetadata_def
      by (rule decodes_eq [OF decodes_append [OF decodes_api_string [OF tags(3) pb_lookup_MsgSetDenomMetadata(1)]
          decodes_value [OF cMetadata _ _ tags(4) pb_lookup_MsgSetDenomMetadata(2)]]])
        (auto simp: zero_MsgSetDenomMetadata_def ok_opt_def option.map_ident split: option.splits list.splits)
    by (simp add: pb_fields_MsgSetDenomMetadata_def
        chain_fields_return [OF cMetadata])
qed

subsection \<open>MsgUpdateParams\<close>

definition zero_MsgUpdateParams :: MsgUpdateParams where
  "zero_MsgUpdateParams = \<lparr>up_Authority = '''', up_Params = zero_Params\<rparr>"

definition pb_size_MsgUpdateParams :: "wire_ext \<Rightarrow> MsgUpdateParams \<Rightarrow> nat" where
  "pb_size_MsgUpdateParams X m =
     size_string sov (to_bytes (up_Authority m)) +
     size_message sov (pb_Size (pb_Params X) (up_Params m))"

definition pb_put_MsgUpdateParams :: "wire_ext \<Rightarrow> MsgUpdateParams \<Rightarrow> writer" where
  "pb_put_MsgUpdateParams X m =
     andThen (put_message encodeVarint 0x12 (pb_Put (pb_Params X) (up_Params m))) (\<lambda>_.
     put_string encodeVarint 0xa (to_bytes (up_Authority m)))"

definition pb_fields_MsgUpdateParams :: "wire_ext \<Rightarrow> (int \<times> string \<times> MsgUpdateParams field) list" where
  "pb_fields_MsgUpdateParams X =
    [(1, ''Authority'', string_field (\<lambda>s m. m\<lparr>up_Authority := s\<rparr>)),
     (2, ''Params'', value_field (pb_Params X) up_Params (\<lambda>y m. m\<lparr>up_Params := y\<rparr>))]"

definition pb_MsgUpdateParams :: "wire_ext \<Rightarrow> MsgUpdateParams pb_codec" where
  "pb_MsgUpdateParams X = chain_codec_of ''MsgUpdateParams'' (pb_size_MsgUpdateParams X) (pb_put_MsgUpdateParams X) (pb_fields_MsgUpdateParams X)"

definition pb_enc_MsgUpdateParams :: "wire_laws \<Rightarrow> MsgUpdateParams \<Rightarrow> bytes" where
  "pb_enc_MsgUpdateParams L m =
     enc_string 0xa (to_bytes (up_Authority m)) @
     enc_message 0x12 (pb_enc_Params L (up_Params m))"

definition pb_ok_MsgUpdateParams :: "wire_laws \<Rightarrow> MsgUpdateParams \<Rightarrow> bool" where
  "pb_ok_MsgUpdateParams L m \<longleftrightarrow> pb_ok_Params L (up_Params m)"

definition pb_norm_MsgUpdateParams :: "MsgUpdateParams \<Rightarrow> MsgUpdateParams" where
  "pb_norm_MsgUpdateParams m = m\<lparr>up_Params := stored_params (up_Params m)\<rparr>"

lemma pb_lookup_MsgUpdateParams:
  "map_of (pb_fields_MsgUpdateParams X) (field_no 0xa) = Some (''Authority'', string_field (\<lambda>s m. m\<lparr>up_Authority := s\<rparr>))"
  "map_of (pb_fields_MsgUpdateParams X) (field_no 0x12) = Some (''Params'', value_field (pb_Params X) up_Params (\<lambda>y m. m\<lparr>up_Params := y\<rparr>))"
  by (simp_all add: pb_fields_MsgUpdateParams_def)

lemma pb_MsgUpdateParams_codec:
  assumes L: "wire_ext_ok X L"
  shows "chain_codec (pb_MsgUpdateParams X) zero_MsgUpdateParams (pb_enc_MsgUpdateParams L) (pb_ok_MsgUpdateParams L) pb_norm_MsgUpdateParams"
proof -
  note cParams = pb_Params_codec [OF L]
  show ?thesis
    unfolding pb_MsgUpdateParams_def
    apply (rule chain_codec_of_ok)
    subgoal for m
      by (simp add: pb_ok_MsgUpdateParams_def pb_size_MsgUpdateParams_def pb_enc_MsgUpdateParams_def sov_eq
          chain_codec.size_enc [OF cParams])
    subgoal for m
      unfolding pb_put_MsgUpdateParams_def pb_enc_MsgUpdateParams_def pb_ok_MsgUpdateParams_def
      by (rule writes_eq [OF writes_andThen [OF writes_message [OF encodeVarint_ok chain_codec.put_enc [OF cParams]]
          writes_string [OF encodeVarint_ok]]])
        (auto simp: option.case_eq_if)
    subgoal for m
      unfolding pb_enc_MsgUpdateParams_def pb_ok_MsgUpdateParams_def
      by (rule decodes_eq [OF decodes_append [OF decodes_api_string [OF tags(3) pb_lookup_MsgUpdateParams(1)]
          decodes_value [OF cParams _ _ tags(4) pb_lookup_MsgUpdateParams(2)]]])
        (auto simp: zero_MsgUpdateParams_def pb_norm_MsgUpdateParams_def ok_opt_def option.map_ident split: option.splits list.splits)
    by (simp add: pb_fields_MsgUpdateParams_def
        chain_fields_return [OF cParams])
qed

subsection \<open>MsgCreateDenomResponse\<close>

record MsgCreateDenomResponse =
  NewTokenDenom :: string

definition zero_MsgCreateDenomResponse :: MsgCreateDenomResponse where
  "zero_MsgCreateDenomResponse = \<lparr>NewTokenDenom = ''''\<rparr>"

definition pb_size_MsgCreateDenomResponse :: "MsgCreateDenomResponse \<Rightarrow> nat" where
  "pb_size_MsgCreateDenomResponse m =
     size_string sov (to_bytes (NewTokenDenom m))"

definition pb_put_MsgCreateDenomResponse :: "MsgCreateDenomResponse \<Rightarrow> writer" where
  "pb_put_MsgCreateDenomResponse m =
     put_string encodeVarint 0xa (to_bytes (NewTokenDenom m))"

definition pb_fields_MsgCreateDenomResponse :: "(int \<times> string \<times> MsgCreateDenomResponse field) list" where
  "pb_fields_MsgCreateDenomResponse =
    [(1, ''NewTokenDenom'', string_field (\<lambda>s m. m\<lparr>NewTokenDenom := s\<rparr>))]"

definition pb_MsgCreateDenomResponse :: "MsgCreateDenomResponse pb_codec" where
  "pb_MsgCreateDenomResponse = chain_codec_of ''MsgCreateDenomResponse'' (pb_size_MsgCreateDenomResponse) (pb_put_MsgCreateDenomResponse) (pb_fields_MsgCreateDenomResponse)"

definition pb_enc_MsgCreateDenomResponse :: "MsgCreateDenomResponse \<Rightarrow> bytes" where
  "pb_enc_MsgCreateDenomResponse m =
     enc_string 0xa (to_bytes (NewTokenDenom m))"

lemma pb_lookup_MsgCreateDenomResponse:
  "map_of pb_fields_MsgCreateDenomResponse (field_no 0xa) = Some (''NewTokenDenom'', string_field (\<lambda>s m. m\<lparr>NewTokenDenom := s\<rparr>))"
  by (simp_all add: pb_fields_MsgCreateDenomResponse_def)

lemma pb_MsgCreateDenomResponse_codec:
  shows "chain_codec pb_MsgCreateDenomResponse zero_MsgCreateDenomResponse pb_enc_MsgCreateDenomResponse (\<lambda>_. True) (\<lambda>m. m)"
proof -
  show ?thesis
    unfolding pb_MsgCreateDenomResponse_def
    apply (rule chain_codec_of_ok)
    subgoal for m
      by (simp add: pb_size_MsgCreateDenomResponse_def pb_enc_MsgCreateDenomResponse_def sov_eq)
    subgoal for m
      unfolding pb_put_MsgCreateDenomResponse_def pb_enc_MsgCreateDenomResponse_def
      by (rule writes_eq [OF writes_string [OF encodeVarint_ok]])
        (auto simp: option.case_eq_if)
    subgoal for m
      unfolding pb_enc_MsgCreateDenomResponse_def
      by (rule decodes_eq [OF decodes_api_string [OF tags(3) pb_lookup_MsgCreateDenomResponse]])
        (auto simp: zero_MsgCreateDenomResponse_def ok_opt_def option.map_ident split: option.splits list.splits)
    by (simp add: pb_fields_MsgCreateDenomResponse_def)
qed

interpretation pb_MsgCreateDenomResponse: chain_codec pb_MsgCreateDenomResponse zero_MsgCreateDenomResponse pb_enc_MsgCreateDenomResponse "\<lambda>_. True" "\<lambda>m. m"
  by (rule pb_MsgCreateDenomResponse_codec)

subsection \<open>QueryParamsResponse\<close>

record QueryParamsResponse =
  qp_Params :: Params

definition zero_QueryParamsResponse :: QueryParamsResponse where
  "zero_QueryParamsResponse = \<lparr>qp_Params = zero_Params\<rparr>"

definition pb_size_QueryParamsResponse :: "wire_ext \<Rightarrow> QueryParamsResponse \<Rightarrow> nat" where
  "pb_size_QueryParamsResponse X m =
     size_message sov (pb_Size (pb_Params X) (qp_Params m))"

definition pb_put_QueryParamsResponse :: "wire_ext \<Rightarrow> QueryParamsResponse \<Rightarrow> writer" where
  "pb_put_QueryParamsResponse X m =
     put_message encodeVarint 0xa (pb_Put (pb_Params X) (qp_Params m))"

definition pb_fields_QueryParamsResponse :: "wire_ext \<Rightarrow> (int \<times> string \<times> QueryParamsResponse field) list" where
  "pb_fields_QueryParamsResponse X =
    [(1, ''Params'', value_field (pb_Params X) qp_Params (\<lambda>y m. m\<lparr>qp_Params := y\<rparr>))]"

definition pb_QueryParamsResponse :: "wire_ext \<Rightarrow> QueryParamsResponse pb_codec" where
  "pb_QueryParamsResponse X = chain_codec_of ''QueryParamsResponse'' (pb_size_QueryParamsResponse X) (pb_put_QueryParamsResponse X) (pb_fields_QueryParamsResponse X)"

definition pb_enc_QueryParamsResponse :: "wire_laws \<Rightarrow> QueryParamsResponse \<Rightarrow> bytes" where
  "pb_enc_QueryParamsResponse L m =
     enc_message 0xa (pb_enc_Params L (qp_Params m))"

definition pb_ok_QueryParamsResponse :: "wire_laws \<Rightarrow> QueryParamsResponse \<Rightarrow> bool" where
  "pb_ok_QueryParamsResponse L m \<longleftrightarrow> pb_ok_Params L (qp_Params m)"

definition pb_norm_QueryParamsResponse :: "QueryParamsResponse \<Rightarrow> QueryParamsResponse" where
  "pb_norm_QueryParamsResponse m = m\<lparr>qp_Params := stored_params (qp_Params m)\<rparr>"

lemma pb_lookup_QueryParamsResponse:
  "map_of (pb_fields_QueryParamsResponse X) (field_no 0xa) = Some (''Params'', value_field (pb_Params X) qp_Params (\<lambda>y m. m\<lparr>qp_Params := y\<rparr>))"
  by (simp_all add: pb_fields_QueryParamsResponse_def)

lemma pb_QueryParamsResponse_codec:
  assumes L: "wire_ext_ok X L"
  shows "chain_codec (pb_QueryParamsResponse X) zero_QueryParamsResponse (pb_enc_QueryParamsResponse L) (pb_ok_QueryParamsResponse L) pb_norm_QueryParamsResponse"
proof -
  note cParams = pb_Params_codec [OF L]
  show ?thesis
    unfolding pb_QueryParamsResponse_def
    apply (rule chain_codec_of_ok)
    subgoal for m
      by (simp add: pb_ok_QueryParamsResponse_def pb_size_QueryParamsResponse_def pb_enc_QueryParamsResponse_def sov_eq
          chain_codec.size_enc [OF cParams])
    subgoal for m
      unfolding pb_put_QueryParamsResponse_def pb_enc_QueryParamsResponse_def pb_ok_QueryParamsResponse_def
      by (rule writes_eq [OF writes_message [OF encodeVarint_ok chain_codec.put_enc [OF cParams]]])
        (auto simp: option.case_eq_if)
    subgoal for m
      unfolding pb_enc_QueryParamsResponse_def pb_ok_QueryParamsResponse_def
      by (rule decodes_eq [OF decodes_value [OF cParams _ _ tags(3) pb_lookup_QueryParamsResponse]])
        (auto simp: zero_QueryParamsResponse_def pb_norm_QueryParamsResponse_def ok_opt_def option.map_ident split: option.splits list.splits)
    by (simp add: pb_fields_QueryParamsResponse_def
        chain_fields_return [OF cParams])
qed

subsection \<open>QueryDenomAuthorityMetadataRequest\<close>

record QueryDenomAuthorityMetadataRequest =
  qdam_Denom :: string

definition zero_QueryDenomAuthorityMetadataRequest :: QueryDenomAuthorityMetadataRequest where
  "zero_QueryDenomAuthorityMetadataRequest = \<lparr>qdam_Denom = ''''\<rparr>"

definition pb_size_QueryDenomAuthorityMetadataRequest :: "QueryDenomAuthorityMetadataRequest \<Rightarrow> nat" where
  "pb_size_QueryDenomAuthorityMetadataRequest m =
     size_string sov (to_bytes (qdam_Denom m))"

definition pb_put_QueryDenomAuthorityMetadataRequest :: "QueryDenomAuthorityMetadataRequest \<Rightarrow> writer" where
  "pb_put_QueryDenomAuthorityMetadataRequest m =
     put_string encodeVarint 0xa (to_bytes (qdam_Denom m))"

definition pb_fields_QueryDenomAuthorityMetadataRequest :: "(int \<times> string \<times> QueryDenomAuthorityMetadataRequest field) list" where
  "pb_fields_QueryDenomAuthorityMetadataRequest =
    [(1, ''Denom'', string_field (\<lambda>s m. m\<lparr>qdam_Denom := s\<rparr>))]"

definition pb_QueryDenomAuthorityMetadataRequest :: "QueryDenomAuthorityMetadataRequest pb_codec" where
  "pb_QueryDenomAuthorityMetadataRequest = chain_codec_of ''QueryDenomAuthorityMetadataRequest'' (pb_size_QueryDenomAuthorityMetadataRequest) (pb_put_QueryDenomAuthorityMetadataRequest) (pb_fields_QueryDenomAuthorityMetadataRequest)"

definition pb_enc_QueryDenomAuthorityMetadataRequest :: "QueryDenomAuthorityMetadataRequest \<Rightarrow> bytes" where
  "pb_enc_QueryDenomAuthorityMetadataRequest m =
     enc_string 0xa (to_bytes (qdam_Denom m))"

lemma pb_lookup_QueryDenomAuthorityMetadataRequest:
  "map_of pb_fields_QueryDenomAuthorityMetadataRequest (field_no 0xa) = Some (''Denom'', string_field (\<lambda>s m. m\<lparr>qdam_Denom := s\<rparr>))"
  by (simp_all add: pb_fields_QueryDenomAuthorityMetadataRequest_def)

lemma pb_QueryDenomAuthorityMetadataRequest_codec:
  shows "chain_codec pb_QueryDenomAuthorityMetadataRequest zero_QueryDenomAuthorityMetadataRequest pb_enc_QueryDenomAuthorityMetadataRequest (\<lambda>_. True) (\<lambda>m. m)"
proof -
  show ?thesis
    unfolding pb_QueryDenomAuthorityMetadataRequest_def
    apply (rule chain_codec_of_ok)
    subgoal for m
      by (simp add: pb_size_QueryDenomAuthorityMetadataRequest_def pb_enc_QueryDenomAuthorityMetadataRequest_def sov_eq)
    subgoal for m
      unfolding pb_put_QueryDenomAuthorityMetadataRequest_def pb_enc_QueryDenomAuthorityMetadataRequest_def
      by (rule writes_eq [OF writes_string [OF encodeVarint_ok]])
        (auto simp: option.case_eq_if)
    subgoal for m
      unfolding pb_enc_QueryDenomAuthorityMetadataRequest_def
      by (rule decodes_eq [OF decodes_api_string [OF tags(3) pb_lookup_QueryDenomAuthorityMetadataRequest]])
        (auto simp: zero_QueryDenomAuthorityMetadataRequest_def ok_opt_def option.map_ident split: option.splits list.splits)
    by (simp add: pb_fields_QueryDenomAuthorityMetadataRequest_def)
qed

interpretation pb_QueryDenomAuthorityMetadataRequest: chain_codec pb_QueryDenomAuthorityMetadataRequest zero_QueryDenomAuthorityMetadataRequest pb_enc_QueryDenomAuthorityMetadataRequest "\<lambda>_. True" "\<lambda>m. m"
  by (rule pb_QueryDenomAuthorityMetadataRequest_codec)

subsection \<open>QueryDenomAuthorityMetadataResponse\<close>

record QueryDenomAuthorityMetadataResponse =
  qdam_AuthorityMetadata :: DenomAuthorityMetadata

definition zero_QueryDenomAuthorityMetadataResponse :: QueryDenomAuthorityMetadataResponse where
  "zero_QueryDenomAuthorityMetadataResponse = \<lparr>qdam_AuthorityMetadata = zero_DenomAuthorityMetadata\<rparr>"

definition pb_size_QueryDenomAuthorityMetadataResponse :: "QueryDenomAuthorityMetadataResponse \<Rightarrow> nat" where
  "pb_size_QueryDenomAuthorityMetadataResponse m =
     size_message sov (pb_Size pb_DenomAuthorityMetadata (qdam_AuthorityMetadata m))"

definition pb_put_QueryDenomAuthorityMetadataResponse :: "QueryDenomAuthorityMetadataResponse \<Rightarrow> writer" where
  "pb_put_QueryDenomAuthorityMetadataResponse m =
     put_message encodeVarint 0xa (pb_Put pb_DenomAuthorityMetadata (qdam_AuthorityMetadata m))"

definition pb_fields_QueryDenomAuthorityMetadataResponse :: "(int \<times> string \<times> QueryDenomAuthorityMetadataResponse field) list" where
  "pb_fields_QueryDenomAuthorityMetadataResponse =
    [(1, ''AuthorityMetadata'', value_field pb_DenomAuthorityMetadata qdam_AuthorityMetadata (\<lambda>y m. m\<lparr>qdam_AuthorityMetadata := y\<rparr>))]"

definition pb_QueryDenomAuthorityMetadataResponse :: "QueryDenomAuthorityMetadataResponse pb_codec" where
  "pb_QueryDenomAuthorityMetadataResponse = chain_codec_of ''QueryDenomAuthorityMetadataResponse'' (pb_size_QueryDenomAuthorityMetadataResponse) (pb_put_QueryDenomAuthorityMetadataResponse) (pb_fields_QueryDenomAuthorityMetadataResponse)"

definition pb_enc_QueryDenomAuthorityMetadataResponse :: "QueryDenomAuthorityMetadataResponse \<Rightarrow> bytes" where
  "pb_enc_QueryDenomAuthorityMetadataResponse m =
     enc_message 0xa (pb_enc_DenomAuthorityMetadata (qdam_AuthorityMetadata m))"

lemma pb_lookup_QueryDenomAuthorityMetadataResponse:
  "map_of pb_fields_QueryDenomAuthorityMetadataResponse (field_no 0xa) = Some (''AuthorityMetadata'', value_field pb_DenomAuthorityMetadata qdam_AuthorityMetadata (\<lambda>y m. m\<lparr>qdam_AuthorityMetadata := y\<rparr>))"
  by (simp_all add: pb_fields_QueryDenomAuthorityMetadataResponse_def)

lemma pb_QueryDenomAuthorityMetadataResponse_codec:
  shows "chain_codec pb_QueryDenomAuthorityMetadataResponse zero_QueryDenomAuthorityMetadataResponse pb_enc_QueryDenomAuthorityMetadataResponse (\<lambda>_. True) (\<lambda>m. m)"
proof -
  note cDenomAuthorityMetadata = pb_DenomAuthorityMetadata_codec
  show ?thesis
    unfolding pb_QueryDenomAuthorityMetadataResponse_def
    apply (rule chain_codec_of_ok)
    subgoal for m
      by (simp add: pb_size_QueryDenomAuthorityMetadataResponse_def pb_enc_QueryDenomAuthorityMetadataResponse_def sov_eq
          chain_codec.size_enc [OF cDenomAuthorityMetadata])
    subgoal for m
      unfolding pb_put_QueryDenomAuthorityMetadataResponse_def pb_enc_QueryDenomAuthorityMetadataResponse_def
      by (rule writes_eq [OF writes_message [OF encodeVarint_ok chain_codec.put_enc [OF cDenomAuthorityMetadata]]])
        (auto simp: option.case_eq_if)
    subgoal for m
      unfolding pb_enc_QueryDenomAuthorityMetadataResponse_def
      by (rule decodes_eq [OF decodes_value [OF cDenomAuthorityMetadata _ _ tags(3) pb_lookup_QueryDenomAuthorityMetadataResponse]])
        (auto simp: zero_QueryDenomAuthorityMetadataResponse_def ok_opt_def option.map_ident split: option.splits list.splits)
    by (simp add: pb_fields_QueryDenomAuthorityMetadataResponse_def
        chain_fields_return [OF cDenomAuthorityMetadata])
qed

interpretation pb_QueryDenomAuthorityMetadataResponse: chain_codec pb_QueryDenomAuthorityMetadataResponse zero_QueryDenomAuthorityMetadataResponse pb_enc_QueryDenomAuthorityMetadataResponse "\<lambda>_. True" "\<lambda>m. m"
  by (rule pb_QueryDenomAuthorityMetadataResponse_codec)

subsection \<open>QueryDenomsFromCreatorRequest\<close>

record QueryDenomsFromCreatorRequest =
  qdfc_Creator :: string

definition zero_QueryDenomsFromCreatorRequest :: QueryDenomsFromCreatorRequest where
  "zero_QueryDenomsFromCreatorRequest = \<lparr>qdfc_Creator = ''''\<rparr>"

definition pb_size_QueryDenomsFromCreatorRequest :: "QueryDenomsFromCreatorRequest \<Rightarrow> nat" where
  "pb_size_QueryDenomsFromCreatorRequest m =
     size_string sov (to_bytes (qdfc_Creator m))"

definition pb_put_QueryDenomsFromCreatorRequest :: "QueryDenomsFromCreatorRequest \<Rightarrow> writer" where
  "pb_put_QueryDenomsFromCreatorRequest m =
     put_string encodeVarint 0xa (to_bytes (qdfc_Creator m))"

definition pb_fields_QueryDenomsFromCreatorRequest :: "(int \<times> string \<times> QueryDenomsFromCreatorRequest field) list" where
  "pb_fields_QueryDenomsFromCreatorRequest =
    [(1, ''Creator'', string_field (\<lambda>s m. m\<lparr>qdfc_Creator := s\<rparr>))]"

definition pb_QueryDenomsFromCreatorRequest :: "QueryDenomsFromCreatorRequest pb_codec" where
  "pb_QueryDenomsFromCreatorRequest = chain_codec_of ''QueryDenomsFromCreatorRequest'' (pb_size_QueryDenomsFromCreatorRequest) (pb_put_QueryDenomsFromCreatorRequest) (pb_fields_QueryDenomsFromCreatorRequest)"

definition pb_enc_QueryDenomsFromCreatorRequest :: "QueryDenomsFromCreatorRequest \<Rightarrow> bytes" where
  "pb_enc_QueryDenomsFromCreatorRequest m =
     enc_string 0xa (to_bytes (qdfc_Creator m))"

lemma pb_lookup_QueryDenomsFromCreatorRequest:
  "map_of pb_fields_QueryDenomsFromCreatorRequest (field_no 0xa) = Some (''Creator'', string_field (\<lambda>s m. m\<lparr>qdfc_Creator := s\<rparr>))"
  by (simp_all add: pb_fields_QueryDenomsFromCreatorRequest_def)

lemma pb_QueryDenomsFromCreatorRequest_codec:
  shows "chain_codec pb_QueryDenomsFromCreatorRequest zero_QueryDenomsFromCreatorRequest pb_enc_QueryDenomsFromCreatorRequest (\<lambda>_. True) (\<lambda>m. m)"
proof -
  show ?thesis
    unfolding pb_QueryDenomsFromCreatorRequest_def
    apply (rule chain_codec_of_ok)
    subgoal for m
      by (simp add: pb_size_QueryDenomsFromCreatorRequest_def pb_enc_QueryDenomsFromCreatorRequest_def sov_eq)
    subgoal for m
      unfolding pb_put_QueryDenomsFromCreatorRequest_def pb_enc_QueryDenomsFromCreatorRequest_def
      by (rule writes_eq [OF writes_string [OF encodeVarint_ok]])
        (auto simp: option.case_eq_if)
    subgoal for m
      unfolding pb_enc_QueryDenomsFromCreatorRequest_def
      by (rule decodes_eq [OF decodes_api_string [OF tags(3) pb_lookup_QueryDenomsFromCreatorRequest]])
        (auto simp: zero_QueryDenomsFromCreatorRequest_def ok_opt_def option.map_ident split: option.splits list.splits)
    by (simp add: pb_fields_QueryDenomsFromCreatorRequest_def)
qed

interpretation pb_QueryDenomsFromCreatorRequest: chain_codec pb_QueryDenomsFromCreatorRequest zero_QueryDenomsFromCreatorRequest pb_enc_QueryDenomsFromCreatorRequest "\<lambda>_. True" "\<lambda>m. m"
  by (rule pb_QueryDenomsFromCreatorRequest_codec)

subsection \<open>QueryDenomsFromCreatorResponse\<close>

record QueryDenomsFromCreatorResponse =
  qdfc_Denoms :: "string list"

definition zero_QueryDenomsFromCreatorResponse :: QueryDenomsFromCreatorResponse where
  "zero_QueryDenomsFromCreatorResponse = \<lparr>qdfc_Denoms = []\<rparr>"

definition pb_size_QueryDenomsFromCreatorResponse :: "QueryDenomsFromCreatorResponse \<Rightarrow> nat" where
  "pb_size_QueryDenomsFromCreatorResponse m =
     sum_list (map (\<lambda>s. size_message sov (length s)) (qdfc_Denoms m))"

definition pb_put_QueryDenomsFromCreatorResponse :: "QueryDenomsFromCreatorResponse \<Rightarrow> writer" where
  "pb_put_QueryDenomsFromCreatorResponse m =
     put_repeated (\<lambda>s. put_element encodeVarint 0xa (to_bytes s)) (qdfc_Denoms m)"

definition pb_fields_QueryDenomsFromCreatorResponse :: "(int \<times> string \<times> QueryDenomsFromCreatorResponse field) list" where
  "pb_fields_QueryDenomsFromCreatorResponse =
    [(1, ''Denoms'', string_field (\<lambda>s m. m\<lparr>qdfc_Denoms := qdfc_Denoms m @ [s]\<rparr>))]"

definition pb_QueryDenomsFromCreatorResponse :: "QueryDenomsFromCreatorResponse pb_codec" where
  "pb_QueryDenomsFromCreatorResponse = chain_codec_of ''QueryDenomsFromCreatorResponse'' (pb_size_QueryDenomsFromCreatorResponse) (pb_put_QueryDenomsFromCreatorResponse) (pb_fields_QueryDenomsFromCreatorResponse)"

definition pb_enc_QueryDenomsFromCreatorResponse :: "QueryDenomsFromCreatorResponse \<Rightarrow> bytes" where
  "pb_enc_QueryDenomsFromCreatorResponse m =
     enc_api_strings 0xa (qdfc_Denoms m)"

lemma fold_qdfc_Denoms:
  "fold (\<lambda>x m. m\<lparr>qdfc_Denoms := qdfc_Denoms m @ [x]\<rparr>) xs m = m\<lparr>qdfc_Denoms := qdfc_Denoms m @ xs\<rparr>"
  by (induction xs arbitrary: m) simp_all

lemma pb_lookup_QueryDenomsFromCreatorResponse:
  "map_of pb_fields_QueryDenomsFromCreatorResponse (field_no 0xa) = Some (''Denoms'', string_field (\<lambda>s m. m\<lparr>qdfc_Denoms := qdfc_Denoms m @ [s]\<rparr>))"
  by (simp_all add: pb_fields_QueryDenomsFromCreatorResponse_def)

lemma pb_QueryDenomsFromCreatorResponse_codec:
  shows "chain_codec pb_QueryDenomsFromCreatorResponse zero_QueryDenomsFromCreatorResponse pb_enc_QueryDenomsFromCreatorResponse (\<lambda>_. True) (\<lambda>m. m)"
proof -
  show ?thesis
    unfolding pb_QueryDenomsFromCreatorResponse_def
    apply (rule chain_codec_of_ok)
    subgoal for m
      by (simp add: pb_size_QueryDenomsFromCreatorResponse_def pb_enc_QueryDenomsFromCreatorResponse_def sov_eq
          size_strings [where t = "0xa"])
    subgoal for m
      unfolding pb_put_QueryDenomsFromCreatorResponse_def pb_enc_QueryDenomsFromCreatorResponse_def
      by (rule writes_eq [OF writes_strings])
        (auto simp: option.case_eq_if)
    subgoal for m
      unfolding pb_enc_QueryDenomsFromCreatorResponse_def
      by (rule decodes_eq [OF decodes_api_strings [OF tags(3) pb_lookup_QueryDenomsFromCreatorResponse]])
        (auto simp: zero_QueryDenomsFromCreatorResponse_def fold_qdfc_Denoms ok_opt_def option.map_ident split: option.splits list.splits)
    by (simp add: pb_fields_QueryDenomsFromCreatorResponse_def)
qed

interpretation pb_QueryDenomsFromCreatorResponse: chain_codec pb_QueryDenomsFromCreatorResponse zero_QueryDenomsFromCreatorResponse pb_enc_QueryDenomsFromCreatorResponse "\<lambda>_. True" "\<lambda>m. m"
  by (rule pb_QueryDenomsFromCreatorResponse_codec)

subsection \<open>QueryBeforeSendHookAddressRequest\<close>

record QueryBeforeSendHookAddressRequest =
  qbsh_Denom :: string

definition zero_QueryBeforeSendHookAddressRequest :: QueryBeforeSendHookAddressRequest where
  "zero_QueryBeforeSendHookAddressRequest = \<lparr>qbsh_Denom = ''''\<rparr>"

definition pb_size_QueryBeforeSendHookAddressRequest :: "QueryBeforeSendHookAddressRequest \<Rightarrow> nat" where
  "pb_size_QueryBeforeSendHookAddressRequest m =
     size_string sov (to_bytes (qbsh_Denom m))"

definition pb_put_QueryBeforeSendHookAddressRequest :: "QueryBeforeSendHookAddressRequest \<Rightarrow> writer" where
  "pb_put_QueryBeforeSendHookAddressRequest m =
     put_string encodeVarint 0xa (to_bytes (qbsh_Denom m))"

definition pb_fields_QueryBeforeSendHookAddressRequest :: "(int \<times> string \<times> QueryBeforeSendHookAddressRequest field) list" where
  "pb_fields_QueryBeforeSendHookAddressRequest =
    [(1, ''Denom'', string_field (\<lambda>s m. m\<lparr>qbsh_Denom := s\<rparr>))]"

definition pb_QueryBeforeSendHookAddressRequest :: "QueryBeforeSendHookAddressRequest pb_codec" where
  "pb_QueryBeforeSendHookAddressRequest = chain_codec_of ''QueryBeforeSendHookAddressRequest'' (pb_size_QueryBeforeSendHookAddressRequest) (pb_put_QueryBeforeSendHookAddressRequest) (pb_fields_QueryBeforeSendHookAddressRequest)"

definition pb_enc_QueryBeforeSendHookAddressRequest :: "QueryBeforeSendHookAddressRequest \<Rightarrow> bytes" where
  "pb_enc_QueryBeforeSendHookAddressRequest m =
     enc_string 0xa (to_bytes (qbsh_Denom m))"

lemma pb_lookup_QueryBeforeSendHookAddressRequest:
  "map_of pb_fields_QueryBeforeSendHookAddressRequest (field_no 0xa) = Some (''Denom'', string_field (\<lambda>s m. m\<lparr>qbsh_Denom := s\<rparr>))"
  by (simp_all add: pb_fields_QueryBeforeSendHookAddressRequest_def)

lemma pb_QueryBeforeSendHookAddressRequest_codec:
  shows "chain_codec pb_QueryBeforeSendHookAddressRequest zero_QueryBeforeSendHookAddressRequest pb_enc_QueryBeforeSendHookAddressRequest (\<lambda>_. True) (\<lambda>m. m)"
proof -
  show ?thesis
    unfolding pb_QueryBeforeSendHookAddressRequest_def
    apply (rule chain_codec_of_ok)
    subgoal for m
      by (simp add: pb_size_QueryBeforeSendHookAddressRequest_def pb_enc_QueryBeforeSendHookAddressRequest_def sov_eq)
    subgoal for m
      unfolding pb_put_QueryBeforeSendHookAddressRequest_def pb_enc_QueryBeforeSendHookAddressRequest_def
      by (rule writes_eq [OF writes_string [OF encodeVarint_ok]])
        (auto simp: option.case_eq_if)
    subgoal for m
      unfolding pb_enc_QueryBeforeSendHookAddressRequest_def
      by (rule decodes_eq [OF decodes_api_string [OF tags(3) pb_lookup_QueryBeforeSendHookAddressRequest]])
        (auto simp: zero_QueryBeforeSendHookAddressRequest_def ok_opt_def option.map_ident split: option.splits list.splits)
    by (simp add: pb_fields_QueryBeforeSendHookAddressRequest_def)
qed

interpretation pb_QueryBeforeSendHookAddressRequest: chain_codec pb_QueryBeforeSendHookAddressRequest zero_QueryBeforeSendHookAddressRequest pb_enc_QueryBeforeSendHookAddressRequest "\<lambda>_. True" "\<lambda>m. m"
  by (rule pb_QueryBeforeSendHookAddressRequest_codec)

subsection \<open>QueryBeforeSendHookAddressResponse\<close>

record QueryBeforeSendHookAddressResponse =
  qbsh_CosmwasmAddress :: string

definition zero_QueryBeforeSendHookAddressResponse :: QueryBeforeSendHookAddressResponse where
  "zero_QueryBeforeSendHookAddressResponse = \<lparr>qbsh_CosmwasmAddress = ''''\<rparr>"

definition pb_size_QueryBeforeSendHookAddressResponse :: "QueryBeforeSendHookAddressResponse \<Rightarrow> nat" where
  "pb_size_QueryBeforeSendHookAddressResponse m =
     size_string sov (to_bytes (qbsh_CosmwasmAddress m))"

definition pb_put_QueryBeforeSendHookAddressResponse :: "QueryBeforeSendHookAddressResponse \<Rightarrow> writer" where
  "pb_put_QueryBeforeSendHookAddressResponse m =
     put_string encodeVarint 0xa (to_bytes (qbsh_CosmwasmAddress m))"

definition pb_fields_QueryBeforeSendHookAddressResponse :: "(int \<times> string \<times> QueryBeforeSendHookAddressResponse field) list" where
  "pb_fields_QueryBeforeSendHookAddressResponse =
    [(1, ''CosmwasmAddress'', string_field (\<lambda>s m. m\<lparr>qbsh_CosmwasmAddress := s\<rparr>))]"

definition pb_QueryBeforeSendHookAddressResponse :: "QueryBeforeSendHookAddressResponse pb_codec" where
  "pb_QueryBeforeSendHookAddressResponse = chain_codec_of ''QueryBeforeSendHookAddressResponse'' (pb_size_QueryBeforeSendHookAddressResponse) (pb_put_QueryBeforeSendHookAddressResponse) (pb_fields_QueryBeforeSendHookAddressResponse)"

definition pb_enc_QueryBeforeSendHookAddressResponse :: "QueryBeforeSendHookAddressResponse \<Rightarrow> bytes" where
  "pb_enc_QueryBeforeSendHookAddressResponse m =
     enc_string 0xa (to_bytes (qbsh_CosmwasmAddress m))"

lemma pb_lookup_QueryBeforeSendHookAddressResponse:
  "map_of pb_fields_QueryBeforeSendHookAddressResponse (field_no 0xa) = Some (''CosmwasmAddress'', string_field (\<lambda>s m. m\<lparr>qbsh_CosmwasmAddress := s\<rparr>))"
  by (simp_all add: pb_fields_QueryBeforeSendHookAddressResponse_def)

lemma pb_QueryBeforeSendHookAddressResponse_codec:
  shows "chain_codec pb_QueryBeforeSendHookAddressResponse zero_QueryBeforeSendHookAddressResponse pb_enc_QueryBeforeSendHookAddressResponse (\<lambda>_. True) (\<lambda>m. m)"
proof -
  show ?thesis
    unfolding pb_QueryBeforeSendHookAddressResponse_def
    apply (rule chain_codec_of_ok)
    subgoal for m
      by (simp add: pb_size_QueryBeforeSendHookAddressResponse_def pb_enc_QueryBeforeSendHookAddressResponse_def sov_eq)
    subgoal for m
      unfolding pb_put_QueryBeforeSendHookAddressResponse_def pb_enc_QueryBeforeSendHookAddressResponse_def
      by (rule writes_eq [OF writes_string [OF encodeVarint_ok]])
        (auto simp: option.case_eq_if)
    subgoal for m
      unfolding pb_enc_QueryBeforeSendHookAddressResponse_def
      by (rule decodes_eq [OF decodes_api_string [OF tags(3) pb_lookup_QueryBeforeSendHookAddressResponse]])
        (auto simp: zero_QueryBeforeSendHookAddressResponse_def ok_opt_def option.map_ident split: option.splits list.splits)
    by (simp add: pb_fields_QueryBeforeSendHookAddressResponse_def)
qed

interpretation pb_QueryBeforeSendHookAddressResponse: chain_codec pb_QueryBeforeSendHookAddressResponse zero_QueryBeforeSendHookAddressResponse pb_enc_QueryBeforeSendHookAddressResponse "\<lambda>_. True" "\<lambda>m. m"
  by (rule pb_QueryBeforeSendHookAddressResponse_codec)

subsection \<open>AccessConfig\<close>

definition zero_AccessConfig :: AccessConfig where
  "zero_AccessConfig = \<lparr>Permission = 0, Addresses = []\<rparr>"

definition pb_size_AccessConfig :: "AccessConfig \<Rightarrow> nat" where
  "pb_size_AccessConfig m =
     size_uint sov (scast (Permission m)) +
     sum_list (map (\<lambda>s. size_message sov (length s)) (Addresses m))"

definition pb_put_AccessConfig :: "AccessConfig \<Rightarrow> writer" where
  "pb_put_AccessConfig m =
     andThen (put_repeated (\<lambda>s. put_element encodeVarint 0x12 (to_bytes s)) (Addresses m)) (\<lambda>_.
     put_uint encodeVarint 0x8 (scast (Permission m)))"

definition pb_fields_AccessConfig :: "(int \<times> string \<times> AccessConfig field) list" where
  "pb_fields_AccessConfig =
    [(1, ''Permission'', Varint (\<lambda>v m. m\<lparr>Permission := ucast v\<rparr>)),
     (2, ''Addresses'', string_field (\<lambda>s m. m\<lparr>Addresses := Addresses m @ [s]\<rparr>))]"

definition pb_AccessConfig :: "AccessConfig pb_codec" where
  "pb_AccessConfig = chain_codec_of ''AccessConfig'' (pb_size_AccessConfig) (pb_put_AccessConfig) (pb_fields_AccessConfig)"

definition pb_enc_AccessConfig :: "AccessConfig \<Rightarrow> bytes" where
  "pb_enc_AccessConfig m =
     enc_uint 0x8 (scast (Permission m)) @
     enc_api_strings 0x12 (Addresses m)"

lemma fold_Addresses:
  "fold (\<lambda>x m. m\<lparr>Addresses := Addresses m @ [x]\<rparr>) xs m = m\<lparr>Addresses := Addresses m @ xs\<rparr>"
  by (induction xs arbitrary: m) simp_all

lemma pb_lookup_AccessConfig:
  "map_of pb_fields_AccessConfig (field_no 0x8) = Some (''Permission'', Varint (\<lambda>v m. m\<lparr>Permission := ucast v\<rparr>))"
  "map_of pb_fields_AccessConfig (field_no 0x12) = Some (''Addresses'', string_field (\<lambda>s m. m\<lparr>Addresses := Addresses m @ [s]\<rparr>))"
  by (simp_all add: pb_fields_AccessConfig_def)

lemma pb_AccessConfig_codec:
  shows "chain_codec pb_AccessConfig zero_AccessConfig pb_enc_AccessConfig (\<lambda>_. True) (\<lambda>m. m)"
proof -
  show ?thesis
    unfolding pb_AccessConfig_def
    apply (rule chain_codec_of_ok)
    subgoal for m
      by (simp add: pb_size_AccessConfig_def pb_enc_AccessConfig_def sov_eq
          size_strings [where t = "0x12"])
    subgoal for m
      unfolding pb_put_AccessConfig_def pb_enc_AccessConfig_def
      by (rule writes_eq [OF writes_andThen [OF writes_strings
          writes_uint [OF encodeVarint_ok]]])
        (auto simp: option.case_eq_if)
    subgoal for m
      unfolding pb_enc_AccessConfig_def
      by (rule decodes_eq [OF decodes_append [OF decodes_api_uint [OF tags(1) pb_lookup_AccessConfig(1)]
          decodes_api_strings [OF tags(4) pb_lookup_AccessConfig(2)]]])
        (auto simp: zero_AccessConfig_def fold_Addresses ok_opt_def option.map_ident split: option.splits list.splits)
    by (simp add: pb_fields_AccessConfig_def)
qed

interpretation pb_AccessConfig: chain_codec pb_AccessConfig zero_AccessConfig pb_enc_AccessConfig "\<lambda>_. True" "\<lambda>m. m"
  by (rule pb_AccessConfig_codec)

subsection \<open>MsgStoreCodeAdmin\<close>

definition zero_MsgStoreCodeAdmin :: MsgStoreCodeAdmin where
  "zero_MsgStoreCodeAdmin = \<lparr>sca_Authority = '''', sca_Creator = '''', WASMByteCode = [], InstantiatePermission = None\<rparr>"

definition pb_size_MsgStoreCodeAdmin :: "MsgStoreCodeAdmin \<Rightarrow> nat" where
  "pb_size_MsgStoreCodeAdmin m =
     size_string sov (to_bytes (sca_Authority m)) +
     size_string sov (to_bytes (sca_Creator m)) +
     size_string sov (WASMByteCode m) +
     size_opt (\<lambda>y. size_message sov (pb_Size pb_AccessConfig y)) (InstantiatePermission m)"

definition pb_put_MsgStoreCodeAdmin :: "MsgStoreCodeAdmin \<Rightarrow> writer" where
  "pb_put_MsgStoreCodeAdmin m =
     andThen (put_opt (\<lambda>y. put_message encodeVarint 0x22 (pb_Put pb_AccessConfig y)) (InstantiatePermission m)) (\<lambda>_.
     andThen (put_string encodeVarint 0x1a (WASMByteCode m)) (\<lambda>_.
     andThen (put_string encodeVarint 0x12 (to_bytes (sca_Creator m))) (\<lambda>_.
     put_string encodeVarint 0xa (to_bytes (sca_Authority m)))))"

definition pb_fields_MsgStoreCodeAdmin :: "(int \<times> string \<times> MsgStoreCodeAdmin field) list" where
  "pb_fields_MsgStoreCodeAdmin =
    [(1, ''Authority'', string_field (\<lambda>s m. m\<lparr>sca_Authority := s\<rparr>)),
     (2, ''Creator'', string_field (\<lambda>s m. m\<lparr>sca_Creator := s\<rparr>)),
     (3, ''WASMByteCode'', bytes_field (\<lambda>bz m. m\<lparr>WASMByteCode := bz\<rparr>)),
     (4, ''InstantiatePermission'', pointer_field pb_AccessConfig zero_AccessConfig InstantiatePermission
       (\<lambda>y m. m\<lparr>InstantiatePermission := y\<rparr>))]"

definition pb_MsgStoreCodeAdmin :: "MsgStoreCodeAdmin pb_codec" where
  "pb_MsgStoreCodeAdmin = chain_codec_of ''MsgStoreCodeAdmin'' (pb_size_MsgStoreCodeAdmin) (pb_put_MsgStoreCodeAdmin) (pb_fields_MsgStoreCodeAdmin)"

definition pb_enc_MsgStoreCodeAdmin :: "MsgStoreCodeAdmin \<Rightarrow> bytes" where
  "pb_enc_MsgStoreCodeAdmin m =
     enc_string 0xa (to_bytes (sca_Authority m)) @
     enc_string 0x12 (to_bytes (sca_Creator m)) @
     enc_string 0x1a (WASMByteCode m) @
     enc_opt (\<lambda>y. enc_message 0x22 (pb_enc_AccessConfig y)) (InstantiatePermission m)"

lemma pb_lookup_MsgStoreCodeAdmin:
  "map_of pb_fields_MsgStoreCodeAdmin (field_no 0xa) = Some (''Authority'', string_field (\<lambda>s m. m\<lparr>sca_Authority := s\<rparr>))"
  "map_of pb_fields_MsgStoreCodeAdmin (field_no 0x12) = Some (''Creator'', string_field (\<lambda>s m. m\<lparr>sca_Creator := s\<rparr>))"
  "map_of pb_fields_MsgStoreCodeAdmin (field_no 0x1a) = Some (''WASMByteCode'', bytes_field (\<lambda>bz m. m\<lparr>WASMByteCode := bz\<rparr>))"
  "map_of pb_fields_MsgStoreCodeAdmin (field_no 0x22) = Some (''InstantiatePermission'', pointer_field pb_AccessConfig zero_AccessConfig InstantiatePermission
       (\<lambda>y m. m\<lparr>InstantiatePermission := y\<rparr>))"
  by (simp_all add: pb_fields_MsgStoreCodeAdmin_def)

lemma pb_MsgStoreCodeAdmin_codec:
  shows "chain_codec pb_MsgStoreCodeAdmin zero_MsgStoreCodeAdmin pb_enc_MsgStoreCodeAdmin (\<lambda>_. True) (\<lambda>m. m)"
proof -
  note cAccessConfig = pb_AccessConfig_codec
  show ?thesis
    unfolding pb_MsgStoreCodeAdmin_def
    apply (rule chain_codec_of_ok)
    subgoal for m
      by (simp add: pb_size_MsgStoreCodeAdmin_def pb_enc_MsgStoreCodeAdmin_def sov_eq size_opt_def
          chain_codec.size_enc [OF cAccessConfig] split: option.split)
    subgoal for m
      unfolding pb_put_MsgStoreCodeAdmin_def pb_enc_MsgStoreCodeAdmin_def
      by (rule writes_eq [OF writes_andThen [OF writes_pointer [OF cAccessConfig]
          writes_andThen [OF writes_string [OF encodeVarint_ok]
          writes_andThen [OF writes_string [OF encodeVarint_ok]
          writes_string [OF encodeVarint_ok]]]]])
        (auto simp: option.case_eq_if)
    subgoal for m
      unfolding pb_enc_MsgStoreCodeAdmin_def
      by (rule decodes_eq [OF decodes_append [OF decodes_api_string [OF tags(3) pb_lookup_MsgStoreCodeAdmin(1)]
          decodes_append [OF decodes_api_string [OF tags(4) pb_lookup_MsgStoreCodeAdmin(2)]
          decodes_append [OF decodes_api_bytes [OF tags(5) pb_lookup_MsgStoreCodeAdmin(3)]
          decodes_pointer [OF cAccessConfig _ _ tags(6) pb_lookup_MsgStoreCodeAdmin(4)]]]]])
        (auto simp: zero_MsgStoreCodeAdmin_def ok_opt_def option.map_ident split: option.splits list.splits)
    by (simp add: pb_fields_MsgStoreCodeAdmin_def
        chain_fields_return [OF cAccessConfig])
qed

interpretation pb_MsgStoreCodeAdmin: chain_codec pb_MsgStoreCodeAdmin zero_MsgStoreCodeAdmin pb_enc_MsgStoreCodeAdmin "\<lambda>_. True" "\<lambda>m. m"
  by (rule pb_MsgStoreCodeAdmin_codec)

subsection \<open>MsgStoreCodeAdminResponse\<close>

definition zero_MsgStoreCodeAdminResponse :: MsgStoreCodeAdminResponse where
  "zero_MsgStoreCodeAdminResponse = \<lparr>CodeID = 0, Checksum = []\<rparr>"

definition pb_size_MsgStoreCodeAdminResponse :: "MsgStoreCodeAdminResponse \<Rightarrow> nat" where
  "pb_size_MsgStoreCodeAdminResponse m =
     size_uint sov (CodeID m) +
     size_string sov (Checksum m)"

definition pb_put_MsgStoreCodeAdminResponse :: "MsgStoreCodeAdminResponse \<Rightarrow> writer" where
  "pb_put_MsgStoreCodeAdminResponse m =
     andThen (put_string encodeVarint 0x12 (Checksum m)) (\<lambda>_.
     put_uint encodeVarint 0x8 (CodeID m))"

definition pb_fields_MsgStoreCodeAdminResponse :: "(int \<times> string \<times> MsgStoreCodeAdminResponse field) list" where
  "pb_fields_MsgStoreCodeAdminResponse =
    [(1, ''CodeID'', Varint (\<lambda>v m. m\<lparr>CodeID := v\<rparr>)),
     (2, ''Checksum'', bytes_field (\<lambda>bz m. m\<lparr>Checksum := bz\<rparr>))]"

definition pb_MsgStoreCodeAdminResponse :: "MsgStoreCodeAdminResponse pb_codec" where
  "pb_MsgStoreCodeAdminResponse = chain_codec_of ''MsgStoreCodeAdminResponse'' (pb_size_MsgStoreCodeAdminResponse) (pb_put_MsgStoreCodeAdminResponse) (pb_fields_MsgStoreCodeAdminResponse)"

definition pb_enc_MsgStoreCodeAdminResponse :: "MsgStoreCodeAdminResponse \<Rightarrow> bytes" where
  "pb_enc_MsgStoreCodeAdminResponse m =
     enc_uint 0x8 (CodeID m) @
     enc_string 0x12 (Checksum m)"

lemma pb_lookup_MsgStoreCodeAdminResponse:
  "map_of pb_fields_MsgStoreCodeAdminResponse (field_no 0x8) = Some (''CodeID'', Varint (\<lambda>v m. m\<lparr>CodeID := v\<rparr>))"
  "map_of pb_fields_MsgStoreCodeAdminResponse (field_no 0x12) = Some (''Checksum'', bytes_field (\<lambda>bz m. m\<lparr>Checksum := bz\<rparr>))"
  by (simp_all add: pb_fields_MsgStoreCodeAdminResponse_def)

lemma pb_MsgStoreCodeAdminResponse_codec:
  shows "chain_codec pb_MsgStoreCodeAdminResponse zero_MsgStoreCodeAdminResponse pb_enc_MsgStoreCodeAdminResponse (\<lambda>_. True) (\<lambda>m. m)"
proof -
  show ?thesis
    unfolding pb_MsgStoreCodeAdminResponse_def
    apply (rule chain_codec_of_ok)
    subgoal for m
      by (simp add: pb_size_MsgStoreCodeAdminResponse_def pb_enc_MsgStoreCodeAdminResponse_def sov_eq)
    subgoal for m
      unfolding pb_put_MsgStoreCodeAdminResponse_def pb_enc_MsgStoreCodeAdminResponse_def
      by (rule writes_eq [OF writes_andThen [OF writes_string [OF encodeVarint_ok]
          writes_uint [OF encodeVarint_ok]]])
        (auto simp: option.case_eq_if)
    subgoal for m
      unfolding pb_enc_MsgStoreCodeAdminResponse_def
      by (rule decodes_eq [OF decodes_append [OF decodes_api_uint [OF tags(1) pb_lookup_MsgStoreCodeAdminResponse(1)]
          decodes_api_bytes [OF tags(4) pb_lookup_MsgStoreCodeAdminResponse(2)]]])
        (auto simp: zero_MsgStoreCodeAdminResponse_def ok_opt_def option.map_ident split: option.splits list.splits)
    by (simp add: pb_fields_MsgStoreCodeAdminResponse_def)
qed

interpretation pb_MsgStoreCodeAdminResponse: chain_codec pb_MsgStoreCodeAdminResponse zero_MsgStoreCodeAdminResponse pb_enc_MsgStoreCodeAdminResponse "\<lambda>_. True" "\<lambda>m. m"
  by (rule pb_MsgStoreCodeAdminResponse_codec)

subsection \<open>Messages without fields\<close>

text \<open>The responses of the other messages and \<open>QueryParamsRequest\<close>: the methods are the same but for the name.\<close>

definition pb_empty :: "string \<Rightarrow> unit pb_codec" where
  "pb_empty name = chain_codec_of name (\<lambda>_. 0) (\<lambda>_. ret ()) []"

interpretation pb_empty: chain_codec "pb_empty name" "()" "\<lambda>_. []" "\<lambda>_. True" "\<lambda>m. m" for name
  unfolding pb_empty_def by (rule chain_codec_of_ok) (simp_all add: writes_ret decodes_Nil)

end
