(* ===== verification/Reflect.thy ===== *)
theory Reflect
  imports Pulsar
begin

text \<open>
  What the reflection methods of the messages of \<open>api/**/*.pulsar.go\<close> share.  \<open>Has\<close>,
  \<open>Clear\<close>, \<open>Get\<close>, \<open>Set\<close>, \<open>Mutable\<close> and \<open>NewField\<close> of a message are each a \<open>switch\<close> on
  the full name of a field with the same default case, and \<open>Range\<close> goes through the fields in order.  The
  model has the cases of one field together, as an \<open>accessor\<close>, and a message as the list of its
  fields with their accessors.  The methods are modelled on a message that is not nil; a list or a
  message inside a value is its contents, not a reference into the message.
\<close>

section \<open>Values\<close>

text \<open>
  \<open>protoreflect.Value\<close>: the kinds the messages use, the kind \<open>Uint\<close> reads as well, and the rest.  The
  dynamic types of messages and of lists are parameters, since every message adds its own.
\<close>

datatype ('m, 'l) val =
    ValueOfString string
  | ValueOfBytes bytes
  | ValueOfUint32 "32 word"
  | ValueOfUint64 u64
  | ValueOfEnum "32 word"
  | ValueOfMessage 'm
  | ValueOfList 'l
  | OtherValue

record field_descriptor =
  FullName :: string
  IsExtension :: bool

definition type_mismatch :: panic where
  "type_mismatch = PanicText ''type mismatch''"

definition nil_dereference :: panic where
  "nil_dereference = PanicText ''invalid memory address or nil pointer dereference''"

section \<open>The cases of a field\<close>

record ('x, 'm, 'l) accessor =
  Populated :: "'x \<Rightarrow> bool"
  Cleared :: "'x \<Rightarrow> 'x"
  Value :: "'x \<Rightarrow> ('m, 'l) val"
  Store :: "('m, 'l) val \<Rightarrow> 'x \<Rightarrow> 'x outcome"
  MutableRef :: "'x \<Rightarrow> (('m, 'l) val \<times> 'x) outcome"
  NewValue :: "('m, 'l) val"

text \<open>The case of \<open>Mutable\<close> for a scalar.\<close>

definition not_mutable :: "string \<Rightarrow> string \<Rightarrow> 'a outcome" where
  "not_mutable name field =
     Panic (PanicError (Text (''field '' @ field @ '' of message '' @ name @ '' is not mutable'')))"

text \<open>A field by its kind, from how the message is read and written at it.\<close>

definition string_accessor ::
  "('x \<Rightarrow> string) \<Rightarrow> (string \<Rightarrow> 'x \<Rightarrow> 'x) \<Rightarrow> string \<Rightarrow> string \<Rightarrow> ('x, 'm, 'l) accessor" where
  "string_accessor get upd name field =
    \<lparr>Populated = (\<lambda>x. get x \<noteq> ''''),
     Cleared = upd '''',
     Value = (\<lambda>x. ValueOfString (get x)),
     Store = (\<lambda>v x. case v of ValueOfString s \<Rightarrow> Ok (upd s x) | _ \<Rightarrow> Panic type_mismatch),
     MutableRef = (\<lambda>x. not_mutable name field),
     NewValue = ValueOfString ''''\<rparr>"

definition bytes_accessor ::
  "('x \<Rightarrow> bytes) \<Rightarrow> (bytes \<Rightarrow> 'x \<Rightarrow> 'x) \<Rightarrow> string \<Rightarrow> string \<Rightarrow> ('x, 'm, 'l) accessor" where
  "bytes_accessor get upd name field =
    \<lparr>Populated = (\<lambda>x. length (get x) \<noteq> 0),
     Cleared = upd [],
     Value = (\<lambda>x. ValueOfBytes (get x)),
     Store = (\<lambda>v x. case v of ValueOfBytes s \<Rightarrow> Ok (upd s x) | _ \<Rightarrow> Panic type_mismatch),
     MutableRef = (\<lambda>x. not_mutable name field),
     NewValue = ValueOfBytes []\<rparr>"

definition uint64_accessor ::
  "('x \<Rightarrow> u64) \<Rightarrow> (u64 \<Rightarrow> 'x \<Rightarrow> 'x) \<Rightarrow> string \<Rightarrow> string \<Rightarrow> ('x, 'm, 'l) accessor" where
  "uint64_accessor get upd name field =
    \<lparr>Populated = (\<lambda>x. get x \<noteq> 0),
     Cleared = upd 0,
     Value = (\<lambda>x. ValueOfUint64 (get x)),
     Store = (\<lambda>v x. case v of
        ValueOfUint64 n \<Rightarrow> Ok (upd n x)
      | ValueOfUint32 n \<Rightarrow> Ok (upd (ucast n) x)
      | _ \<Rightarrow> Panic type_mismatch),
     MutableRef = (\<lambda>x. not_mutable name field),
     NewValue = ValueOfUint64 0\<rparr>"

definition enum_accessor ::
  "('x \<Rightarrow> 32 word) \<Rightarrow> (32 word \<Rightarrow> 'x \<Rightarrow> 'x) \<Rightarrow> string \<Rightarrow> string \<Rightarrow> ('x, 'm, 'l) accessor" where
  "enum_accessor get upd name field =
    \<lparr>Populated = (\<lambda>x. get x \<noteq> 0),
     Cleared = upd 0,
     Value = (\<lambda>x. ValueOfEnum (get x)),
     Store = (\<lambda>v x. case v of ValueOfEnum n \<Rightarrow> Ok (upd n x) | _ \<Rightarrow> Panic type_mismatch),
     MutableRef = (\<lambda>x. not_mutable name field),
     NewValue = ValueOfEnum 0\<rparr>"

text \<open>
  An embedded message: \<open>wrap\<close> makes a value of a pointer of its type, \<open>assert\<close> is the type assertion
  back.  A list of messages or strings: a value is a pointer to a slice, nil for the empty read-only view
  that \<open>Get\<close> returns for an empty list.
\<close>

definition message_accessor ::
  "('y option \<Rightarrow> 'm) \<Rightarrow> ('m \<Rightarrow> 'y option option) \<Rightarrow> 'y \<Rightarrow>
   ('x \<Rightarrow> 'y option) \<Rightarrow> ('y option \<Rightarrow> 'x \<Rightarrow> 'x) \<Rightarrow> ('x, 'm, 'l) accessor" where
  "message_accessor wrap assert new get upd =
    \<lparr>Populated = (\<lambda>x. get x \<noteq> None),
     Cleared = upd None,
     Value = (\<lambda>x. ValueOfMessage (wrap (get x))),
     Store = (\<lambda>v x. case v of
        ValueOfMessage w \<Rightarrow> (case assert w of Some y \<Rightarrow> Ok (upd y x) | None \<Rightarrow> Panic type_mismatch)
      | _ \<Rightarrow> Panic type_mismatch),
     MutableRef = (\<lambda>x. case get x of
        None \<Rightarrow> Ok (ValueOfMessage (wrap (Some new)), upd (Some new) x)
      | Some y \<Rightarrow> Ok (ValueOfMessage (wrap (Some y)), x)),
     NewValue = ValueOfMessage (wrap (Some new))\<rparr>"

definition list_accessor ::
  "('e list option \<Rightarrow> 'l) \<Rightarrow> ('l \<Rightarrow> 'e list option option) \<Rightarrow>
   ('x \<Rightarrow> 'e list) \<Rightarrow> ('e list \<Rightarrow> 'x \<Rightarrow> 'x) \<Rightarrow> ('x, 'm, 'l) accessor" where
  "list_accessor wrap assert get upd =
    \<lparr>Populated = (\<lambda>x. length (get x) \<noteq> 0),
     Cleared = upd [],
     Value = (\<lambda>x. ValueOfList (wrap (if length (get x) = 0 then None else Some (get x)))),
     Store = (\<lambda>v x. case v of
        ValueOfList w \<Rightarrow> (case assert w of
            Some (Some es) \<Rightarrow> Ok (upd es x)
          | Some None \<Rightarrow> Panic nil_dereference
          | None \<Rightarrow> Panic type_mismatch)
      | _ \<Rightarrow> Panic type_mismatch),
     MutableRef = (\<lambda>x. Ok (ValueOfList (wrap (Some (get x))), x)),
     NewValue = ValueOfList (wrap (Some []))\<rparr>"

lemmas accessor_defs = string_accessor_def bytes_accessor_def uint64_accessor_def enum_accessor_def
  message_accessor_def list_accessor_def

section \<open>The methods\<close>

record ('x, 'm, 'l) reflection =
  MessageName :: string
  Accessors :: "(string \<times> ('x, 'm, 'l) accessor) list"

text \<open>The table of a message from the short names of its fields.\<close>

definition full_names ::
  "string \<Rightarrow> (string \<times> (string \<Rightarrow> string \<Rightarrow> ('x, 'm, 'l) accessor)) list \<Rightarrow> ('x, 'm, 'l) reflection" where
  "full_names name fs =
    \<lparr>MessageName = name, Accessors = map (\<lambda>(field, a). (name @ ''.'' @ field, a name field)) fs\<rparr>"

definition no_field :: "string \<Rightarrow> field_descriptor \<Rightarrow> 'a outcome" where
  "no_field name fd = Panic (PanicError (Text
     (if IsExtension fd then ''proto3 declared messages do not support extensions: '' @ name
      else ''message '' @ name @ '' does not contain field '' @ FullName fd)))"

definition switch_field ::
  "('x, 'm, 'l) reflection \<Rightarrow> field_descriptor \<Rightarrow> (('x, 'm, 'l) accessor \<Rightarrow> 'a outcome) \<Rightarrow> 'a outcome" where
  "switch_field r fd k = (case map_of (Accessors r) (FullName fd) of
     Some a \<Rightarrow> k a
   | None \<Rightarrow> no_field (MessageName r) fd)"

definition api_has :: "('x, 'm, 'l) reflection \<Rightarrow> field_descriptor \<Rightarrow> 'x \<Rightarrow> bool outcome" where
  "api_has r fd x = switch_field r fd (\<lambda>a. Ok (Populated a x))"

definition api_clear :: "('x, 'm, 'l) reflection \<Rightarrow> field_descriptor \<Rightarrow> 'x \<Rightarrow> 'x outcome" where
  "api_clear r fd x = switch_field r fd (\<lambda>a. Ok (Cleared a x))"

definition api_get :: "('x, 'm, 'l) reflection \<Rightarrow> field_descriptor \<Rightarrow> 'x \<Rightarrow> ('m, 'l) val outcome" where
  "api_get r fd x = switch_field r fd (\<lambda>a. Ok (Value a x))"

definition api_set :: "('x, 'm, 'l) reflection \<Rightarrow> field_descriptor \<Rightarrow> ('m, 'l) val \<Rightarrow> 'x \<Rightarrow> 'x outcome" where
  "api_set r fd v x = switch_field r fd (\<lambda>a. Store a v x)"

definition api_mutable ::
  "('x, 'm, 'l) reflection \<Rightarrow> field_descriptor \<Rightarrow> 'x \<Rightarrow> (('m, 'l) val \<times> 'x) outcome" where
  "api_mutable r fd x = switch_field r fd (\<lambda>a. MutableRef a x)"

definition api_newField :: "('x, 'm, 'l) reflection \<Rightarrow> field_descriptor \<Rightarrow> ('m, 'l) val outcome" where
  "api_newField r fd = switch_field r fd (\<lambda>a. Ok (NewValue a))"

text \<open>
  \<open>Range\<close> hands the populated fields to a callback, in order, until it returns false.  The callback
  acts on a state of its own.
\<close>

definition descriptor :: "string \<Rightarrow> field_descriptor" where
  "descriptor n = \<lparr>FullName = n, IsExtension = False\<rparr>"

primrec range_from ::
  "(string \<times> ('x, 'm, 'l) accessor) list \<Rightarrow> 'x \<Rightarrow>
   (field_descriptor \<Rightarrow> ('m, 'l) val \<Rightarrow> 's \<Rightarrow> bool \<times> 's) \<Rightarrow> 's \<Rightarrow> 's" where
  "range_from [] x f s = s"
| "range_from (na # fs) x f s =
     (if Populated (snd na) x
      then (case f (descriptor (fst na)) (Value (snd na) x) s of
              (True, s') \<Rightarrow> range_from fs x f s'
            | (False, s') \<Rightarrow> s')
      else range_from fs x f s)"

definition api_range ::
  "('x, 'm, 'l) reflection \<Rightarrow> 'x \<Rightarrow> (field_descriptor \<Rightarrow> ('m, 'l) val \<Rightarrow> 's \<Rightarrow> bool \<times> 's) \<Rightarrow> 's \<Rightarrow> 's" where
  "api_range r x f s = range_from (Accessors r) x f s"

section \<open>Lists inside values\<close>

text \<open>
  The methods of \<open>_M_n_list\<close> on the pointer to the slice.  \<open>elem\<close> makes a value of an element,
  \<open>of_value\<close> reads one.  Slicing past the length reaches what the array behind the slice holds there,
  the \<open>spare\<close> elements.
\<close>

record ('e, 'm, 'l) list_kind =
  Elem :: "'e \<Rightarrow> ('m, 'l) val"
  OfValue :: "('m, 'l) val \<Rightarrow> 'e outcome"
  NewElem :: "'e option"
  NewElement :: "('m, 'l) val"

definition list_len :: "'e list option \<Rightarrow> nat" where
  "list_len l = (case l of None \<Rightarrow> 0 | Some es \<Rightarrow> length es)"

definition list_isValid :: "'e list option \<Rightarrow> bool" where
  "list_isValid l \<longleftrightarrow> \<not> Option.is_none l"

definition list_get :: "('e, 'm, 'l) list_kind \<Rightarrow> 'e list option \<Rightarrow> int \<Rightarrow> ('m, 'l) val outcome" where
  "list_get k l i = (case l of
     None \<Rightarrow> Panic nil_dereference
   | Some es \<Rightarrow> if 0 \<le> i \<and> i < int (length es) then Ok (Elem k (es ! nat i)) else Panic out_of_range)"

definition list_set ::
  "('e, 'm, 'l) list_kind \<Rightarrow> 'e list option \<Rightarrow> int \<Rightarrow> ('m, 'l) val \<Rightarrow> 'e list option outcome" where
  "list_set k l i v = (case OfValue k v of
     Ok e \<Rightarrow> (case l of
         None \<Rightarrow> Panic nil_dereference
       | Some es \<Rightarrow> if 0 \<le> i \<and> i < int (length es) then Ok (Some (es[nat i := e])) else Panic out_of_range)
   | Err er \<Rightarrow> Err er
   | Panic p \<Rightarrow> Panic p)"

definition list_append ::
  "('e, 'm, 'l) list_kind \<Rightarrow> 'e list option \<Rightarrow> ('m, 'l) val \<Rightarrow> 'e list option outcome" where
  "list_append k l v = (case OfValue k v of
     Ok e \<Rightarrow> (case l of None \<Rightarrow> Panic nil_dereference | Some es \<Rightarrow> Ok (Some (es @ [e])))
   | Err er \<Rightarrow> Err er
   | Panic p \<Rightarrow> Panic p)"

definition list_appendMutable ::
  "('e, 'm, 'l) list_kind \<Rightarrow> string \<Rightarrow> string \<Rightarrow> 'e list option \<Rightarrow> (('m, 'l) val \<times> 'e list option) outcome" where
  "list_appendMutable k name field l = (case NewElem k of
     None \<Rightarrow> Panic (PanicError (Text (''AppendMutable can not be called on message '' @ name @
       '' at list field '' @ field @ '' as it is not of Message kind'')))
   | Some e \<Rightarrow> (case l of
       None \<Rightarrow> Panic nil_dereference
     | Some es \<Rightarrow> Ok (Elem k e, Some (es @ [e]))))"

definition list_truncate :: "'e list option \<Rightarrow> 'e list \<Rightarrow> int \<Rightarrow> 'e list option outcome" where
  "list_truncate l spare n = (case l of
     None \<Rightarrow> Panic nil_dereference
   | Some es \<Rightarrow>
       if 0 \<le> n \<and> n \<le> int (length es + length spare) then Ok (Some (take (nat n) (es @ spare)))
       else Panic out_of_range)"

text \<open>The elements: strings, which \<open>Value.String\<close> makes of any value, and messages.\<close>

definition string_elements :: "(('m, 'l) val \<Rightarrow> string) \<Rightarrow> (string, 'm, 'l) list_kind" where
  "string_elements fmt =
    \<lparr>Elem = ValueOfString,
     OfValue = (\<lambda>v. Ok (case v of ValueOfString s \<Rightarrow> s | _ \<Rightarrow> fmt v)),
     NewElem = None,
     NewElement = ValueOfString ''''\<rparr>"

definition message_elements ::
  "('y option \<Rightarrow> 'm) \<Rightarrow> ('m \<Rightarrow> 'y option option) \<Rightarrow> 'y \<Rightarrow> ('y option, 'm, 'l) list_kind" where
  "message_elements wrap assert new =
    \<lparr>Elem = (\<lambda>e. ValueOfMessage (wrap e)),
     OfValue = (\<lambda>v. case v of
        ValueOfMessage w \<Rightarrow> (case assert w of Some y \<Rightarrow> Ok y | None \<Rightarrow> Panic type_mismatch)
      | _ \<Rightarrow> Panic type_mismatch),
     NewElem = Some (Some new),
     NewElement = ValueOfMessage (wrap (Some new))\<rparr>"

section \<open>Copying a message\<close>

text \<open>
  What \<open>Range\<close> visits, and a copy made by setting those fields on another message, the way
  messages are cloned and merged.
\<close>

definition ranged :: "('x, 'm, 'l) reflection \<Rightarrow> 'x \<Rightarrow> (field_descriptor \<times> ('m, 'l) val) list" where
  "ranged r x = api_range r x (\<lambda>fd v acc. (True, acc @ [(fd, v)])) []"

primrec set_all ::
  "('x, 'm, 'l) reflection \<Rightarrow> (field_descriptor \<times> ('m, 'l) val) list \<Rightarrow> 'x \<Rightarrow> 'x outcome" where
  "set_all r [] x = Ok x"
| "set_all r (fv # fvs) x = (case api_set r (fst fv) (snd fv) x of
     Ok y \<Rightarrow> set_all r fvs y
   | Err e \<Rightarrow> Err e
   | Panic p \<Rightarrow> Panic p)"

lemma range_collect:
  "range_from fs x (\<lambda>fd v acc. (True, acc @ [(fd, v)])) s =
     s @ map (\<lambda>na. (descriptor (fst na), Value (snd na) x)) (filter (\<lambda>na. Populated (snd na) x) fs)"
  by (induction fs arbitrary: s) simp_all

lemma ranged_eq:
  "ranged r x =
     map (\<lambda>na. (descriptor (fst na), Value (snd na) x)) (filter (\<lambda>na. Populated (snd na) x) (Accessors r))"
  by (simp add: ranged_def api_range_def range_collect)

text \<open>
  The contract of the methods of a message: its fields are told apart by name, clearing and
  setting a field touch that field only, and clearing all of them leaves a blank message.
\<close>

locale message_reflection =
  fixes r :: "('x, 'm, 'l) reflection"
    and blank :: "'x \<Rightarrow> 'x"
  assumes names: "distinct (map fst (Accessors r))"
    and cleared: "list_all (\<lambda>na. \<not> Populated (snd na) (Cleared (snd na) x)) (Accessors r)"
    and unpopulated: "list_all (\<lambda>na. \<not> Populated (snd na) x \<longrightarrow> Cleared (snd na) x = x) (Accessors r)"
    and restored:
      "list_all (\<lambda>na. Populated (snd na) x \<longrightarrow> Store (snd na) (Value (snd na) x) (Cleared (snd na) x) = Ok x)
        (Accessors r)"
    and apart:
      "sorted_wrt (\<lambda>na nb.
         (Populated (snd na) (Cleared (snd nb) x) = Populated (snd na) x \<and>
          Value (snd na) (Cleared (snd nb) x) = Value (snd na) x) \<and>
         (Populated (snd nb) (Cleared (snd na) x) = Populated (snd nb) x \<and>
          Value (snd nb) (Cleared (snd na) x) = Value (snd nb) x)) (Accessors r)"
    and blank: "foldr (\<lambda>na. Cleared (snd na)) (Accessors r) x = blank x"
begin

lemma switch_at: "na \<in> set (Accessors r) \<Longrightarrow> FullName fd = fst na \<Longrightarrow> switch_field r fd k = k (snd na)"
  using map_of_is_SomeI [OF names, of "fst na" "snd na"] by (simp add: switch_field_def)

lemma switch_OkE:
  assumes "switch_field r fd k = Ok y"
  obtains a where "(FullName fd, a) \<in> set (Accessors r)" "k a = Ok y"
  using assms by (auto simp: switch_field_def no_field_def dest: map_of_SomeD split: option.splits)

lemma clear_has: "api_clear r fd x = Ok y \<Longrightarrow> api_has r fd y = Ok False"
  using cleared [of x]
  by (auto simp: api_clear_def api_has_def list_all_iff switch_at elim!: switch_OkE)

lemma apart_at:
  assumes "na \<in> set (Accessors r)" "nb \<in> set (Accessors r)" "fst na \<noteq> fst nb"
  shows "Populated (snd na) (Cleared (snd nb) x) = Populated (snd na) x \<and>
    Value (snd na) (Cleared (snd nb) x) = Value (snd na) x"
proof -
  obtain i j where ij: "i < length (Accessors r)" "Accessors r ! i = na" "j < length (Accessors r)" "Accessors r ! j = nb"
    using assms(1,2) by (meson in_set_conv_nth)
  then consider "i < j" | "j < i" using assms(3) by (metis linorder_neqE_nat)
  then show ?thesis using ij apart [of x] by cases (auto simp: sorted_wrt_iff_nth_less)
qed

lemma clear_other:
  assumes "api_clear r fd x = Ok y" and "FullName fd' \<noteq> FullName fd"
  shows "api_has r fd' y = api_has r fd' x \<and> api_get r fd' y = api_get r fd' x"
proof -
  obtain b where b: "(FullName fd, b) \<in> set (Accessors r)" "Cleared b x = y"
    using assms(1) by (auto simp: api_clear_def elim!: switch_OkE)
  show ?thesis
  proof (cases "map_of (Accessors r) (FullName fd')")
    case (Some a)
    then show ?thesis
      using apart_at [of "(FullName fd', a)" "(FullName fd, b)" x] b assms(2) map_of_SomeD [OF Some]
      by (simp add: api_has_def api_get_def switch_field_def)
  qed (simp add: api_has_def api_get_def switch_field_def no_field_def)
qed

lemma set_get:
  assumes "api_has r fd x = Ok True" and "api_get r fd x = Ok v" and "api_clear r fd x = Ok y"
  shows "api_set r fd v y = Ok x"
proof -
  obtain a where a: "(FullName fd, a) \<in> set (Accessors r)" "Populated a x"
    using assms(1) by (auto simp: api_has_def elim!: switch_OkE)
  then show ?thesis
    using assms(2,3) restored [of x]
    by (auto simp: api_get_def api_clear_def api_set_def switch_at [OF a(1)] list_all_iff)
qed

lemma ranged_iff:
  "(fd, v) \<in> set (ranged r x) \<longleftrightarrow> \<not> IsExtension fd \<and> api_has r fd x = Ok True \<and> api_get r fd x = Ok v"
proof
  assume "(fd, v) \<in> set (ranged r x)"
  then show "\<not> IsExtension fd \<and> api_has r fd x = Ok True \<and> api_get r fd x = Ok v"
    by (auto simp: ranged_eq descriptor_def api_has_def api_get_def switch_at)
next
  assume fd: "\<not> IsExtension fd \<and> api_has r fd x = Ok True \<and> api_get r fd x = Ok v"
  then obtain a where a: "(FullName fd, a) \<in> set (Accessors r)" "Populated a x"
    by (auto simp: api_has_def elim!: switch_OkE)
  moreover have "v = Value a x" using fd by (simp add: api_get_def switch_at [OF a(1)])
  moreover have "fd = descriptor (FullName fd)" using fd by (simp add: descriptor_def)
  ultimately show "(fd, v) \<in> set (ranged r x)" by (force simp: ranged_eq)
qed

lemma cleared_later:
  "set fs \<subseteq> set (Accessors r) \<Longrightarrow> na \<in> set (Accessors r) \<Longrightarrow> fst na \<notin> fst ` set fs \<Longrightarrow>
     Populated (snd na) (foldr (\<lambda>na. Cleared (snd na)) fs x) = Populated (snd na) x \<and>
     Value (snd na) (foldr (\<lambda>na. Cleared (snd na)) fs x) = Value (snd na) x"
proof (induction fs)
  case (Cons nb fs)
  then show ?case using apart_at [of na nb] by simp
qed simp

lemma copies: "set_all r (ranged r x) (blank x) = Ok x"
proof -
  have "set_all r (map (\<lambda>na. (descriptor (fst na), Value (snd na) x)) (filter (\<lambda>na. Populated (snd na) x) fs))
      (foldr (\<lambda>na. Cleared (snd na)) fs x) = Ok x"
    if "set fs \<subseteq> set (Accessors r)" "distinct (map fst fs)" for fs
    using that
  proof (induction fs)
    case (Cons na fs)
    let ?z = "foldr (\<lambda>na. Cleared (snd na)) fs x"
    have na: "na \<in> set (Accessors r)" using Cons.prems by simp
    have same: "Populated (snd na) ?z = Populated (snd na) x" "Value (snd na) ?z = Value (snd na) x"
      using cleared_later [of fs na x] Cons.prems by auto
    show ?case
    proof (cases "Populated (snd na) x")
      case True
      then have "Store (snd na) (Value (snd na) ?z) (Cleared (snd na) ?z) = Ok ?z"
        using restored [of ?z] na same(1) by (simp add: list_all_iff)
      then have "api_set r (descriptor (fst na)) (Value (snd na) x) (Cleared (snd na) ?z) = Ok ?z"
        unfolding same(2) by (simp add: api_set_def switch_at [OF na] descriptor_def)
      then show ?thesis using True Cons by simp
    next
      case False
      then have "Cleared (snd na) ?z = ?z" using unpopulated [of ?z] na same by (simp add: list_all_iff)
      then show ?thesis using False Cons by simp
    qed
  qed simp
  from this [of "Accessors r"] show ?thesis using names by (simp add: ranged_eq blank)
qed

end

end
