(* ===== verification/PulsarTF.thy ===== *)
theory PulsarTF
  imports Pulsar
begin

text \<open>
  The messages of the tokenfactory state: \<open>authority_metadata.pulsar.go\<close>, \<open>params.pulsar.go\<close> and \<open>genesis.pulsar.go\<close> under
  \<open>api/miniwasm\<close>.  For a message \<open>M\<close>: the struct with its unknown fields, the bodies of
  \<open>size\<close> and \<open>marshal\<close> for a message that is not nil, the cases of \<open>unmarshal\<close>, and the
  methods together; then its encoding \<open>enc_M\<close>, the messages \<open>ok_M\<close> it is for, and that the
  methods implement it.  A nil element of a list of messages is not told from an empty one by the
  encoding, and so is not among them.
\<close>

subsection \<open>DenomAuthorityMetadata\<close>

record api_DenomAuthorityMetadata =
  DenomAuthorityMetadata_Admin :: string
  DenomAuthorityMetadata_unknownFields :: bytes

definition new_DenomAuthorityMetadata :: "api_DenomAuthorityMetadata" where
  "new_DenomAuthorityMetadata =
    \<lparr>DenomAuthorityMetadata_Admin = '''',
     DenomAuthorityMetadata_unknownFields = []\<rparr>"

definition size_DenomAuthorityMetadata :: "runtime \<Rightarrow> api_DenomAuthorityMetadata \<Rightarrow> nat" where
  "size_DenomAuthorityMetadata R m =
     size_string (Sov R) (to_bytes (DenomAuthorityMetadata_Admin m)) +
     length (DenomAuthorityMetadata_unknownFields m)"

definition put_DenomAuthorityMetadata :: "runtime \<Rightarrow> api_DenomAuthorityMetadata \<Rightarrow> writer" where
  "put_DenomAuthorityMetadata R m =
     andThen (put_bytes (DenomAuthorityMetadata_unknownFields m)) (\<lambda>_.
     put_string (EncodeVarint R) 0xa (to_bytes (DenomAuthorityMetadata_Admin m)))"

definition fields_DenomAuthorityMetadata :: "(int \<times> string \<times> api_DenomAuthorityMetadata field) list" where
  "fields_DenomAuthorityMetadata =
    [(1, ''Admin'', string_field (\<lambda>s m. m\<lparr>DenomAuthorityMetadata_Admin := s\<rparr>))]"

definition DenomAuthorityMetadata_codec :: "runtime \<Rightarrow> bool \<Rightarrow> api_DenomAuthorityMetadata codec" where
  "DenomAuthorityMetadata_codec R discard =
     api_codec ''DenomAuthorityMetadata''
       (size_DenomAuthorityMetadata R)
       (put_DenomAuthorityMetadata R)
       fields_DenomAuthorityMetadata
       (keep_unknown R discard
         (\<lambda>u m. m\<lparr>DenomAuthorityMetadata_unknownFields := DenomAuthorityMetadata_unknownFields m @ u\<rparr>))
       new_DenomAuthorityMetadata"

definition enc_DenomAuthorityMetadata :: "api_DenomAuthorityMetadata \<Rightarrow> bytes" where
  "enc_DenomAuthorityMetadata m =
     enc_string 0xa (to_bytes (DenomAuthorityMetadata_Admin m)) @
     DenomAuthorityMetadata_unknownFields m"

definition ok_DenomAuthorityMetadata :: "runtime \<Rightarrow> bool \<Rightarrow> api_DenomAuthorityMetadata \<Rightarrow> bool" where
  "ok_DenomAuthorityMetadata R discard m \<longleftrightarrow>
     unknown_ok R discard {1} (DenomAuthorityMetadata_unknownFields m)"

lemma lookup_DenomAuthorityMetadata:
  "map_of fields_DenomAuthorityMetadata (field_no 0xa) = Some (''Admin'', string_field (\<lambda>s m. m\<lparr>DenomAuthorityMetadata_Admin := s\<rparr>))"
  by (simp_all add: fields_DenomAuthorityMetadata_def)

lemma DenomAuthorityMetadata_message_codec:
  assumes R: "runtime_ok R"
  shows "message_codec (DenomAuthorityMetadata_codec R discard)
    enc_DenomAuthorityMetadata (ok_DenomAuthorityMetadata R discard)"
proof -
  show ?thesis
    unfolding DenomAuthorityMetadata_codec_def
    apply (rule api_message_codec)
    subgoal for m
      by (simp add: ok_DenomAuthorityMetadata_def size_DenomAuthorityMetadata_def enc_DenomAuthorityMetadata_def runtime_okD [OF R])
    subgoal for m
      unfolding put_DenomAuthorityMetadata_def enc_DenomAuthorityMetadata_def ok_DenomAuthorityMetadata_def
      by (rule writes_eq [OF writes_andThen [OF writes_put_bytes
          writes_string [OF runtime_okD(2) [OF R]]]])
        simp_all
    subgoal for m
      unfolding enc_DenomAuthorityMetadata_def ok_DenomAuthorityMetadata_def
      by (rule decodes_eq [OF decodes_append [OF decodes_api_string [OF tags(3) lookup_DenomAuthorityMetadata]
          decodes_kept [OF _ _ _ refl]]])
        (simp_all add: new_DenomAuthorityMetadata_def fields_DenomAuthorityMetadata_def)
    by (simp_all add: keep_unknown_moves_on [OF R] fields_DenomAuthorityMetadata_def)
qed

interpretation DenomAuthorityMetadata_wire: message_codec "DenomAuthorityMetadata_codec pb_runtime discard" enc_DenomAuthorityMetadata "ok_DenomAuthorityMetadata pb_runtime discard"
  for discard by (rule DenomAuthorityMetadata_message_codec [OF pb_runtime_ok])

subsection \<open>Params\<close>

record 'c api_Params =
  Params_DenomCreationFee :: "'c option list"
  Params_DenomCreationGasConsume :: u64
  Params_unknownFields :: bytes

definition new_Params :: "'c api_Params" where
  "new_Params =
    \<lparr>Params_DenomCreationFee = [],
     Params_DenomCreationGasConsume = 0,
     Params_unknownFields = []\<rparr>"

definition size_Params :: "runtime \<Rightarrow> 'c codec \<Rightarrow> 'c api_Params \<Rightarrow> nat" where
  "size_Params R Coin m =
     size_api_messages R Coin (Params_DenomCreationFee m) +
     size_uint (Sov R) (Params_DenomCreationGasConsume m) +
     length (Params_unknownFields m)"

definition put_Params :: "runtime \<Rightarrow> 'c codec \<Rightarrow> 'c api_Params \<Rightarrow> writer" where
  "put_Params R Coin m =
     andThen (put_bytes (Params_unknownFields m)) (\<lambda>_.
     andThen (put_uint (EncodeVarint R) 0x10 (Params_DenomCreationGasConsume m)) (\<lambda>_.
     put_api_messages R Coin 0xa (Params_DenomCreationFee m)))"

definition fields_Params :: "'c codec \<Rightarrow> (int \<times> string \<times> 'c api_Params field) list" where
  "fields_Params Coin =
    [(1, ''DenomCreationFee'', messages_field Coin (\<lambda>y m. m\<lparr>Params_DenomCreationFee := Params_DenomCreationFee m @ [y]\<rparr>)),
     (2, ''DenomCreationGasConsume'', Varint (\<lambda>v m. m\<lparr>Params_DenomCreationGasConsume := v\<rparr>))]"

definition Params_codec :: "runtime \<Rightarrow> bool \<Rightarrow> 'c codec \<Rightarrow> 'c api_Params codec" where
  "Params_codec R discard Coin =
     api_codec ''Params''
       (size_Params R Coin)
       (put_Params R Coin)
       (fields_Params Coin)
       (keep_unknown R discard
         (\<lambda>u m. m\<lparr>Params_unknownFields := Params_unknownFields m @ u\<rparr>))
       new_Params"

definition enc_Params :: "('c \<Rightarrow> bytes) \<Rightarrow> 'c api_Params \<Rightarrow> bytes" where
  "enc_Params eCoin m =
     enc_api_messages 0xa eCoin (Params_DenomCreationFee m) @
     enc_uint 0x10 (Params_DenomCreationGasConsume m) @
     Params_unknownFields m"

definition ok_Params :: "runtime \<Rightarrow> bool \<Rightarrow> ('c \<Rightarrow> bool) \<Rightarrow> 'c api_Params \<Rightarrow> bool" where
  "ok_Params R discard okCoin m \<longleftrightarrow>
     unknown_ok R discard {1, 2} (Params_unknownFields m) \<and>
     ok_all okCoin (Params_DenomCreationFee m)"

lemma fold_Params_DenomCreationFee:
  "fold (\<lambda>x m. m\<lparr>Params_DenomCreationFee := Params_DenomCreationFee m @ [x]\<rparr>) xs m = m\<lparr>Params_DenomCreationFee := Params_DenomCreationFee m @ xs\<rparr>"
  by (induction xs arbitrary: m) simp_all

lemma lookup_Params:
  "map_of (fields_Params Coin) (field_no 0xa) = Some (''DenomCreationFee'', messages_field Coin (\<lambda>y m. m\<lparr>Params_DenomCreationFee := Params_DenomCreationFee m @ [y]\<rparr>))"
  "map_of (fields_Params Coin) (field_no 0x10) = Some (''DenomCreationGasConsume'', Varint (\<lambda>v m. m\<lparr>Params_DenomCreationGasConsume := v\<rparr>))"
  by (simp_all add: fields_Params_def)

lemma Params_message_codec:
  assumes R: "runtime_ok R"
    and cCoin: "message_codec Coin eCoin okCoin"
  shows "message_codec (Params_codec R discard Coin)
    (enc_Params eCoin) (ok_Params R discard okCoin)"
proof -
  show ?thesis
    unfolding Params_codec_def
    apply (rule api_message_codec)
    subgoal for m
      by (simp add: ok_Params_def size_Params_def enc_Params_def runtime_okD [OF R]
          length_api_fields(2) [OF R cCoin, where t = "0xa"])
    subgoal for m
      unfolding put_Params_def enc_Params_def ok_Params_def
      by (rule writes_eq [OF writes_andThen [OF writes_put_bytes
          writes_andThen [OF writes_uint [OF runtime_okD(2) [OF R]]
          writes_api_messages [OF R cCoin]]]])
        simp_all
    subgoal for m
      unfolding enc_Params_def ok_Params_def
      by (rule decodes_eq [OF decodes_append [OF decodes_api_messages [OF cCoin _ _ tags(3) lookup_Params(1)]
          decodes_append [OF decodes_api_uint [OF tags(2) lookup_Params(2)]
          decodes_kept [OF _ _ _ refl]]]])
        (simp_all add: new_Params_def fields_Params_def fold_Params_DenomCreationFee)
    by (simp_all add: keep_unknown_moves_on [OF R] fields_Params_def
        message_fields_return [OF cCoin])
qed

subsection \<open>GenesisDenom\<close>

record api_GenesisDenom =
  GenesisDenom_Denom :: string
  GenesisDenom_AuthorityMetadata :: "api_DenomAuthorityMetadata option"
  GenesisDenom_unknownFields :: bytes

definition new_GenesisDenom :: "api_GenesisDenom" where
  "new_GenesisDenom =
    \<lparr>GenesisDenom_Denom = '''',
     GenesisDenom_AuthorityMetadata = None,
     GenesisDenom_unknownFields = []\<rparr>"

definition size_GenesisDenom :: "runtime \<Rightarrow> bool \<Rightarrow> api_GenesisDenom \<Rightarrow> nat" where
  "size_GenesisDenom R discard m =
     size_string (Sov R) (to_bytes (GenesisDenom_Denom m)) +
     size_api_message R (DenomAuthorityMetadata_codec R discard) (GenesisDenom_AuthorityMetadata m) +
     length (GenesisDenom_unknownFields m)"

definition put_GenesisDenom :: "runtime \<Rightarrow> bool \<Rightarrow> api_GenesisDenom \<Rightarrow> writer" where
  "put_GenesisDenom R discard m =
     andThen (put_bytes (GenesisDenom_unknownFields m)) (\<lambda>_.
     andThen (put_api_message R (DenomAuthorityMetadata_codec R discard) 0x12 (GenesisDenom_AuthorityMetadata m)) (\<lambda>_.
     put_string (EncodeVarint R) 0xa (to_bytes (GenesisDenom_Denom m))))"

definition fields_GenesisDenom :: "runtime \<Rightarrow> bool \<Rightarrow> (int \<times> string \<times> api_GenesisDenom field) list" where
  "fields_GenesisDenom R discard =
    [(1, ''Denom'', string_field (\<lambda>s m. m\<lparr>GenesisDenom_Denom := s\<rparr>)),
     (2, ''AuthorityMetadata'', message_field (DenomAuthorityMetadata_codec R discard) GenesisDenom_AuthorityMetadata (\<lambda>y m. m\<lparr>GenesisDenom_AuthorityMetadata := y\<rparr>))]"

definition GenesisDenom_codec :: "runtime \<Rightarrow> bool \<Rightarrow> api_GenesisDenom codec" where
  "GenesisDenom_codec R discard =
     api_codec ''GenesisDenom''
       (size_GenesisDenom R discard)
       (put_GenesisDenom R discard)
       (fields_GenesisDenom R discard)
       (keep_unknown R discard
         (\<lambda>u m. m\<lparr>GenesisDenom_unknownFields := GenesisDenom_unknownFields m @ u\<rparr>))
       new_GenesisDenom"

definition enc_GenesisDenom :: "api_GenesisDenom \<Rightarrow> bytes" where
  "enc_GenesisDenom m =
     enc_string 0xa (to_bytes (GenesisDenom_Denom m)) @
     enc_api_message 0x12 enc_DenomAuthorityMetadata (GenesisDenom_AuthorityMetadata m) @
     GenesisDenom_unknownFields m"

definition ok_GenesisDenom :: "runtime \<Rightarrow> bool \<Rightarrow> api_GenesisDenom \<Rightarrow> bool" where
  "ok_GenesisDenom R discard m \<longleftrightarrow>
     unknown_ok R discard {1, 2} (GenesisDenom_unknownFields m) \<and>
     ok_opt (ok_DenomAuthorityMetadata R discard) (GenesisDenom_AuthorityMetadata m)"

lemma lookup_GenesisDenom:
  "map_of (fields_GenesisDenom R discard) (field_no 0xa) = Some (''Denom'', string_field (\<lambda>s m. m\<lparr>GenesisDenom_Denom := s\<rparr>))"
  "map_of (fields_GenesisDenom R discard) (field_no 0x12) = Some (''AuthorityMetadata'', message_field (DenomAuthorityMetadata_codec R discard) GenesisDenom_AuthorityMetadata (\<lambda>y m. m\<lparr>GenesisDenom_AuthorityMetadata := y\<rparr>))"
  by (simp_all add: fields_GenesisDenom_def)

lemma GenesisDenom_message_codec:
  assumes R: "runtime_ok R"
  shows "message_codec (GenesisDenom_codec R discard)
    enc_GenesisDenom (ok_GenesisDenom R discard)"
proof -
  note cDenomAuthorityMetadata = DenomAuthorityMetadata_message_codec [OF R]
  show ?thesis
    unfolding GenesisDenom_codec_def
    apply (rule api_message_codec)
    subgoal for m
      by (simp add: ok_GenesisDenom_def size_GenesisDenom_def enc_GenesisDenom_def runtime_okD [OF R]
          length_api_fields(1) [OF R cDenomAuthorityMetadata, where t = "0x12"])
    subgoal for m
      unfolding put_GenesisDenom_def enc_GenesisDenom_def ok_GenesisDenom_def
      by (rule writes_eq [OF writes_andThen [OF writes_put_bytes
          writes_andThen [OF writes_api_message [OF R cDenomAuthorityMetadata]
          writes_string [OF runtime_okD(2) [OF R]]]]])
        simp_all
    subgoal for m
      unfolding enc_GenesisDenom_def ok_GenesisDenom_def
      by (rule decodes_eq [OF decodes_append [OF decodes_api_string [OF tags(3) lookup_GenesisDenom(1)]
          decodes_append [OF decodes_api_message [OF cDenomAuthorityMetadata _ _ tags(4) lookup_GenesisDenom(2)]
          decodes_kept [OF _ _ _ refl]]]])
        (simp_all add: new_GenesisDenom_def fields_GenesisDenom_def)
    by (simp_all add: keep_unknown_moves_on [OF R] fields_GenesisDenom_def
        message_fields_return [OF cDenomAuthorityMetadata])
qed

interpretation GenesisDenom_wire: message_codec "GenesisDenom_codec pb_runtime discard" enc_GenesisDenom "ok_GenesisDenom pb_runtime discard"
  for discard by (rule GenesisDenom_message_codec [OF pb_runtime_ok])

subsection \<open>GenesisState\<close>

record 'c api_GenesisState =
  GenesisState_Params :: "'c api_Params option"
  GenesisState_FactoryDenoms :: "api_GenesisDenom option list"
  GenesisState_unknownFields :: bytes

definition new_GenesisState :: "'c api_GenesisState" where
  "new_GenesisState =
    \<lparr>GenesisState_Params = None,
     GenesisState_FactoryDenoms = [],
     GenesisState_unknownFields = []\<rparr>"

definition size_GenesisState :: "runtime \<Rightarrow> bool \<Rightarrow> 'c codec \<Rightarrow> 'c api_GenesisState \<Rightarrow> nat" where
  "size_GenesisState R discard Coin m =
     size_api_message R (Params_codec R discard Coin) (GenesisState_Params m) +
     size_api_messages R (GenesisDenom_codec R discard) (GenesisState_FactoryDenoms m) +
     length (GenesisState_unknownFields m)"

definition put_GenesisState :: "runtime \<Rightarrow> bool \<Rightarrow> 'c codec \<Rightarrow> 'c api_GenesisState \<Rightarrow> writer" where
  "put_GenesisState R discard Coin m =
     andThen (put_bytes (GenesisState_unknownFields m)) (\<lambda>_.
     andThen (put_api_messages R (GenesisDenom_codec R discard) 0x12 (GenesisState_FactoryDenoms m)) (\<lambda>_.
     put_api_message R (Params_codec R discard Coin) 0xa (GenesisState_Params m)))"

definition fields_GenesisState :: "runtime \<Rightarrow> bool \<Rightarrow> 'c codec \<Rightarrow> (int \<times> string \<times> 'c api_GenesisState field) list" where
  "fields_GenesisState R discard Coin =
    [(1, ''Params'', message_field (Params_codec R discard Coin) GenesisState_Params (\<lambda>y m. m\<lparr>GenesisState_Params := y\<rparr>)),
     (2, ''FactoryDenoms'', messages_field (GenesisDenom_codec R discard) (\<lambda>y m. m\<lparr>GenesisState_FactoryDenoms := GenesisState_FactoryDenoms m @ [y]\<rparr>))]"

definition GenesisState_codec :: "runtime \<Rightarrow> bool \<Rightarrow> 'c codec \<Rightarrow> 'c api_GenesisState codec" where
  "GenesisState_codec R discard Coin =
     api_codec ''GenesisState''
       (size_GenesisState R discard Coin)
       (put_GenesisState R discard Coin)
       (fields_GenesisState R discard Coin)
       (keep_unknown R discard
         (\<lambda>u m. m\<lparr>GenesisState_unknownFields := GenesisState_unknownFields m @ u\<rparr>))
       new_GenesisState"

definition enc_GenesisState :: "('c \<Rightarrow> bytes) \<Rightarrow> 'c api_GenesisState \<Rightarrow> bytes" where
  "enc_GenesisState eCoin m =
     enc_api_message 0xa (enc_Params eCoin) (GenesisState_Params m) @
     enc_api_messages 0x12 enc_GenesisDenom (GenesisState_FactoryDenoms m) @
     GenesisState_unknownFields m"

definition ok_GenesisState :: "runtime \<Rightarrow> bool \<Rightarrow> ('c \<Rightarrow> bool) \<Rightarrow> 'c api_GenesisState \<Rightarrow> bool" where
  "ok_GenesisState R discard okCoin m \<longleftrightarrow>
     unknown_ok R discard {1, 2} (GenesisState_unknownFields m) \<and>
     ok_opt (ok_Params R discard okCoin) (GenesisState_Params m) \<and>
     ok_all (ok_GenesisDenom R discard) (GenesisState_FactoryDenoms m)"

lemma fold_GenesisState_FactoryDenoms:
  "fold (\<lambda>x m. m\<lparr>GenesisState_FactoryDenoms := GenesisState_FactoryDenoms m @ [x]\<rparr>) xs m = m\<lparr>GenesisState_FactoryDenoms := GenesisState_FactoryDenoms m @ xs\<rparr>"
  by (induction xs arbitrary: m) simp_all

lemma lookup_GenesisState:
  "map_of (fields_GenesisState R discard Coin) (field_no 0xa) = Some (''Params'', message_field (Params_codec R discard Coin) GenesisState_Params (\<lambda>y m. m\<lparr>GenesisState_Params := y\<rparr>))"
  "map_of (fields_GenesisState R discard Coin) (field_no 0x12) = Some (''FactoryDenoms'', messages_field (GenesisDenom_codec R discard) (\<lambda>y m. m\<lparr>GenesisState_FactoryDenoms := GenesisState_FactoryDenoms m @ [y]\<rparr>))"
  by (simp_all add: fields_GenesisState_def)

lemma GenesisState_message_codec:
  assumes R: "runtime_ok R"
    and cCoin: "message_codec Coin eCoin okCoin"
  shows "message_codec (GenesisState_codec R discard Coin)
    (enc_GenesisState eCoin) (ok_GenesisState R discard okCoin)"
proof -
  note cParams = Params_message_codec [OF R cCoin]
  note cGenesisDenom = GenesisDenom_message_codec [OF R]
  show ?thesis
    unfolding GenesisState_codec_def
    apply (rule api_message_codec)
    subgoal for m
      by (simp add: ok_GenesisState_def size_GenesisState_def enc_GenesisState_def runtime_okD [OF R]
          length_api_fields(1) [OF R cParams, where t = "0xa"]
          length_api_fields(2) [OF R cGenesisDenom, where t = "0x12"])
    subgoal for m
      unfolding put_GenesisState_def enc_GenesisState_def ok_GenesisState_def
      by (rule writes_eq [OF writes_andThen [OF writes_put_bytes
          writes_andThen [OF writes_api_messages [OF R cGenesisDenom]
          writes_api_message [OF R cParams]]]])
        simp_all
    subgoal for m
      unfolding enc_GenesisState_def ok_GenesisState_def
      by (rule decodes_eq [OF decodes_append [OF decodes_api_message [OF cParams _ _ tags(3) lookup_GenesisState(1)]
          decodes_append [OF decodes_api_messages [OF cGenesisDenom _ _ tags(4) lookup_GenesisState(2)]
          decodes_kept [OF _ _ _ refl]]]])
        (simp_all add: new_GenesisState_def fields_GenesisState_def fold_GenesisState_FactoryDenoms)
    by (simp_all add: keep_unknown_moves_on [OF R] fields_GenesisState_def
        message_fields_return [OF cParams]
        message_fields_return [OF cGenesisDenom])
qed

end
