(* ===== verification/PulsarQuery.thy ===== *)
theory PulsarQuery
  imports PulsarTF
begin

text \<open>
  The messages of the tokenfactory queries: \<open>query.pulsar.go\<close> under
  \<open>api/miniwasm\<close>.  For a message \<open>M\<close>: the struct with its unknown fields, the bodies of
  \<open>size\<close> and \<open>marshal\<close> for a message that is not nil, the cases of \<open>unmarshal\<close>, and the
  methods together; then its encoding \<open>enc_M\<close>, the messages \<open>ok_M\<close> it is for, and that the
  methods implement it.  A nil element of a list of messages is not told from an empty one by the
  encoding, and so is not among them.
\<close>

subsection \<open>QueryParamsRequest\<close>

record api_QueryParamsRequest =
  QueryParamsRequest_unknownFields :: bytes

definition new_QueryParamsRequest :: "api_QueryParamsRequest" where
  "new_QueryParamsRequest =
    \<lparr>QueryParamsRequest_unknownFields = []\<rparr>"

definition QueryParamsRequest_codec :: "runtime \<Rightarrow> bool \<Rightarrow> api_QueryParamsRequest codec" where
  "QueryParamsRequest_codec R discard =
     api_codec ''QueryParamsRequest''
       (\<lambda>m. length (QueryParamsRequest_unknownFields m))
       (\<lambda>m. put_bytes (QueryParamsRequest_unknownFields m))
       []
       (keep_unknown R discard
         (\<lambda>u m. m\<lparr>QueryParamsRequest_unknownFields := QueryParamsRequest_unknownFields m @ u\<rparr>))
       new_QueryParamsRequest"

definition enc_QueryParamsRequest :: "api_QueryParamsRequest \<Rightarrow> bytes" where
  "enc_QueryParamsRequest m =
     QueryParamsRequest_unknownFields m"

definition ok_QueryParamsRequest :: "runtime \<Rightarrow> bool \<Rightarrow> api_QueryParamsRequest \<Rightarrow> bool" where
  "ok_QueryParamsRequest R discard m \<longleftrightarrow>
     unknown_ok R discard {} (QueryParamsRequest_unknownFields m)"

lemma QueryParamsRequest_message_codec:
  assumes R: "runtime_ok R"
  shows "message_codec (QueryParamsRequest_codec R discard)
    enc_QueryParamsRequest (ok_QueryParamsRequest R discard)"
  unfolding QueryParamsRequest_codec_def enc_QueryParamsRequest_def [abs_def] ok_QueryParamsRequest_def [abs_def]
  by (rule empty_message_codec [OF R]) (simp_all add: new_QueryParamsRequest_def)

interpretation QueryParamsRequest_wire: message_codec "QueryParamsRequest_codec pb_runtime discard" enc_QueryParamsRequest "ok_QueryParamsRequest pb_runtime discard"
  for discard by (rule QueryParamsRequest_message_codec [OF pb_runtime_ok])

subsection \<open>QueryParamsResponse\<close>

record 'c api_QueryParamsResponse =
  QueryParamsResponse_Params :: "'c api_Params option"
  QueryParamsResponse_unknownFields :: bytes

definition new_QueryParamsResponse :: "'c api_QueryParamsResponse" where
  "new_QueryParamsResponse =
    \<lparr>QueryParamsResponse_Params = None,
     QueryParamsResponse_unknownFields = []\<rparr>"

definition size_QueryParamsResponse :: "runtime \<Rightarrow> bool \<Rightarrow> 'c codec \<Rightarrow> 'c api_QueryParamsResponse \<Rightarrow> nat" where
  "size_QueryParamsResponse R discard Coin m =
     size_api_message R (Params_codec R discard Coin) (QueryParamsResponse_Params m) +
     length (QueryParamsResponse_unknownFields m)"

definition put_QueryParamsResponse :: "runtime \<Rightarrow> bool \<Rightarrow> 'c codec \<Rightarrow> 'c api_QueryParamsResponse \<Rightarrow> writer" where
  "put_QueryParamsResponse R discard Coin m =
     andThen (put_bytes (QueryParamsResponse_unknownFields m)) (\<lambda>_.
     put_api_message R (Params_codec R discard Coin) 0xa (QueryParamsResponse_Params m))"

definition fields_QueryParamsResponse :: "runtime \<Rightarrow> bool \<Rightarrow> 'c codec \<Rightarrow> (int \<times> string \<times> 'c api_QueryParamsResponse field) list" where
  "fields_QueryParamsResponse R discard Coin =
    [(1, ''Params'', message_field (Params_codec R discard Coin) QueryParamsResponse_Params (\<lambda>y m. m\<lparr>QueryParamsResponse_Params := y\<rparr>))]"

definition QueryParamsResponse_codec :: "runtime \<Rightarrow> bool \<Rightarrow> 'c codec \<Rightarrow> 'c api_QueryParamsResponse codec" where
  "QueryParamsResponse_codec R discard Coin =
     api_codec ''QueryParamsResponse''
       (size_QueryParamsResponse R discard Coin)
       (put_QueryParamsResponse R discard Coin)
       (fields_QueryParamsResponse R discard Coin)
       (keep_unknown R discard
         (\<lambda>u m. m\<lparr>QueryParamsResponse_unknownFields := QueryParamsResponse_unknownFields m @ u\<rparr>))
       new_QueryParamsResponse"

definition enc_QueryParamsResponse :: "('c \<Rightarrow> bytes) \<Rightarrow> 'c api_QueryParamsResponse \<Rightarrow> bytes" where
  "enc_QueryParamsResponse eCoin m =
     enc_api_message 0xa (enc_Params eCoin) (QueryParamsResponse_Params m) @
     QueryParamsResponse_unknownFields m"

definition ok_QueryParamsResponse :: "runtime \<Rightarrow> bool \<Rightarrow> ('c \<Rightarrow> bool) \<Rightarrow> 'c api_QueryParamsResponse \<Rightarrow> bool" where
  "ok_QueryParamsResponse R discard okCoin m \<longleftrightarrow>
     unknown_ok R discard {1} (QueryParamsResponse_unknownFields m) \<and>
     ok_opt (ok_Params R discard okCoin) (QueryParamsResponse_Params m)"

lemma lookup_QueryParamsResponse:
  "map_of (fields_QueryParamsResponse R discard Coin) (field_no 0xa) = Some (''Params'', message_field (Params_codec R discard Coin) QueryParamsResponse_Params (\<lambda>y m. m\<lparr>QueryParamsResponse_Params := y\<rparr>))"
  by (simp_all add: fields_QueryParamsResponse_def)

lemma QueryParamsResponse_message_codec:
  assumes R: "runtime_ok R"
    and cCoin: "message_codec Coin eCoin okCoin"
  shows "message_codec (QueryParamsResponse_codec R discard Coin)
    (enc_QueryParamsResponse eCoin) (ok_QueryParamsResponse R discard okCoin)"
proof -
  note cParams = Params_message_codec [OF R cCoin]
  show ?thesis
    unfolding QueryParamsResponse_codec_def
    apply (rule api_message_codec)
    subgoal for m
      by (simp add: ok_QueryParamsResponse_def size_QueryParamsResponse_def enc_QueryParamsResponse_def runtime_okD [OF R]
          length_api_fields(1) [OF R cParams, where t = "0xa"])
    subgoal for m
      unfolding put_QueryParamsResponse_def enc_QueryParamsResponse_def ok_QueryParamsResponse_def
      by (rule writes_eq [OF writes_andThen [OF writes_put_bytes
          writes_api_message [OF R cParams]]])
        simp_all
    subgoal for m
      unfolding enc_QueryParamsResponse_def ok_QueryParamsResponse_def
      by (rule decodes_eq [OF decodes_append [OF decodes_api_message [OF cParams _ _ tags(3) lookup_QueryParamsResponse]
          decodes_kept [OF _ _ _ refl]]])
        (simp_all add: new_QueryParamsResponse_def fields_QueryParamsResponse_def)
    by (simp_all add: keep_unknown_moves_on [OF R] fields_QueryParamsResponse_def
        message_fields_return [OF cParams])
qed

subsection \<open>QueryDenomAuthorityMetadataRequest\<close>

record api_QueryDenomAuthorityMetadataRequest =
  QueryDenomAuthorityMetadataRequest_Denom :: string
  QueryDenomAuthorityMetadataRequest_unknownFields :: bytes

definition new_QueryDenomAuthorityMetadataRequest :: "api_QueryDenomAuthorityMetadataRequest" where
  "new_QueryDenomAuthorityMetadataRequest =
    \<lparr>QueryDenomAuthorityMetadataRequest_Denom = '''',
     QueryDenomAuthorityMetadataRequest_unknownFields = []\<rparr>"

definition size_QueryDenomAuthorityMetadataRequest :: "runtime \<Rightarrow> api_QueryDenomAuthorityMetadataRequest \<Rightarrow> nat" where
  "size_QueryDenomAuthorityMetadataRequest R m =
     size_string (Sov R) (to_bytes (QueryDenomAuthorityMetadataRequest_Denom m)) +
     length (QueryDenomAuthorityMetadataRequest_unknownFields m)"

definition put_QueryDenomAuthorityMetadataRequest :: "runtime \<Rightarrow> api_QueryDenomAuthorityMetadataRequest \<Rightarrow> writer" where
  "put_QueryDenomAuthorityMetadataRequest R m =
     andThen (put_bytes (QueryDenomAuthorityMetadataRequest_unknownFields m)) (\<lambda>_.
     put_string (EncodeVarint R) 0xa (to_bytes (QueryDenomAuthorityMetadataRequest_Denom m)))"

definition fields_QueryDenomAuthorityMetadataRequest :: "(int \<times> string \<times> api_QueryDenomAuthorityMetadataRequest field) list" where
  "fields_QueryDenomAuthorityMetadataRequest =
    [(1, ''Denom'', string_field (\<lambda>s m. m\<lparr>QueryDenomAuthorityMetadataRequest_Denom := s\<rparr>))]"

definition QueryDenomAuthorityMetadataRequest_codec :: "runtime \<Rightarrow> bool \<Rightarrow> api_QueryDenomAuthorityMetadataRequest codec" where
  "QueryDenomAuthorityMetadataRequest_codec R discard =
     api_codec ''QueryDenomAuthorityMetadataRequest''
       (size_QueryDenomAuthorityMetadataRequest R)
       (put_QueryDenomAuthorityMetadataRequest R)
       fields_QueryDenomAuthorityMetadataRequest
       (keep_unknown R discard
         (\<lambda>u m. m\<lparr>QueryDenomAuthorityMetadataRequest_unknownFields := QueryDenomAuthorityMetadataRequest_unknownFields m @ u\<rparr>))
       new_QueryDenomAuthorityMetadataRequest"

definition enc_QueryDenomAuthorityMetadataRequest :: "api_QueryDenomAuthorityMetadataRequest \<Rightarrow> bytes" where
  "enc_QueryDenomAuthorityMetadataRequest m =
     enc_string 0xa (to_bytes (QueryDenomAuthorityMetadataRequest_Denom m)) @
     QueryDenomAuthorityMetadataRequest_unknownFields m"

definition ok_QueryDenomAuthorityMetadataRequest :: "runtime \<Rightarrow> bool \<Rightarrow> api_QueryDenomAuthorityMetadataRequest \<Rightarrow> bool" where
  "ok_QueryDenomAuthorityMetadataRequest R discard m \<longleftrightarrow>
     unknown_ok R discard {1} (QueryDenomAuthorityMetadataRequest_unknownFields m)"

lemma lookup_QueryDenomAuthorityMetadataRequest:
  "map_of fields_QueryDenomAuthorityMetadataRequest (field_no 0xa) = Some (''Denom'', string_field (\<lambda>s m. m\<lparr>QueryDenomAuthorityMetadataRequest_Denom := s\<rparr>))"
  by (simp_all add: fields_QueryDenomAuthorityMetadataRequest_def)

lemma QueryDenomAuthorityMetadataRequest_message_codec:
  assumes R: "runtime_ok R"
  shows "message_codec (QueryDenomAuthorityMetadataRequest_codec R discard)
    enc_QueryDenomAuthorityMetadataRequest (ok_QueryDenomAuthorityMetadataRequest R discard)"
proof -
  show ?thesis
    unfolding QueryDenomAuthorityMetadataRequest_codec_def
    apply (rule api_message_codec)
    subgoal for m
      by (simp add: ok_QueryDenomAuthorityMetadataRequest_def size_QueryDenomAuthorityMetadataRequest_def enc_QueryDenomAuthorityMetadataRequest_def runtime_okD [OF R])
    subgoal for m
      unfolding put_QueryDenomAuthorityMetadataRequest_def enc_QueryDenomAuthorityMetadataRequest_def ok_QueryDenomAuthorityMetadataRequest_def
      by (rule writes_eq [OF writes_andThen [OF writes_put_bytes
          writes_string [OF runtime_okD(2) [OF R]]]])
        simp_all
    subgoal for m
      unfolding enc_QueryDenomAuthorityMetadataRequest_def ok_QueryDenomAuthorityMetadataRequest_def
      by (rule decodes_eq [OF decodes_append [OF decodes_api_string [OF tags(3) lookup_QueryDenomAuthorityMetadataRequest]
          decodes_kept [OF _ _ _ refl]]])
        (simp_all add: new_QueryDenomAuthorityMetadataRequest_def fields_QueryDenomAuthorityMetadataRequest_def)
    by (simp_all add: keep_unknown_moves_on [OF R] fields_QueryDenomAuthorityMetadataRequest_def)
qed

interpretation QueryDenomAuthorityMetadataRequest_wire: message_codec "QueryDenomAuthorityMetadataRequest_codec pb_runtime discard" enc_QueryDenomAuthorityMetadataRequest "ok_QueryDenomAuthorityMetadataRequest pb_runtime discard"
  for discard by (rule QueryDenomAuthorityMetadataRequest_message_codec [OF pb_runtime_ok])

subsection \<open>QueryDenomAuthorityMetadataResponse\<close>

record api_QueryDenomAuthorityMetadataResponse =
  QueryDenomAuthorityMetadataResponse_AuthorityMetadata :: "api_DenomAuthorityMetadata option"
  QueryDenomAuthorityMetadataResponse_unknownFields :: bytes

definition new_QueryDenomAuthorityMetadataResponse :: "api_QueryDenomAuthorityMetadataResponse" where
  "new_QueryDenomAuthorityMetadataResponse =
    \<lparr>QueryDenomAuthorityMetadataResponse_AuthorityMetadata = None,
     QueryDenomAuthorityMetadataResponse_unknownFields = []\<rparr>"

definition size_QueryDenomAuthorityMetadataResponse :: "runtime \<Rightarrow> bool \<Rightarrow> api_QueryDenomAuthorityMetadataResponse \<Rightarrow> nat" where
  "size_QueryDenomAuthorityMetadataResponse R discard m =
     size_api_message R (DenomAuthorityMetadata_codec R discard) (QueryDenomAuthorityMetadataResponse_AuthorityMetadata m) +
     length (QueryDenomAuthorityMetadataResponse_unknownFields m)"

definition put_QueryDenomAuthorityMetadataResponse :: "runtime \<Rightarrow> bool \<Rightarrow> api_QueryDenomAuthorityMetadataResponse \<Rightarrow> writer" where
  "put_QueryDenomAuthorityMetadataResponse R discard m =
     andThen (put_bytes (QueryDenomAuthorityMetadataResponse_unknownFields m)) (\<lambda>_.
     put_api_message R (DenomAuthorityMetadata_codec R discard) 0xa (QueryDenomAuthorityMetadataResponse_AuthorityMetadata m))"

definition fields_QueryDenomAuthorityMetadataResponse :: "runtime \<Rightarrow> bool \<Rightarrow> (int \<times> string \<times> api_QueryDenomAuthorityMetadataResponse field) list" where
  "fields_QueryDenomAuthorityMetadataResponse R discard =
    [(1, ''AuthorityMetadata'', message_field (DenomAuthorityMetadata_codec R discard) QueryDenomAuthorityMetadataResponse_AuthorityMetadata (\<lambda>y m. m\<lparr>QueryDenomAuthorityMetadataResponse_AuthorityMetadata := y\<rparr>))]"

definition QueryDenomAuthorityMetadataResponse_codec :: "runtime \<Rightarrow> bool \<Rightarrow> api_QueryDenomAuthorityMetadataResponse codec" where
  "QueryDenomAuthorityMetadataResponse_codec R discard =
     api_codec ''QueryDenomAuthorityMetadataResponse''
       (size_QueryDenomAuthorityMetadataResponse R discard)
       (put_QueryDenomAuthorityMetadataResponse R discard)
       (fields_QueryDenomAuthorityMetadataResponse R discard)
       (keep_unknown R discard
         (\<lambda>u m. m\<lparr>QueryDenomAuthorityMetadataResponse_unknownFields := QueryDenomAuthorityMetadataResponse_unknownFields m @ u\<rparr>))
       new_QueryDenomAuthorityMetadataResponse"

definition enc_QueryDenomAuthorityMetadataResponse :: "api_QueryDenomAuthorityMetadataResponse \<Rightarrow> bytes" where
  "enc_QueryDenomAuthorityMetadataResponse m =
     enc_api_message 0xa enc_DenomAuthorityMetadata (QueryDenomAuthorityMetadataResponse_AuthorityMetadata m) @
     QueryDenomAuthorityMetadataResponse_unknownFields m"

definition ok_QueryDenomAuthorityMetadataResponse :: "runtime \<Rightarrow> bool \<Rightarrow> api_QueryDenomAuthorityMetadataResponse \<Rightarrow> bool" where
  "ok_QueryDenomAuthorityMetadataResponse R discard m \<longleftrightarrow>
     unknown_ok R discard {1} (QueryDenomAuthorityMetadataResponse_unknownFields m) \<and>
     ok_opt (ok_DenomAuthorityMetadata R discard) (QueryDenomAuthorityMetadataResponse_AuthorityMetadata m)"

lemma lookup_QueryDenomAuthorityMetadataResponse:
  "map_of (fields_QueryDenomAuthorityMetadataResponse R discard) (field_no 0xa) = Some (''AuthorityMetadata'', message_field (DenomAuthorityMetadata_codec R discard) QueryDenomAuthorityMetadataResponse_AuthorityMetadata (\<lambda>y m. m\<lparr>QueryDenomAuthorityMetadataResponse_AuthorityMetadata := y\<rparr>))"
  by (simp_all add: fields_QueryDenomAuthorityMetadataResponse_def)

lemma QueryDenomAuthorityMetadataResponse_message_codec:
  assumes R: "runtime_ok R"
  shows "message_codec (QueryDenomAuthorityMetadataResponse_codec R discard)
    enc_QueryDenomAuthorityMetadataResponse (ok_QueryDenomAuthorityMetadataResponse R discard)"
proof -
  note cDenomAuthorityMetadata = DenomAuthorityMetadata_message_codec [OF R]
  show ?thesis
    unfolding QueryDenomAuthorityMetadataResponse_codec_def
    apply (rule api_message_codec)
    subgoal for m
      by (simp add: ok_QueryDenomAuthorityMetadataResponse_def size_QueryDenomAuthorityMetadataResponse_def enc_QueryDenomAuthorityMetadataResponse_def runtime_okD [OF R]
          length_api_fields(1) [OF R cDenomAuthorityMetadata, where t = "0xa"])
    subgoal for m
      unfolding put_QueryDenomAuthorityMetadataResponse_def enc_QueryDenomAuthorityMetadataResponse_def ok_QueryDenomAuthorityMetadataResponse_def
      by (rule writes_eq [OF writes_andThen [OF writes_put_bytes
          writes_api_message [OF R cDenomAuthorityMetadata]]])
        simp_all
    subgoal for m
      unfolding enc_QueryDenomAuthorityMetadataResponse_def ok_QueryDenomAuthorityMetadataResponse_def
      by (rule decodes_eq [OF decodes_append [OF decodes_api_message [OF cDenomAuthorityMetadata _ _ tags(3) lookup_QueryDenomAuthorityMetadataResponse]
          decodes_kept [OF _ _ _ refl]]])
        (simp_all add: new_QueryDenomAuthorityMetadataResponse_def fields_QueryDenomAuthorityMetadataResponse_def)
    by (simp_all add: keep_unknown_moves_on [OF R] fields_QueryDenomAuthorityMetadataResponse_def
        message_fields_return [OF cDenomAuthorityMetadata])
qed

interpretation QueryDenomAuthorityMetadataResponse_wire: message_codec "QueryDenomAuthorityMetadataResponse_codec pb_runtime discard" enc_QueryDenomAuthorityMetadataResponse "ok_QueryDenomAuthorityMetadataResponse pb_runtime discard"
  for discard by (rule QueryDenomAuthorityMetadataResponse_message_codec [OF pb_runtime_ok])

subsection \<open>QueryDenomsFromCreatorRequest\<close>

record api_QueryDenomsFromCreatorRequest =
  QueryDenomsFromCreatorRequest_Creator :: string
  QueryDenomsFromCreatorRequest_unknownFields :: bytes

definition new_QueryDenomsFromCreatorRequest :: "api_QueryDenomsFromCreatorRequest" where
  "new_QueryDenomsFromCreatorRequest =
    \<lparr>QueryDenomsFromCreatorRequest_Creator = '''',
     QueryDenomsFromCreatorRequest_unknownFields = []\<rparr>"

definition size_QueryDenomsFromCreatorRequest :: "runtime \<Rightarrow> api_QueryDenomsFromCreatorRequest \<Rightarrow> nat" where
  "size_QueryDenomsFromCreatorRequest R m =
     size_string (Sov R) (to_bytes (QueryDenomsFromCreatorRequest_Creator m)) +
     length (QueryDenomsFromCreatorRequest_unknownFields m)"

definition put_QueryDenomsFromCreatorRequest :: "runtime \<Rightarrow> api_QueryDenomsFromCreatorRequest \<Rightarrow> writer" where
  "put_QueryDenomsFromCreatorRequest R m =
     andThen (put_bytes (QueryDenomsFromCreatorRequest_unknownFields m)) (\<lambda>_.
     put_string (EncodeVarint R) 0xa (to_bytes (QueryDenomsFromCreatorRequest_Creator m)))"

definition fields_QueryDenomsFromCreatorRequest :: "(int \<times> string \<times> api_QueryDenomsFromCreatorRequest field) list" where
  "fields_QueryDenomsFromCreatorRequest =
    [(1, ''Creator'', string_field (\<lambda>s m. m\<lparr>QueryDenomsFromCreatorRequest_Creator := s\<rparr>))]"

definition QueryDenomsFromCreatorRequest_codec :: "runtime \<Rightarrow> bool \<Rightarrow> api_QueryDenomsFromCreatorRequest codec" where
  "QueryDenomsFromCreatorRequest_codec R discard =
     api_codec ''QueryDenomsFromCreatorRequest''
       (size_QueryDenomsFromCreatorRequest R)
       (put_QueryDenomsFromCreatorRequest R)
       fields_QueryDenomsFromCreatorRequest
       (keep_unknown R discard
         (\<lambda>u m. m\<lparr>QueryDenomsFromCreatorRequest_unknownFields := QueryDenomsFromCreatorRequest_unknownFields m @ u\<rparr>))
       new_QueryDenomsFromCreatorRequest"

definition enc_QueryDenomsFromCreatorRequest :: "api_QueryDenomsFromCreatorRequest \<Rightarrow> bytes" where
  "enc_QueryDenomsFromCreatorRequest m =
     enc_string 0xa (to_bytes (QueryDenomsFromCreatorRequest_Creator m)) @
     QueryDenomsFromCreatorRequest_unknownFields m"

definition ok_QueryDenomsFromCreatorRequest :: "runtime \<Rightarrow> bool \<Rightarrow> api_QueryDenomsFromCreatorRequest \<Rightarrow> bool" where
  "ok_QueryDenomsFromCreatorRequest R discard m \<longleftrightarrow>
     unknown_ok R discard {1} (QueryDenomsFromCreatorRequest_unknownFields m)"

lemma lookup_QueryDenomsFromCreatorRequest:
  "map_of fields_QueryDenomsFromCreatorRequest (field_no 0xa) = Some (''Creator'', string_field (\<lambda>s m. m\<lparr>QueryDenomsFromCreatorRequest_Creator := s\<rparr>))"
  by (simp_all add: fields_QueryDenomsFromCreatorRequest_def)

lemma QueryDenomsFromCreatorRequest_message_codec:
  assumes R: "runtime_ok R"
  shows "message_codec (QueryDenomsFromCreatorRequest_codec R discard)
    enc_QueryDenomsFromCreatorRequest (ok_QueryDenomsFromCreatorRequest R discard)"
proof -
  show ?thesis
    unfolding QueryDenomsFromCreatorRequest_codec_def
    apply (rule api_message_codec)
    subgoal for m
      by (simp add: ok_QueryDenomsFromCreatorRequest_def size_QueryDenomsFromCreatorRequest_def enc_QueryDenomsFromCreatorRequest_def runtime_okD [OF R])
    subgoal for m
      unfolding put_QueryDenomsFromCreatorRequest_def enc_QueryDenomsFromCreatorRequest_def ok_QueryDenomsFromCreatorRequest_def
      by (rule writes_eq [OF writes_andThen [OF writes_put_bytes
          writes_string [OF runtime_okD(2) [OF R]]]])
        simp_all
    subgoal for m
      unfolding enc_QueryDenomsFromCreatorRequest_def ok_QueryDenomsFromCreatorRequest_def
      by (rule decodes_eq [OF decodes_append [OF decodes_api_string [OF tags(3) lookup_QueryDenomsFromCreatorRequest]
          decodes_kept [OF _ _ _ refl]]])
        (simp_all add: new_QueryDenomsFromCreatorRequest_def fields_QueryDenomsFromCreatorRequest_def)
    by (simp_all add: keep_unknown_moves_on [OF R] fields_QueryDenomsFromCreatorRequest_def)
qed

interpretation QueryDenomsFromCreatorRequest_wire: message_codec "QueryDenomsFromCreatorRequest_codec pb_runtime discard" enc_QueryDenomsFromCreatorRequest "ok_QueryDenomsFromCreatorRequest pb_runtime discard"
  for discard by (rule QueryDenomsFromCreatorRequest_message_codec [OF pb_runtime_ok])

subsection \<open>QueryDenomsFromCreatorResponse\<close>

record api_QueryDenomsFromCreatorResponse =
  QueryDenomsFromCreatorResponse_Denoms :: "string list"
  QueryDenomsFromCreatorResponse_unknownFields :: bytes

definition new_QueryDenomsFromCreatorResponse :: "api_QueryDenomsFromCreatorResponse" where
  "new_QueryDenomsFromCreatorResponse =
    \<lparr>QueryDenomsFromCreatorResponse_Denoms = [],
     QueryDenomsFromCreatorResponse_unknownFields = []\<rparr>"

definition size_QueryDenomsFromCreatorResponse :: "runtime \<Rightarrow> api_QueryDenomsFromCreatorResponse \<Rightarrow> nat" where
  "size_QueryDenomsFromCreatorResponse R m =
     size_api_strings R (QueryDenomsFromCreatorResponse_Denoms m) +
     length (QueryDenomsFromCreatorResponse_unknownFields m)"

definition put_QueryDenomsFromCreatorResponse :: "runtime \<Rightarrow> api_QueryDenomsFromCreatorResponse \<Rightarrow> writer" where
  "put_QueryDenomsFromCreatorResponse R m =
     andThen (put_bytes (QueryDenomsFromCreatorResponse_unknownFields m)) (\<lambda>_.
     put_api_strings R 0xa (QueryDenomsFromCreatorResponse_Denoms m))"

definition fields_QueryDenomsFromCreatorResponse :: "(int \<times> string \<times> api_QueryDenomsFromCreatorResponse field) list" where
  "fields_QueryDenomsFromCreatorResponse =
    [(1, ''Denoms'', string_field (\<lambda>s m. m\<lparr>QueryDenomsFromCreatorResponse_Denoms := QueryDenomsFromCreatorResponse_Denoms m @ [s]\<rparr>))]"

definition QueryDenomsFromCreatorResponse_codec :: "runtime \<Rightarrow> bool \<Rightarrow> api_QueryDenomsFromCreatorResponse codec" where
  "QueryDenomsFromCreatorResponse_codec R discard =
     api_codec ''QueryDenomsFromCreatorResponse''
       (size_QueryDenomsFromCreatorResponse R)
       (put_QueryDenomsFromCreatorResponse R)
       fields_QueryDenomsFromCreatorResponse
       (keep_unknown R discard
         (\<lambda>u m. m\<lparr>QueryDenomsFromCreatorResponse_unknownFields := QueryDenomsFromCreatorResponse_unknownFields m @ u\<rparr>))
       new_QueryDenomsFromCreatorResponse"

definition enc_QueryDenomsFromCreatorResponse :: "api_QueryDenomsFromCreatorResponse \<Rightarrow> bytes" where
  "enc_QueryDenomsFromCreatorResponse m =
     enc_api_strings 0xa (QueryDenomsFromCreatorResponse_Denoms m) @
     QueryDenomsFromCreatorResponse_unknownFields m"

definition ok_QueryDenomsFromCreatorResponse :: "runtime \<Rightarrow> bool \<Rightarrow> api_QueryDenomsFromCreatorResponse \<Rightarrow> bool" where
  "ok_QueryDenomsFromCreatorResponse R discard m \<longleftrightarrow>
     unknown_ok R discard {1} (QueryDenomsFromCreatorResponse_unknownFields m)"

lemma fold_QueryDenomsFromCreatorResponse_Denoms:
  "fold (\<lambda>x m. m\<lparr>QueryDenomsFromCreatorResponse_Denoms := QueryDenomsFromCreatorResponse_Denoms m @ [x]\<rparr>) xs m = m\<lparr>QueryDenomsFromCreatorResponse_Denoms := QueryDenomsFromCreatorResponse_Denoms m @ xs\<rparr>"
  by (induction xs arbitrary: m) simp_all

lemma lookup_QueryDenomsFromCreatorResponse:
  "map_of fields_QueryDenomsFromCreatorResponse (field_no 0xa) = Some (''Denoms'', string_field (\<lambda>s m. m\<lparr>QueryDenomsFromCreatorResponse_Denoms := QueryDenomsFromCreatorResponse_Denoms m @ [s]\<rparr>))"
  by (simp_all add: fields_QueryDenomsFromCreatorResponse_def)

lemma QueryDenomsFromCreatorResponse_message_codec:
  assumes R: "runtime_ok R"
  shows "message_codec (QueryDenomsFromCreatorResponse_codec R discard)
    enc_QueryDenomsFromCreatorResponse (ok_QueryDenomsFromCreatorResponse R discard)"
proof -
  show ?thesis
    unfolding QueryDenomsFromCreatorResponse_codec_def
    apply (rule api_message_codec)
    subgoal for m
      by (simp add: ok_QueryDenomsFromCreatorResponse_def size_QueryDenomsFromCreatorResponse_def enc_QueryDenomsFromCreatorResponse_def runtime_okD [OF R]
          length_api_strings [OF R, where t = "0xa"])
    subgoal for m
      unfolding put_QueryDenomsFromCreatorResponse_def enc_QueryDenomsFromCreatorResponse_def ok_QueryDenomsFromCreatorResponse_def
      by (rule writes_eq [OF writes_andThen [OF writes_put_bytes
          writes_api_strings [OF R]]])
        simp_all
    subgoal for m
      unfolding enc_QueryDenomsFromCreatorResponse_def ok_QueryDenomsFromCreatorResponse_def
      by (rule decodes_eq [OF decodes_append [OF decodes_api_strings [OF tags(3) lookup_QueryDenomsFromCreatorResponse]
          decodes_kept [OF _ _ _ refl]]])
        (simp_all add: new_QueryDenomsFromCreatorResponse_def fields_QueryDenomsFromCreatorResponse_def fold_QueryDenomsFromCreatorResponse_Denoms)
    by (simp_all add: keep_unknown_moves_on [OF R] fields_QueryDenomsFromCreatorResponse_def)
qed

interpretation QueryDenomsFromCreatorResponse_wire: message_codec "QueryDenomsFromCreatorResponse_codec pb_runtime discard" enc_QueryDenomsFromCreatorResponse "ok_QueryDenomsFromCreatorResponse pb_runtime discard"
  for discard by (rule QueryDenomsFromCreatorResponse_message_codec [OF pb_runtime_ok])

subsection \<open>QueryBeforeSendHookAddressRequest\<close>

record api_QueryBeforeSendHookAddressRequest =
  QueryBeforeSendHookAddressRequest_Denom :: string
  QueryBeforeSendHookAddressRequest_unknownFields :: bytes

definition new_QueryBeforeSendHookAddressRequest :: "api_QueryBeforeSendHookAddressRequest" where
  "new_QueryBeforeSendHookAddressRequest =
    \<lparr>QueryBeforeSendHookAddressRequest_Denom = '''',
     QueryBeforeSendHookAddressRequest_unknownFields = []\<rparr>"

definition size_QueryBeforeSendHookAddressRequest :: "runtime \<Rightarrow> api_QueryBeforeSendHookAddressRequest \<Rightarrow> nat" where
  "size_QueryBeforeSendHookAddressRequest R m =
     size_string (Sov R) (to_bytes (QueryBeforeSendHookAddressRequest_Denom m)) +
     length (QueryBeforeSendHookAddressRequest_unknownFields m)"

definition put_QueryBeforeSendHookAddressRequest :: "runtime \<Rightarrow> api_QueryBeforeSendHookAddressRequest \<Rightarrow> writer" where
  "put_QueryBeforeSendHookAddressRequest R m =
     andThen (put_bytes (QueryBeforeSendHookAddressRequest_unknownFields m)) (\<lambda>_.
     put_string (EncodeVarint R) 0xa (to_bytes (QueryBeforeSendHookAddressRequest_Denom m)))"

definition fields_QueryBeforeSendHookAddressRequest :: "(int \<times> string \<times> api_QueryBeforeSendHookAddressRequest field) list" where
  "fields_QueryBeforeSendHookAddressRequest =
    [(1, ''Denom'', string_field (\<lambda>s m. m\<lparr>QueryBeforeSendHookAddressRequest_Denom := s\<rparr>))]"

definition QueryBeforeSendHookAddressRequest_codec :: "runtime \<Rightarrow> bool \<Rightarrow> api_QueryBeforeSendHookAddressRequest codec" where
  "QueryBeforeSendHookAddressRequest_codec R discard =
     api_codec ''QueryBeforeSendHookAddressRequest''
       (size_QueryBeforeSendHookAddressRequest R)
       (put_QueryBeforeSendHookAddressRequest R)
       fields_QueryBeforeSendHookAddressRequest
       (keep_unknown R discard
         (\<lambda>u m. m\<lparr>QueryBeforeSendHookAddressRequest_unknownFields := QueryBeforeSendHookAddressRequest_unknownFields m @ u\<rparr>))
       new_QueryBeforeSendHookAddressRequest"

definition enc_QueryBeforeSendHookAddressRequest :: "api_QueryBeforeSendHookAddressRequest \<Rightarrow> bytes" where
  "enc_QueryBeforeSendHookAddressRequest m =
     enc_string 0xa (to_bytes (QueryBeforeSendHookAddressRequest_Denom m)) @
     QueryBeforeSendHookAddressRequest_unknownFields m"

definition ok_QueryBeforeSendHookAddressRequest :: "runtime \<Rightarrow> bool \<Rightarrow> api_QueryBeforeSendHookAddressRequest \<Rightarrow> bool" where
  "ok_QueryBeforeSendHookAddressRequest R discard m \<longleftrightarrow>
     unknown_ok R discard {1} (QueryBeforeSendHookAddressRequest_unknownFields m)"

lemma lookup_QueryBeforeSendHookAddressRequest:
  "map_of fields_QueryBeforeSendHookAddressRequest (field_no 0xa) = Some (''Denom'', string_field (\<lambda>s m. m\<lparr>QueryBeforeSendHookAddressRequest_Denom := s\<rparr>))"
  by (simp_all add: fields_QueryBeforeSendHookAddressRequest_def)

lemma QueryBeforeSendHookAddressRequest_message_codec:
  assumes R: "runtime_ok R"
  shows "message_codec (QueryBeforeSendHookAddressRequest_codec R discard)
    enc_QueryBeforeSendHookAddressRequest (ok_QueryBeforeSendHookAddressRequest R discard)"
proof -
  show ?thesis
    unfolding QueryBeforeSendHookAddressRequest_codec_def
    apply (rule api_message_codec)
    subgoal for m
      by (simp add: ok_QueryBeforeSendHookAddressRequest_def size_QueryBeforeSendHookAddressRequest_def enc_QueryBeforeSendHookAddressRequest_def runtime_okD [OF R])
    subgoal for m
      unfolding put_QueryBeforeSendHookAddressRequest_def enc_QueryBeforeSendHookAddressRequest_def ok_QueryBeforeSendHookAddressRequest_def
      by (rule writes_eq [OF writes_andThen [OF writes_put_bytes
          writes_string [OF runtime_okD(2) [OF R]]]])
        simp_all
    subgoal for m
      unfolding enc_QueryBeforeSendHookAddressRequest_def ok_QueryBeforeSendHookAddressRequest_def
      by (rule decodes_eq [OF decodes_append [OF decodes_api_string [OF tags(3) lookup_QueryBeforeSendHookAddressRequest]
          decodes_kept [OF _ _ _ refl]]])
        (simp_all add: new_QueryBeforeSendHookAddressRequest_def fields_QueryBeforeSendHookAddressRequest_def)
    by (simp_all add: keep_unknown_moves_on [OF R] fields_QueryBeforeSendHookAddressRequest_def)
qed

interpretation QueryBeforeSendHookAddressRequest_wire: message_codec "QueryBeforeSendHookAddressRequest_codec pb_runtime discard" enc_QueryBeforeSendHookAddressRequest "ok_QueryBeforeSendHookAddressRequest pb_runtime discard"
  for discard by (rule QueryBeforeSendHookAddressRequest_message_codec [OF pb_runtime_ok])

subsection \<open>QueryBeforeSendHookAddressResponse\<close>

record api_QueryBeforeSendHookAddressResponse =
  QueryBeforeSendHookAddressResponse_CosmwasmAddress :: string
  QueryBeforeSendHookAddressResponse_unknownFields :: bytes

definition new_QueryBeforeSendHookAddressResponse :: "api_QueryBeforeSendHookAddressResponse" where
  "new_QueryBeforeSendHookAddressResponse =
    \<lparr>QueryBeforeSendHookAddressResponse_CosmwasmAddress = '''',
     QueryBeforeSendHookAddressResponse_unknownFields = []\<rparr>"

definition size_QueryBeforeSendHookAddressResponse :: "runtime \<Rightarrow> api_QueryBeforeSendHookAddressResponse \<Rightarrow> nat" where
  "size_QueryBeforeSendHookAddressResponse R m =
     size_string (Sov R) (to_bytes (QueryBeforeSendHookAddressResponse_CosmwasmAddress m)) +
     length (QueryBeforeSendHookAddressResponse_unknownFields m)"

definition put_QueryBeforeSendHookAddressResponse :: "runtime \<Rightarrow> api_QueryBeforeSendHookAddressResponse \<Rightarrow> writer" where
  "put_QueryBeforeSendHookAddressResponse R m =
     andThen (put_bytes (QueryBeforeSendHookAddressResponse_unknownFields m)) (\<lambda>_.
     put_string (EncodeVarint R) 0xa (to_bytes (QueryBeforeSendHookAddressResponse_CosmwasmAddress m)))"

definition fields_QueryBeforeSendHookAddressResponse :: "(int \<times> string \<times> api_QueryBeforeSendHookAddressResponse field) list" where
  "fields_QueryBeforeSendHookAddressResponse =
    [(1, ''CosmwasmAddress'', string_field (\<lambda>s m. m\<lparr>QueryBeforeSendHookAddressResponse_CosmwasmAddress := s\<rparr>))]"

definition QueryBeforeSendHookAddressResponse_codec :: "runtime \<Rightarrow> bool \<Rightarrow> api_QueryBeforeSendHookAddressResponse codec" where
  "QueryBeforeSendHookAddressResponse_codec R discard =
     api_codec ''QueryBeforeSendHookAddressResponse''
       (size_QueryBeforeSendHookAddressResponse R)
       (put_QueryBeforeSendHookAddressResponse R)
       fields_QueryBeforeSendHookAddressResponse
       (keep_unknown R discard
         (\<lambda>u m. m\<lparr>QueryBeforeSendHookAddressResponse_unknownFields := QueryBeforeSendHookAddressResponse_unknownFields m @ u\<rparr>))
       new_QueryBeforeSendHookAddressResponse"

definition enc_QueryBeforeSendHookAddressResponse :: "api_QueryBeforeSendHookAddressResponse \<Rightarrow> bytes" where
  "enc_QueryBeforeSendHookAddressResponse m =
     enc_string 0xa (to_bytes (QueryBeforeSendHookAddressResponse_CosmwasmAddress m)) @
     QueryBeforeSendHookAddressResponse_unknownFields m"

definition ok_QueryBeforeSendHookAddressResponse :: "runtime \<Rightarrow> bool \<Rightarrow> api_QueryBeforeSendHookAddressResponse \<Rightarrow> bool" where
  "ok_QueryBeforeSendHookAddressResponse R discard m \<longleftrightarrow>
     unknown_ok R discard {1} (QueryBeforeSendHookAddressResponse_unknownFields m)"

lemma lookup_QueryBeforeSendHookAddressResponse:
  "map_of fields_QueryBeforeSendHookAddressResponse (field_no 0xa) = Some (''CosmwasmAddress'', string_field (\<lambda>s m. m\<lparr>QueryBeforeSendHookAddressResponse_CosmwasmAddress := s\<rparr>))"
  by (simp_all add: fields_QueryBeforeSendHookAddressResponse_def)

lemma QueryBeforeSendHookAddressResponse_message_codec:
  assumes R: "runtime_ok R"
  shows "message_codec (QueryBeforeSendHookAddressResponse_codec R discard)
    enc_QueryBeforeSendHookAddressResponse (ok_QueryBeforeSendHookAddressResponse R discard)"
proof -
  show ?thesis
    unfolding QueryBeforeSendHookAddressResponse_codec_def
    apply (rule api_message_codec)
    subgoal for m
      by (simp add: ok_QueryBeforeSendHookAddressResponse_def size_QueryBeforeSendHookAddressResponse_def enc_QueryBeforeSendHookAddressResponse_def runtime_okD [OF R])
    subgoal for m
      unfolding put_QueryBeforeSendHookAddressResponse_def enc_QueryBeforeSendHookAddressResponse_def ok_QueryBeforeSendHookAddressResponse_def
      by (rule writes_eq [OF writes_andThen [OF writes_put_bytes
          writes_string [OF runtime_okD(2) [OF R]]]])
        simp_all
    subgoal for m
      unfolding enc_QueryBeforeSendHookAddressResponse_def ok_QueryBeforeSendHookAddressResponse_def
      by (rule decodes_eq [OF decodes_append [OF decodes_api_string [OF tags(3) lookup_QueryBeforeSendHookAddressResponse]
          decodes_kept [OF _ _ _ refl]]])
        (simp_all add: new_QueryBeforeSendHookAddressResponse_def fields_QueryBeforeSendHookAddressResponse_def)
    by (simp_all add: keep_unknown_moves_on [OF R] fields_QueryBeforeSendHookAddressResponse_def)
qed

interpretation QueryBeforeSendHookAddressResponse_wire: message_codec "QueryBeforeSendHookAddressResponse_codec pb_runtime discard" enc_QueryBeforeSendHookAddressResponse "ok_QueryBeforeSendHookAddressResponse pb_runtime discard"
  for discard by (rule QueryBeforeSendHookAddressResponse_message_codec [OF pb_runtime_ok])

end
