(* ===== verification/PulsarTx.thy ===== *)
theory PulsarTx
  imports PulsarTF
begin

text \<open>
  The messages of the tokenfactory transactions: \<open>tx.pulsar.go\<close> under
  \<open>api/miniwasm\<close>.  For a message \<open>M\<close>: the struct with its unknown fields, the bodies of
  \<open>size\<close> and \<open>marshal\<close> for a message that is not nil, the cases of \<open>unmarshal\<close>, and the
  methods together; then its encoding \<open>enc_M\<close>, the messages \<open>ok_M\<close> it is for, and that the
  methods implement it.  A nil element of a list of messages is not told from an empty one by the
  encoding, and so is not among them.
\<close>

subsection \<open>MsgCreateDenom\<close>

record api_MsgCreateDenom =
  MsgCreateDenom_Sender :: string
  MsgCreateDenom_Subdenom :: string
  MsgCreateDenom_unknownFields :: bytes

definition new_MsgCreateDenom :: "api_MsgCreateDenom" where
  "new_MsgCreateDenom =
    \<lparr>MsgCreateDenom_Sender = '''',
     MsgCreateDenom_Subdenom = '''',
     MsgCreateDenom_unknownFields = []\<rparr>"

definition size_MsgCreateDenom :: "runtime \<Rightarrow> api_MsgCreateDenom \<Rightarrow> nat" where
  "size_MsgCreateDenom R m =
     size_string (Sov R) (to_bytes (MsgCreateDenom_Sender m)) +
     size_string (Sov R) (to_bytes (MsgCreateDenom_Subdenom m)) +
     length (MsgCreateDenom_unknownFields m)"

definition put_MsgCreateDenom :: "runtime \<Rightarrow> api_MsgCreateDenom \<Rightarrow> writer" where
  "put_MsgCreateDenom R m =
     andThen (put_bytes (MsgCreateDenom_unknownFields m)) (\<lambda>_.
     andThen (put_string (EncodeVarint R) 0x12 (to_bytes (MsgCreateDenom_Subdenom m))) (\<lambda>_.
     put_string (EncodeVarint R) 0xa (to_bytes (MsgCreateDenom_Sender m))))"

definition fields_MsgCreateDenom :: "(int \<times> string \<times> api_MsgCreateDenom field) list" where
  "fields_MsgCreateDenom =
    [(1, ''Sender'', string_field (\<lambda>s m. m\<lparr>MsgCreateDenom_Sender := s\<rparr>)),
     (2, ''Subdenom'', string_field (\<lambda>s m. m\<lparr>MsgCreateDenom_Subdenom := s\<rparr>))]"

definition MsgCreateDenom_codec :: "runtime \<Rightarrow> bool \<Rightarrow> api_MsgCreateDenom codec" where
  "MsgCreateDenom_codec R discard =
     api_codec ''MsgCreateDenom''
       (size_MsgCreateDenom R)
       (put_MsgCreateDenom R)
       fields_MsgCreateDenom
       (keep_unknown R discard
         (\<lambda>u m. m\<lparr>MsgCreateDenom_unknownFields := MsgCreateDenom_unknownFields m @ u\<rparr>))
       new_MsgCreateDenom"

definition enc_MsgCreateDenom :: "api_MsgCreateDenom \<Rightarrow> bytes" where
  "enc_MsgCreateDenom m =
     enc_string 0xa (to_bytes (MsgCreateDenom_Sender m)) @
     enc_string 0x12 (to_bytes (MsgCreateDenom_Subdenom m)) @
     MsgCreateDenom_unknownFields m"

definition ok_MsgCreateDenom :: "runtime \<Rightarrow> bool \<Rightarrow> api_MsgCreateDenom \<Rightarrow> bool" where
  "ok_MsgCreateDenom R discard m \<longleftrightarrow>
     unknown_ok R discard {1, 2} (MsgCreateDenom_unknownFields m)"

lemma lookup_MsgCreateDenom:
  "map_of fields_MsgCreateDenom (field_no 0xa) = Some (''Sender'', string_field (\<lambda>s m. m\<lparr>MsgCreateDenom_Sender := s\<rparr>))"
  "map_of fields_MsgCreateDenom (field_no 0x12) = Some (''Subdenom'', string_field (\<lambda>s m. m\<lparr>MsgCreateDenom_Subdenom := s\<rparr>))"
  by (simp_all add: fields_MsgCreateDenom_def)

lemma MsgCreateDenom_message_codec:
  assumes R: "runtime_ok R"
  shows "message_codec (MsgCreateDenom_codec R discard)
    enc_MsgCreateDenom (ok_MsgCreateDenom R discard)"
proof -
  show ?thesis
    unfolding MsgCreateDenom_codec_def
    apply (rule api_message_codec)
    subgoal for m
      by (simp add: ok_MsgCreateDenom_def size_MsgCreateDenom_def enc_MsgCreateDenom_def runtime_okD [OF R])
    subgoal for m
      unfolding put_MsgCreateDenom_def enc_MsgCreateDenom_def ok_MsgCreateDenom_def
      by (rule writes_eq [OF writes_andThen [OF writes_put_bytes
          writes_andThen [OF writes_string [OF runtime_okD(2) [OF R]]
          writes_string [OF runtime_okD(2) [OF R]]]]])
        simp_all
    subgoal for m
      unfolding enc_MsgCreateDenom_def ok_MsgCreateDenom_def
      by (rule decodes_eq [OF decodes_append [OF decodes_api_string [OF tags(3) lookup_MsgCreateDenom(1)]
          decodes_append [OF decodes_api_string [OF tags(4) lookup_MsgCreateDenom(2)]
          decodes_kept [OF _ _ _ refl]]]])
        (simp_all add: new_MsgCreateDenom_def fields_MsgCreateDenom_def)
    by (simp_all add: keep_unknown_moves_on [OF R] fields_MsgCreateDenom_def)
qed

interpretation MsgCreateDenom_wire: message_codec "MsgCreateDenom_codec pb_runtime discard" enc_MsgCreateDenom "ok_MsgCreateDenom pb_runtime discard"
  for discard by (rule MsgCreateDenom_message_codec [OF pb_runtime_ok])

subsection \<open>MsgCreateDenomResponse\<close>

record api_MsgCreateDenomResponse =
  MsgCreateDenomResponse_NewTokenDenom :: string
  MsgCreateDenomResponse_unknownFields :: bytes

definition new_MsgCreateDenomResponse :: "api_MsgCreateDenomResponse" where
  "new_MsgCreateDenomResponse =
    \<lparr>MsgCreateDenomResponse_NewTokenDenom = '''',
     MsgCreateDenomResponse_unknownFields = []\<rparr>"

definition size_MsgCreateDenomResponse :: "runtime \<Rightarrow> api_MsgCreateDenomResponse \<Rightarrow> nat" where
  "size_MsgCreateDenomResponse R m =
     size_string (Sov R) (to_bytes (MsgCreateDenomResponse_NewTokenDenom m)) +
     length (MsgCreateDenomResponse_unknownFields m)"

definition put_MsgCreateDenomResponse :: "runtime \<Rightarrow> api_MsgCreateDenomResponse \<Rightarrow> writer" where
  "put_MsgCreateDenomResponse R m =
     andThen (put_bytes (MsgCreateDenomResponse_unknownFields m)) (\<lambda>_.
     put_string (EncodeVarint R) 0xa (to_bytes (MsgCreateDenomResponse_NewTokenDenom m)))"

definition fields_MsgCreateDenomResponse :: "(int \<times> string \<times> api_MsgCreateDenomResponse field) list" where
  "fields_MsgCreateDenomResponse =
    [(1, ''NewTokenDenom'', string_field (\<lambda>s m. m\<lparr>MsgCreateDenomResponse_NewTokenDenom := s\<rparr>))]"

definition MsgCreateDenomResponse_codec :: "runtime \<Rightarrow> bool \<Rightarrow> api_MsgCreateDenomResponse codec" where
  "MsgCreateDenomResponse_codec R discard =
     api_codec ''MsgCreateDenomResponse''
       (size_MsgCreateDenomResponse R)
       (put_MsgCreateDenomResponse R)
       fields_MsgCreateDenomResponse
       (keep_unknown R discard
         (\<lambda>u m. m\<lparr>MsgCreateDenomResponse_unknownFields := MsgCreateDenomResponse_unknownFields m @ u\<rparr>))
       new_MsgCreateDenomResponse"

definition enc_MsgCreateDenomResponse :: "api_MsgCreateDenomResponse \<Rightarrow> bytes" where
  "enc_MsgCreateDenomResponse m =
     enc_string 0xa (to_bytes (MsgCreateDenomResponse_NewTokenDenom m)) @
     MsgCreateDenomResponse_unknownFields m"

definition ok_MsgCreateDenomResponse :: "runtime \<Rightarrow> bool \<Rightarrow> api_MsgCreateDenomResponse \<Rightarrow> bool" where
  "ok_MsgCreateDenomResponse R discard m \<longleftrightarrow>
     unknown_ok R discard {1} (MsgCreateDenomResponse_unknownFields m)"

lemma lookup_MsgCreateDenomResponse:
  "map_of fields_MsgCreateDenomResponse (field_no 0xa) = Some (''NewTokenDenom'', string_field (\<lambda>s m. m\<lparr>MsgCreateDenomResponse_NewTokenDenom := s\<rparr>))"
  by (simp_all add: fields_MsgCreateDenomResponse_def)

lemma MsgCreateDenomResponse_message_codec:
  assumes R: "runtime_ok R"
  shows "message_codec (MsgCreateDenomResponse_codec R discard)
    enc_MsgCreateDenomResponse (ok_MsgCreateDenomResponse R discard)"
proof -
  show ?thesis
    unfolding MsgCreateDenomResponse_codec_def
    apply (rule api_message_codec)
    subgoal for m
      by (simp add: ok_MsgCreateDenomResponse_def size_MsgCreateDenomResponse_def enc_MsgCreateDenomResponse_def runtime_okD [OF R])
    subgoal for m
      unfolding put_MsgCreateDenomResponse_def enc_MsgCreateDenomResponse_def ok_MsgCreateDenomResponse_def
      by (rule writes_eq [OF writes_andThen [OF writes_put_bytes
          writes_string [OF runtime_okD(2) [OF R]]]])
        simp_all
    subgoal for m
      unfolding enc_MsgCreateDenomResponse_def ok_MsgCreateDenomResponse_def
      by (rule decodes_eq [OF decodes_append [OF decodes_api_string [OF tags(3) lookup_MsgCreateDenomResponse]
          decodes_kept [OF _ _ _ refl]]])
        (simp_all add: new_MsgCreateDenomResponse_def fields_MsgCreateDenomResponse_def)
    by (simp_all add: keep_unknown_moves_on [OF R] fields_MsgCreateDenomResponse_def)
qed

interpretation MsgCreateDenomResponse_wire: message_codec "MsgCreateDenomResponse_codec pb_runtime discard" enc_MsgCreateDenomResponse "ok_MsgCreateDenomResponse pb_runtime discard"
  for discard by (rule MsgCreateDenomResponse_message_codec [OF pb_runtime_ok])

subsection \<open>MsgMint\<close>

record 'c api_MsgMint =
  MsgMint_Sender :: string
  MsgMint_Amount :: "'c option"
  MsgMint_MintToAddress :: string
  MsgMint_unknownFields :: bytes

definition new_MsgMint :: "'c api_MsgMint" where
  "new_MsgMint =
    \<lparr>MsgMint_Sender = '''',
     MsgMint_Amount = None,
     MsgMint_MintToAddress = '''',
     MsgMint_unknownFields = []\<rparr>"

definition size_MsgMint :: "runtime \<Rightarrow> 'c codec \<Rightarrow> 'c api_MsgMint \<Rightarrow> nat" where
  "size_MsgMint R Coin m =
     size_string (Sov R) (to_bytes (MsgMint_Sender m)) +
     size_api_message R Coin (MsgMint_Amount m) +
     size_string (Sov R) (to_bytes (MsgMint_MintToAddress m)) +
     length (MsgMint_unknownFields m)"

definition put_MsgMint :: "runtime \<Rightarrow> 'c codec \<Rightarrow> 'c api_MsgMint \<Rightarrow> writer" where
  "put_MsgMint R Coin m =
     andThen (put_bytes (MsgMint_unknownFields m)) (\<lambda>_.
     andThen (put_string (EncodeVarint R) 0x1a (to_bytes (MsgMint_MintToAddress m))) (\<lambda>_.
     andThen (put_api_message R Coin 0x12 (MsgMint_Amount m)) (\<lambda>_.
     put_string (EncodeVarint R) 0xa (to_bytes (MsgMint_Sender m)))))"

definition fields_MsgMint :: "'c codec \<Rightarrow> (int \<times> string \<times> 'c api_MsgMint field) list" where
  "fields_MsgMint Coin =
    [(1, ''Sender'', string_field (\<lambda>s m. m\<lparr>MsgMint_Sender := s\<rparr>)),
     (2, ''Amount'', message_field Coin MsgMint_Amount (\<lambda>y m. m\<lparr>MsgMint_Amount := y\<rparr>)),
     (3, ''MintToAddress'', string_field (\<lambda>s m. m\<lparr>MsgMint_MintToAddress := s\<rparr>))]"

definition MsgMint_codec :: "runtime \<Rightarrow> bool \<Rightarrow> 'c codec \<Rightarrow> 'c api_MsgMint codec" where
  "MsgMint_codec R discard Coin =
     api_codec ''MsgMint''
       (size_MsgMint R Coin)
       (put_MsgMint R Coin)
       (fields_MsgMint Coin)
       (keep_unknown R discard
         (\<lambda>u m. m\<lparr>MsgMint_unknownFields := MsgMint_unknownFields m @ u\<rparr>))
       new_MsgMint"

definition enc_MsgMint :: "('c \<Rightarrow> bytes) \<Rightarrow> 'c api_MsgMint \<Rightarrow> bytes" where
  "enc_MsgMint eCoin m =
     enc_string 0xa (to_bytes (MsgMint_Sender m)) @
     enc_api_message 0x12 eCoin (MsgMint_Amount m) @
     enc_string 0x1a (to_bytes (MsgMint_MintToAddress m)) @
     MsgMint_unknownFields m"

definition ok_MsgMint :: "runtime \<Rightarrow> bool \<Rightarrow> ('c \<Rightarrow> bool) \<Rightarrow> 'c api_MsgMint \<Rightarrow> bool" where
  "ok_MsgMint R discard okCoin m \<longleftrightarrow>
     unknown_ok R discard {1, 2, 3} (MsgMint_unknownFields m) \<and>
     ok_opt okCoin (MsgMint_Amount m)"

lemma lookup_MsgMint:
  "map_of (fields_MsgMint Coin) (field_no 0xa) = Some (''Sender'', string_field (\<lambda>s m. m\<lparr>MsgMint_Sender := s\<rparr>))"
  "map_of (fields_MsgMint Coin) (field_no 0x12) = Some (''Amount'', message_field Coin MsgMint_Amount (\<lambda>y m. m\<lparr>MsgMint_Amount := y\<rparr>))"
  "map_of (fields_MsgMint Coin) (field_no 0x1a) = Some (''MintToAddress'', string_field (\<lambda>s m. m\<lparr>MsgMint_MintToAddress := s\<rparr>))"
  by (simp_all add: fields_MsgMint_def)

lemma MsgMint_message_codec:
  assumes R: "runtime_ok R"
    and cCoin: "message_codec Coin eCoin okCoin"
  shows "message_codec (MsgMint_codec R discard Coin)
    (enc_MsgMint eCoin) (ok_MsgMint R discard okCoin)"
proof -
  show ?thesis
    unfolding MsgMint_codec_def
    apply (rule api_message_codec)
    subgoal for m
      by (simp add: ok_MsgMint_def size_MsgMint_def enc_MsgMint_def runtime_okD [OF R]
          length_api_fields(1) [OF R cCoin, where t = "0x12"])
    subgoal for m
      unfolding put_MsgMint_def enc_MsgMint_def ok_MsgMint_def
      by (rule writes_eq [OF writes_andThen [OF writes_put_bytes
          writes_andThen [OF writes_string [OF runtime_okD(2) [OF R]]
          writes_andThen [OF writes_api_message [OF R cCoin]
          writes_string [OF runtime_okD(2) [OF R]]]]]])
        simp_all
    subgoal for m
      unfolding enc_MsgMint_def ok_MsgMint_def
      by (rule decodes_eq [OF decodes_append [OF decodes_api_string [OF tags(3) lookup_MsgMint(1)]
          decodes_append [OF decodes_api_message [OF cCoin _ _ tags(4) lookup_MsgMint(2)]
          decodes_append [OF decodes_api_string [OF tags(5) lookup_MsgMint(3)]
          decodes_kept [OF _ _ _ refl]]]]])
        (simp_all add: new_MsgMint_def fields_MsgMint_def)
    by (simp_all add: keep_unknown_moves_on [OF R] fields_MsgMint_def
        message_fields_return [OF cCoin])
qed

subsection \<open>MsgMintResponse\<close>

record api_MsgMintResponse =
  MsgMintResponse_unknownFields :: bytes

definition new_MsgMintResponse :: "api_MsgMintResponse" where
  "new_MsgMintResponse =
    \<lparr>MsgMintResponse_unknownFields = []\<rparr>"

definition MsgMintResponse_codec :: "runtime \<Rightarrow> bool \<Rightarrow> api_MsgMintResponse codec" where
  "MsgMintResponse_codec R discard =
     api_codec ''MsgMintResponse''
       (\<lambda>m. length (MsgMintResponse_unknownFields m))
       (\<lambda>m. put_bytes (MsgMintResponse_unknownFields m))
       []
       (keep_unknown R discard
         (\<lambda>u m. m\<lparr>MsgMintResponse_unknownFields := MsgMintResponse_unknownFields m @ u\<rparr>))
       new_MsgMintResponse"

definition enc_MsgMintResponse :: "api_MsgMintResponse \<Rightarrow> bytes" where
  "enc_MsgMintResponse m =
     MsgMintResponse_unknownFields m"

definition ok_MsgMintResponse :: "runtime \<Rightarrow> bool \<Rightarrow> api_MsgMintResponse \<Rightarrow> bool" where
  "ok_MsgMintResponse R discard m \<longleftrightarrow>
     unknown_ok R discard {} (MsgMintResponse_unknownFields m)"

lemma MsgMintResponse_message_codec:
  assumes R: "runtime_ok R"
  shows "message_codec (MsgMintResponse_codec R discard)
    enc_MsgMintResponse (ok_MsgMintResponse R discard)"
  unfolding MsgMintResponse_codec_def enc_MsgMintResponse_def [abs_def] ok_MsgMintResponse_def [abs_def]
  by (rule empty_message_codec [OF R]) (simp_all add: new_MsgMintResponse_def)

interpretation MsgMintResponse_wire: message_codec "MsgMintResponse_codec pb_runtime discard" enc_MsgMintResponse "ok_MsgMintResponse pb_runtime discard"
  for discard by (rule MsgMintResponse_message_codec [OF pb_runtime_ok])

subsection \<open>MsgBurn\<close>

record 'c api_MsgBurn =
  MsgBurn_Sender :: string
  MsgBurn_Amount :: "'c option"
  MsgBurn_unknownFields :: bytes

definition new_MsgBurn :: "'c api_MsgBurn" where
  "new_MsgBurn =
    \<lparr>MsgBurn_Sender = '''',
     MsgBurn_Amount = None,
     MsgBurn_unknownFields = []\<rparr>"

definition size_MsgBurn :: "runtime \<Rightarrow> 'c codec \<Rightarrow> 'c api_MsgBurn \<Rightarrow> nat" where
  "size_MsgBurn R Coin m =
     size_string (Sov R) (to_bytes (MsgBurn_Sender m)) +
     size_api_message R Coin (MsgBurn_Amount m) +
     length (MsgBurn_unknownFields m)"

definition put_MsgBurn :: "runtime \<Rightarrow> 'c codec \<Rightarrow> 'c api_MsgBurn \<Rightarrow> writer" where
  "put_MsgBurn R Coin m =
     andThen (put_bytes (MsgBurn_unknownFields m)) (\<lambda>_.
     andThen (put_api_message R Coin 0x12 (MsgBurn_Amount m)) (\<lambda>_.
     put_string (EncodeVarint R) 0xa (to_bytes (MsgBurn_Sender m))))"

definition fields_MsgBurn :: "'c codec \<Rightarrow> (int \<times> string \<times> 'c api_MsgBurn field) list" where
  "fields_MsgBurn Coin =
    [(1, ''Sender'', string_field (\<lambda>s m. m\<lparr>MsgBurn_Sender := s\<rparr>)),
     (2, ''Amount'', message_field Coin MsgBurn_Amount (\<lambda>y m. m\<lparr>MsgBurn_Amount := y\<rparr>))]"

definition MsgBurn_codec :: "runtime \<Rightarrow> bool \<Rightarrow> 'c codec \<Rightarrow> 'c api_MsgBurn codec" where
  "MsgBurn_codec R discard Coin =
     api_codec ''MsgBurn''
       (size_MsgBurn R Coin)
       (put_MsgBurn R Coin)
       (fields_MsgBurn Coin)
       (keep_unknown R discard
         (\<lambda>u m. m\<lparr>MsgBurn_unknownFields := MsgBurn_unknownFields m @ u\<rparr>))
       new_MsgBurn"

definition enc_MsgBurn :: "('c \<Rightarrow> bytes) \<Rightarrow> 'c api_MsgBurn \<Rightarrow> bytes" where
  "enc_MsgBurn eCoin m =
     enc_string 0xa (to_bytes (MsgBurn_Sender m)) @
     enc_api_message 0x12 eCoin (MsgBurn_Amount m) @
     MsgBurn_unknownFields m"

definition ok_MsgBurn :: "runtime \<Rightarrow> bool \<Rightarrow> ('c \<Rightarrow> bool) \<Rightarrow> 'c api_MsgBurn \<Rightarrow> bool" where
  "ok_MsgBurn R discard okCoin m \<longleftrightarrow>
     unknown_ok R discard {1, 2} (MsgBurn_unknownFields m) \<and>
     ok_opt okCoin (MsgBurn_Amount m)"

lemma lookup_MsgBurn:
  "map_of (fields_MsgBurn Coin) (field_no 0xa) = Some (''Sender'', string_field (\<lambda>s m. m\<lparr>MsgBurn_Sender := s\<rparr>))"
  "map_of (fields_MsgBurn Coin) (field_no 0x12) = Some (''Amount'', message_field Coin MsgBurn_Amount (\<lambda>y m. m\<lparr>MsgBurn_Amount := y\<rparr>))"
  by (simp_all add: fields_MsgBurn_def)

lemma MsgBurn_message_codec:
  assumes R: "runtime_ok R"
    and cCoin: "message_codec Coin eCoin okCoin"
  shows "message_codec (MsgBurn_codec R discard Coin)
    (enc_MsgBurn eCoin) (ok_MsgBurn R discard okCoin)"
proof -
  show ?thesis
    unfolding MsgBurn_codec_def
    apply (rule api_message_codec)
    subgoal for m
      by (simp add: ok_MsgBurn_def size_MsgBurn_def enc_MsgBurn_def runtime_okD [OF R]
          length_api_fields(1) [OF R cCoin, where t = "0x12"])
    subgoal for m
      unfolding put_MsgBurn_def enc_MsgBurn_def ok_MsgBurn_def
      by (rule writes_eq [OF writes_andThen [OF writes_put_bytes
          writes_andThen [OF writes_api_message [OF R cCoin]
          writes_string [OF runtime_okD(2) [OF R]]]]])
        simp_all
    subgoal for m
      unfolding enc_MsgBurn_def ok_MsgBurn_def
      by (rule decodes_eq [OF decodes_append [OF decodes_api_string [OF tags(3) lookup_MsgBurn(1)]
          decodes_append [OF decodes_api_message [OF cCoin _ _ tags(4) lookup_MsgBurn(2)]
          decodes_kept [OF _ _ _ refl]]]])
        (simp_all add: new_MsgBurn_def fields_MsgBurn_def)
    by (simp_all add: keep_unknown_moves_on [OF R] fields_MsgBurn_def
        message_fields_return [OF cCoin])
qed

subsection \<open>MsgBurnResponse\<close>

record api_MsgBurnResponse =
  MsgBurnResponse_unknownFields :: bytes

definition new_MsgBurnResponse :: "api_MsgBurnResponse" where
  "new_MsgBurnResponse =
    \<lparr>MsgBurnResponse_unknownFields = []\<rparr>"

definition MsgBurnResponse_codec :: "runtime \<Rightarrow> bool \<Rightarrow> api_MsgBurnResponse codec" where
  "MsgBurnResponse_codec R discard =
     api_codec ''MsgBurnResponse''
       (\<lambda>m. length (MsgBurnResponse_unknownFields m))
       (\<lambda>m. put_bytes (MsgBurnResponse_unknownFields m))
       []
       (keep_unknown R discard
         (\<lambda>u m. m\<lparr>MsgBurnResponse_unknownFields := MsgBurnResponse_unknownFields m @ u\<rparr>))
       new_MsgBurnResponse"

definition enc_MsgBurnResponse :: "api_MsgBurnResponse \<Rightarrow> bytes" where
  "enc_MsgBurnResponse m =
     MsgBurnResponse_unknownFields m"

definition ok_MsgBurnResponse :: "runtime \<Rightarrow> bool \<Rightarrow> api_MsgBurnResponse \<Rightarrow> bool" where
  "ok_MsgBurnResponse R discard m \<longleftrightarrow>
     unknown_ok R discard {} (MsgBurnResponse_unknownFields m)"

lemma MsgBurnResponse_message_codec:
  assumes R: "runtime_ok R"
  shows "message_codec (MsgBurnResponse_codec R discard)
    enc_MsgBurnResponse (ok_MsgBurnResponse R discard)"
  unfolding MsgBurnResponse_codec_def enc_MsgBurnResponse_def [abs_def] ok_MsgBurnResponse_def [abs_def]
  by (rule empty_message_codec [OF R]) (simp_all add: new_MsgBurnResponse_def)

interpretation MsgBurnResponse_wire: message_codec "MsgBurnResponse_codec pb_runtime discard" enc_MsgBurnResponse "ok_MsgBurnResponse pb_runtime discard"
  for discard by (rule MsgBurnResponse_message_codec [OF pb_runtime_ok])

subsection \<open>MsgChangeAdmin\<close>

record api_MsgChangeAdmin =
  MsgChangeAdmin_Sender :: string
  MsgChangeAdmin_Denom :: string
  MsgChangeAdmin_NewAdmin :: string
  MsgChangeAdmin_unknownFields :: bytes

definition new_MsgChangeAdmin :: "api_MsgChangeAdmin" where
  "new_MsgChangeAdmin =
    \<lparr>MsgChangeAdmin_Sender = '''',
     MsgChangeAdmin_Denom = '''',
     MsgChangeAdmin_NewAdmin = '''',
     MsgChangeAdmin_unknownFields = []\<rparr>"

definition size_MsgChangeAdmin :: "runtime \<Rightarrow> api_MsgChangeAdmin \<Rightarrow> nat" where
  "size_MsgChangeAdmin R m =
     size_string (Sov R) (to_bytes (MsgChangeAdmin_Sender m)) +
     size_string (Sov R) (to_bytes (MsgChangeAdmin_Denom m)) +
     size_string (Sov R) (to_bytes (MsgChangeAdmin_NewAdmin m)) +
     length (MsgChangeAdmin_unknownFields m)"

definition put_MsgChangeAdmin :: "runtime \<Rightarrow> api_MsgChangeAdmin \<Rightarrow> writer" where
  "put_MsgChangeAdmin R m =
     andThen (put_bytes (MsgChangeAdmin_unknownFields m)) (\<lambda>_.
     andThen (put_string (EncodeVarint R) 0x1a (to_bytes (MsgChangeAdmin_NewAdmin m))) (\<lambda>_.
     andThen (put_string (EncodeVarint R) 0x12 (to_bytes (MsgChangeAdmin_Denom m))) (\<lambda>_.
     put_string (EncodeVarint R) 0xa (to_bytes (MsgChangeAdmin_Sender m)))))"

definition fields_MsgChangeAdmin :: "(int \<times> string \<times> api_MsgChangeAdmin field) list" where
  "fields_MsgChangeAdmin =
    [(1, ''Sender'', string_field (\<lambda>s m. m\<lparr>MsgChangeAdmin_Sender := s\<rparr>)),
     (2, ''Denom'', string_field (\<lambda>s m. m\<lparr>MsgChangeAdmin_Denom := s\<rparr>)),
     (3, ''NewAdmin'', string_field (\<lambda>s m. m\<lparr>MsgChangeAdmin_NewAdmin := s\<rparr>))]"

definition MsgChangeAdmin_codec :: "runtime \<Rightarrow> bool \<Rightarrow> api_MsgChangeAdmin codec" where
  "MsgChangeAdmin_codec R discard =
     api_codec ''MsgChangeAdmin''
       (size_MsgChangeAdmin R)
       (put_MsgChangeAdmin R)
       fields_MsgChangeAdmin
       (keep_unknown R discard
         (\<lambda>u m. m\<lparr>MsgChangeAdmin_unknownFields := MsgChangeAdmin_unknownFields m @ u\<rparr>))
       new_MsgChangeAdmin"

definition enc_MsgChangeAdmin :: "api_MsgChangeAdmin \<Rightarrow> bytes" where
  "enc_MsgChangeAdmin m =
     enc_string 0xa (to_bytes (MsgChangeAdmin_Sender m)) @
     enc_string 0x12 (to_bytes (MsgChangeAdmin_Denom m)) @
     enc_string 0x1a (to_bytes (MsgChangeAdmin_NewAdmin m)) @
     MsgChangeAdmin_unknownFields m"

definition ok_MsgChangeAdmin :: "runtime \<Rightarrow> bool \<Rightarrow> api_MsgChangeAdmin \<Rightarrow> bool" where
  "ok_MsgChangeAdmin R discard m \<longleftrightarrow>
     unknown_ok R discard {1, 2, 3} (MsgChangeAdmin_unknownFields m)"

lemma lookup_MsgChangeAdmin:
  "map_of fields_MsgChangeAdmin (field_no 0xa) = Some (''Sender'', string_field (\<lambda>s m. m\<lparr>MsgChangeAdmin_Sender := s\<rparr>))"
  "map_of fields_MsgChangeAdmin (field_no 0x12) = Some (''Denom'', string_field (\<lambda>s m. m\<lparr>MsgChangeAdmin_Denom := s\<rparr>))"
  "map_of fields_MsgChangeAdmin (field_no 0x1a) = Some (''NewAdmin'', string_field (\<lambda>s m. m\<lparr>MsgChangeAdmin_NewAdmin := s\<rparr>))"
  by (simp_all add: fields_MsgChangeAdmin_def)

lemma MsgChangeAdmin_message_codec:
  assumes R: "runtime_ok R"
  shows "message_codec (MsgChangeAdmin_codec R discard)
    enc_MsgChangeAdmin (ok_MsgChangeAdmin R discard)"
proof -
  show ?thesis
    unfolding MsgChangeAdmin_codec_def
    apply (rule api_message_codec)
    subgoal for m
      by (simp add: ok_MsgChangeAdmin_def size_MsgChangeAdmin_def enc_MsgChangeAdmin_def runtime_okD [OF R])
    subgoal for m
      unfolding put_MsgChangeAdmin_def enc_MsgChangeAdmin_def ok_MsgChangeAdmin_def
      by (rule writes_eq [OF writes_andThen [OF writes_put_bytes
          writes_andThen [OF writes_string [OF runtime_okD(2) [OF R]]
          writes_andThen [OF writes_string [OF runtime_okD(2) [OF R]]
          writes_string [OF runtime_okD(2) [OF R]]]]]])
        simp_all
    subgoal for m
      unfolding enc_MsgChangeAdmin_def ok_MsgChangeAdmin_def
      by (rule decodes_eq [OF decodes_append [OF decodes_api_string [OF tags(3) lookup_MsgChangeAdmin(1)]
          decodes_append [OF decodes_api_string [OF tags(4) lookup_MsgChangeAdmin(2)]
          decodes_append [OF decodes_api_string [OF tags(5) lookup_MsgChangeAdmin(3)]
          decodes_kept [OF _ _ _ refl]]]]])
        (simp_all add: new_MsgChangeAdmin_def fields_MsgChangeAdmin_def)
    by (simp_all add: keep_unknown_moves_on [OF R] fields_MsgChangeAdmin_def)
qed

interpretation MsgChangeAdmin_wire: message_codec "MsgChangeAdmin_codec pb_runtime discard" enc_MsgChangeAdmin "ok_MsgChangeAdmin pb_runtime discard"
  for discard by (rule MsgChangeAdmin_message_codec [OF pb_runtime_ok])

subsection \<open>MsgChangeAdminResponse\<close>

record api_MsgChangeAdminResponse =
  MsgChangeAdminResponse_unknownFields :: bytes

definition new_MsgChangeAdminResponse :: "api_MsgChangeAdminResponse" where
  "new_MsgChangeAdminResponse =
    \<lparr>MsgChangeAdminResponse_unknownFields = []\<rparr>"

definition MsgChangeAdminResponse_codec :: "runtime \<Rightarrow> bool \<Rightarrow> api_MsgChangeAdminResponse codec" where
  "MsgChangeAdminResponse_codec R discard =
     api_codec ''MsgChangeAdminResponse''
       (\<lambda>m. length (MsgChangeAdminResponse_unknownFields m))
       (\<lambda>m. put_bytes (MsgChangeAdminResponse_unknownFields m))
       []
       (keep_unknown R discard
         (\<lambda>u m. m\<lparr>MsgChangeAdminResponse_unknownFields := MsgChangeAdminResponse_unknownFields m @ u\<rparr>))
       new_MsgChangeAdminResponse"

definition enc_MsgChangeAdminResponse :: "api_MsgChangeAdminResponse \<Rightarrow> bytes" where
  "enc_MsgChangeAdminResponse m =
     MsgChangeAdminResponse_unknownFields m"

definition ok_MsgChangeAdminResponse :: "runtime \<Rightarrow> bool \<Rightarrow> api_MsgChangeAdminResponse \<Rightarrow> bool" where
  "ok_MsgChangeAdminResponse R discard m \<longleftrightarrow>
     unknown_ok R discard {} (MsgChangeAdminResponse_unknownFields m)"

lemma MsgChangeAdminResponse_message_codec:
  assumes R: "runtime_ok R"
  shows "message_codec (MsgChangeAdminResponse_codec R discard)
    enc_MsgChangeAdminResponse (ok_MsgChangeAdminResponse R discard)"
  unfolding MsgChangeAdminResponse_codec_def enc_MsgChangeAdminResponse_def [abs_def] ok_MsgChangeAdminResponse_def [abs_def]
  by (rule empty_message_codec [OF R]) (simp_all add: new_MsgChangeAdminResponse_def)

interpretation MsgChangeAdminResponse_wire: message_codec "MsgChangeAdminResponse_codec pb_runtime discard" enc_MsgChangeAdminResponse "ok_MsgChangeAdminResponse pb_runtime discard"
  for discard by (rule MsgChangeAdminResponse_message_codec [OF pb_runtime_ok])

subsection \<open>MsgSetBeforeSendHook\<close>

record api_MsgSetBeforeSendHook =
  MsgSetBeforeSendHook_Sender :: string
  MsgSetBeforeSendHook_Denom :: string
  MsgSetBeforeSendHook_CosmwasmAddress :: string
  MsgSetBeforeSendHook_unknownFields :: bytes

definition new_MsgSetBeforeSendHook :: "api_MsgSetBeforeSendHook" where
  "new_MsgSetBeforeSendHook =
    \<lparr>MsgSetBeforeSendHook_Sender = '''',
     MsgSetBeforeSendHook_Denom = '''',
     MsgSetBeforeSendHook_CosmwasmAddress = '''',
     MsgSetBeforeSendHook_unknownFields = []\<rparr>"

definition size_MsgSetBeforeSendHook :: "runtime \<Rightarrow> api_MsgSetBeforeSendHook \<Rightarrow> nat" where
  "size_MsgSetBeforeSendHook R m =
     size_string (Sov R) (to_bytes (MsgSetBeforeSendHook_Sender m)) +
     size_string (Sov R) (to_bytes (MsgSetBeforeSendHook_Denom m)) +
     size_string (Sov R) (to_bytes (MsgSetBeforeSendHook_CosmwasmAddress m)) +
     length (MsgSetBeforeSendHook_unknownFields m)"

definition put_MsgSetBeforeSendHook :: "runtime \<Rightarrow> api_MsgSetBeforeSendHook \<Rightarrow> writer" where
  "put_MsgSetBeforeSendHook R m =
     andThen (put_bytes (MsgSetBeforeSendHook_unknownFields m)) (\<lambda>_.
     andThen (put_string (EncodeVarint R) 0x1a (to_bytes (MsgSetBeforeSendHook_CosmwasmAddress m))) (\<lambda>_.
     andThen (put_string (EncodeVarint R) 0x12 (to_bytes (MsgSetBeforeSendHook_Denom m))) (\<lambda>_.
     put_string (EncodeVarint R) 0xa (to_bytes (MsgSetBeforeSendHook_Sender m)))))"

definition fields_MsgSetBeforeSendHook :: "(int \<times> string \<times> api_MsgSetBeforeSendHook field) list" where
  "fields_MsgSetBeforeSendHook =
    [(1, ''Sender'', string_field (\<lambda>s m. m\<lparr>MsgSetBeforeSendHook_Sender := s\<rparr>)),
     (2, ''Denom'', string_field (\<lambda>s m. m\<lparr>MsgSetBeforeSendHook_Denom := s\<rparr>)),
     (3, ''CosmwasmAddress'', string_field (\<lambda>s m. m\<lparr>MsgSetBeforeSendHook_CosmwasmAddress := s\<rparr>))]"

definition MsgSetBeforeSendHook_codec :: "runtime \<Rightarrow> bool \<Rightarrow> api_MsgSetBeforeSendHook codec" where
  "MsgSetBeforeSendHook_codec R discard =
     api_codec ''MsgSetBeforeSendHook''
       (size_MsgSetBeforeSendHook R)
       (put_MsgSetBeforeSendHook R)
       fields_MsgSetBeforeSendHook
       (keep_unknown R discard
         (\<lambda>u m. m\<lparr>MsgSetBeforeSendHook_unknownFields := MsgSetBeforeSendHook_unknownFields m @ u\<rparr>))
       new_MsgSetBeforeSendHook"

definition enc_MsgSetBeforeSendHook :: "api_MsgSetBeforeSendHook \<Rightarrow> bytes" where
  "enc_MsgSetBeforeSendHook m =
     enc_string 0xa (to_bytes (MsgSetBeforeSendHook_Sender m)) @
     enc_string 0x12 (to_bytes (MsgSetBeforeSendHook_Denom m)) @
     enc_string 0x1a (to_bytes (MsgSetBeforeSendHook_CosmwasmAddress m)) @
     MsgSetBeforeSendHook_unknownFields m"

definition ok_MsgSetBeforeSendHook :: "runtime \<Rightarrow> bool \<Rightarrow> api_MsgSetBeforeSendHook \<Rightarrow> bool" where
  "ok_MsgSetBeforeSendHook R discard m \<longleftrightarrow>
     unknown_ok R discard {1, 2, 3} (MsgSetBeforeSendHook_unknownFields m)"

lemma lookup_MsgSetBeforeSendHook:
  "map_of fields_MsgSetBeforeSendHook (field_no 0xa) = Some (''Sender'', string_field (\<lambda>s m. m\<lparr>MsgSetBeforeSendHook_Sender := s\<rparr>))"
  "map_of fields_MsgSetBeforeSendHook (field_no 0x12) = Some (''Denom'', string_field (\<lambda>s m. m\<lparr>MsgSetBeforeSendHook_Denom := s\<rparr>))"
  "map_of fields_MsgSetBeforeSendHook (field_no 0x1a) = Some (''CosmwasmAddress'', string_field (\<lambda>s m. m\<lparr>MsgSetBeforeSendHook_CosmwasmAddress := s\<rparr>))"
  by (simp_all add: fields_MsgSetBeforeSendHook_def)

lemma MsgSetBeforeSendHook_message_codec:
  assumes R: "runtime_ok R"
  shows "message_codec (MsgSetBeforeSendHook_codec R discard)
    enc_MsgSetBeforeSendHook (ok_MsgSetBeforeSendHook R discard)"
proof -
  show ?thesis
    unfolding MsgSetBeforeSendHook_codec_def
    apply (rule api_message_codec)
    subgoal for m
      by (simp add: ok_MsgSetBeforeSendHook_def size_MsgSetBeforeSendHook_def enc_MsgSetBeforeSendHook_def runtime_okD [OF R])
    subgoal for m
      unfolding put_MsgSetBeforeSendHook_def enc_MsgSetBeforeSendHook_def ok_MsgSetBeforeSendHook_def
      by (rule writes_eq [OF writes_andThen [OF writes_put_bytes
          writes_andThen [OF writes_string [OF runtime_okD(2) [OF R]]
          writes_andThen [OF writes_string [OF runtime_okD(2) [OF R]]
          writes_string [OF runtime_okD(2) [OF R]]]]]])
        simp_all
    subgoal for m
      unfolding enc_MsgSetBeforeSendHook_def ok_MsgSetBeforeSendHook_def
      by (rule decodes_eq [OF decodes_append [OF decodes_api_string [OF tags(3) lookup_MsgSetBeforeSendHook(1)]
          decodes_append [OF decodes_api_string [OF tags(4) lookup_MsgSetBeforeSendHook(2)]
          decodes_append [OF decodes_api_string [OF tags(5) lookup_MsgSetBeforeSendHook(3)]
          decodes_kept [OF _ _ _ refl]]]]])
        (simp_all add: new_MsgSetBeforeSendHook_def fields_MsgSetBeforeSendHook_def)
    by (simp_all add: keep_unknown_moves_on [OF R] fields_MsgSetBeforeSendHook_def)
qed

interpretation MsgSetBeforeSendHook_wire: message_codec "MsgSetBeforeSendHook_codec pb_runtime discard" enc_MsgSetBeforeSendHook "ok_MsgSetBeforeSendHook pb_runtime discard"
  for discard by (rule MsgSetBeforeSendHook_message_codec [OF pb_runtime_ok])

subsection \<open>MsgSetBeforeSendHookResponse\<close>

record api_MsgSetBeforeSendHookResponse =
  MsgSetBeforeSendHookResponse_unknownFields :: bytes

definition new_MsgSetBeforeSendHookResponse :: "api_MsgSetBeforeSendHookResponse" where
  "new_MsgSetBeforeSendHookResponse =
    \<lparr>MsgSetBeforeSendHookResponse_unknownFields = []\<rparr>"

definition MsgSetBeforeSendHookResponse_codec :: "runtime \<Rightarrow> bool \<Rightarrow> api_MsgSetBeforeSendHookResponse codec" where
  "MsgSetBeforeSendHookResponse_codec R discard =
     api_codec ''MsgSetBeforeSendHookResponse''
       (\<lambda>m. length (MsgSetBeforeSendHookResponse_unknownFields m))
       (\<lambda>m. put_bytes (MsgSetBeforeSendHookResponse_unknownFields m))
       []
       (keep_unknown R discard
         (\<lambda>u m. m\<lparr>MsgSetBeforeSendHookResponse_unknownFields := MsgSetBeforeSendHookResponse_unknownFields m @ u\<rparr>))
       new_MsgSetBeforeSendHookResponse"

definition enc_MsgSetBeforeSendHookResponse :: "api_MsgSetBeforeSendHookResponse \<Rightarrow> bytes" where
  "enc_MsgSetBeforeSendHookResponse m =
     MsgSetBeforeSendHookResponse_unknownFields m"

definition ok_MsgSetBeforeSendHookResponse :: "runtime \<Rightarrow> bool \<Rightarrow> api_MsgSetBeforeSendHookResponse \<Rightarrow> bool" where
  "ok_MsgSetBeforeSendHookResponse R discard m \<longleftrightarrow>
     unknown_ok R discard {} (MsgSetBeforeSendHookResponse_unknownFields m)"

lemma MsgSetBeforeSendHookResponse_message_codec:
  assumes R: "runtime_ok R"
  shows "message_codec (MsgSetBeforeSendHookResponse_codec R discard)
    enc_MsgSetBeforeSendHookResponse (ok_MsgSetBeforeSendHookResponse R discard)"
  unfolding MsgSetBeforeSendHookResponse_codec_def enc_MsgSetBeforeSendHookResponse_def [abs_def] ok_MsgSetBeforeSendHookResponse_def [abs_def]
  by (rule empty_message_codec [OF R]) (simp_all add: new_MsgSetBeforeSendHookResponse_def)

interpretation MsgSetBeforeSendHookResponse_wire: message_codec "MsgSetBeforeSendHookResponse_codec pb_runtime discard" enc_MsgSetBeforeSendHookResponse "ok_MsgSetBeforeSendHookResponse pb_runtime discard"
  for discard by (rule MsgSetBeforeSendHookResponse_message_codec [OF pb_runtime_ok])

subsection \<open>MsgSetDenomMetadata\<close>

record 'd api_MsgSetDenomMetadata =
  MsgSetDenomMetadata_Sender :: string
  MsgSetDenomMetadata_Metadata :: "'d option"
  MsgSetDenomMetadata_unknownFields :: bytes

definition new_MsgSetDenomMetadata :: "'d api_MsgSetDenomMetadata" where
  "new_MsgSetDenomMetadata =
    \<lparr>MsgSetDenomMetadata_Sender = '''',
     MsgSetDenomMetadata_Metadata = None,
     MsgSetDenomMetadata_unknownFields = []\<rparr>"

definition size_MsgSetDenomMetadata :: "runtime \<Rightarrow> 'd codec \<Rightarrow> 'd api_MsgSetDenomMetadata \<Rightarrow> nat" where
  "size_MsgSetDenomMetadata R Metadata m =
     size_string (Sov R) (to_bytes (MsgSetDenomMetadata_Sender m)) +
     size_api_message R Metadata (MsgSetDenomMetadata_Metadata m) +
     length (MsgSetDenomMetadata_unknownFields m)"

definition put_MsgSetDenomMetadata :: "runtime \<Rightarrow> 'd codec \<Rightarrow> 'd api_MsgSetDenomMetadata \<Rightarrow> writer" where
  "put_MsgSetDenomMetadata R Metadata m =
     andThen (put_bytes (MsgSetDenomMetadata_unknownFields m)) (\<lambda>_.
     andThen (put_api_message R Metadata 0x12 (MsgSetDenomMetadata_Metadata m)) (\<lambda>_.
     put_string (EncodeVarint R) 0xa (to_bytes (MsgSetDenomMetadata_Sender m))))"

definition fields_MsgSetDenomMetadata :: "'d codec \<Rightarrow> (int \<times> string \<times> 'd api_MsgSetDenomMetadata field) list" where
  "fields_MsgSetDenomMetadata Metadata =
    [(1, ''Sender'', string_field (\<lambda>s m. m\<lparr>MsgSetDenomMetadata_Sender := s\<rparr>)),
     (2, ''Metadata'', message_field Metadata MsgSetDenomMetadata_Metadata (\<lambda>y m. m\<lparr>MsgSetDenomMetadata_Metadata := y\<rparr>))]"

definition MsgSetDenomMetadata_codec :: "runtime \<Rightarrow> bool \<Rightarrow> 'd codec \<Rightarrow> 'd api_MsgSetDenomMetadata codec" where
  "MsgSetDenomMetadata_codec R discard Metadata =
     api_codec ''MsgSetDenomMetadata''
       (size_MsgSetDenomMetadata R Metadata)
       (put_MsgSetDenomMetadata R Metadata)
       (fields_MsgSetDenomMetadata Metadata)
       (keep_unknown R discard
         (\<lambda>u m. m\<lparr>MsgSetDenomMetadata_unknownFields := MsgSetDenomMetadata_unknownFields m @ u\<rparr>))
       new_MsgSetDenomMetadata"

definition enc_MsgSetDenomMetadata :: "('d \<Rightarrow> bytes) \<Rightarrow> 'd api_MsgSetDenomMetadata \<Rightarrow> bytes" where
  "enc_MsgSetDenomMetadata eMetadata m =
     enc_string 0xa (to_bytes (MsgSetDenomMetadata_Sender m)) @
     enc_api_message 0x12 eMetadata (MsgSetDenomMetadata_Metadata m) @
     MsgSetDenomMetadata_unknownFields m"

definition ok_MsgSetDenomMetadata :: "runtime \<Rightarrow> bool \<Rightarrow> ('d \<Rightarrow> bool) \<Rightarrow> 'd api_MsgSetDenomMetadata \<Rightarrow> bool" where
  "ok_MsgSetDenomMetadata R discard okMetadata m \<longleftrightarrow>
     unknown_ok R discard {1, 2} (MsgSetDenomMetadata_unknownFields m) \<and>
     ok_opt okMetadata (MsgSetDenomMetadata_Metadata m)"

lemma lookup_MsgSetDenomMetadata:
  "map_of (fields_MsgSetDenomMetadata Metadata) (field_no 0xa) = Some (''Sender'', string_field (\<lambda>s m. m\<lparr>MsgSetDenomMetadata_Sender := s\<rparr>))"
  "map_of (fields_MsgSetDenomMetadata Metadata) (field_no 0x12) = Some (''Metadata'', message_field Metadata MsgSetDenomMetadata_Metadata (\<lambda>y m. m\<lparr>MsgSetDenomMetadata_Metadata := y\<rparr>))"
  by (simp_all add: fields_MsgSetDenomMetadata_def)

lemma MsgSetDenomMetadata_message_codec:
  assumes R: "runtime_ok R"
    and cMetadata: "message_codec Metadata eMetadata okMetadata"
  shows "message_codec (MsgSetDenomMetadata_codec R discard Metadata)
    (enc_MsgSetDenomMetadata eMetadata) (ok_MsgSetDenomMetadata R discard okMetadata)"
proof -
  show ?thesis
    unfolding MsgSetDenomMetadata_codec_def
    apply (rule api_message_codec)
    subgoal for m
      by (simp add: ok_MsgSetDenomMetadata_def size_MsgSetDenomMetadata_def enc_MsgSetDenomMetadata_def runtime_okD [OF R]
          length_api_fields(1) [OF R cMetadata, where t = "0x12"])
    subgoal for m
      unfolding put_MsgSetDenomMetadata_def enc_MsgSetDenomMetadata_def ok_MsgSetDenomMetadata_def
      by (rule writes_eq [OF writes_andThen [OF writes_put_bytes
          writes_andThen [OF writes_api_message [OF R cMetadata]
          writes_string [OF runtime_okD(2) [OF R]]]]])
        simp_all
    subgoal for m
      unfolding enc_MsgSetDenomMetadata_def ok_MsgSetDenomMetadata_def
      by (rule decodes_eq [OF decodes_append [OF decodes_api_string [OF tags(3) lookup_MsgSetDenomMetadata(1)]
          decodes_append [OF decodes_api_message [OF cMetadata _ _ tags(4) lookup_MsgSetDenomMetadata(2)]
          decodes_kept [OF _ _ _ refl]]]])
        (simp_all add: new_MsgSetDenomMetadata_def fields_MsgSetDenomMetadata_def)
    by (simp_all add: keep_unknown_moves_on [OF R] fields_MsgSetDenomMetadata_def
        message_fields_return [OF cMetadata])
qed

subsection \<open>MsgSetDenomMetadataResponse\<close>

record api_MsgSetDenomMetadataResponse =
  MsgSetDenomMetadataResponse_unknownFields :: bytes

definition new_MsgSetDenomMetadataResponse :: "api_MsgSetDenomMetadataResponse" where
  "new_MsgSetDenomMetadataResponse =
    \<lparr>MsgSetDenomMetadataResponse_unknownFields = []\<rparr>"

definition MsgSetDenomMetadataResponse_codec :: "runtime \<Rightarrow> bool \<Rightarrow> api_MsgSetDenomMetadataResponse codec" where
  "MsgSetDenomMetadataResponse_codec R discard =
     api_codec ''MsgSetDenomMetadataResponse''
       (\<lambda>m. length (MsgSetDenomMetadataResponse_unknownFields m))
       (\<lambda>m. put_bytes (MsgSetDenomMetadataResponse_unknownFields m))
       []
       (keep_unknown R discard
         (\<lambda>u m. m\<lparr>MsgSetDenomMetadataResponse_unknownFields := MsgSetDenomMetadataResponse_unknownFields m @ u\<rparr>))
       new_MsgSetDenomMetadataResponse"

definition enc_MsgSetDenomMetadataResponse :: "api_MsgSetDenomMetadataResponse \<Rightarrow> bytes" where
  "enc_MsgSetDenomMetadataResponse m =
     MsgSetDenomMetadataResponse_unknownFields m"

definition ok_MsgSetDenomMetadataResponse :: "runtime \<Rightarrow> bool \<Rightarrow> api_MsgSetDenomMetadataResponse \<Rightarrow> bool" where
  "ok_MsgSetDenomMetadataResponse R discard m \<longleftrightarrow>
     unknown_ok R discard {} (MsgSetDenomMetadataResponse_unknownFields m)"

lemma MsgSetDenomMetadataResponse_message_codec:
  assumes R: "runtime_ok R"
  shows "message_codec (MsgSetDenomMetadataResponse_codec R discard)
    enc_MsgSetDenomMetadataResponse (ok_MsgSetDenomMetadataResponse R discard)"
  unfolding MsgSetDenomMetadataResponse_codec_def enc_MsgSetDenomMetadataResponse_def [abs_def] ok_MsgSetDenomMetadataResponse_def [abs_def]
  by (rule empty_message_codec [OF R]) (simp_all add: new_MsgSetDenomMetadataResponse_def)

interpretation MsgSetDenomMetadataResponse_wire: message_codec "MsgSetDenomMetadataResponse_codec pb_runtime discard" enc_MsgSetDenomMetadataResponse "ok_MsgSetDenomMetadataResponse pb_runtime discard"
  for discard by (rule MsgSetDenomMetadataResponse_message_codec [OF pb_runtime_ok])

subsection \<open>MsgUpdateParams\<close>

record 'c api_MsgUpdateParams =
  MsgUpdateParams_Authority :: string
  MsgUpdateParams_Params :: "'c api_Params option"
  MsgUpdateParams_unknownFields :: bytes

definition new_MsgUpdateParams :: "'c api_MsgUpdateParams" where
  "new_MsgUpdateParams =
    \<lparr>MsgUpdateParams_Authority = '''',
     MsgUpdateParams_Params = None,
     MsgUpdateParams_unknownFields = []\<rparr>"

definition size_MsgUpdateParams :: "runtime \<Rightarrow> bool \<Rightarrow> 'c codec \<Rightarrow> 'c api_MsgUpdateParams \<Rightarrow> nat" where
  "size_MsgUpdateParams R discard Coin m =
     size_string (Sov R) (to_bytes (MsgUpdateParams_Authority m)) +
     size_api_message R (Params_codec R discard Coin) (MsgUpdateParams_Params m) +
     length (MsgUpdateParams_unknownFields m)"

definition put_MsgUpdateParams :: "runtime \<Rightarrow> bool \<Rightarrow> 'c codec \<Rightarrow> 'c api_MsgUpdateParams \<Rightarrow> writer" where
  "put_MsgUpdateParams R discard Coin m =
     andThen (put_bytes (MsgUpdateParams_unknownFields m)) (\<lambda>_.
     andThen (put_api_message R (Params_codec R discard Coin) 0x12 (MsgUpdateParams_Params m)) (\<lambda>_.
     put_string (EncodeVarint R) 0xa (to_bytes (MsgUpdateParams_Authority m))))"

definition fields_MsgUpdateParams :: "runtime \<Rightarrow> bool \<Rightarrow> 'c codec \<Rightarrow> (int \<times> string \<times> 'c api_MsgUpdateParams field) list" where
  "fields_MsgUpdateParams R discard Coin =
    [(1, ''Authority'', string_field (\<lambda>s m. m\<lparr>MsgUpdateParams_Authority := s\<rparr>)),
     (2, ''Params'', message_field (Params_codec R discard Coin) MsgUpdateParams_Params (\<lambda>y m. m\<lparr>MsgUpdateParams_Params := y\<rparr>))]"

definition MsgUpdateParams_codec :: "runtime \<Rightarrow> bool \<Rightarrow> 'c codec \<Rightarrow> 'c api_MsgUpdateParams codec" where
  "MsgUpdateParams_codec R discard Coin =
     api_codec ''MsgUpdateParams''
       (size_MsgUpdateParams R discard Coin)
       (put_MsgUpdateParams R discard Coin)
       (fields_MsgUpdateParams R discard Coin)
       (keep_unknown R discard
         (\<lambda>u m. m\<lparr>MsgUpdateParams_unknownFields := MsgUpdateParams_unknownFields m @ u\<rparr>))
       new_MsgUpdateParams"

definition enc_MsgUpdateParams :: "('c \<Rightarrow> bytes) \<Rightarrow> 'c api_MsgUpdateParams \<Rightarrow> bytes" where
  "enc_MsgUpdateParams eCoin m =
     enc_string 0xa (to_bytes (MsgUpdateParams_Authority m)) @
     enc_api_message 0x12 (enc_Params eCoin) (MsgUpdateParams_Params m) @
     MsgUpdateParams_unknownFields m"

definition ok_MsgUpdateParams :: "runtime \<Rightarrow> bool \<Rightarrow> ('c \<Rightarrow> bool) \<Rightarrow> 'c api_MsgUpdateParams \<Rightarrow> bool" where
  "ok_MsgUpdateParams R discard okCoin m \<longleftrightarrow>
     unknown_ok R discard {1, 2} (MsgUpdateParams_unknownFields m) \<and>
     ok_opt (ok_Params R discard okCoin) (MsgUpdateParams_Params m)"

lemma lookup_MsgUpdateParams:
  "map_of (fields_MsgUpdateParams R discard Coin) (field_no 0xa) = Some (''Authority'', string_field (\<lambda>s m. m\<lparr>MsgUpdateParams_Authority := s\<rparr>))"
  "map_of (fields_MsgUpdateParams R discard Coin) (field_no 0x12) = Some (''Params'', message_field (Params_codec R discard Coin) MsgUpdateParams_Params (\<lambda>y m. m\<lparr>MsgUpdateParams_Params := y\<rparr>))"
  by (simp_all add: fields_MsgUpdateParams_def)

lemma MsgUpdateParams_message_codec:
  assumes R: "runtime_ok R"
    and cCoin: "message_codec Coin eCoin okCoin"
  shows "message_codec (MsgUpdateParams_codec R discard Coin)
    (enc_MsgUpdateParams eCoin) (ok_MsgUpdateParams R discard okCoin)"
proof -
  note cParams = Params_message_codec [OF R cCoin]
  show ?thesis
    unfolding MsgUpdateParams_codec_def
    apply (rule api_message_codec)
    subgoal for m
      by (simp add: ok_MsgUpdateParams_def size_MsgUpdateParams_def enc_MsgUpdateParams_def runtime_okD [OF R]
          length_api_fields(1) [OF R cParams, where t = "0x12"])
    subgoal for m
      unfolding put_MsgUpdateParams_def enc_MsgUpdateParams_def ok_MsgUpdateParams_def
      by (rule writes_eq [OF writes_andThen [OF writes_put_bytes
          writes_andThen [OF writes_api_message [OF R cParams]
          writes_string [OF runtime_okD(2) [OF R]]]]])
        simp_all
    subgoal for m
      unfolding enc_MsgUpdateParams_def ok_MsgUpdateParams_def
      by (rule decodes_eq [OF decodes_append [OF decodes_api_string [OF tags(3) lookup_MsgUpdateParams(1)]
          decodes_append [OF decodes_api_message [OF cParams _ _ tags(4) lookup_MsgUpdateParams(2)]
          decodes_kept [OF _ _ _ refl]]]])
        (simp_all add: new_MsgUpdateParams_def fields_MsgUpdateParams_def)
    by (simp_all add: keep_unknown_moves_on [OF R] fields_MsgUpdateParams_def
        message_fields_return [OF cParams])
qed

subsection \<open>MsgUpdateParamsResponse\<close>

record api_MsgUpdateParamsResponse =
  MsgUpdateParamsResponse_unknownFields :: bytes

definition new_MsgUpdateParamsResponse :: "api_MsgUpdateParamsResponse" where
  "new_MsgUpdateParamsResponse =
    \<lparr>MsgUpdateParamsResponse_unknownFields = []\<rparr>"

definition MsgUpdateParamsResponse_codec :: "runtime \<Rightarrow> bool \<Rightarrow> api_MsgUpdateParamsResponse codec" where
  "MsgUpdateParamsResponse_codec R discard =
     api_codec ''MsgUpdateParamsResponse''
       (\<lambda>m. length (MsgUpdateParamsResponse_unknownFields m))
       (\<lambda>m. put_bytes (MsgUpdateParamsResponse_unknownFields m))
       []
       (keep_unknown R discard
         (\<lambda>u m. m\<lparr>MsgUpdateParamsResponse_unknownFields := MsgUpdateParamsResponse_unknownFields m @ u\<rparr>))
       new_MsgUpdateParamsResponse"

definition enc_MsgUpdateParamsResponse :: "api_MsgUpdateParamsResponse \<Rightarrow> bytes" where
  "enc_MsgUpdateParamsResponse m =
     MsgUpdateParamsResponse_unknownFields m"

definition ok_MsgUpdateParamsResponse :: "runtime \<Rightarrow> bool \<Rightarrow> api_MsgUpdateParamsResponse \<Rightarrow> bool" where
  "ok_MsgUpdateParamsResponse R discard m \<longleftrightarrow>
     unknown_ok R discard {} (MsgUpdateParamsResponse_unknownFields m)"

lemma MsgUpdateParamsResponse_message_codec:
  assumes R: "runtime_ok R"
  shows "message_codec (MsgUpdateParamsResponse_codec R discard)
    enc_MsgUpdateParamsResponse (ok_MsgUpdateParamsResponse R discard)"
  unfolding MsgUpdateParamsResponse_codec_def enc_MsgUpdateParamsResponse_def [abs_def] ok_MsgUpdateParamsResponse_def [abs_def]
  by (rule empty_message_codec [OF R]) (simp_all add: new_MsgUpdateParamsResponse_def)

interpretation MsgUpdateParamsResponse_wire: message_codec "MsgUpdateParamsResponse_codec pb_runtime discard" enc_MsgUpdateParamsResponse "ok_MsgUpdateParamsResponse pb_runtime discard"
  for discard by (rule MsgUpdateParamsResponse_message_codec [OF pb_runtime_ok])

end
