(* ===== verification/PulsarWasm.thy ===== *)
theory PulsarWasm
  imports Pulsar
begin

text \<open>
  The messages of the wasm extension: \<open>types.pulsar.go\<close> and \<open>tx.pulsar.go\<close> under
  \<open>api/miniwasm\<close>.  For a message \<open>M\<close>: the struct with its unknown fields, the bodies of
  \<open>size\<close> and \<open>marshal\<close> for a message that is not nil, the cases of \<open>unmarshal\<close>, and the
  methods together; then its encoding \<open>enc_M\<close>, the messages \<open>ok_M\<close> it is for, and that the
  methods implement it.  A nil element of a list of messages is not told from an empty one by the
  encoding, and so is not among them.
\<close>

subsection \<open>AccessConfig\<close>

record api_AccessConfig =
  AccessConfig_Permission :: "32 word"
  AccessConfig_Addresses :: "string list"
  AccessConfig_unknownFields :: bytes

definition new_AccessConfig :: "api_AccessConfig" where
  "new_AccessConfig =
    \<lparr>AccessConfig_Permission = 0,
     AccessConfig_Addresses = [],
     AccessConfig_unknownFields = []\<rparr>"

definition size_AccessConfig :: "runtime \<Rightarrow> api_AccessConfig \<Rightarrow> nat" where
  "size_AccessConfig R m =
     size_uint (Sov R) (scast (AccessConfig_Permission m)) +
     size_api_strings R (AccessConfig_Addresses m) +
     length (AccessConfig_unknownFields m)"

definition put_AccessConfig :: "runtime \<Rightarrow> api_AccessConfig \<Rightarrow> writer" where
  "put_AccessConfig R m =
     andThen (put_bytes (AccessConfig_unknownFields m)) (\<lambda>_.
     andThen (put_api_strings R 0x12 (AccessConfig_Addresses m)) (\<lambda>_.
     put_uint (EncodeVarint R) 0x8 (scast (AccessConfig_Permission m))))"

definition fields_AccessConfig :: "(int \<times> string \<times> api_AccessConfig field) list" where
  "fields_AccessConfig =
    [(1, ''Permission'', Varint (\<lambda>v m. m\<lparr>AccessConfig_Permission := ucast v\<rparr>)),
     (2, ''Addresses'', string_field (\<lambda>s m. m\<lparr>AccessConfig_Addresses := AccessConfig_Addresses m @ [s]\<rparr>))]"

definition AccessConfig_codec :: "runtime \<Rightarrow> bool \<Rightarrow> api_AccessConfig codec" where
  "AccessConfig_codec R discard =
     api_codec ''AccessConfig''
       (size_AccessConfig R)
       (put_AccessConfig R)
       fields_AccessConfig
       (keep_unknown R discard
         (\<lambda>u m. m\<lparr>AccessConfig_unknownFields := AccessConfig_unknownFields m @ u\<rparr>))
       new_AccessConfig"

definition enc_AccessConfig :: "api_AccessConfig \<Rightarrow> bytes" where
  "enc_AccessConfig m =
     enc_uint 0x8 (scast (AccessConfig_Permission m)) @
     enc_api_strings 0x12 (AccessConfig_Addresses m) @
     AccessConfig_unknownFields m"

definition ok_AccessConfig :: "runtime \<Rightarrow> bool \<Rightarrow> api_AccessConfig \<Rightarrow> bool" where
  "ok_AccessConfig R discard m \<longleftrightarrow>
     unknown_ok R discard {1, 2} (AccessConfig_unknownFields m)"

lemma fold_AccessConfig_Addresses:
  "fold (\<lambda>x m. m\<lparr>AccessConfig_Addresses := AccessConfig_Addresses m @ [x]\<rparr>) xs m = m\<lparr>AccessConfig_Addresses := AccessConfig_Addresses m @ xs\<rparr>"
  by (induction xs arbitrary: m) simp_all

lemma lookup_AccessConfig:
  "map_of fields_AccessConfig (field_no 0x8) = Some (''Permission'', Varint (\<lambda>v m. m\<lparr>AccessConfig_Permission := ucast v\<rparr>))"
  "map_of fields_AccessConfig (field_no 0x12) = Some (''Addresses'', string_field (\<lambda>s m. m\<lparr>AccessConfig_Addresses := AccessConfig_Addresses m @ [s]\<rparr>))"
  by (simp_all add: fields_AccessConfig_def)

lemma AccessConfig_message_codec:
  assumes R: "runtime_ok R"
  shows "message_codec (AccessConfig_codec R discard)
    enc_AccessConfig (ok_AccessConfig R discard)"
proof -
  show ?thesis
    unfolding AccessConfig_codec_def
    apply (rule api_message_codec)
    subgoal for m
      by (simp add: ok_AccessConfig_def size_AccessConfig_def enc_AccessConfig_def runtime_okD [OF R]
          length_api_strings [OF R, where t = "0x12"])
    subgoal for m
      unfolding put_AccessConfig_def enc_AccessConfig_def ok_AccessConfig_def
      by (rule writes_eq [OF writes_andThen [OF writes_put_bytes
          writes_andThen [OF writes_api_strings [OF R]
          writes_uint [OF runtime_okD(2) [OF R]]]]])
        simp_all
    subgoal for m
      unfolding enc_AccessConfig_def ok_AccessConfig_def
      by (rule decodes_eq [OF decodes_append [OF decodes_api_uint [OF tags(1) lookup_AccessConfig(1)]
          decodes_append [OF decodes_api_strings [OF tags(4) lookup_AccessConfig(2)]
          decodes_kept [OF _ _ _ refl]]]])
        (simp_all add: new_AccessConfig_def fields_AccessConfig_def fold_AccessConfig_Addresses)
    by (simp_all add: keep_unknown_moves_on [OF R] fields_AccessConfig_def)
qed

interpretation AccessConfig_wire: message_codec "AccessConfig_codec pb_runtime discard" enc_AccessConfig "ok_AccessConfig pb_runtime discard"
  for discard by (rule AccessConfig_message_codec [OF pb_runtime_ok])

subsection \<open>MsgStoreCodeAdmin\<close>

record api_MsgStoreCodeAdmin =
  MsgStoreCodeAdmin_Authority :: string
  MsgStoreCodeAdmin_Creator :: string
  MsgStoreCodeAdmin_WasmByteCode :: bytes
  MsgStoreCodeAdmin_InstantiatePermission :: "api_AccessConfig option"
  MsgStoreCodeAdmin_unknownFields :: bytes

definition new_MsgStoreCodeAdmin :: "api_MsgStoreCodeAdmin" where
  "new_MsgStoreCodeAdmin =
    \<lparr>MsgStoreCodeAdmin_Authority = '''',
     MsgStoreCodeAdmin_Creator = '''',
     MsgStoreCodeAdmin_WasmByteCode = [],
     MsgStoreCodeAdmin_InstantiatePermission = None,
     MsgStoreCodeAdmin_unknownFields = []\<rparr>"

definition size_MsgStoreCodeAdmin :: "runtime \<Rightarrow> bool \<Rightarrow> api_MsgStoreCodeAdmin \<Rightarrow> nat" where
  "size_MsgStoreCodeAdmin R discard m =
     size_string (Sov R) (to_bytes (MsgStoreCodeAdmin_Authority m)) +
     size_string (Sov R) (to_bytes (MsgStoreCodeAdmin_Creator m)) +
     size_string (Sov R) (MsgStoreCodeAdmin_WasmByteCode m) +
     size_api_message R (AccessConfig_codec R discard) (MsgStoreCodeAdmin_InstantiatePermission m) +
     length (MsgStoreCodeAdmin_unknownFields m)"

definition put_MsgStoreCodeAdmin :: "runtime \<Rightarrow> bool \<Rightarrow> api_MsgStoreCodeAdmin \<Rightarrow> writer" where
  "put_MsgStoreCodeAdmin R discard m =
     andThen (put_bytes (MsgStoreCodeAdmin_unknownFields m)) (\<lambda>_.
     andThen (put_api_message R (AccessConfig_codec R discard) 0x22 (MsgStoreCodeAdmin_InstantiatePermission m)) (\<lambda>_.
     andThen (put_string (EncodeVarint R) 0x1a (MsgStoreCodeAdmin_WasmByteCode m)) (\<lambda>_.
     andThen (put_string (EncodeVarint R) 0x12 (to_bytes (MsgStoreCodeAdmin_Creator m))) (\<lambda>_.
     put_string (EncodeVarint R) 0xa (to_bytes (MsgStoreCodeAdmin_Authority m))))))"

definition fields_MsgStoreCodeAdmin :: "runtime \<Rightarrow> bool \<Rightarrow> (int \<times> string \<times> api_MsgStoreCodeAdmin field) list" where
  "fields_MsgStoreCodeAdmin R discard =
    [(1, ''Authority'', string_field (\<lambda>s m. m\<lparr>MsgStoreCodeAdmin_Authority := s\<rparr>)),
     (2, ''Creator'', string_field (\<lambda>s m. m\<lparr>MsgStoreCodeAdmin_Creator := s\<rparr>)),
     (3, ''WasmByteCode'', bytes_field (\<lambda>bz m. m\<lparr>MsgStoreCodeAdmin_WasmByteCode := bz\<rparr>)),
     (4, ''InstantiatePermission'', message_field (AccessConfig_codec R discard) MsgStoreCodeAdmin_InstantiatePermission (\<lambda>y m. m\<lparr>MsgStoreCodeAdmin_InstantiatePermission := y\<rparr>))]"

definition MsgStoreCodeAdmin_codec :: "runtime \<Rightarrow> bool \<Rightarrow> api_MsgStoreCodeAdmin codec" where
  "MsgStoreCodeAdmin_codec R discard =
     api_codec ''MsgStoreCodeAdmin''
       (size_MsgStoreCodeAdmin R discard)
       (put_MsgStoreCodeAdmin R discard)
       (fields_MsgStoreCodeAdmin R discard)
       (keep_unknown R discard
         (\<lambda>u m. m\<lparr>MsgStoreCodeAdmin_unknownFields := MsgStoreCodeAdmin_unknownFields m @ u\<rparr>))
       new_MsgStoreCodeAdmin"

definition enc_MsgStoreCodeAdmin :: "api_MsgStoreCodeAdmin \<Rightarrow> bytes" where
  "enc_MsgStoreCodeAdmin m =
     enc_string 0xa (to_bytes (MsgStoreCodeAdmin_Authority m)) @
     enc_string 0x12 (to_bytes (MsgStoreCodeAdmin_Creator m)) @
     enc_string 0x1a (MsgStoreCodeAdmin_WasmByteCode m) @
     enc_api_message 0x22 enc_AccessConfig (MsgStoreCodeAdmin_InstantiatePermission m) @
     MsgStoreCodeAdmin_unknownFields m"

definition ok_MsgStoreCodeAdmin :: "runtime \<Rightarrow> bool \<Rightarrow> api_MsgStoreCodeAdmin \<Rightarrow> bool" where
  "ok_MsgStoreCodeAdmin R discard m \<longleftrightarrow>
     unknown_ok R discard {1, 2, 3, 4} (MsgStoreCodeAdmin_unknownFields m) \<and>
     ok_opt (ok_AccessConfig R discard) (MsgStoreCodeAdmin_InstantiatePermission m)"

lemma lookup_MsgStoreCodeAdmin:
  "map_of (fields_MsgStoreCodeAdmin R discard) (field_no 0xa) = Some (''Authority'', string_field (\<lambda>s m. m\<lparr>MsgStoreCodeAdmin_Authority := s\<rparr>))"
  "map_of (fields_MsgStoreCodeAdmin R discard) (field_no 0x12) = Some (''Creator'', string_field (\<lambda>s m. m\<lparr>MsgStoreCodeAdmin_Creator := s\<rparr>))"
  "map_of (fields_MsgStoreCodeAdmin R discard) (field_no 0x1a) = Some (''WasmByteCode'', bytes_field (\<lambda>bz m. m\<lparr>MsgStoreCodeAdmin_WasmByteCode := bz\<rparr>))"
  "map_of (fields_MsgStoreCodeAdmin R discard) (field_no 0x22) = Some (''InstantiatePermission'', message_field (AccessConfig_codec R discard) MsgStoreCodeAdmin_InstantiatePermission (\<lambda>y m. m\<lparr>MsgStoreCodeAdmin_InstantiatePermission := y\<rparr>))"
  by (simp_all add: fields_MsgStoreCodeAdmin_def)

lemma MsgStoreCodeAdmin_message_codec:
  assumes R: "runtime_ok R"
  shows "message_codec (MsgStoreCodeAdmin_codec R discard)
    enc_MsgStoreCodeAdmin (ok_MsgStoreCodeAdmin R discard)"
proof -
  note cAccessConfig = AccessConfig_message_codec [OF R]
  show ?thesis
    unfolding MsgStoreCodeAdmin_codec_def
    apply (rule api_message_codec)
    subgoal for m
      by (simp add: ok_MsgStoreCodeAdmin_def size_MsgStoreCodeAdmin_def enc_MsgStoreCodeAdmin_def runtime_okD [OF R]
          length_api_fields(1) [OF R cAccessConfig, where t = "0x22"])
    subgoal for m
      unfolding put_MsgStoreCodeAdmin_def enc_MsgStoreCodeAdmin_def ok_MsgStoreCodeAdmin_def
      by (rule writes_eq [OF writes_andThen [OF writes_put_bytes
          writes_andThen [OF writes_api_message [OF R cAccessConfig]
          writes_andThen [OF writes_string [OF runtime_okD(2) [OF R]]
          writes_andThen [OF writes_string [OF runtime_okD(2) [OF R]]
          writes_string [OF runtime_okD(2) [OF R]]]]]]])
        simp_all
    subgoal for m
      unfolding enc_MsgStoreCodeAdmin_def ok_MsgStoreCodeAdmin_def
      by (rule decodes_eq [OF decodes_append [OF decodes_api_string [OF tags(3) lookup_MsgStoreCodeAdmin(1)]
          decodes_append [OF decodes_api_string [OF tags(4) lookup_MsgStoreCodeAdmin(2)]
          decodes_append [OF decodes_api_bytes [OF tags(5) lookup_MsgStoreCodeAdmin(3)]
          decodes_append [OF decodes_api_message [OF cAccessConfig _ _ tags(6) lookup_MsgStoreCodeAdmin(4)]
          decodes_kept [OF _ _ _ refl]]]]]])
        (simp_all add: new_MsgStoreCodeAdmin_def fields_MsgStoreCodeAdmin_def)
    by (simp_all add: keep_unknown_moves_on [OF R] fields_MsgStoreCodeAdmin_def
        message_fields_return [OF cAccessConfig])
qed

interpretation MsgStoreCodeAdmin_wire: message_codec "MsgStoreCodeAdmin_codec pb_runtime discard" enc_MsgStoreCodeAdmin "ok_MsgStoreCodeAdmin pb_runtime discard"
  for discard by (rule MsgStoreCodeAdmin_message_codec [OF pb_runtime_ok])

subsection \<open>MsgStoreCodeAdminResponse\<close>

record api_MsgStoreCodeAdminResponse =
  MsgStoreCodeAdminResponse_CodeId :: u64
  MsgStoreCodeAdminResponse_Checksum :: bytes
  MsgStoreCodeAdminResponse_unknownFields :: bytes

definition new_MsgStoreCodeAdminResponse :: "api_MsgStoreCodeAdminResponse" where
  "new_MsgStoreCodeAdminResponse =
    \<lparr>MsgStoreCodeAdminResponse_CodeId = 0,
     MsgStoreCodeAdminResponse_Checksum = [],
     MsgStoreCodeAdminResponse_unknownFields = []\<rparr>"

definition size_MsgStoreCodeAdminResponse :: "runtime \<Rightarrow> api_MsgStoreCodeAdminResponse \<Rightarrow> nat" where
  "size_MsgStoreCodeAdminResponse R m =
     size_uint (Sov R) (MsgStoreCodeAdminResponse_CodeId m) +
     size_string (Sov R) (MsgStoreCodeAdminResponse_Checksum m) +
     length (MsgStoreCodeAdminResponse_unknownFields m)"

definition put_MsgStoreCodeAdminResponse :: "runtime \<Rightarrow> api_MsgStoreCodeAdminResponse \<Rightarrow> writer" where
  "put_MsgStoreCodeAdminResponse R m =
     andThen (put_bytes (MsgStoreCodeAdminResponse_unknownFields m)) (\<lambda>_.
     andThen (put_string (EncodeVarint R) 0x12 (MsgStoreCodeAdminResponse_Checksum m)) (\<lambda>_.
     put_uint (EncodeVarint R) 0x8 (MsgStoreCodeAdminResponse_CodeId m)))"

definition fields_MsgStoreCodeAdminResponse :: "(int \<times> string \<times> api_MsgStoreCodeAdminResponse field) list" where
  "fields_MsgStoreCodeAdminResponse =
    [(1, ''CodeId'', Varint (\<lambda>v m. m\<lparr>MsgStoreCodeAdminResponse_CodeId := v\<rparr>)),
     (2, ''Checksum'', bytes_field (\<lambda>bz m. m\<lparr>MsgStoreCodeAdminResponse_Checksum := bz\<rparr>))]"

definition MsgStoreCodeAdminResponse_codec :: "runtime \<Rightarrow> bool \<Rightarrow> api_MsgStoreCodeAdminResponse codec" where
  "MsgStoreCodeAdminResponse_codec R discard =
     api_codec ''MsgStoreCodeAdminResponse''
       (size_MsgStoreCodeAdminResponse R)
       (put_MsgStoreCodeAdminResponse R)
       fields_MsgStoreCodeAdminResponse
       (keep_unknown R discard
         (\<lambda>u m. m\<lparr>MsgStoreCodeAdminResponse_unknownFields := MsgStoreCodeAdminResponse_unknownFields m @ u\<rparr>))
       new_MsgStoreCodeAdminResponse"

definition enc_MsgStoreCodeAdminResponse :: "api_MsgStoreCodeAdminResponse \<Rightarrow> bytes" where
  "enc_MsgStoreCodeAdminResponse m =
     enc_uint 0x8 (MsgStoreCodeAdminResponse_CodeId m) @
     enc_string 0x12 (MsgStoreCodeAdminResponse_Checksum m) @
     MsgStoreCodeAdminResponse_unknownFields m"

definition ok_MsgStoreCodeAdminResponse :: "runtime \<Rightarrow> bool \<Rightarrow> api_MsgStoreCodeAdminResponse \<Rightarrow> bool" where
  "ok_MsgStoreCodeAdminResponse R discard m \<longleftrightarrow>
     unknown_ok R discard {1, 2} (MsgStoreCodeAdminResponse_unknownFields m)"

lemma lookup_MsgStoreCodeAdminResponse:
  "map_of fields_MsgStoreCodeAdminResponse (field_no 0x8) = Some (''CodeId'', Varint (\<lambda>v m. m\<lparr>MsgStoreCodeAdminResponse_CodeId := v\<rparr>))"
  "map_of fields_MsgStoreCodeAdminResponse (field_no 0x12) = Some (''Checksum'', bytes_field (\<lambda>bz m. m\<lparr>MsgStoreCodeAdminResponse_Checksum := bz\<rparr>))"
  by (simp_all add: fields_MsgStoreCodeAdminResponse_def)

lemma MsgStoreCodeAdminResponse_message_codec:
  assumes R: "runtime_ok R"
  shows "message_codec (MsgStoreCodeAdminResponse_codec R discard)
    enc_MsgStoreCodeAdminResponse (ok_MsgStoreCodeAdminResponse R discard)"
proof -
  show ?thesis
    unfolding MsgStoreCodeAdminResponse_codec_def
    apply (rule api_message_codec)
    subgoal for m
      by (simp add: ok_MsgStoreCodeAdminResponse_def size_MsgStoreCodeAdminResponse_def enc_MsgStoreCodeAdminResponse_def runtime_okD [OF R])
    subgoal for m
      unfolding put_MsgStoreCodeAdminResponse_def enc_MsgStoreCodeAdminResponse_def ok_MsgStoreCodeAdminResponse_def
      by (rule writes_eq [OF writes_andThen [OF writes_put_bytes
          writes_andThen [OF writes_string [OF runtime_okD(2) [OF R]]
          writes_uint [OF runtime_okD(2) [OF R]]]]])
        simp_all
    subgoal for m
      unfolding enc_MsgStoreCodeAdminResponse_def ok_MsgStoreCodeAdminResponse_def
      by (rule decodes_eq [OF decodes_append [OF decodes_api_uint [OF tags(1) lookup_MsgStoreCodeAdminResponse(1)]
          decodes_append [OF decodes_api_bytes [OF tags(4) lookup_MsgStoreCodeAdminResponse(2)]
          decodes_kept [OF _ _ _ refl]]]])
        (simp_all add: new_MsgStoreCodeAdminResponse_def fields_MsgStoreCodeAdminResponse_def)
    by (simp_all add: keep_unknown_moves_on [OF R] fields_MsgStoreCodeAdminResponse_def)
qed

interpretation MsgStoreCodeAdminResponse_wire: message_codec "MsgStoreCodeAdminResponse_codec pb_runtime discard" enc_MsgStoreCodeAdminResponse "ok_MsgStoreCodeAdminResponse pb_runtime discard"
  for discard by (rule MsgStoreCodeAdminResponse_message_codec [OF pb_runtime_ok])

end
