(* ===== verification/ReflectMsgs.thy ===== *)
theory ReflectMsgs
  imports Reflect PulsarQuery PulsarTx PulsarWasm
begin

text \<open>
  The reflection methods of the messages of \<open>api/**/*.pulsar.go\<close>, as the table of the fields of
  each message, and that the methods keep the contract of \<^term>\<open>message_reflection\<close>.
\<close>

section \<open>Types of values\<close>

text \<open>The messages and the lists that are inside values, and the type assertions on them.\<close>

datatype ('c, 'd) api_message =
    CoinMessage "'c option"
  | MetadataMessage "'d option"
  | ParamsMessage "'c api_Params option"
  | DenomAuthorityMetadataMessage "api_DenomAuthorityMetadata option"
  | GenesisDenomMessage "api_GenesisDenom option"
  | AccessConfigMessage "api_AccessConfig option"

datatype 'c api_list =
    Params_1_list "'c option list option"
  | GenesisState_2_list "api_GenesisDenom option list option"
  | QueryDenomsFromCreatorResponse_1_list "string list option"
  | AccessConfig_2_list "string list option"

fun as_Coin :: "('c, 'd) api_message \<Rightarrow> 'c option option" where
  "as_Coin (CoinMessage y) = Some y"
| "as_Coin _ = None"

fun as_Metadata :: "('c, 'd) api_message \<Rightarrow> 'd option option" where
  "as_Metadata (MetadataMessage y) = Some y"
| "as_Metadata _ = None"

fun as_Params :: "('c, 'd) api_message \<Rightarrow> 'c api_Params option option" where
  "as_Params (ParamsMessage y) = Some y"
| "as_Params _ = None"

fun as_DenomAuthorityMetadata :: "('c, 'd) api_message \<Rightarrow> api_DenomAuthorityMetadata option option" where
  "as_DenomAuthorityMetadata (DenomAuthorityMetadataMessage y) = Some y"
| "as_DenomAuthorityMetadata _ = None"

fun as_GenesisDenom :: "('c, 'd) api_message \<Rightarrow> api_GenesisDenom option option" where
  "as_GenesisDenom (GenesisDenomMessage y) = Some y"
| "as_GenesisDenom _ = None"

fun as_AccessConfig :: "('c, 'd) api_message \<Rightarrow> api_AccessConfig option option" where
  "as_AccessConfig (AccessConfigMessage y) = Some y"
| "as_AccessConfig _ = None"

fun as_Params_1_list :: "'c api_list \<Rightarrow> 'c option list option option" where
  "as_Params_1_list (Params_1_list es) = Some es"
| "as_Params_1_list _ = None"

fun as_GenesisState_2_list :: "'c api_list \<Rightarrow> api_GenesisDenom option list option option" where
  "as_GenesisState_2_list (GenesisState_2_list es) = Some es"
| "as_GenesisState_2_list _ = None"

fun as_QueryDenomsFromCreatorResponse_1_list :: "'c api_list \<Rightarrow> string list option option" where
  "as_QueryDenomsFromCreatorResponse_1_list (QueryDenomsFromCreatorResponse_1_list es) = Some es"
| "as_QueryDenomsFromCreatorResponse_1_list _ = None"

fun as_AccessConfig_2_list :: "'c api_list \<Rightarrow> string list option option" where
  "as_AccessConfig_2_list (AccessConfig_2_list es) = Some es"
| "as_AccessConfig_2_list _ = None"

lemma as_message [simp]:
  "as_Coin w = Some y0 \<longleftrightarrow> w = CoinMessage y0"
  "as_Metadata w = Some y1 \<longleftrightarrow> w = MetadataMessage y1"
  "as_Params w = Some y2 \<longleftrightarrow> w = ParamsMessage y2"
  "as_DenomAuthorityMetadata w = Some y3 \<longleftrightarrow> w = DenomAuthorityMetadataMessage y3"
  "as_GenesisDenom w = Some y4 \<longleftrightarrow> w = GenesisDenomMessage y4"
  "as_AccessConfig w = Some y5 \<longleftrightarrow> w = AccessConfigMessage y5"
  by (cases w; auto)+

lemma as_list [simp]:
  "as_Params_1_list w = Some l0 \<longleftrightarrow> w = Params_1_list l0"
  "as_GenesisState_2_list w = Some l1 \<longleftrightarrow> w = GenesisState_2_list l1"
  "as_QueryDenomsFromCreatorResponse_1_list w = Some l2 \<longleftrightarrow> w = QueryDenomsFromCreatorResponse_1_list l2"
  "as_AccessConfig_2_list w = Some l3 \<longleftrightarrow> w = AccessConfig_2_list l3"
  by (cases w; auto)+

section \<open>The lists\<close>

type_synonym ('x, 'c, 'd) api_reflection = "('x, ('c, 'd) api_message, 'c api_list) reflection"

definition Params_1_elements ::
  "'c \<Rightarrow> ('c option, ('c, 'd) api_message, 'c api_list) list_kind" where
  "Params_1_elements newCoin = message_elements CoinMessage as_Coin newCoin"

definition GenesisState_2_elements ::
  "(api_GenesisDenom option, ('c, 'd) api_message, 'c api_list) list_kind" where
  "GenesisState_2_elements = message_elements GenesisDenomMessage as_GenesisDenom new_GenesisDenom"

definition QueryDenomsFromCreatorResponse_1_elements ::
  "((('c, 'd) api_message, 'c api_list) val \<Rightarrow> string) \<Rightarrow>
   (string, ('c, 'd) api_message, 'c api_list) list_kind" where
  "QueryDenomsFromCreatorResponse_1_elements fmt = string_elements fmt"

definition AccessConfig_2_elements ::
  "((('c, 'd) api_message, 'c api_list) val \<Rightarrow> string) \<Rightarrow>
   (string, ('c, 'd) api_message, 'c api_list) list_kind" where
  "AccessConfig_2_elements fmt = string_elements fmt"

section \<open>The messages\<close>

definition reflect_DenomAuthorityMetadata :: "(api_DenomAuthorityMetadata, 'c, 'd) api_reflection" where
  "reflect_DenomAuthorityMetadata = full_names ''miniwasm.tokenfactory.v1.DenomAuthorityMetadata''
     [(''admin'', string_accessor DenomAuthorityMetadata_Admin (\<lambda>v m. m\<lparr>DenomAuthorityMetadata_Admin := v\<rparr>))]"

definition blank_DenomAuthorityMetadata :: "api_DenomAuthorityMetadata \<Rightarrow> api_DenomAuthorityMetadata" where
  "blank_DenomAuthorityMetadata m = new_DenomAuthorityMetadata\<lparr>DenomAuthorityMetadata_unknownFields := DenomAuthorityMetadata_unknownFields m\<rparr>"

interpretation DenomAuthorityMetadata: message_reflection reflect_DenomAuthorityMetadata blank_DenomAuthorityMetadata
  by unfold_locales (simp_all add: reflect_DenomAuthorityMetadata_def full_names_def accessor_defs blank_DenomAuthorityMetadata_def new_DenomAuthorityMetadata_def)

definition reflect_Params :: "('c api_Params, 'c, 'd) api_reflection" where
  "reflect_Params = full_names ''miniwasm.tokenfactory.v1.Params''
     [(''denom_creation_fee'', (\<lambda>_ _. list_accessor Params_1_list as_Params_1_list
        Params_DenomCreationFee (\<lambda>v m. m\<lparr>Params_DenomCreationFee := v\<rparr>))),
      (''denom_creation_gas_consume'', uint64_accessor Params_DenomCreationGasConsume (\<lambda>v m. m\<lparr>Params_DenomCreationGasConsume := v\<rparr>))]"

definition blank_Params :: "'c api_Params \<Rightarrow> 'c api_Params" where
  "blank_Params m = new_Params\<lparr>Params_unknownFields := Params_unknownFields m\<rparr>"

interpretation Params: message_reflection reflect_Params blank_Params
  by unfold_locales (simp_all add: reflect_Params_def full_names_def accessor_defs blank_Params_def new_Params_def)

definition reflect_GenesisDenom :: "(api_GenesisDenom, 'c, 'd) api_reflection" where
  "reflect_GenesisDenom = full_names ''miniwasm.tokenfactory.v1.GenesisDenom''
     [(''denom'', string_accessor GenesisDenom_Denom (\<lambda>v m. m\<lparr>GenesisDenom_Denom := v\<rparr>)),
      (''authority_metadata'', (\<lambda>_ _. message_accessor DenomAuthorityMetadataMessage as_DenomAuthorityMetadata new_DenomAuthorityMetadata
        GenesisDenom_AuthorityMetadata (\<lambda>v m. m\<lparr>GenesisDenom_AuthorityMetadata := v\<rparr>)))]"

definition blank_GenesisDenom :: "api_GenesisDenom \<Rightarrow> api_GenesisDenom" where
  "blank_GenesisDenom m = new_GenesisDenom\<lparr>GenesisDenom_unknownFields := GenesisDenom_unknownFields m\<rparr>"

interpretation GenesisDenom: message_reflection reflect_GenesisDenom blank_GenesisDenom
  by unfold_locales (simp_all add: reflect_GenesisDenom_def full_names_def accessor_defs blank_GenesisDenom_def new_GenesisDenom_def)

definition reflect_GenesisState :: "('c api_GenesisState, 'c, 'd) api_reflection" where
  "reflect_GenesisState = full_names ''miniwasm.tokenfactory.v1.GenesisState''
     [(''params'', (\<lambda>_ _. message_accessor ParamsMessage as_Params new_Params
        GenesisState_Params (\<lambda>v m. m\<lparr>GenesisState_Params := v\<rparr>))),
      (''factory_denoms'', (\<lambda>_ _. list_accessor GenesisState_2_list as_GenesisState_2_list
        GenesisState_FactoryDenoms (\<lambda>v m. m\<lparr>GenesisState_FactoryDenoms := v\<rparr>)))]"

definition blank_GenesisState :: "'c api_GenesisState \<Rightarrow> 'c api_GenesisState" where
  "blank_GenesisState m = new_GenesisState\<lparr>GenesisState_unknownFields := GenesisState_unknownFields m\<rparr>"

interpretation GenesisState: message_reflection reflect_GenesisState blank_GenesisState
  by unfold_locales (simp_all add: reflect_GenesisState_def full_names_def accessor_defs blank_GenesisState_def new_GenesisState_def)

definition reflect_QueryParamsRequest :: "(api_QueryParamsRequest, 'c, 'd) api_reflection" where
  "reflect_QueryParamsRequest = full_names ''miniwasm.tokenfactory.v1.QueryParamsRequest''
     []"

definition blank_QueryParamsRequest :: "api_QueryParamsRequest \<Rightarrow> api_QueryParamsRequest" where
  "blank_QueryParamsRequest m = new_QueryParamsRequest\<lparr>QueryParamsRequest_unknownFields := QueryParamsRequest_unknownFields m\<rparr>"

interpretation QueryParamsRequest: message_reflection reflect_QueryParamsRequest blank_QueryParamsRequest
  by unfold_locales (simp_all add: reflect_QueryParamsRequest_def full_names_def accessor_defs blank_QueryParamsRequest_def new_QueryParamsRequest_def)

definition reflect_QueryParamsResponse :: "('c api_QueryParamsResponse, 'c, 'd) api_reflection" where
  "reflect_QueryParamsResponse = full_names ''miniwasm.tokenfactory.v1.QueryParamsResponse''
     [(''params'', (\<lambda>_ _. message_accessor ParamsMessage as_Params new_Params
        QueryParamsResponse_Params (\<lambda>v m. m\<lparr>QueryParamsResponse_Params := v\<rparr>)))]"

definition blank_QueryParamsResponse :: "'c api_QueryParamsResponse \<Rightarrow> 'c api_QueryParamsResponse" where
  "blank_QueryParamsResponse m = new_QueryParamsResponse\<lparr>QueryParamsResponse_unknownFields := QueryParamsResponse_unknownFields m\<rparr>"

interpretation QueryParamsResponse: message_reflection reflect_QueryParamsResponse blank_QueryParamsResponse
  by unfold_locales (simp_all add: reflect_QueryParamsResponse_def full_names_def accessor_defs blank_QueryParamsResponse_def new_QueryParamsResponse_def)

definition reflect_QueryDenomAuthorityMetadataRequest :: "(api_QueryDenomAuthorityMetadataRequest, 'c, 'd) api_reflection" where
  "reflect_QueryDenomAuthorityMetadataRequest = full_names ''miniwasm.tokenfactory.v1.QueryDenomAuthorityMetadataRequest''
     [(''denom'', string_accessor QueryDenomAuthorityMetadataRequest_Denom (\<lambda>v m. m\<lparr>QueryDenomAuthorityMetadataRequest_Denom := v\<rparr>))]"

definition blank_QueryDenomAuthorityMetadataRequest :: "api_QueryDenomAuthorityMetadataRequest \<Rightarrow> api_QueryDenomAuthorityMetadataRequest" where
  "blank_QueryDenomAuthorityMetadataRequest m = new_QueryDenomAuthorityMetadataRequest\<lparr>QueryDenomAuthorityMetadataRequest_unknownFields := QueryDenomAuthorityMetadataRequest_unknownFields m\<rparr>"

interpretation QueryDenomAuthorityMetadataRequest: message_reflection reflect_QueryDenomAuthorityMetadataRequest blank_QueryDenomAuthorityMetadataRequest
  by unfold_locales (simp_all add: reflect_QueryDenomAuthorityMetadataRequest_def full_names_def accessor_defs blank_QueryDenomAuthorityMetadataRequest_def new_QueryDenomAuthorityMetadataRequest_def)

definition reflect_QueryDenomAuthorityMetadataResponse :: "(api_QueryDenomAuthorityMetadataResponse, 'c, 'd) api_reflection" where
  "reflect_QueryDenomAuthorityMetadataResponse = full_names ''miniwasm.tokenfactory.v1.QueryDenomAuthorityMetadataResponse''
     [(''authority_metadata'', (\<lambda>_ _. message_accessor DenomAuthorityMetadataMessage as_DenomAuthorityMetadata new_DenomAuthorityMetadata
        QueryDenomAuthorityMetadataResponse_AuthorityMetadata (\<lambda>v m. m\<lparr>QueryDenomAuthorityMetadataResponse_AuthorityMetadata := v\<rparr>)))]"

definition blank_QueryDenomAuthorityMetadataResponse :: "api_QueryDenomAuthorityMetadataResponse \<Rightarrow> api_QueryDenomAuthorityMetadataResponse" where
  "blank_QueryDenomAuthorityMetadataResponse m = new_QueryDenomAuthorityMetadataResponse\<lparr>QueryDenomAuthorityMetadataResponse_unknownFields := QueryDenomAuthorityMetadataResponse_unknownFields m\<rparr>"

interpretation QueryDenomAuthorityMetadataResponse: message_reflection reflect_QueryDenomAuthorityMetadataResponse blank_QueryDenomAuthorityMetadataResponse
  by unfold_locales (simp_all add: reflect_QueryDenomAuthorityMetadataResponse_def full_names_def accessor_defs blank_QueryDenomAuthorityMetadataResponse_def new_QueryDenomAuthorityMetadataResponse_def)

definition reflect_QueryDenomsFromCreatorRequest :: "(api_QueryDenomsFromCreatorRequest, 'c, 'd) api_reflection" where
  "reflect_QueryDenomsFromCreatorRequest = full_names ''miniwasm.tokenfactory.v1.QueryDenomsFromCreatorRequest''
     [(''creator'', string_accessor QueryDenomsFromCreatorRequest_Creator (\<lambda>v m. m\<lparr>QueryDenomsFromCreatorRequest_Creator := v\<rparr>))]"

definition blank_QueryDenomsFromCreatorRequest :: "api_QueryDenomsFromCreatorRequest \<Rightarrow> api_QueryDenomsFromCreatorRequest" where
  "blank_QueryDenomsFromCreatorRequest m = new_QueryDenomsFromCreatorRequest\<lparr>QueryDenomsFromCreatorRequest_unknownFields := QueryDenomsFromCreatorRequest_unknownFields m\<rparr>"

interpretation QueryDenomsFromCreatorRequest: message_reflection reflect_QueryDenomsFromCreatorRequest blank_QueryDenomsFromCreatorRequest
  by unfold_locales (simp_all add: reflect_QueryDenomsFromCreatorRequest_def full_names_def accessor_defs blank_QueryDenomsFromCreatorRequest_def new_QueryDenomsFromCreatorRequest_def)

definition reflect_QueryDenomsFromCreatorResponse :: "(api_QueryDenomsFromCreatorResponse, 'c, 'd) api_reflection" where
  "reflect_QueryDenomsFromCreatorResponse = full_names ''miniwasm.tokenfactory.v1.QueryDenomsFromCreatorResponse''
     [(''denoms'', (\<lambda>_ _. list_accessor QueryDenomsFromCreatorResponse_1_list as_QueryDenomsFromCreatorResponse_1_list
        QueryDenomsFromCreatorResponse_Denoms (\<lambda>v m. m\<lparr>QueryDenomsFromCreatorResponse_Denoms := v\<rparr>)))]"

definition blank_QueryDenomsFromCreatorResponse :: "api_QueryDenomsFromCreatorResponse \<Rightarrow> api_QueryDenomsFromCreatorResponse" where
  "blank_QueryDenomsFromCreatorResponse m = new_QueryDenomsFromCreatorResponse\<lparr>QueryDenomsFromCreatorResponse_unknownFields := QueryDenomsFromCreatorResponse_unknownFields m\<rparr>"

interpretation QueryDenomsFromCreatorResponse: message_reflection reflect_QueryDenomsFromCreatorResponse blank_QueryDenomsFromCreatorResponse
  by unfold_locales (simp_all add: reflect_QueryDenomsFromCreatorResponse_def full_names_def accessor_defs blank_QueryDenomsFromCreatorResponse_def new_QueryDenomsFromCreatorResponse_def)

definition reflect_QueryBeforeSendHookAddressRequest :: "(api_QueryBeforeSendHookAddressRequest, 'c, 'd) api_reflection" where
  "reflect_QueryBeforeSendHookAddressRequest = full_names ''miniwasm.tokenfactory.v1.QueryBeforeSendHookAddressRequest''
     [(''denom'', string_accessor QueryBeforeSendHookAddressRequest_Denom (\<lambda>v m. m\<lparr>QueryBeforeSendHookAddressRequest_Denom := v\<rparr>))]"

definition blank_QueryBeforeSendHookAddressRequest :: "api_QueryBeforeSendHookAddressRequest \<Rightarrow> api_QueryBeforeSendHookAddressRequest" where
  "blank_QueryBeforeSendHookAddressRequest m = new_QueryBeforeSendHookAddressRequest\<lparr>QueryBeforeSendHookAddressRequest_unknownFields := QueryBeforeSendHookAddressRequest_unknownFields m\<rparr>"

interpretation QueryBeforeSendHookAddressRequest: message_reflection reflect_QueryBeforeSendHookAddressRequest blank_QueryBeforeSendHookAddressRequest
  by unfold_locales (simp_all add: reflect_QueryBeforeSendHookAddressRequest_def full_names_def accessor_defs blank_QueryBeforeSendHookAddressRequest_def new_QueryBeforeSendHookAddressRequest_def)

definition reflect_QueryBeforeSendHookAddressResponse :: "(api_QueryBeforeSendHookAddressResponse, 'c, 'd) api_reflection" where
  "reflect_QueryBeforeSendHookAddressResponse = full_names ''miniwasm.tokenfactory.v1.QueryBeforeSendHookAddressResponse''
     [(''cosmwasm_address'', string_accessor QueryBeforeSendHookAddressResponse_CosmwasmAddress (\<lambda>v m. m\<lparr>QueryBeforeSendHookAddressResponse_CosmwasmAddress := v\<rparr>))]"

definition blank_QueryBeforeSendHookAddressResponse :: "api_QueryBeforeSendHookAddressResponse \<Rightarrow> api_QueryBeforeSendHookAddressResponse" where
  "blank_QueryBeforeSendHookAddressResponse m = new_QueryBeforeSendHookAddressResponse\<lparr>QueryBeforeSendHookAddressResponse_unknownFields := QueryBeforeSendHookAddressResponse_unknownFields m\<rparr>"

interpretation QueryBeforeSendHookAddressResponse: message_reflection reflect_QueryBeforeSendHookAddressResponse blank_QueryBeforeSendHookAddressResponse
  by unfold_locales (simp_all add: reflect_QueryBeforeSendHookAddressResponse_def full_names_def accessor_defs blank_QueryBeforeSendHookAddressResponse_def new_QueryBeforeSendHookAddressResponse_def)

definition reflect_MsgCreateDenom :: "(api_MsgCreateDenom, 'c, 'd) api_reflection" where
  "reflect_MsgCreateDenom = full_names ''miniwasm.tokenfactory.v1.MsgCreateDenom''
     [(''sender'', string_accessor MsgCreateDenom_Sender (\<lambda>v m. m\<lparr>MsgCreateDenom_Sender := v\<rparr>)),
      (''subdenom'', string_accessor MsgCreateDenom_Subdenom (\<lambda>v m. m\<lparr>MsgCreateDenom_Subdenom := v\<rparr>))]"

definition blank_MsgCreateDenom :: "api_MsgCreateDenom \<Rightarrow> api_MsgCreateDenom" where
  "blank_MsgCreateDenom m = new_MsgCreateDenom\<lparr>MsgCreateDenom_unknownFields := MsgCreateDenom_unknownFields m\<rparr>"

interpretation MsgCreateDenom: message_reflection reflect_MsgCreateDenom blank_MsgCreateDenom
  by unfold_locales (simp_all add: reflect_MsgCreateDenom_def full_names_def accessor_defs blank_MsgCreateDenom_def new_MsgCreateDenom_def)

definition reflect_MsgCreateDenomResponse :: "(api_MsgCreateDenomResponse, 'c, 'd) api_reflection" where
  "reflect_MsgCreateDenomResponse = full_names ''miniwasm.tokenfactory.v1.MsgCreateDenomResponse''
     [(''new_token_denom'', string_accessor MsgCreateDenomResponse_NewTokenDenom (\<lambda>v m. m\<lparr>MsgCreateDenomResponse_NewTokenDenom := v\<rparr>))]"

definition blank_MsgCreateDenomResponse :: "api_MsgCreateDenomResponse \<Rightarrow> api_MsgCreateDenomResponse" where
  "blank_MsgCreateDenomResponse m = new_MsgCreateDenomResponse\<lparr>MsgCreateDenomResponse_unknownFields := MsgCreateDenomResponse_unknownFields m\<rparr>"

interpretation MsgCreateDenomResponse: message_reflection reflect_MsgCreateDenomResponse blank_MsgCreateDenomResponse
  by unfold_locales (simp_all add: reflect_MsgCreateDenomResponse_def full_names_def accessor_defs blank_MsgCreateDenomResponse_def new_MsgCreateDenomResponse_def)

definition reflect_MsgMint :: "'c \<Rightarrow> ('c api_MsgMint, 'c, 'd) api_reflection" where
  "reflect_MsgMint newCoin = full_names ''miniwasm.tokenfactory.v1.MsgMint''
     [(''sender'', string_accessor MsgMint_Sender (\<lambda>v m. m\<lparr>MsgMint_Sender := v\<rparr>)),
      (''amount'', (\<lambda>_ _. message_accessor CoinMessage as_Coin newCoin
        MsgMint_Amount (\<lambda>v m. m\<lparr>MsgMint_Amount := v\<rparr>))),
      (''mint_to_address'', string_accessor MsgMint_MintToAddress (\<lambda>v m. m\<lparr>MsgMint_MintToAddress := v\<rparr>))]"

definition blank_MsgMint :: "'c api_MsgMint \<Rightarrow> 'c api_MsgMint" where
  "blank_MsgMint m = new_MsgMint\<lparr>MsgMint_unknownFields := MsgMint_unknownFields m\<rparr>"

interpretation MsgMint: message_reflection "reflect_MsgMint newCoin" blank_MsgMint for newCoin
  by unfold_locales (simp_all add: reflect_MsgMint_def full_names_def accessor_defs blank_MsgMint_def new_MsgMint_def)

definition reflect_MsgMintResponse :: "(api_MsgMintResponse, 'c, 'd) api_reflection" where
  "reflect_MsgMintResponse = full_names ''miniwasm.tokenfactory.v1.MsgMintResponse''
     []"

definition blank_MsgMintResponse :: "api_MsgMintResponse \<Rightarrow> api_MsgMintResponse" where
  "blank_MsgMintResponse m = new_MsgMintResponse\<lparr>MsgMintResponse_unknownFields := MsgMintResponse_unknownFields m\<rparr>"

interpretation MsgMintResponse: message_reflection reflect_MsgMintResponse blank_MsgMintResponse
  by unfold_locales (simp_all add: reflect_MsgMintResponse_def full_names_def accessor_defs blank_MsgMintResponse_def new_MsgMintResponse_def)

definition reflect_MsgBurn :: "'c \<Rightarrow> ('c api_MsgBurn, 'c, 'd) api_reflection" where
  "reflect_MsgBurn newCoin = full_names ''miniwasm.tokenfactory.v1.MsgBurn''
     [(''sender'', string_accessor MsgBurn_Sender (\<lambda>v m. m\<lparr>MsgBurn_Sender := v\<rparr>)),
      (''amount'', (\<lambda>_ _. message_accessor CoinMessage as_Coin newCoin
        MsgBurn_Amount (\<lambda>v m. m\<lparr>MsgBurn_Amount := v\<rparr>)))]"

definition blank_MsgBurn :: "'c api_MsgBurn \<Rightarrow> 'c api_MsgBurn" where
  "blank_MsgBurn m = new_MsgBurn\<lparr>MsgBurn_unknownFields := MsgBurn_unknownFields m\<rparr>"

interpretation MsgBurn: message_reflection "reflect_MsgBurn newCoin" blank_MsgBurn for newCoin
  by unfold_locales (simp_all add: reflect_MsgBurn_def full_names_def accessor_defs blank_MsgBurn_def new_MsgBurn_def)

definition reflect_MsgBurnResponse :: "(api_MsgBurnResponse, 'c, 'd) api_reflection" where
  "reflect_MsgBurnResponse = full_names ''miniwasm.tokenfactory.v1.MsgBurnResponse''
     []"

definition blank_MsgBurnResponse :: "api_MsgBurnResponse \<Rightarrow> api_MsgBurnResponse" where
  "blank_MsgBurnResponse m = new_MsgBurnResponse\<lparr>MsgBurnResponse_unknownFields := MsgBurnResponse_unknownFields m\<rparr>"

interpretation MsgBurnResponse: message_reflection reflect_MsgBurnResponse blank_MsgBurnResponse
  by unfold_locales (simp_all add: reflect_MsgBurnResponse_def full_names_def accessor_defs blank_MsgBurnResponse_def new_MsgBurnResponse_def)

definition reflect_MsgChangeAdmin :: "(api_MsgChangeAdmin, 'c, 'd) api_reflection" where
  "reflect_MsgChangeAdmin = full_names ''miniwasm.tokenfactory.v1.MsgChangeAdmin''
     [(''sender'', string_accessor MsgChangeAdmin_Sender (\<lambda>v m. m\<lparr>MsgChangeAdmin_Sender := v\<rparr>)),
      (''denom'', string_accessor MsgChangeAdmin_Denom (\<lambda>v m. m\<lparr>MsgChangeAdmin_Denom := v\<rparr>)),
      (''new_admin'', string_accessor MsgChangeAdmin_NewAdmin (\<lambda>v m. m\<lparr>MsgChangeAdmin_NewAdmin := v\<rparr>))]"

definition blank_MsgChangeAdmin :: "api_MsgChangeAdmin \<Rightarrow> api_MsgChangeAdmin" where
  "blank_MsgChangeAdmin m = new_MsgChangeAdmin\<lparr>MsgChangeAdmin_unknownFields := MsgChangeAdmin_unknownFields m\<rparr>"

interpretation MsgChangeAdmin: message_reflection reflect_MsgChangeAdmin blank_MsgChangeAdmin
  by unfold_locales (simp_all add: reflect_MsgChangeAdmin_def full_names_def accessor_defs blank_MsgChangeAdmin_def new_MsgChangeAdmin_def)

definition reflect_MsgChangeAdminResponse :: "(api_MsgChangeAdminResponse, 'c, 'd) api_reflection" where
  "reflect_MsgChangeAdminResponse = full_names ''miniwasm.tokenfactory.v1.MsgChangeAdminResponse''
     []"

definition blank_MsgChangeAdminResponse :: "api_MsgChangeAdminResponse \<Rightarrow> api_MsgChangeAdminResponse" where
  "blank_MsgChangeAdminResponse m = new_MsgChangeAdminResponse\<lparr>MsgChangeAdminResponse_unknownFields := MsgChangeAdminResponse_unknownFields m\<rparr>"

interpretation MsgChangeAdminResponse: message_reflection reflect_MsgChangeAdminResponse blank_MsgChangeAdminResponse
  by unfold_locales (simp_all add: reflect_MsgChangeAdminResponse_def full_names_def accessor_defs blank_MsgChangeAdminResponse_def new_MsgChangeAdminResponse_def)

definition reflect_MsgSetBeforeSendHook :: "(api_MsgSetBeforeSendHook, 'c, 'd) api_reflection" where
  "reflect_MsgSetBeforeSendHook = full_names ''miniwasm.tokenfactory.v1.MsgSetBeforeSendHook''
     [(''sender'', string_accessor MsgSetBeforeSendHook_Sender (\<lambda>v m. m\<lparr>MsgSetBeforeSendHook_Sender := v\<rparr>)),
      (''denom'', string_accessor MsgSetBeforeSendHook_Denom (\<lambda>v m. m\<lparr>MsgSetBeforeSendHook_Denom := v\<rparr>)),
      (''cosmwasm_address'', string_accessor MsgSetBeforeSendHook_CosmwasmAddress (\<lambda>v m. m\<lparr>MsgSetBeforeSendHook_CosmwasmAddress := v\<rparr>))]"

definition blank_MsgSetBeforeSendHook :: "api_MsgSetBeforeSendHook \<Rightarrow> api_MsgSetBeforeSendHook" where
  "blank_MsgSetBeforeSendHook m = new_MsgSetBeforeSendHook\<lparr>MsgSetBeforeSendHook_unknownFields := MsgSetBeforeSendHook_unknownFields m\<rparr>"

interpretation MsgSetBeforeSendHook: message_reflection reflect_MsgSetBeforeSendHook blank_MsgSetBeforeSendHook
  by unfold_locales (simp_all add: reflect_MsgSetBeforeSendHook_def full_names_def accessor_defs blank_MsgSetBeforeSendHook_def new_MsgSetBeforeSendHook_def)

definition reflect_MsgSetBeforeSendHookResponse :: "(api_MsgSetBeforeSendHookResponse, 'c, 'd) api_reflection" where
  "reflect_MsgSetBeforeSendHookResponse = full_names ''miniwasm.tokenfactory.v1.MsgSetBeforeSendHookResponse''
     []"

definition blank_MsgSetBeforeSendHookResponse :: "api_MsgSetBeforeSendHookResponse \<Rightarrow> api_MsgSetBeforeSendHookResponse" where
  "blank_MsgSetBeforeSendHookResponse m = new_MsgSetBeforeSendHookResponse\<lparr>MsgSetBeforeSendHookResponse_unknownFields := MsgSetBeforeSendHookResponse_unknownFields m\<rparr>"

interpretation MsgSetBeforeSendHookResponse: message_reflection reflect_MsgSetBeforeSendHookResponse blank_MsgSetBeforeSendHookResponse
  by unfold_locales (simp_all add: reflect_MsgSetBeforeSendHookResponse_def full_names_def accessor_defs blank_MsgSetBeforeSendHookResponse_def new_MsgSetBeforeSendHookResponse_def)

definition reflect_MsgSetDenomMetadata :: "'d \<Rightarrow> ('d api_MsgSetDenomMetadata, 'c, 'd) api_reflection" where
  "reflect_MsgSetDenomMetadata newMetadata = full_names ''miniwasm.tokenfactory.v1.MsgSetDenomMetadata''
     [(''sender'', string_accessor MsgSetDenomMetadata_Sender (\<lambda>v m. m\<lparr>MsgSetDenomMetadata_Sender := v\<rparr>)),
      (''metadata'', (\<lambda>_ _. message_accessor MetadataMessage as_Metadata newMetadata
        MsgSetDenomMetadata_Metadata (\<lambda>v m. m\<lparr>MsgSetDenomMetadata_Metadata := v\<rparr>)))]"

definition blank_MsgSetDenomMetadata :: "'d api_MsgSetDenomMetadata \<Rightarrow> 'd api_MsgSetDenomMetadata" where
  "blank_MsgSetDenomMetadata m = new_MsgSetDenomMetadata\<lparr>MsgSetDenomMetadata_unknownFields := MsgSetDenomMetadata_unknownFields m\<rparr>"

interpretation MsgSetDenomMetadata: message_reflection "reflect_MsgSetDenomMetadata newMetadata" blank_MsgSetDenomMetadata for newMetadata
  by unfold_locales (simp_all add: reflect_MsgSetDenomMetadata_def full_names_def accessor_defs blank_MsgSetDenomMetadata_def new_MsgSetDenomMetadata_def)

definition reflect_MsgSetDenomMetadataResponse :: "(api_MsgSetDenomMetadataResponse, 'c, 'd) api_reflection" where
  "reflect_MsgSetDenomMetadataResponse = full_names ''miniwasm.tokenfactory.v1.MsgSetDenomMetadataResponse''
     []"

definition blank_MsgSetDenomMetadataResponse :: "api_MsgSetDenomMetadataResponse \<Rightarrow> api_MsgSetDenomMetadataResponse" where
  "blank_MsgSetDenomMetadataResponse m = new_MsgSetDenomMetadataResponse\<lparr>MsgSetDenomMetadataResponse_unknownFields := MsgSetDenomMetadataResponse_unknownFields m\<rparr>"

interpretation MsgSetDenomMetadataResponse: message_reflection reflect_MsgSetDenomMetadataResponse blank_MsgSetDenomMetadataResponse
  by unfold_locales (simp_all add: reflect_MsgSetDenomMetadataResponse_def full_names_def accessor_defs blank_MsgSetDenomMetadataResponse_def new_MsgSetDenomMetadataResponse_def)

definition reflect_MsgUpdateParams :: "('c api_MsgUpdateParams, 'c, 'd) api_reflection" where
  "reflect_MsgUpdateParams = full_names ''miniwasm.tokenfactory.v1.MsgUpdateParams''
     [(''authority'', string_accessor MsgUpdateParams_Authority (\<lambda>v m. m\<lparr>MsgUpdateParams_Authority := v\<rparr>)),
      (''params'', (\<lambda>_ _. message_accessor ParamsMessage as_Params new_Params
        MsgUpdateParams_Params (\<lambda>v m. m\<lparr>MsgUpdateParams_Params := v\<rparr>)))]"

definition blank_MsgUpdateParams :: "'c api_MsgUpdateParams \<Rightarrow> 'c api_MsgUpdateParams" where
  "blank_MsgUpdateParams m = new_MsgUpdateParams\<lparr>MsgUpdateParams_unknownFields := MsgUpdateParams_unknownFields m\<rparr>"

interpretation MsgUpdateParams: message_reflection reflect_MsgUpdateParams blank_MsgUpdateParams
  by unfold_locales (simp_all add: reflect_MsgUpdateParams_def full_names_def accessor_defs blank_MsgUpdateParams_def new_MsgUpdateParams_def)

definition reflect_MsgUpdateParamsResponse :: "(api_MsgUpdateParamsResponse, 'c, 'd) api_reflection" where
  "reflect_MsgUpdateParamsResponse = full_names ''miniwasm.tokenfactory.v1.MsgUpdateParamsResponse''
     []"

definition blank_MsgUpdateParamsResponse :: "api_MsgUpdateParamsResponse \<Rightarrow> api_MsgUpdateParamsResponse" where
  "blank_MsgUpdateParamsResponse m = new_MsgUpdateParamsResponse\<lparr>MsgUpdateParamsResponse_unknownFields := MsgUpdateParamsResponse_unknownFields m\<rparr>"

interpretation MsgUpdateParamsResponse: message_reflection reflect_MsgUpdateParamsResponse blank_MsgUpdateParamsResponse
  by unfold_locales (simp_all add: reflect_MsgUpdateParamsResponse_def full_names_def accessor_defs blank_MsgUpdateParamsResponse_def new_MsgUpdateParamsResponse_def)

definition reflect_AccessConfig :: "(api_AccessConfig, 'c, 'd) api_reflection" where
  "reflect_AccessConfig = full_names ''miniwasm.wasmextension.v1.AccessConfig''
     [(''permission'', enum_accessor AccessConfig_Permission (\<lambda>v m. m\<lparr>AccessConfig_Permission := v\<rparr>)),
      (''addresses'', (\<lambda>_ _. list_accessor AccessConfig_2_list as_AccessConfig_2_list
        AccessConfig_Addresses (\<lambda>v m. m\<lparr>AccessConfig_Addresses := v\<rparr>)))]"

definition blank_AccessConfig :: "api_AccessConfig \<Rightarrow> api_AccessConfig" where
  "blank_AccessConfig m = new_AccessConfig\<lparr>AccessConfig_unknownFields := AccessConfig_unknownFields m\<rparr>"

interpretation AccessConfig: message_reflection reflect_AccessConfig blank_AccessConfig
  by unfold_locales (simp_all add: reflect_AccessConfig_def full_names_def accessor_defs blank_AccessConfig_def new_AccessConfig_def)

definition reflect_MsgStoreCodeAdmin :: "(api_MsgStoreCodeAdmin, 'c, 'd) api_reflection" where
  "reflect_MsgStoreCodeAdmin = full_names ''miniwasm.wasmextension.v1.MsgStoreCodeAdmin''
     [(''authority'', string_accessor MsgStoreCodeAdmin_Authority (\<lambda>v m. m\<lparr>MsgStoreCodeAdmin_Authority := v\<rparr>)),
      (''creator'', string_accessor MsgStoreCodeAdmin_Creator (\<lambda>v m. m\<lparr>MsgStoreCodeAdmin_Creator := v\<rparr>)),
      (''wasm_byte_code'', bytes_accessor MsgStoreCodeAdmin_WasmByteCode (\<lambda>v m. m\<lparr>MsgStoreCodeAdmin_WasmByteCode := v\<rparr>)),
      (''instantiate_permission'', (\<lambda>_ _. message_accessor AccessConfigMessage as_AccessConfig new_AccessConfig
        MsgStoreCodeAdmin_InstantiatePermission (\<lambda>v m. m\<lparr>MsgStoreCodeAdmin_InstantiatePermission := v\<rparr>)))]"

definition blank_MsgStoreCodeAdmin :: "api_MsgStoreCodeAdmin \<Rightarrow> api_MsgStoreCodeAdmin" where
  "blank_MsgStoreCodeAdmin m = new_MsgStoreCodeAdmin\<lparr>MsgStoreCodeAdmin_unknownFields := MsgStoreCodeAdmin_unknownFields m\<rparr>"

interpretation MsgStoreCodeAdmin: message_reflection reflect_MsgStoreCodeAdmin blank_MsgStoreCodeAdmin
  by unfold_locales (simp_all add: reflect_MsgStoreCodeAdmin_def full_names_def accessor_defs blank_MsgStoreCodeAdmin_def new_MsgStoreCodeAdmin_def)

definition reflect_MsgStoreCodeAdminResponse :: "(api_MsgStoreCodeAdminResponse, 'c, 'd) api_reflection" where
  "reflect_MsgStoreCodeAdminResponse = full_names ''miniwasm.wasmextension.v1.MsgStoreCodeAdminResponse''
     [(''code_id'', uint64_accessor MsgStoreCodeAdminResponse_CodeId (\<lambda>v m. m\<lparr>MsgStoreCodeAdminResponse_CodeId := v\<rparr>)),
      (''checksum'', bytes_accessor MsgStoreCodeAdminResponse_Checksum (\<lambda>v m. m\<lparr>MsgStoreCodeAdminResponse_Checksum := v\<rparr>))]"

definition blank_MsgStoreCodeAdminResponse :: "api_MsgStoreCodeAdminResponse \<Rightarrow> api_MsgStoreCodeAdminResponse" where
  "blank_MsgStoreCodeAdminResponse m = new_MsgStoreCodeAdminResponse\<lparr>MsgStoreCodeAdminResponse_unknownFields := MsgStoreCodeAdminResponse_unknownFields m\<rparr>"

interpretation MsgStoreCodeAdminResponse: message_reflection reflect_MsgStoreCodeAdminResponse blank_MsgStoreCodeAdminResponse
  by unfold_locales (simp_all add: reflect_MsgStoreCodeAdminResponse_def full_names_def accessor_defs blank_MsgStoreCodeAdminResponse_def new_MsgStoreCodeAdminResponse_def)

end
