(* ===== verification/ApiProps.thy ===== *)
theory ApiProps
  imports ReflectMsgs
begin

text \<open>
  Properties of the messages of \<open>api/**/*.pulsar.go\<close>: encoding and decoding, termination of
  decoding, copying through reflection and the types \<open>Set\<close> accepts.
\<close>

section \<open>Encoding and decoding\<close>

text \<open>
  Encoding a message succeeds, its size is right, and decoding gives the message back.  The
  decoder works with signed 64-bit offsets, so the encoding has to be shorter than $2^{63}$.
\<close>

definition roundtrips :: "'m codec \<Rightarrow> 'm \<Rightarrow> bool" where
  "roundtrips C m \<longleftrightarrow> (case Marshal C (Some m) of
     Ok bz \<Rightarrow> Size C (Some m) = length bz \<and>
       (length bz < 2 ^ 63 \<longrightarrow> Unmarshal C bz (Some (NewMessage C)) = Some (Inr (Some m)))
   | _ \<Rightarrow> False)"

lemma codec_roundtrips: "message_codec C enc ok \<Longrightarrow> ok m \<Longrightarrow> roundtrips C m"
  by (simp add: roundtrips_def message_codec.size_enc message_codec.marshal_enc message_codec.decode_enc)

definition returns_always :: "'m codec \<Rightarrow> bool" where
  "returns_always C \<longleftrightarrow> (\<forall>bz x. Unmarshal C bz x \<noteq> None)"

lemma codec_returns: "message_codec C enc ok \<Longrightarrow> returns_always C"
  by (simp add: returns_always_def message_codec.returns)

lemma codec_of_returns: "returns_always C \<Longrightarrow> message_codec C enc (\<lambda>_. False)"
  by unfold_locales (simp_all add: returns_always_def)

text \<open>C35.  Every message of the API with fields is encoded to bytes of the size computed for it, and the
  bytes decode to the message, its unknown fields included.\<close>

theorem api_messages_roundtrip:
  assumes "runtime_ok R" and "message_codec Coin eCoin okCoin" and "message_codec Metadata eMetadata okMetadata"
  shows "(\<forall>m. ok_DenomAuthorityMetadata R discard m \<longrightarrow> roundtrips (DenomAuthorityMetadata_codec R discard) m) \<and>
    (\<forall>m. ok_Params R discard okCoin m \<longrightarrow> roundtrips (Params_codec R discard Coin) m) \<and>
    (\<forall>m. ok_GenesisDenom R discard m \<longrightarrow> roundtrips (GenesisDenom_codec R discard) m) \<and>
    (\<forall>m. ok_GenesisState R discard okCoin m \<longrightarrow> roundtrips (GenesisState_codec R discard Coin) m) \<and>
    (\<forall>m. ok_QueryParamsResponse R discard okCoin m \<longrightarrow> roundtrips (QueryParamsResponse_codec R discard Coin) m) \<and>
    (\<forall>m. ok_QueryDenomAuthorityMetadataRequest R discard m \<longrightarrow> roundtrips (QueryDenomAuthorityMetadataRequest_codec R discard) m) \<and>
    (\<forall>m. ok_QueryDenomAuthorityMetadataResponse R discard m \<longrightarrow> roundtrips (QueryDenomAuthorityMetadataResponse_codec R discard) m) \<and>
    (\<forall>m. ok_QueryDenomsFromCreatorRequest R discard m \<longrightarrow> roundtrips (QueryDenomsFromCreatorRequest_codec R discard) m) \<and>
    (\<forall>m. ok_QueryDenomsFromCreatorResponse R discard m \<longrightarrow> roundtrips (QueryDenomsFromCreatorResponse_codec R discard) m) \<and>
    (\<forall>m. ok_QueryBeforeSendHookAddressRequest R discard m \<longrightarrow> roundtrips (QueryBeforeSendHookAddressRequest_codec R discard) m) \<and>
    (\<forall>m. ok_QueryBeforeSendHookAddressResponse R discard m \<longrightarrow> roundtrips (QueryBeforeSendHookAddressResponse_codec R discard) m) \<and>
    (\<forall>m. ok_MsgCreateDenom R discard m \<longrightarrow> roundtrips (MsgCreateDenom_codec R discard) m) \<and>
    (\<forall>m. ok_MsgCreateDenomResponse R discard m \<longrightarrow> roundtrips (MsgCreateDenomResponse_codec R discard) m) \<and>
    (\<forall>m. ok_MsgMint R discard okCoin m \<longrightarrow> roundtrips (MsgMint_codec R discard Coin) m) \<and>
    (\<forall>m. ok_MsgBurn R discard okCoin m \<longrightarrow> roundtrips (MsgBurn_codec R discard Coin) m) \<and>
    (\<forall>m. ok_MsgChangeAdmin R discard m \<longrightarrow> roundtrips (MsgChangeAdmin_codec R discard) m) \<and>
    (\<forall>m. ok_MsgSetBeforeSendHook R discard m \<longrightarrow> roundtrips (MsgSetBeforeSendHook_codec R discard) m) \<and>
    (\<forall>m. ok_MsgSetDenomMetadata R discard okMetadata m \<longrightarrow> roundtrips (MsgSetDenomMetadata_codec R discard Metadata) m) \<and>
    (\<forall>m. ok_MsgUpdateParams R discard okCoin m \<longrightarrow> roundtrips (MsgUpdateParams_codec R discard Coin) m) \<and>
    (\<forall>m. ok_AccessConfig R discard m \<longrightarrow> roundtrips (AccessConfig_codec R discard) m) \<and>
    (\<forall>m. ok_MsgStoreCodeAdmin R discard m \<longrightarrow> roundtrips (MsgStoreCodeAdmin_codec R discard) m) \<and>
    (\<forall>m. ok_MsgStoreCodeAdminResponse R discard m \<longrightarrow> roundtrips (MsgStoreCodeAdminResponse_codec R discard) m)"
  by (intro conjI allI impI;
    rule codec_roundtrips; (assumption | rule
      DenomAuthorityMetadata_message_codec [OF assms(1)]
      Params_message_codec [OF assms(1) assms(2)]
      GenesisDenom_message_codec [OF assms(1)]
      GenesisState_message_codec [OF assms(1) assms(2)]
      QueryParamsResponse_message_codec [OF assms(1) assms(2)]
      QueryDenomAuthorityMetadataRequest_message_codec [OF assms(1)]
      QueryDenomAuthorityMetadataResponse_message_codec [OF assms(1)]
      QueryDenomsFromCreatorRequest_message_codec [OF assms(1)]
      QueryDenomsFromCreatorResponse_message_codec [OF assms(1)]
      QueryBeforeSendHookAddressRequest_message_codec [OF assms(1)]
      QueryBeforeSendHookAddressResponse_message_codec [OF assms(1)]
      MsgCreateDenom_message_codec [OF assms(1)]
      MsgCreateDenomResponse_message_codec [OF assms(1)]
      MsgMint_message_codec [OF assms(1) assms(2)]
      MsgBurn_message_codec [OF assms(1) assms(2)]
      MsgChangeAdmin_message_codec [OF assms(1)]
      MsgSetBeforeSendHook_message_codec [OF assms(1)]
      MsgSetDenomMetadata_message_codec [OF assms(1) assms(3)]
      MsgUpdateParams_message_codec [OF assms(1) assms(2)]
      AccessConfig_message_codec [OF assms(1)]
      MsgStoreCodeAdmin_message_codec [OF assms(1)]
      MsgStoreCodeAdminResponse_message_codec [OF assms(1)]))

text \<open>C36.  Decoding returns on every input: a message or an error.\<close>

theorem api_decoding_terminates:
  assumes "runtime_ok R" and "returns_always Coin" and "returns_always Metadata"
  shows "returns_always (DenomAuthorityMetadata_codec R discard) \<and>
    returns_always (Params_codec R discard Coin) \<and>
    returns_always (GenesisDenom_codec R discard) \<and>
    returns_always (GenesisState_codec R discard Coin) \<and>
    returns_always (QueryParamsRequest_codec R discard) \<and>
    returns_always (QueryParamsResponse_codec R discard Coin) \<and>
    returns_always (QueryDenomAuthorityMetadataRequest_codec R discard) \<and>
    returns_always (QueryDenomAuthorityMetadataResponse_codec R discard) \<and>
    returns_always (QueryDenomsFromCreatorRequest_codec R discard) \<and>
    returns_always (QueryDenomsFromCreatorResponse_codec R discard) \<and>
    returns_always (QueryBeforeSendHookAddressRequest_codec R discard) \<and>
    returns_always (QueryBeforeSendHookAddressResponse_codec R discard) \<and>
    returns_always (MsgCreateDenom_codec R discard) \<and>
    returns_always (MsgCreateDenomResponse_codec R discard) \<and>
    returns_always (MsgMint_codec R discard Coin) \<and>
    returns_always (MsgMintResponse_codec R discard) \<and>
    returns_always (MsgBurn_codec R discard Coin) \<and>
    returns_always (MsgBurnResponse_codec R discard) \<and>
    returns_always (MsgChangeAdmin_codec R discard) \<and>
    returns_always (MsgChangeAdminResponse_codec R discard) \<and>
    returns_always (MsgSetBeforeSendHook_codec R discard) \<and>
    returns_always (MsgSetBeforeSendHookResponse_codec R discard) \<and>
    returns_always (MsgSetDenomMetadata_codec R discard Metadata) \<and>
    returns_always (MsgSetDenomMetadataResponse_codec R discard) \<and>
    returns_always (MsgUpdateParams_codec R discard Coin) \<and>
    returns_always (MsgUpdateParamsResponse_codec R discard) \<and>
    returns_always (AccessConfig_codec R discard) \<and>
    returns_always (MsgStoreCodeAdmin_codec R discard) \<and>
    returns_always (MsgStoreCodeAdminResponse_codec R discard)"
  by (intro conjI; rule codec_returns; rule
      DenomAuthorityMetadata_message_codec [OF assms(1)]
      Params_message_codec [OF assms(1) codec_of_returns [OF assms(2)]]
      GenesisDenom_message_codec [OF assms(1)]
      GenesisState_message_codec [OF assms(1) codec_of_returns [OF assms(2)]]
      QueryParamsRequest_message_codec [OF assms(1)]
      QueryParamsResponse_message_codec [OF assms(1) codec_of_returns [OF assms(2)]]
      QueryDenomAuthorityMetadataRequest_message_codec [OF assms(1)]
      QueryDenomAuthorityMetadataResponse_message_codec [OF assms(1)]
      QueryDenomsFromCreatorRequest_message_codec [OF assms(1)]
      QueryDenomsFromCreatorResponse_message_codec [OF assms(1)]
      QueryBeforeSendHookAddressRequest_message_codec [OF assms(1)]
      QueryBeforeSendHookAddressResponse_message_codec [OF assms(1)]
      MsgCreateDenom_message_codec [OF assms(1)]
      MsgCreateDenomResponse_message_codec [OF assms(1)]
      MsgMint_message_codec [OF assms(1) codec_of_returns [OF assms(2)]]
      MsgMintResponse_message_codec [OF assms(1)]
      MsgBurn_message_codec [OF assms(1) codec_of_returns [OF assms(2)]]
      MsgBurnResponse_message_codec [OF assms(1)]
      MsgChangeAdmin_message_codec [OF assms(1)]
      MsgChangeAdminResponse_message_codec [OF assms(1)]
      MsgSetBeforeSendHook_message_codec [OF assms(1)]
      MsgSetBeforeSendHookResponse_message_codec [OF assms(1)]
      MsgSetDenomMetadata_message_codec [OF assms(1) codec_of_returns [OF assms(3)]]
      MsgSetDenomMetadataResponse_message_codec [OF assms(1)]
      MsgUpdateParams_message_codec [OF assms(1) codec_of_returns [OF assms(2)]]
      MsgUpdateParamsResponse_message_codec [OF assms(1)]
      AccessConfig_message_codec [OF assms(1)]
      MsgStoreCodeAdmin_message_codec [OF assms(1)]
      MsgStoreCodeAdminResponse_message_codec [OF assms(1)])

section \<open>Reflection\<close>

text \<open>C37.  Setting the fields that \<open>Range\<close> visits, in its order, on a message with only the unknown fields
  makes a copy of the message.\<close>

theorem reflection_copies_messages:
  "set_all reflect_DenomAuthorityMetadata (ranged reflect_DenomAuthorityMetadata m0) (blank_DenomAuthorityMetadata m0) = Ok m0 \<and>
   set_all reflect_Params (ranged reflect_Params m1) (blank_Params m1) = Ok m1 \<and>
   set_all reflect_GenesisDenom (ranged reflect_GenesisDenom m2) (blank_GenesisDenom m2) = Ok m2 \<and>
   set_all reflect_GenesisState (ranged reflect_GenesisState m3) (blank_GenesisState m3) = Ok m3 \<and>
   set_all reflect_QueryParamsResponse (ranged reflect_QueryParamsResponse m4) (blank_QueryParamsResponse m4) = Ok m4 \<and>
   set_all reflect_QueryDenomAuthorityMetadataRequest (ranged reflect_QueryDenomAuthorityMetadataRequest m5) (blank_QueryDenomAuthorityMetadataRequest m5) = Ok m5 \<and>
   set_all reflect_QueryDenomAuthorityMetadataResponse (ranged reflect_QueryDenomAuthorityMetadataResponse m6) (blank_QueryDenomAuthorityMetadataResponse m6) = Ok m6 \<and>
   set_all reflect_QueryDenomsFromCreatorRequest (ranged reflect_QueryDenomsFromCreatorRequest m7) (blank_QueryDenomsFromCreatorRequest m7) = Ok m7 \<and>
   set_all reflect_QueryDenomsFromCreatorResponse (ranged reflect_QueryDenomsFromCreatorResponse m8) (blank_QueryDenomsFromCreatorResponse m8) = Ok m8 \<and>
   set_all reflect_QueryBeforeSendHookAddressRequest (ranged reflect_QueryBeforeSendHookAddressRequest m9) (blank_QueryBeforeSendHookAddressRequest m9) = Ok m9 \<and>
   set_all reflect_QueryBeforeSendHookAddressResponse (ranged reflect_QueryBeforeSendHookAddressResponse m10) (blank_QueryBeforeSendHookAddressResponse m10) = Ok m10 \<and>
   set_all reflect_MsgCreateDenom (ranged reflect_MsgCreateDenom m11) (blank_MsgCreateDenom m11) = Ok m11 \<and>
   set_all reflect_MsgCreateDenomResponse (ranged reflect_MsgCreateDenomResponse m12) (blank_MsgCreateDenomResponse m12) = Ok m12 \<and>
   set_all (reflect_MsgMint newCoin) (ranged (reflect_MsgMint newCoin) m13) (blank_MsgMint m13) = Ok m13 \<and>
   set_all (reflect_MsgBurn newCoin) (ranged (reflect_MsgBurn newCoin) m14) (blank_MsgBurn m14) = Ok m14 \<and>
   set_all reflect_MsgChangeAdmin (ranged reflect_MsgChangeAdmin m15) (blank_MsgChangeAdmin m15) = Ok m15 \<and>
   set_all reflect_MsgSetBeforeSendHook (ranged reflect_MsgSetBeforeSendHook m16) (blank_MsgSetBeforeSendHook m16) = Ok m16 \<and>
   set_all (reflect_MsgSetDenomMetadata newMetadata) (ranged (reflect_MsgSetDenomMetadata newMetadata) m17) (blank_MsgSetDenomMetadata m17) = Ok m17 \<and>
   set_all reflect_MsgUpdateParams (ranged reflect_MsgUpdateParams m18) (blank_MsgUpdateParams m18) = Ok m18 \<and>
   set_all reflect_AccessConfig (ranged reflect_AccessConfig m19) (blank_AccessConfig m19) = Ok m19 \<and>
   set_all reflect_MsgStoreCodeAdmin (ranged reflect_MsgStoreCodeAdmin m20) (blank_MsgStoreCodeAdmin m20) = Ok m20 \<and>
   set_all reflect_MsgStoreCodeAdminResponse (ranged reflect_MsgStoreCodeAdminResponse m21) (blank_MsgStoreCodeAdminResponse m21) = Ok m21"
  by (intro conjI; rule DenomAuthorityMetadata.copies Params.copies GenesisDenom.copies GenesisState.copies QueryParamsResponse.copies QueryDenomAuthorityMetadataRequest.copies QueryDenomAuthorityMetadataResponse.copies QueryDenomsFromCreatorRequest.copies QueryDenomsFromCreatorResponse.copies QueryBeforeSendHookAddressRequest.copies QueryBeforeSendHookAddressResponse.copies MsgCreateDenom.copies MsgCreateDenomResponse.copies MsgMint.copies MsgBurn.copies MsgChangeAdmin.copies MsgSetBeforeSendHook.copies MsgSetDenomMetadata.copies MsgUpdateParams.copies AccessConfig.copies MsgStoreCodeAdmin.copies MsgStoreCodeAdminResponse.copies)


section \<open>Witnesses\<close>

text \<open>A coin as the SDK encodes it: the denom and the amount as a string.\<close>

subsection \<open>SampleCoin\<close>

record api_SampleCoin =
  SampleCoin_Denom :: string
  SampleCoin_Amount :: string
  SampleCoin_unknownFields :: bytes

definition new_SampleCoin :: "api_SampleCoin" where
  "new_SampleCoin =
    \<lparr>SampleCoin_Denom = '''',
     SampleCoin_Amount = '''',
     SampleCoin_unknownFields = []\<rparr>"

definition size_SampleCoin :: "runtime \<Rightarrow> api_SampleCoin \<Rightarrow> nat" where
  "size_SampleCoin R m =
     size_string (Sov R) (to_bytes (SampleCoin_Denom m)) +
     size_string (Sov R) (to_bytes (SampleCoin_Amount m)) +
     length (SampleCoin_unknownFields m)"

definition put_SampleCoin :: "runtime \<Rightarrow> api_SampleCoin \<Rightarrow> writer" where
  "put_SampleCoin R m =
     andThen (put_bytes (SampleCoin_unknownFields m)) (\<lambda>_.
     andThen (put_string (EncodeVarint R) 0x12 (to_bytes (SampleCoin_Amount m))) (\<lambda>_.
     put_string (EncodeVarint R) 0xa (to_bytes (SampleCoin_Denom m))))"

definition fields_SampleCoin :: "(int \<times> string \<times> api_SampleCoin field) list" where
  "fields_SampleCoin =
    [(1, ''Denom'', string_field (\<lambda>s m. m\<lparr>SampleCoin_Denom := s\<rparr>)),
     (2, ''Amount'', string_field (\<lambda>s m. m\<lparr>SampleCoin_Amount := s\<rparr>))]"

definition SampleCoin_codec :: "runtime \<Rightarrow> bool \<Rightarrow> api_SampleCoin codec" where
  "SampleCoin_codec R discard =
     api_codec ''SampleCoin''
       (size_SampleCoin R)
       (put_SampleCoin R)
       fields_SampleCoin
       (keep_unknown R discard
         (\<lambda>u m. m\<lparr>SampleCoin_unknownFields := SampleCoin_unknownFields m @ u\<rparr>))
       new_SampleCoin"

definition enc_SampleCoin :: "api_SampleCoin \<Rightarrow> bytes" where
  "enc_SampleCoin m =
     enc_string 0xa (to_bytes (SampleCoin_Denom m)) @
     enc_string 0x12 (to_bytes (SampleCoin_Amount m)) @
     SampleCoin_unknownFields m"

definition ok_SampleCoin :: "runtime \<Rightarrow> bool \<Rightarrow> api_SampleCoin \<Rightarrow> bool" where
  "ok_SampleCoin R discard m \<longleftrightarrow>
     unknown_ok R discard {1, 2} (SampleCoin_unknownFields m)"

lemma lookup_SampleCoin:
  "map_of fields_SampleCoin (field_no 0xa) = Some (''Denom'', string_field (\<lambda>s m. m\<lparr>SampleCoin_Denom := s\<rparr>))"
  "map_of fields_SampleCoin (field_no 0x12) = Some (''Amount'', string_field (\<lambda>s m. m\<lparr>SampleCoin_Amount := s\<rparr>))"
  by (simp_all add: fields_SampleCoin_def)

lemma SampleCoin_message_codec:
  assumes R: "runtime_ok R"
  shows "message_codec (SampleCoin_codec R discard)
    enc_SampleCoin (ok_SampleCoin R discard)"
proof -
  show ?thesis
    unfolding SampleCoin_codec_def
    apply (rule api_message_codec)
    subgoal for m
      by (simp add: ok_SampleCoin_def size_SampleCoin_def enc_SampleCoin_def runtime_okD [OF R])
    subgoal for m
      unfolding put_SampleCoin_def enc_SampleCoin_def ok_SampleCoin_def
      by (rule writes_eq [OF writes_andThen [OF writes_put_bytes
          writes_andThen [OF writes_string [OF runtime_okD(2) [OF R]]
          writes_string [OF runtime_okD(2) [OF R]]]]])
        simp_all
    subgoal for m
      unfolding enc_SampleCoin_def ok_SampleCoin_def
      by (rule decodes_eq [OF decodes_append [OF decodes_api_string [OF tags(3) lookup_SampleCoin(1)]
          decodes_append [OF decodes_api_string [OF tags(4) lookup_SampleCoin(2)]
          decodes_kept [OF _ _ _ refl]]]])
        (simp_all add: new_SampleCoin_def fields_SampleCoin_def)
    by (simp_all add: keep_unknown_moves_on [OF R] fields_SampleCoin_def)
qed

interpretation SampleCoin_wire: message_codec "SampleCoin_codec pb_runtime discard" enc_SampleCoin "ok_SampleCoin pb_runtime discard"
  for discard by (rule SampleCoin_message_codec [OF pb_runtime_ok])

lemma sample_coin_codec: "message_codec (SampleCoin_codec pb_runtime False) enc_SampleCoin (ok_SampleCoin pb_runtime False)"
  by (rule SampleCoin_message_codec [OF pb_runtime_ok])

definition sample_mint :: "api_SampleCoin api_MsgMint" where
  "sample_mint =
    \<lparr>MsgMint_Sender = ''ann'',
     MsgMint_Amount = Some \<lparr>SampleCoin_Denom = ''factory/ann/gold'', SampleCoin_Amount = ''7'', SampleCoin_unknownFields = []\<rparr>,
     MsgMint_MintToAddress = ''bob'',
     MsgMint_unknownFields = [0x20, 5]\<rparr>"

text \<open>The message has an unknown field with number 4.\<close>

lemma sample_unknown: "unknown_fields pb_runtime {1, 2, 3} [0x20, 5]"
proof -
  have "unknown_fields pb_runtime {1, 2, 3} ([0x20, 5] @ [])"
  proof (rule unknown_fields.field [where wire = "0x20"])
    fix rest :: bytes
    show "Skip pb_runtime ([0x20, 5] @ rest) = Inr (int (length [0x20 :: byte, 5]))"
      by (simp add: pb_runtime_def skip.simps skip_element_def readVarint.simps Let_def)
    show "\<exists>n. readVarint ([0x20, 5] @ rest) 0 0 0 = Inr (0x20, n)"
      by (simp add: readVarint.simps)
  qed (simp_all add: unknown_fields.none drop_bit_eq_div)
  then show ?thesis by simp
qed

theorem api_messages_roundtrip_witness:
  "roundtrips (MsgMint_codec pb_runtime False (SampleCoin_codec pb_runtime False)) sample_mint"
proof -
  have "ok_MsgMint pb_runtime False (ok_SampleCoin pb_runtime False) sample_mint"
    by (simp add: ok_MsgMint_def sample_mint_def unknown_ok_def sample_unknown ok_opt_def ok_SampleCoin_def
        unknown_fields.none)
  then show ?thesis
    using api_messages_roundtrip [OF pb_runtime_ok sample_coin_codec sample_coin_codec, of False] by blast
qed

theorem api_decoding_terminates_witness:
  "\<exists>r. Unmarshal (MsgMint_codec pb_runtime False (SampleCoin_codec pb_runtime False)) [0xa, 0xff]
     (Some sample_mint) = Some r"
  using api_decoding_terminates [OF pb_runtime_ok codec_returns [OF sample_coin_codec]
      codec_returns [OF sample_coin_codec], of False] by (auto simp: returns_always_def)

text \<open>
  A nil message can be set, although the comment on \<open>Set\<close> says that an empty read-only value makes it
  panic, as it does for a list.
\<close>

lemma set_of_read_only_values:
  "api_set (reflect_MsgMint newCoin) (descriptor ''miniwasm.tokenfactory.v1.MsgMint.amount'')
     (ValueOfMessage (CoinMessage None)) m = Ok (m\<lparr>MsgMint_Amount := None\<rparr>)"
  "api_set reflect_Params (descriptor ''miniwasm.tokenfactory.v1.Params.denom_creation_fee'')
     (ValueOfList (Params_1_list None)) p = Panic nil_dereference"
  by (simp_all add: api_set_def switch_field_def reflect_MsgMint_def reflect_Params_def full_names_def
      accessor_defs descriptor_def)

end
