(* ===== verification/WireProps.thy ===== *)
theory WireProps
  imports ChainMsgs ApiProps
begin

text \<open>
  Properties of the encodings of the chain: what is read back from the bytes of a message, and that the
  API package and the chain use the same bytes.
\<close>

section \<open>Reading back\<close>

definition reads_back :: "'m pb_codec \<Rightarrow> 'm \<Rightarrow> ('m \<Rightarrow> 'm) \<Rightarrow> 'm \<Rightarrow> bool" where
  "reads_back C zero norm m \<longleftrightarrow> (case pb_Marshal C m of
     Ok bz \<Rightarrow> length bz < 2 ^ 63 \<longrightarrow> pb_Unmarshal C bz zero = Some (Inr (norm m))
   | _ \<Rightarrow> False)"

lemma chain_codec_reads_back: "chain_codec C zero enc ok norm \<Longrightarrow> ok m \<Longrightarrow> reads_back C zero norm m"
  by (simp add: reads_back_def chain_codec.marshal_enc chain_codec.decode_enc)

text \<open>
  The parameters go through their codec when they are stored: the model of the store keeps
  \<^term>\<open>stored_params p\<close>, which is what decoding the encoding of \<open>p\<close> gives.
\<close>

text \<open>C39.  Every message of the chain is encoded, and the bytes are read back as the message: a nil amount as zero and
  a fee without coins as no fee, which is what the keeper returns after storing the parameters.\<close>

theorem chain_messages_roundtrip:
  assumes "wire_ext_ok X L"
  shows "(\<forall>m. reads_back pb_DenomAuthorityMetadata zero_DenomAuthorityMetadata (\<lambda>m. m) m) \<and>
    (\<forall>m. pb_ok_Params L m \<longrightarrow> reads_back (pb_Params X) zero_Params stored_params m) \<and>
    (\<forall>m. reads_back pb_GenesisDenom zero_GenesisDenom (\<lambda>m. m) m) \<and>
    (\<forall>m. pb_ok_GenesisState L m \<longrightarrow> reads_back (pb_GenesisState X) zero_GenesisState pb_norm_GenesisState m) \<and>
    (\<forall>m. reads_back pb_MsgCreateDenom zero_MsgCreateDenom (\<lambda>m. m) m) \<and>
    (\<forall>m. pb_ok_MsgMint L m \<longrightarrow> reads_back (pb_MsgMint X) zero_MsgMint pb_norm_MsgMint m) \<and>
    (\<forall>m. pb_ok_MsgBurn L m \<longrightarrow> reads_back (pb_MsgBurn X) zero_MsgBurn pb_norm_MsgBurn m) \<and>
    (\<forall>m. reads_back pb_MsgChangeAdmin zero_MsgChangeAdmin (\<lambda>m. m) m) \<and>
    (\<forall>m. reads_back pb_MsgSetBeforeSendHook zero_MsgSetBeforeSendHook (\<lambda>m. m) m) \<and>
    (\<forall>m. pb_ok_MsgSetDenomMetadata L m \<longrightarrow> reads_back (pb_MsgSetDenomMetadata X) zero_MsgSetDenomMetadata (\<lambda>m. m) m) \<and>
    (\<forall>m. pb_ok_MsgUpdateParams L m \<longrightarrow> reads_back (pb_MsgUpdateParams X) zero_MsgUpdateParams pb_norm_MsgUpdateParams m) \<and>
    (\<forall>m. reads_back pb_MsgCreateDenomResponse zero_MsgCreateDenomResponse (\<lambda>m. m) m) \<and>
    (\<forall>m. pb_ok_QueryParamsResponse L m \<longrightarrow> reads_back (pb_QueryParamsResponse X) zero_QueryParamsResponse pb_norm_QueryParamsResponse m) \<and>
    (\<forall>m. reads_back pb_QueryDenomAuthorityMetadataRequest zero_QueryDenomAuthorityMetadataRequest (\<lambda>m. m) m) \<and>
    (\<forall>m. reads_back pb_QueryDenomAuthorityMetadataResponse zero_QueryDenomAuthorityMetadataResponse (\<lambda>m. m) m) \<and>
    (\<forall>m. reads_back pb_QueryDenomsFromCreatorRequest zero_QueryDenomsFromCreatorRequest (\<lambda>m. m) m) \<and>
    (\<forall>m. reads_back pb_QueryDenomsFromCreatorResponse zero_QueryDenomsFromCreatorResponse (\<lambda>m. m) m) \<and>
    (\<forall>m. reads_back pb_QueryBeforeSendHookAddressRequest zero_QueryBeforeSendHookAddressRequest (\<lambda>m. m) m) \<and>
    (\<forall>m. reads_back pb_QueryBeforeSendHookAddressResponse zero_QueryBeforeSendHookAddressResponse (\<lambda>m. m) m) \<and>
    (\<forall>m. reads_back pb_AccessConfig zero_AccessConfig (\<lambda>m. m) m) \<and>
    (\<forall>m. reads_back pb_MsgStoreCodeAdmin zero_MsgStoreCodeAdmin (\<lambda>m. m) m) \<and>
    (\<forall>m. reads_back pb_MsgStoreCodeAdminResponse zero_MsgStoreCodeAdminResponse (\<lambda>m. m) m) \<and>
    (\<forall>p t. pb_ok_Params L p \<longrightarrow>
       reads_back (pb_Params X) zero_Params (\<lambda>p. GetParams (snd (SetParams p t))) p)"
proof -
  have store: "(\<lambda>p. GetParams (snd (SetParams p t))) = stored_params" for t
    by (simp add: GetParams_def SetParams_def modify_def)
  show ?thesis
    unfolding store
    by (intro conjI allI impI; rule chain_codec_reads_back; (assumption | simp | rule
      pb_DenomAuthorityMetadata_codec
      pb_Params_codec [OF assms]
      pb_GenesisDenom_codec
      pb_GenesisState_codec [OF assms]
      pb_MsgCreateDenom_codec
      pb_MsgMint_codec [OF assms]
      pb_MsgBurn_codec [OF assms]
      pb_MsgChangeAdmin_codec
      pb_MsgSetBeforeSendHook_codec
      pb_MsgSetDenomMetadata_codec [OF assms]
      pb_MsgUpdateParams_codec [OF assms]
      pb_MsgCreateDenomResponse_codec
      pb_QueryParamsResponse_codec [OF assms]
      pb_QueryDenomAuthorityMetadataRequest_codec
      pb_QueryDenomAuthorityMetadataResponse_codec
      pb_QueryDenomsFromCreatorRequest_codec
      pb_QueryDenomsFromCreatorResponse_codec
      pb_QueryBeforeSendHookAddressRequest_codec
      pb_QueryBeforeSendHookAddressResponse_codec
      pb_AccessConfig_codec
      pb_MsgStoreCodeAdmin_codec
      pb_MsgStoreCodeAdminResponse_codec))
qed

section \<open>The API and the chain\<close>

text \<open>The message of the API for a message of the chain; \<open>co\<close> and \<open>me\<close> do this for coins and metadata.\<close>

definition api_of_DenomAuthorityMetadata :: "DenomAuthorityMetadata \<Rightarrow> api_DenomAuthorityMetadata" where
  "api_of_DenomAuthorityMetadata m =
    \<lparr>DenomAuthorityMetadata_Admin = Admin m,
     DenomAuthorityMetadata_unknownFields = []\<rparr>"

definition api_of_Params :: "(Coin \<Rightarrow> 'c) \<Rightarrow> Params \<Rightarrow> 'c api_Params" where
  "api_of_Params co m =
    \<lparr>Params_DenomCreationFee = map (\<lambda>c. Some (co c)) (coins_of (DenomCreationFee m)),
     Params_DenomCreationGasConsume = DenomCreationGasConsume m,
     Params_unknownFields = []\<rparr>"

definition api_of_GenesisDenom :: "GenesisDenom \<Rightarrow> api_GenesisDenom" where
  "api_of_GenesisDenom m =
    \<lparr>GenesisDenom_Denom = gd_Denom m,
     GenesisDenom_AuthorityMetadata = Some (api_of_DenomAuthorityMetadata (gd_AuthorityMetadata m)),
     GenesisDenom_unknownFields = []\<rparr>"

definition api_of_GenesisState :: "(Coin \<Rightarrow> 'c) \<Rightarrow> GenesisState \<Rightarrow> 'c api_GenesisState" where
  "api_of_GenesisState co m =
    \<lparr>GenesisState_Params = Some ((api_of_Params co) (gs_Params m)),
     GenesisState_FactoryDenoms = map (\<lambda>c. Some (api_of_GenesisDenom c)) (gs_FactoryDenoms m),
     GenesisState_unknownFields = []\<rparr>"

definition api_of_MsgCreateDenom :: "MsgCreateDenom \<Rightarrow> api_MsgCreateDenom" where
  "api_of_MsgCreateDenom m =
    \<lparr>MsgCreateDenom_Sender = cd_Sender m,
     MsgCreateDenom_Subdenom = cd_Subdenom m,
     MsgCreateDenom_unknownFields = []\<rparr>"

definition api_of_MsgMint :: "(Coin \<Rightarrow> 'c) \<Rightarrow> MsgMint \<Rightarrow> 'c api_MsgMint" where
  "api_of_MsgMint co m =
    \<lparr>MsgMint_Sender = mint_Sender m,
     MsgMint_Amount = Some (co (mint_Amount m)),
     MsgMint_MintToAddress = MintToAddress m,
     MsgMint_unknownFields = []\<rparr>"

definition api_of_MsgBurn :: "(Coin \<Rightarrow> 'c) \<Rightarrow> MsgBurn \<Rightarrow> 'c api_MsgBurn" where
  "api_of_MsgBurn co m =
    \<lparr>MsgBurn_Sender = burn_Sender m,
     MsgBurn_Amount = Some (co (burn_Amount m)),
     MsgBurn_unknownFields = []\<rparr>"

definition api_of_MsgChangeAdmin :: "MsgChangeAdmin \<Rightarrow> api_MsgChangeAdmin" where
  "api_of_MsgChangeAdmin m =
    \<lparr>MsgChangeAdmin_Sender = ca_Sender m,
     MsgChangeAdmin_Denom = ca_Denom m,
     MsgChangeAdmin_NewAdmin = NewAdmin m,
     MsgChangeAdmin_unknownFields = []\<rparr>"

definition api_of_MsgSetBeforeSendHook :: "MsgSetBeforeSendHook \<Rightarrow> api_MsgSetBeforeSendHook" where
  "api_of_MsgSetBeforeSendHook m =
    \<lparr>MsgSetBeforeSendHook_Sender = sbh_Sender m,
     MsgSetBeforeSendHook_Denom = sbh_Denom m,
     MsgSetBeforeSendHook_CosmwasmAddress = CosmwasmAddress m,
     MsgSetBeforeSendHook_unknownFields = []\<rparr>"

definition api_of_MsgSetDenomMetadata :: "(Metadata \<Rightarrow> 'd) \<Rightarrow> MsgSetDenomMetadata \<Rightarrow> 'd api_MsgSetDenomMetadata" where
  "api_of_MsgSetDenomMetadata me m =
    \<lparr>MsgSetDenomMetadata_Sender = sdm_Sender m,
     MsgSetDenomMetadata_Metadata = Some (me (sdm_Metadata m)),
     MsgSetDenomMetadata_unknownFields = []\<rparr>"

definition api_of_MsgUpdateParams :: "(Coin \<Rightarrow> 'c) \<Rightarrow> MsgUpdateParams \<Rightarrow> 'c api_MsgUpdateParams" where
  "api_of_MsgUpdateParams co m =
    \<lparr>MsgUpdateParams_Authority = up_Authority m,
     MsgUpdateParams_Params = Some ((api_of_Params co) (up_Params m)),
     MsgUpdateParams_unknownFields = []\<rparr>"

definition api_of_MsgCreateDenomResponse :: "MsgCreateDenomResponse \<Rightarrow> api_MsgCreateDenomResponse" where
  "api_of_MsgCreateDenomResponse m =
    \<lparr>MsgCreateDenomResponse_NewTokenDenom = NewTokenDenom m,
     MsgCreateDenomResponse_unknownFields = []\<rparr>"

definition api_of_QueryParamsResponse :: "(Coin \<Rightarrow> 'c) \<Rightarrow> QueryParamsResponse \<Rightarrow> 'c api_QueryParamsResponse" where
  "api_of_QueryParamsResponse co m =
    \<lparr>QueryParamsResponse_Params = Some ((api_of_Params co) (qp_Params m)),
     QueryParamsResponse_unknownFields = []\<rparr>"

definition api_of_QueryDenomAuthorityMetadataRequest :: "QueryDenomAuthorityMetadataRequest \<Rightarrow> api_QueryDenomAuthorityMetadataRequest" where
  "api_of_QueryDenomAuthorityMetadataRequest m =
    \<lparr>QueryDenomAuthorityMetadataRequest_Denom = qdam_Denom m,
     QueryDenomAuthorityMetadataRequest_unknownFields = []\<rparr>"

definition api_of_QueryDenomAuthorityMetadataResponse :: "QueryDenomAuthorityMetadataResponse \<Rightarrow> api_QueryDenomAuthorityMetadataResponse" where
  "api_of_QueryDenomAuthorityMetadataResponse m =
    \<lparr>QueryDenomAuthorityMetadataResponse_AuthorityMetadata = Some (api_of_DenomAuthorityMetadata (qdam_AuthorityMetadata m)),
     QueryDenomAuthorityMetadataResponse_unknownFields = []\<rparr>"

definition api_of_QueryDenomsFromCreatorRequest :: "QueryDenomsFromCreatorRequest \<Rightarrow> api_QueryDenomsFromCreatorRequest" where
  "api_of_QueryDenomsFromCreatorRequest m =
    \<lparr>QueryDenomsFromCreatorRequest_Creator = qdfc_Creator m,
     QueryDenomsFromCreatorRequest_unknownFields = []\<rparr>"

definition api_of_QueryDenomsFromCreatorResponse :: "QueryDenomsFromCreatorResponse \<Rightarrow> api_QueryDenomsFromCreatorResponse" where
  "api_of_QueryDenomsFromCreatorResponse m =
    \<lparr>QueryDenomsFromCreatorResponse_Denoms = qdfc_Denoms m,
     QueryDenomsFromCreatorResponse_unknownFields = []\<rparr>"

definition api_of_QueryBeforeSendHookAddressRequest :: "QueryBeforeSendHookAddressRequest \<Rightarrow> api_QueryBeforeSendHookAddressRequest" where
  "api_of_QueryBeforeSendHookAddressRequest m =
    \<lparr>QueryBeforeSendHookAddressRequest_Denom = qbsh_Denom m,
     QueryBeforeSendHookAddressRequest_unknownFields = []\<rparr>"

definition api_of_QueryBeforeSendHookAddressResponse :: "QueryBeforeSendHookAddressResponse \<Rightarrow> api_QueryBeforeSendHookAddressResponse" where
  "api_of_QueryBeforeSendHookAddressResponse m =
    \<lparr>QueryBeforeSendHookAddressResponse_CosmwasmAddress = qbsh_CosmwasmAddress m,
     QueryBeforeSendHookAddressResponse_unknownFields = []\<rparr>"

definition api_of_AccessConfig :: "AccessConfig \<Rightarrow> api_AccessConfig" where
  "api_of_AccessConfig m =
    \<lparr>AccessConfig_Permission = Permission m,
     AccessConfig_Addresses = Addresses m,
     AccessConfig_unknownFields = []\<rparr>"

definition api_of_MsgStoreCodeAdmin :: "MsgStoreCodeAdmin \<Rightarrow> api_MsgStoreCodeAdmin" where
  "api_of_MsgStoreCodeAdmin m =
    \<lparr>MsgStoreCodeAdmin_Authority = sca_Authority m,
     MsgStoreCodeAdmin_Creator = sca_Creator m,
     MsgStoreCodeAdmin_WasmByteCode = WASMByteCode m,
     MsgStoreCodeAdmin_InstantiatePermission = map_option api_of_AccessConfig (InstantiatePermission m),
     MsgStoreCodeAdmin_unknownFields = []\<rparr>"

definition api_of_MsgStoreCodeAdminResponse :: "MsgStoreCodeAdminResponse \<Rightarrow> api_MsgStoreCodeAdminResponse" where
  "api_of_MsgStoreCodeAdminResponse m =
    \<lparr>MsgStoreCodeAdminResponse_CodeId = CodeID m,
     MsgStoreCodeAdminResponse_Checksum = Checksum m,
     MsgStoreCodeAdminResponse_unknownFields = []\<rparr>"

text \<open>The codecs of the SDK on the two sides agree on coins and on metadata.\<close>

definition sdk_codecs_agree ::
  "wire_laws \<Rightarrow> (Coin \<Rightarrow> 'c) \<Rightarrow> ('c \<Rightarrow> bytes) \<Rightarrow> ('c \<Rightarrow> bool) \<Rightarrow>
   (Metadata \<Rightarrow> 'd) \<Rightarrow> ('d \<Rightarrow> bytes) \<Rightarrow> ('d \<Rightarrow> bool) \<Rightarrow> bool" where
  "sdk_codecs_agree L co eCoin kCoin me eMetadata kMetadata \<longleftrightarrow>
     (\<forall>c. okCoin L c \<longrightarrow> kCoin (co c) \<and> eCoin (co c) = encCoin L c) \<and>
     (\<forall>m. okMetadata L m \<longrightarrow> kMetadata (me m) \<and> eMetadata (me m) = encMetadata L m)"

lemma unknown_none [simp]: "unknown_ok R discard ns []"
  by (simp add: unknown_ok_def unknown_fields.none)

lemmas enc_api_defs = enc_api_message_def enc_api_messages_def enc_opt_def o_def

lemma api_enc_DenomAuthorityMetadata:
  shows "ok_DenomAuthorityMetadata R discard (api_of_DenomAuthorityMetadata m)" and "enc_DenomAuthorityMetadata (api_of_DenomAuthorityMetadata m) = pb_enc_DenomAuthorityMetadata m"
  by (auto simp: ok_DenomAuthorityMetadata_def enc_DenomAuthorityMetadata_def api_of_DenomAuthorityMetadata_def pb_enc_DenomAuthorityMetadata_def enc_api_defs ok_opt_def ok_all_def list_all_iff
      split: option.split)

lemma api_enc_Params:
  assumes "sdk_codecs_agree L co eCoin kCoin me eMetadata kMetadata" and "pb_ok_Params L m"
  shows "ok_Params R discard kCoin (api_of_Params co m)" and "enc_Params eCoin (api_of_Params co m) = pb_enc_Params L m"
  using assms
  by (auto simp: ok_Params_def enc_Params_def api_of_Params_def pb_enc_Params_def pb_ok_Params_def sdk_codecs_agree_def enc_api_defs ok_opt_def ok_all_def list_all_iff
      split: option.split intro!: arg_cong [where f = concat] map_cong)

lemma api_enc_GenesisDenom:
  shows "ok_GenesisDenom R discard (api_of_GenesisDenom m)" and "enc_GenesisDenom (api_of_GenesisDenom m) = pb_enc_GenesisDenom m"
  by (auto simp: ok_GenesisDenom_def enc_GenesisDenom_def api_of_GenesisDenom_def pb_enc_GenesisDenom_def enc_api_defs ok_opt_def ok_all_def list_all_iff api_enc_DenomAuthorityMetadata
      split: option.split)

lemma api_enc_GenesisState:
  assumes "sdk_codecs_agree L co eCoin kCoin me eMetadata kMetadata" and "pb_ok_GenesisState L m"
  shows "ok_GenesisState R discard kCoin (api_of_GenesisState co m)" and "enc_GenesisState eCoin (api_of_GenesisState co m) = pb_enc_GenesisState L m"
  using assms
  by (auto simp: ok_GenesisState_def enc_GenesisState_def api_of_GenesisState_def pb_enc_GenesisState_def pb_ok_GenesisState_def enc_api_defs ok_opt_def ok_all_def list_all_iff api_enc_Params [OF assms(1)] api_enc_GenesisDenom
      split: option.split intro!: arg_cong [where f = concat] map_cong)

lemma api_enc_MsgCreateDenom:
  shows "ok_MsgCreateDenom R discard (api_of_MsgCreateDenom m)" and "enc_MsgCreateDenom (api_of_MsgCreateDenom m) = pb_enc_MsgCreateDenom m"
  by (auto simp: ok_MsgCreateDenom_def enc_MsgCreateDenom_def api_of_MsgCreateDenom_def pb_enc_MsgCreateDenom_def enc_api_defs ok_opt_def ok_all_def list_all_iff
      split: option.split)

lemma api_enc_MsgMint:
  assumes "sdk_codecs_agree L co eCoin kCoin me eMetadata kMetadata" and "pb_ok_MsgMint L m"
  shows "ok_MsgMint R discard kCoin (api_of_MsgMint co m)" and "enc_MsgMint eCoin (api_of_MsgMint co m) = pb_enc_MsgMint L m"
  using assms
  by (auto simp: ok_MsgMint_def enc_MsgMint_def api_of_MsgMint_def pb_enc_MsgMint_def pb_ok_MsgMint_def sdk_codecs_agree_def enc_api_defs ok_opt_def ok_all_def list_all_iff
      split: option.split intro!: arg_cong [where f = concat] map_cong)

lemma api_enc_MsgBurn:
  assumes "sdk_codecs_agree L co eCoin kCoin me eMetadata kMetadata" and "pb_ok_MsgBurn L m"
  shows "ok_MsgBurn R discard kCoin (api_of_MsgBurn co m)" and "enc_MsgBurn eCoin (api_of_MsgBurn co m) = pb_enc_MsgBurn L m"
  using assms
  by (auto simp: ok_MsgBurn_def enc_MsgBurn_def api_of_MsgBurn_def pb_enc_MsgBurn_def pb_ok_MsgBurn_def sdk_codecs_agree_def enc_api_defs ok_opt_def ok_all_def list_all_iff
      split: option.split intro!: arg_cong [where f = concat] map_cong)

lemma api_enc_MsgChangeAdmin:
  shows "ok_MsgChangeAdmin R discard (api_of_MsgChangeAdmin m)" and "enc_MsgChangeAdmin (api_of_MsgChangeAdmin m) = pb_enc_MsgChangeAdmin m"
  by (auto simp: ok_MsgChangeAdmin_def enc_MsgChangeAdmin_def api_of_MsgChangeAdmin_def pb_enc_MsgChangeAdmin_def enc_api_defs ok_opt_def ok_all_def list_all_iff
      split: option.split)

lemma api_enc_MsgSetBeforeSendHook:
  shows "ok_MsgSetBeforeSendHook R discard (api_of_MsgSetBeforeSendHook m)" and "enc_MsgSetBeforeSendHook (api_of_MsgSetBeforeSendHook m) = pb_enc_MsgSetBeforeSendHook m"
  by (auto simp: ok_MsgSetBeforeSendHook_def enc_MsgSetBeforeSendHook_def api_of_MsgSetBeforeSendHook_def pb_enc_MsgSetBeforeSendHook_def enc_api_defs ok_opt_def ok_all_def list_all_iff
      split: option.split)

lemma api_enc_MsgSetDenomMetadata:
  assumes "sdk_codecs_agree L co eCoin kCoin me eMetadata kMetadata" and "pb_ok_MsgSetDenomMetadata L m"
  shows "ok_MsgSetDenomMetadata R discard kMetadata (api_of_MsgSetDenomMetadata me m)" and "enc_MsgSetDenomMetadata eMetadata (api_of_MsgSetDenomMetadata me m) = pb_enc_MsgSetDenomMetadata L m"
  using assms
  by (auto simp: ok_MsgSetDenomMetadata_def enc_MsgSetDenomMetadata_def api_of_MsgSetDenomMetadata_def pb_enc_MsgSetDenomMetadata_def pb_ok_MsgSetDenomMetadata_def sdk_codecs_agree_def enc_api_defs ok_opt_def ok_all_def list_all_iff
      split: option.split intro!: arg_cong [where f = concat] map_cong)

lemma api_enc_MsgUpdateParams:
  assumes "sdk_codecs_agree L co eCoin kCoin me eMetadata kMetadata" and "pb_ok_MsgUpdateParams L m"
  shows "ok_MsgUpdateParams R discard kCoin (api_of_MsgUpdateParams co m)" and "enc_MsgUpdateParams eCoin (api_of_MsgUpdateParams co m) = pb_enc_MsgUpdateParams L m"
  using assms
  by (auto simp: ok_MsgUpdateParams_def enc_MsgUpdateParams_def api_of_MsgUpdateParams_def pb_enc_MsgUpdateParams_def pb_ok_MsgUpdateParams_def enc_api_defs ok_opt_def ok_all_def list_all_iff api_enc_Params [OF assms(1)]
      split: option.split intro!: arg_cong [where f = concat] map_cong)

lemma api_enc_MsgCreateDenomResponse:
  shows "ok_MsgCreateDenomResponse R discard (api_of_MsgCreateDenomResponse m)" and "enc_MsgCreateDenomResponse (api_of_MsgCreateDenomResponse m) = pb_enc_MsgCreateDenomResponse m"
  by (auto simp: ok_MsgCreateDenomResponse_def enc_MsgCreateDenomResponse_def api_of_MsgCreateDenomResponse_def pb_enc_MsgCreateDenomResponse_def enc_api_defs ok_opt_def ok_all_def list_all_iff
      split: option.split)

lemma api_enc_QueryParamsResponse:
  assumes "sdk_codecs_agree L co eCoin kCoin me eMetadata kMetadata" and "pb_ok_QueryParamsResponse L m"
  shows "ok_QueryParamsResponse R discard kCoin (api_of_QueryParamsResponse co m)" and "enc_QueryParamsResponse eCoin (api_of_QueryParamsResponse co m) = pb_enc_QueryParamsResponse L m"
  using assms
  by (auto simp: ok_QueryParamsResponse_def enc_QueryParamsResponse_def api_of_QueryParamsResponse_def pb_enc_QueryParamsResponse_def pb_ok_QueryParamsResponse_def enc_api_defs ok_opt_def ok_all_def list_all_iff api_enc_Params [OF assms(1)]
      split: option.split intro!: arg_cong [where f = concat] map_cong)

lemma api_enc_QueryDenomAuthorityMetadataRequest:
  shows "ok_QueryDenomAuthorityMetadataRequest R discard (api_of_QueryDenomAuthorityMetadataRequest m)" and "enc_QueryDenomAuthorityMetadataRequest (api_of_QueryDenomAuthorityMetadataRequest m) = pb_enc_QueryDenomAuthorityMetadataRequest m"
  by (auto simp: ok_QueryDenomAuthorityMetadataRequest_def enc_QueryDenomAuthorityMetadataRequest_def api_of_QueryDenomAuthorityMetadataRequest_def pb_enc_QueryDenomAuthorityMetadataRequest_def enc_api_defs ok_opt_def ok_all_def list_all_iff
      split: option.split)

lemma api_enc_QueryDenomAuthorityMetadataResponse:
  shows "ok_QueryDenomAuthorityMetadataResponse R discard (api_of_QueryDenomAuthorityMetadataResponse m)" and "enc_QueryDenomAuthorityMetadataResponse (api_of_QueryDenomAuthorityMetadataResponse m) = pb_enc_QueryDenomAuthorityMetadataResponse m"
  by (auto simp: ok_QueryDenomAuthorityMetadataResponse_def enc_QueryDenomAuthorityMetadataResponse_def api_of_QueryDenomAuthorityMetadataResponse_def pb_enc_QueryDenomAuthorityMetadataResponse_def enc_api_defs ok_opt_def ok_all_def list_all_iff api_enc_DenomAuthorityMetadata
      split: option.split)

lemma api_enc_QueryDenomsFromCreatorRequest:
  shows "ok_QueryDenomsFromCreatorRequest R discard (api_of_QueryDenomsFromCreatorRequest m)" and "enc_QueryDenomsFromCreatorRequest (api_of_QueryDenomsFromCreatorRequest m) = pb_enc_QueryDenomsFromCreatorRequest m"
  by (auto simp: ok_QueryDenomsFromCreatorRequest_def enc_QueryDenomsFromCreatorRequest_def api_of_QueryDenomsFromCreatorRequest_def pb_enc_QueryDenomsFromCreatorRequest_def enc_api_defs ok_opt_def ok_all_def list_all_iff
      split: option.split)

lemma api_enc_QueryDenomsFromCreatorResponse:
  shows "ok_QueryDenomsFromCreatorResponse R discard (api_of_QueryDenomsFromCreatorResponse m)" and "enc_QueryDenomsFromCreatorResponse (api_of_QueryDenomsFromCreatorResponse m) = pb_enc_QueryDenomsFromCreatorResponse m"
  by (auto simp: ok_QueryDenomsFromCreatorResponse_def enc_QueryDenomsFromCreatorResponse_def api_of_QueryDenomsFromCreatorResponse_def pb_enc_QueryDenomsFromCreatorResponse_def enc_api_defs ok_opt_def ok_all_def list_all_iff
      split: option.split)

lemma api_enc_QueryBeforeSendHookAddressRequest:
  shows "ok_QueryBeforeSendHookAddressRequest R discard (api_of_QueryBeforeSendHookAddressRequest m)" and "enc_QueryBeforeSendHookAddressRequest (api_of_QueryBeforeSendHookAddressRequest m) = pb_enc_QueryBeforeSendHookAddressRequest m"
  by (auto simp: ok_QueryBeforeSendHookAddressRequest_def enc_QueryBeforeSendHookAddressRequest_def api_of_QueryBeforeSendHookAddressRequest_def pb_enc_QueryBeforeSendHookAddressRequest_def enc_api_defs ok_opt_def ok_all_def list_all_iff
      split: option.split)

lemma api_enc_QueryBeforeSendHookAddressResponse:
  shows "ok_QueryBeforeSendHookAddressResponse R discard (api_of_QueryBeforeSendHookAddressResponse m)" and "enc_QueryBeforeSendHookAddressResponse (api_of_QueryBeforeSendHookAddressResponse m) = pb_enc_QueryBeforeSendHookAddressResponse m"
  by (auto simp: ok_QueryBeforeSendHookAddressResponse_def enc_QueryBeforeSendHookAddressResponse_def api_of_QueryBeforeSendHookAddressResponse_def pb_enc_QueryBeforeSendHookAddressResponse_def enc_api_defs ok_opt_def ok_all_def list_all_iff
      split: option.split)

lemma api_enc_AccessConfig:
  shows "ok_AccessConfig R discard (api_of_AccessConfig m)" and "enc_AccessConfig (api_of_AccessConfig m) = pb_enc_AccessConfig m"
  by (auto simp: ok_AccessConfig_def enc_AccessConfig_def api_of_AccessConfig_def pb_enc_AccessConfig_def enc_api_defs ok_opt_def ok_all_def list_all_iff
      split: option.split)

lemma api_enc_MsgStoreCodeAdmin:
  shows "ok_MsgStoreCodeAdmin R discard (api_of_MsgStoreCodeAdmin m)" and "enc_MsgStoreCodeAdmin (api_of_MsgStoreCodeAdmin m) = pb_enc_MsgStoreCodeAdmin m"
  by (auto simp: ok_MsgStoreCodeAdmin_def enc_MsgStoreCodeAdmin_def api_of_MsgStoreCodeAdmin_def pb_enc_MsgStoreCodeAdmin_def enc_api_defs ok_opt_def ok_all_def list_all_iff api_enc_AccessConfig
      split: option.split)

lemma api_enc_MsgStoreCodeAdminResponse:
  shows "ok_MsgStoreCodeAdminResponse R discard (api_of_MsgStoreCodeAdminResponse m)" and "enc_MsgStoreCodeAdminResponse (api_of_MsgStoreCodeAdminResponse m) = pb_enc_MsgStoreCodeAdminResponse m"
  by (auto simp: ok_MsgStoreCodeAdminResponse_def enc_MsgStoreCodeAdminResponse_def api_of_MsgStoreCodeAdminResponse_def pb_enc_MsgStoreCodeAdminResponse_def enc_api_defs ok_opt_def ok_all_def list_all_iff
      split: option.split)

lemma agreement:
  assumes "message_codec C e K" and "chain_codec D zero enc ok norm" and "K x" and "e x = enc m" and "ok m"
  shows "Marshal C (Some x) = pb_Marshal D m"
  using message_codec.marshal_enc [OF assms(1,3)] chain_codec.marshal_enc [OF assms(2,5)] assms(4) by simp

text \<open>C40.  The methods of the API write the bytes the chain writes for the same message, so that each side reads
  what the other wrote.\<close>

theorem api_and_chain_agree:
  assumes "runtime_ok R" and "message_codec Coin eCoin kCoin" and "message_codec Metadata eMetadata kMetadata"
    and "wire_ext_ok X L" and "sdk_codecs_agree L co eCoin kCoin me eMetadata kMetadata"
  shows "(\<forall>m. Marshal (DenomAuthorityMetadata_codec R discard) (Some (api_of_DenomAuthorityMetadata m)) =
      pb_Marshal pb_DenomAuthorityMetadata m) \<and>
    (\<forall>m. pb_ok_Params L m \<longrightarrow>
      Marshal (Params_codec R discard Coin) (Some (api_of_Params co m)) =
      pb_Marshal (pb_Params X) m) \<and>
    (\<forall>m. Marshal (GenesisDenom_codec R discard) (Some (api_of_GenesisDenom m)) =
      pb_Marshal pb_GenesisDenom m) \<and>
    (\<forall>m. pb_ok_GenesisState L m \<longrightarrow>
      Marshal (GenesisState_codec R discard Coin) (Some (api_of_GenesisState co m)) =
      pb_Marshal (pb_GenesisState X) m) \<and>
    (\<forall>m. Marshal (MsgCreateDenom_codec R discard) (Some (api_of_MsgCreateDenom m)) =
      pb_Marshal pb_MsgCreateDenom m) \<and>
    (\<forall>m. pb_ok_MsgMint L m \<longrightarrow>
      Marshal (MsgMint_codec R discard Coin) (Some (api_of_MsgMint co m)) =
      pb_Marshal (pb_MsgMint X) m) \<and>
    (\<forall>m. pb_ok_MsgBurn L m \<longrightarrow>
      Marshal (MsgBurn_codec R discard Coin) (Some (api_of_MsgBurn co m)) =
      pb_Marshal (pb_MsgBurn X) m) \<and>
    (\<forall>m. Marshal (MsgChangeAdmin_codec R discard) (Some (api_of_MsgChangeAdmin m)) =
      pb_Marshal pb_MsgChangeAdmin m) \<and>
    (\<forall>m. Marshal (MsgSetBeforeSendHook_codec R discard) (Some (api_of_MsgSetBeforeSendHook m)) =
      pb_Marshal pb_MsgSetBeforeSendHook m) \<and>
    (\<forall>m. pb_ok_MsgSetDenomMetadata L m \<longrightarrow>
      Marshal (MsgSetDenomMetadata_codec R discard Metadata) (Some (api_of_MsgSetDenomMetadata me m)) =
      pb_Marshal (pb_MsgSetDenomMetadata X) m) \<and>
    (\<forall>m. pb_ok_MsgUpdateParams L m \<longrightarrow>
      Marshal (MsgUpdateParams_codec R discard Coin) (Some (api_of_MsgUpdateParams co m)) =
      pb_Marshal (pb_MsgUpdateParams X) m) \<and>
    (\<forall>m. Marshal (MsgCreateDenomResponse_codec R discard) (Some (api_of_MsgCreateDenomResponse m)) =
      pb_Marshal pb_MsgCreateDenomResponse m) \<and>
    (\<forall>m. pb_ok_QueryParamsResponse L m \<longrightarrow>
      Marshal (QueryParamsResponse_codec R discard Coin) (Some (api_of_QueryParamsResponse co m)) =
      pb_Marshal (pb_QueryParamsResponse X) m) \<and>
    (\<forall>m. Marshal (QueryDenomAuthorityMetadataRequest_codec R discard) (Some (api_of_QueryDenomAuthorityMetadataRequest m)) =
      pb_Marshal pb_QueryDenomAuthorityMetadataRequest m) \<and>
    (\<forall>m. Marshal (QueryDenomAuthorityMetadataResponse_codec R discard) (Some (api_of_QueryDenomAuthorityMetadataResponse m)) =
      pb_Marshal pb_QueryDenomAuthorityMetadataResponse m) \<and>
    (\<forall>m. Marshal (QueryDenomsFromCreatorRequest_codec R discard) (Some (api_of_QueryDenomsFromCreatorRequest m)) =
      pb_Marshal pb_QueryDenomsFromCreatorRequest m) \<and>
    (\<forall>m. Marshal (QueryDenomsFromCreatorResponse_codec R discard) (Some (api_of_QueryDenomsFromCreatorResponse m)) =
      pb_Marshal pb_QueryDenomsFromCreatorResponse m) \<and>
    (\<forall>m. Marshal (QueryBeforeSendHookAddressRequest_codec R discard) (Some (api_of_QueryBeforeSendHookAddressRequest m)) =
      pb_Marshal pb_QueryBeforeSendHookAddressRequest m) \<and>
    (\<forall>m. Marshal (QueryBeforeSendHookAddressResponse_codec R discard) (Some (api_of_QueryBeforeSendHookAddressResponse m)) =
      pb_Marshal pb_QueryBeforeSendHookAddressResponse m) \<and>
    (\<forall>m. Marshal (AccessConfig_codec R discard) (Some (api_of_AccessConfig m)) =
      pb_Marshal pb_AccessConfig m) \<and>
    (\<forall>m. Marshal (MsgStoreCodeAdmin_codec R discard) (Some (api_of_MsgStoreCodeAdmin m)) =
      pb_Marshal pb_MsgStoreCodeAdmin m) \<and>
    (\<forall>m. Marshal (MsgStoreCodeAdminResponse_codec R discard) (Some (api_of_MsgStoreCodeAdminResponse m)) =
      pb_Marshal pb_MsgStoreCodeAdminResponse m)"
  by (intro conjI allI impI; rule
      agreement [OF DenomAuthorityMetadata_message_codec [OF assms(1)] pb_DenomAuthorityMetadata_codec api_enc_DenomAuthorityMetadata]
      agreement [OF Params_message_codec [OF assms(1) assms(2)] pb_Params_codec [OF assms(4)] api_enc_Params [OF assms(5)]]
      agreement [OF GenesisDenom_message_codec [OF assms(1)] pb_GenesisDenom_codec api_enc_GenesisDenom]
      agreement [OF GenesisState_message_codec [OF assms(1) assms(2)] pb_GenesisState_codec [OF assms(4)] api_enc_GenesisState [OF assms(5)]]
      agreement [OF MsgCreateDenom_message_codec [OF assms(1)] pb_MsgCreateDenom_codec api_enc_MsgCreateDenom]
      agreement [OF MsgMint_message_codec [OF assms(1) assms(2)] pb_MsgMint_codec [OF assms(4)] api_enc_MsgMint [OF assms(5)]]
      agreement [OF MsgBurn_message_codec [OF assms(1) assms(2)] pb_MsgBurn_codec [OF assms(4)] api_enc_MsgBurn [OF assms(5)]]
      agreement [OF MsgChangeAdmin_message_codec [OF assms(1)] pb_MsgChangeAdmin_codec api_enc_MsgChangeAdmin]
      agreement [OF MsgSetBeforeSendHook_message_codec [OF assms(1)] pb_MsgSetBeforeSendHook_codec api_enc_MsgSetBeforeSendHook]
      agreement [OF MsgSetDenomMetadata_message_codec [OF assms(1) assms(3)] pb_MsgSetDenomMetadata_codec [OF assms(4)] api_enc_MsgSetDenomMetadata [OF assms(5)]]
      agreement [OF MsgUpdateParams_message_codec [OF assms(1) assms(2)] pb_MsgUpdateParams_codec [OF assms(4)] api_enc_MsgUpdateParams [OF assms(5)]]
      agreement [OF MsgCreateDenomResponse_message_codec [OF assms(1)] pb_MsgCreateDenomResponse_codec api_enc_MsgCreateDenomResponse]
      agreement [OF QueryParamsResponse_message_codec [OF assms(1) assms(2)] pb_QueryParamsResponse_codec [OF assms(4)] api_enc_QueryParamsResponse [OF assms(5)]]
      agreement [OF QueryDenomAuthorityMetadataRequest_message_codec [OF assms(1)] pb_QueryDenomAuthorityMetadataRequest_codec api_enc_QueryDenomAuthorityMetadataRequest]
      agreement [OF QueryDenomAuthorityMetadataResponse_message_codec [OF assms(1)] pb_QueryDenomAuthorityMetadataResponse_codec api_enc_QueryDenomAuthorityMetadataResponse]
      agreement [OF QueryDenomsFromCreatorRequest_message_codec [OF assms(1)] pb_QueryDenomsFromCreatorRequest_codec api_enc_QueryDenomsFromCreatorRequest]
      agreement [OF QueryDenomsFromCreatorResponse_message_codec [OF assms(1)] pb_QueryDenomsFromCreatorResponse_codec api_enc_QueryDenomsFromCreatorResponse]
      agreement [OF QueryBeforeSendHookAddressRequest_message_codec [OF assms(1)] pb_QueryBeforeSendHookAddressRequest_codec api_enc_QueryBeforeSendHookAddressRequest]
      agreement [OF QueryBeforeSendHookAddressResponse_message_codec [OF assms(1)] pb_QueryBeforeSendHookAddressResponse_codec api_enc_QueryBeforeSendHookAddressResponse]
      agreement [OF AccessConfig_message_codec [OF assms(1)] pb_AccessConfig_codec api_enc_AccessConfig]
      agreement [OF MsgStoreCodeAdmin_message_codec [OF assms(1)] pb_MsgStoreCodeAdmin_codec api_enc_MsgStoreCodeAdmin]
      agreement [OF MsgStoreCodeAdminResponse_message_codec [OF assms(1)] pb_MsgStoreCodeAdminResponse_codec api_enc_MsgStoreCodeAdminResponse]; simp)

section \<open>Witnesses\<close>

text \<open>Codecs for coins with a positive amount and for metadata with only a base denom.\<close>

definition coin_units :: "Coin \<Rightarrow> u64" where
  "coin_units c = word_of_int (case coin_Amount c of None \<Rightarrow> 0 | Some a \<Rightarrow> a)"

definition small_coin :: "Coin pb_codec" where
  "small_coin = chain_codec_of ''Coin''
     (\<lambda>c. size_string sov (to_bytes (coin_Denom c)) + size_uint sov (coin_units c))
     (\<lambda>c. andThen (put_uint encodeVarint 0x10 (coin_units c)) (\<lambda>_.
        put_string encodeVarint 0xa (to_bytes (coin_Denom c))))
     [(1, ''Denom'', string_field (\<lambda>s m. m\<lparr>coin_Denom := s\<rparr>)),
      (2, ''Amount'', Varint (\<lambda>v m. m\<lparr>coin_Amount := Some (uint v)\<rparr>))]"

definition small_metadata :: "Metadata pb_codec" where
  "small_metadata = chain_codec_of ''Metadata''
     (\<lambda>m. size_string sov (to_bytes (Base m)))
     (\<lambda>m. put_string encodeVarint 0xa (to_bytes (Base m)))
     [(1, ''Base'', string_field (\<lambda>s m. m\<lparr>Base := s\<rparr>))]"

definition small_laws :: wire_laws where
  "small_laws =
    \<lparr>encCoin = (\<lambda>c. enc_string 0xa (to_bytes (coin_Denom c)) @ enc_uint 0x10 (coin_units c)),
     okCoin = (\<lambda>c. coin_units c \<noteq> 0 \<and> coin_Amount c = Some (uint (coin_units c))),
     encMetadata = (\<lambda>m. enc_string 0xa (to_bytes (Base m))),
     okMetadata = (\<lambda>m. m = zero_Metadata\<lparr>Base := Base m\<rparr>)\<rparr>"

definition small_wire :: wire_ext where
  "small_wire = \<lparr>CoinCodec = small_coin, MetadataCodec = small_metadata\<rparr>"

lemma small_coin_codec: "chain_codec small_coin zero_Coin (encCoin small_laws) (okCoin small_laws) stored_coin"
  unfolding small_coin_def
proof (rule chain_codec_of_ok)
  fix c assume c: "okCoin small_laws c"
  let ?fs = "[(1, ''Denom'', string_field (\<lambda>s m. m\<lparr>coin_Denom := s\<rparr>)),
      (2, ''Amount'', Varint (\<lambda>v m. m\<lparr>coin_Amount := Some (uint v)\<rparr>))] :: (int \<times> string \<times> Coin field) list"
  show "writes (andThen (put_uint encodeVarint 0x10 (coin_units c)) (\<lambda>_.
        put_string encodeVarint 0xa (to_bytes (coin_Denom c)))) (encCoin small_laws c)"
    unfolding small_laws_def wire_laws.select_convs
    by (intro writes_andThen writes_uint writes_string encodeVarint_ok)
  have "decodes ''Coin'' ?fs skip_field
      (enc_string 0xa (to_bytes (coin_Denom c)) @ enc_uint 0x10 (coin_units c)) zero_Coin
      (zero_Coin\<lparr>coin_Denom := coin_Denom c, coin_Amount := Some (uint (coin_units c))\<rparr>)"
    by (rule decodes_append [OF decodes_api_string [where upd = "\<lambda>s m. m\<lparr>coin_Denom := s\<rparr>"]
        decodes_api_uint [where upd = "\<lambda>v m. m\<lparr>coin_Amount := Some (uint v)\<rparr>"]])
      (use c in \<open>simp_all add: zero_Coin_def small_laws_def\<close>)
  moreover have "zero_Coin\<lparr>coin_Denom := coin_Denom c, coin_Amount := Some (uint (coin_units c))\<rparr> = stored_coin c"
    using c by (cases c) (auto simp: zero_Coin_def stored_coin_def small_laws_def)
  ultimately show "decodes ''Coin'' ?fs skip_field (encCoin small_laws c) zero_Coin (stored_coin c)"
    by (simp add: small_laws_def)
qed (simp_all add: small_laws_def sov_eq)

lemma small_metadata_codec:
  "chain_codec small_metadata zero_Metadata (encMetadata small_laws) (okMetadata small_laws) (\<lambda>m. m)"
  unfolding small_metadata_def
proof (rule chain_codec_of_ok)
  fix m assume m: "okMetadata small_laws m"
  let ?fs = "[(1, ''Base'', string_field (\<lambda>s m. m\<lparr>Base := s\<rparr>))] :: (int \<times> string \<times> Metadata field) list"
  show "writes (put_string encodeVarint 0xa (to_bytes (Base m))) (encMetadata small_laws m)"
    by (simp add: small_laws_def writes_string encodeVarint_ok)
  have "decodes ''Metadata'' ?fs skip_field (enc_string 0xa (to_bytes (Base m))) zero_Metadata
      (zero_Metadata\<lparr>Base := Base m\<rparr>)"
    by (rule decodes_api_string [where upd = "\<lambda>s m. m\<lparr>Base := s\<rparr>"]) (simp_all add: zero_Metadata_def)
  then show "decodes ''Metadata'' ?fs skip_field (encMetadata small_laws m) zero_Metadata m"
    using m by (simp add: small_laws_def)
qed (simp_all add: small_laws_def sov_eq)

lemma small_wire_ok: "wire_ext_ok small_wire small_laws"
  by (simp add: wire_ext_ok_def small_wire_def small_coin_codec small_metadata_codec)

text \<open>A codec of the chain as one of the API.\<close>

definition api_view :: "'m pb_codec \<Rightarrow> 'm \<Rightarrow> 'm codec" where
  "api_view C zero =
    \<lparr>Size = (\<lambda>x. case x of None \<Rightarrow> 0 | Some m \<Rightarrow> pb_Size C m),
     Marshal = (\<lambda>x. case x of None \<Rightarrow> Ok [] | Some m \<Rightarrow> pb_Marshal C m),
     Unmarshal = (\<lambda>bz x. case x of
        None \<Rightarrow> Some (Inr None)
      | Some m \<Rightarrow> map_option (map_sum id Some) (pb_Unmarshal C bz m)),
     NewMessage = zero\<rparr>"

lemma api_view_codec:
  assumes "chain_codec C zero enc ok norm" and "\<And>m. ok m \<Longrightarrow> norm m = m"
  shows "message_codec (api_view C zero) enc ok"
  by unfold_locales
    (use chain_codec.returns [OF assms(1)] in \<open>auto simp: api_view_def chain_codec.size_enc [OF assms(1)] chain_codec.marshal_enc [OF assms(1)]
      chain_codec.decode_enc [OF assms(1)] assms(2) split: option.split\<close>)

lemma small_views:
  "message_codec (api_view small_coin zero_Coin) (encCoin small_laws) (okCoin small_laws)"
  "message_codec (api_view small_metadata zero_Metadata) (encMetadata small_laws) (okMetadata small_laws)"
  by (rule api_view_codec [OF small_coin_codec] api_view_codec [OF small_metadata_codec];
      auto simp: stored_coin_def small_laws_def)+

definition small_mint :: MsgMint where
  "small_mint = NewMsgMint ''ann'' \<lparr>coin_Denom = ''factory/ann/gold'', coin_Amount = Some 7\<rparr>"

lemma small_mint_ok: "pb_ok_MsgMint small_laws small_mint"
  by (simp add: pb_ok_MsgMint_def small_mint_def NewMsgMint_def small_laws_def coin_units_def)

theorem chain_messages_roundtrip_witness:
  "reads_back (pb_MsgMint small_wire) zero_MsgMint pb_norm_MsgMint small_mint"
  using chain_messages_roundtrip [OF small_wire_ok] small_mint_ok by blast

theorem api_and_chain_agree_witness:
  "Marshal (MsgMint_codec pb_runtime False (api_view small_coin zero_Coin))
     (Some (api_of_MsgMint (\<lambda>c. c) small_mint)) = pb_Marshal (pb_MsgMint small_wire) small_mint"
  using api_and_chain_agree [OF pb_runtime_ok small_views small_wire_ok,
      where co = "\<lambda>c. c" and me = "\<lambda>m. m" and discard = False] small_mint_ok
  by (simp add: sdk_codecs_agree_def)


end
