(* ===== verification/Spec2Isabelle.thy ===== *)
theory Spec2Isabelle
  imports Governance Transfers Ante IBCProps AppGenesis App Keepers NewApp RootCmd TFModule Gateway WireProps
begin

text \<open>
  A verification development for miniwasm, the WebAssembly rollup chain built on the Cosmos SDK.
  Paths below are relative to \<open>src/\<close>.

  \<^bold>\<open>The program.\<close>  The chain is an SDK application (\<open>app/\<close>) with three modules of its own.  The token
  factory (\<open>x/tokenfactory\<close>) lets an account create denoms of the form \<open>factory/creator/subdenom\<close>,
  of which it is the admin: it mints, burns, hands the denom over and may attach a contract as a hook.
  The bank module (\<open>x/bank\<close>) wraps the SDK's bank keeper so that every transfer asks the hook of a
  coin for consent or informs it.  The wasm extension (\<open>x/wasmextension\<close>) lets the authority of the chain
  store code for another account.  Around them are the transaction handlers and the mempool setup
  (\<open>app/ante\<close>, \<open>app/abcipp.go\<close>), the IBC hooks that run contracts for arriving packets and call back the
  senders of departing ones (\<open>app/ibc-hooks\<close>), the genesis state (\<open>app/genesis.go\<close>), upgrades, the node's
  commands (\<open>cmd/minitiad\<close>) and two sets of generated protobuf code: \<open>x/**/*.pb.go\<close>, which the chain
  uses, and \<open>api/**/*.pulsar.go\<close>, which clients use.

  \<^bold>\<open>How code is modelled.\<close>  A Go function that may fail and changes state is a \<open>prog\<close>: a function from a
  state to an outcome (\<open>Ok\<close>, \<open>Err\<close> or \<open>Panic\<close>) and a new state; the state is returned on errors too,
  since Go does not undo writes.  Pure functions are HOL functions, errors are values of \<open>error\<close>, structs
  are records.  \<open>uint64\<close>, \<open>int32\<close> and bytes are machine words; gas and varints wrap as in Go.  The
  state \<open>ctx\<close> holds the store of the token factory (\<open>tf\<close>) and the rest of the chain (\<open>sys\<close>: an opaque
  state of the other modules, the gas meter, the events).  Code outside the repository is a field of
  a record of functions (\<open>sdk\<close>, \<open>env\<close>, \<open>bank_base\<close>, \<open>ibc_lib\<close>, \<open>ante_lib\<close>, \<open>runtime\<close>, ...), and what the
  proofs rely on about it is a named predicate (\<open>codec_ok\<close>, \<open>metadata_ok\<close>, \<open>ledger_ok\<close>, \<open>gas_ok\<close>,
  \<open>contracts_ok\<close>, \<open>bank_base_ok\<close>, \<open>genesis_env_ok\<close>, \<open>runtime_ok\<close>, \<open>wire_ext_ok\<close>, \<open>serves_by_pattern\<close>, ...).
  \<open>Sample\<close> and the witnesses instantiate all of them.  A small definition for an error text or a library
  call inside a function (\<open>not_allowed\<close>, \<open>hook_failed\<close>, \<open>MustMarshalJSON\<close>, ...) belongs to the lines of that
  function.

  \<^bold>\<open>The theories.\<close>

  \<^item> \<open>Prelude\<close>, \<open>Strings\<close>, \<open>KeySets\<close>, \<open>Json\<close>, \<open>Context\<close>, \<open>Sample\<close>: Go values and control flow, the parts of
    the standard library in use, the key set of the \<open>collections\<close> package, the chain state and its
    environment.  The locale \<open>state_rel\<close> proves once, for every preorder on states, that a composed
    program moves the state along it when its parts do.
  \<^item> \<open>Denoms\<close> (\<open>types/denoms.go\<close>, \<open>keys.go\<close>, \<open>errors.go\<close>), \<open>TFKeeper\<close> (\<open>keeper/*.go\<close>), \<open>TFMsgs\<close>
    (\<open>types/msgs.go\<close>, \<open>params.go\<close>, \<open>keeper/msg_server.go\<close>), \<open>BeforeSend\<close> (\<open>keeper/before_send.go\<close>),
    \<open>TFGenesis\<close> (\<open>genesis.go\<close>, \<open>grpc_query.go\<close>), \<open>TFModule\<close> (\<open>module.go\<close>, \<open>client/cli/tx.go\<close>): the token
    factory.
  \<^item> \<open>Gateway\<close> (\<open>types/query.pb.gw.go\<close>): the HTTP handlers of the queries, their path patterns and their
    registration.  The codes of a pattern are shown to accept exactly the paths that \<open>query.proto\<close>
    gives the query, so that a query over HTTP is answered from the store by the right function.
  \<^item> \<open>Bank\<close>: \<open>x/bank/keeper\<close>, the keeper over the SDK's base keeper and the message server.
  \<^item> \<open>Registry\<close> and \<open>Authority\<close>: the contract of the token factory as an abstract registry with guarded
    steps, and the refinement: every message of the two modules, with whatever outcome, moves the
    store only along steps of its signers and of contracts that hooks called.  From it follow the
    safety properties of whole runs, and that an admin is never locked out.
  \<^item> \<open>Transfers\<close> and \<open>Governance\<close>: what transfers, mints and burns do, what hooks can and cannot do,
    their gas, and who changes parameters.
  \<^item> \<open>WasmExt\<close>: \<open>x/wasmextension/keeper\<close> and \<open>types\<close>.
  \<^item> \<open>Ante\<close>: the fee check, the full and the minimal decorator chains, the choice between them, the fee
    exemption and the mempool's tiers.
  \<^item> \<open>IBCHooks\<close> and \<open>IBCProps\<close>: the middleware for packets, acknowledgements and timeouts, and its
    guarantees.
  \<^item> \<open>AppGenesis\<close>, \<open>App\<close>, \<open>Cmd\<close>: the default genesis state, module accounts and blocked addresses, the
    application's own methods, the registered upgrade, and the commands for initialising, rolling back,
    exporting and deploying contracts.
  \<^item> \<open>Keepers\<close>: the order in which \<open>app/keepers\<close> builds the keepers and the IBC stacks, with the pointers
    and store keys every constructor is given.
  \<^item> \<open>NewApp\<close>: \<open>NewMinitiaApp\<close> as the calls it makes and what their errors lead to, and the modules of
    \<open>app/modules.go\<close> over the keepers: nothing but the streaming manager is set after loading the state,
    exporting at a height never loads the latest one, and every keeper that a module is given is set.
  \<^item> \<open>RootCmd\<close>: what every command prepares (\<open>PersistentPreRunE\<close> of \<open>root.go\<close>), with the precedence of
    flag, environment and default for the home directory.
  \<^item> \<open>Wire\<close> and \<open>WireLemmas\<close>: the pieces both protobuf generators emit: varints, writers that fill a buffer
    from its end, the loop that reads fields, skipping.  \<open>writes w bs\<close> says what a writer puts into a
    buffer, \<open>decodes\<close> what the loop does to a message on some bytes; both compose.
  \<^item> \<open>Pulsar\<close>, \<open>PulsarTF\<close>, \<open>PulsarQuery\<close>, \<open>PulsarTx\<close>, \<open>PulsarWasm\<close>: the methods \<open>size\<close>, \<open>marshal\<close> and
    \<open>unmarshal\<close> of all messages of the API package, unknown fields included.  Every message is shown
    to keep the contract \<open>message_codec\<close>.
  \<^item> \<open>Reflect\<close> and \<open>ReflectMsgs\<close>: the reflection methods \<open>Range\<close>, \<open>Has\<close>, \<open>Clear\<close>, \<open>Get\<close>, \<open>Set\<close>, \<open>Mutable\<close>
    and \<open>NewField\<close> of all those messages and the list views; every message is shown to keep
    the contract \<open>message_reflection\<close>.
  \<^item> \<open>ChainWire\<close> and \<open>ChainMsgs\<close>: \<open>Size\<close>, \<open>MarshalToSizedBuffer\<close> and \<open>Unmarshal\<close> of the chain's messages, on
    the records the handlers use, with the contract \<open>chain_codec\<close>.
  \<^item> \<open>ApiProps\<close> and \<open>WireProps\<close>: round trips and termination of both sets of codecs, that they agree
    byte for byte, copying and typing through reflection, and that the model of the parameter store
    is what encoding and decoding the parameters gives.

  \<^bold>\<open>Bounds and termination.\<close>  Loops over data are structural recursion or have a measure (\<open>readVarint\<close>,
  \<open>skip\<close>, \<open>varint_loop\<close>).  The loop of \<open>Unmarshal\<close> calls the decoders of embedded messages, some of which are
  parameters, so it is a partial function into an option; \<open>unmarshal_returns\<close> proves that it returns
  whenever the embedded decoders do, and the properties state it for every message.  No definition has
  fuel.  Round trips assume encodings shorter than $2^{63}$ bytes, the range of a Go slice's length.

  \<^bold>\<open>Not modelled.\<close>  \<open>NewMinitiaApp\<close> and \<open>NewAppKeeper\<close> are sequences of calls into other packages, which
  are not in the repository: the order of the calls, the pointers they are given and the reactions to
  errors are modelled, not what the calls do.  The tree of subcommands, the launch command and the
  registration of routes and services with the servers only hand functions to libraries.  Getters,
  descriptors, type registration, gRPC stubs and autocli tables are data for libraries.  How the
  multiplexer of the gateway splits and decodes a URL is not modelled; it is given path components.  The end to end tests and the benchmark run processes.  In reflection, lists and messages
  inside values are contents, not references into the message; a decoder that fails is modelled by its
  error, not by the fields it had already set.  Logging and telemetry change no state and are left out.
\<close>

end
